(* ===== verification/Prelude.thy ===== *)
theory Prelude
  imports Main "HOL-Library.State_Monad" "HOL-Library.Sublist" "HOL-Library.Word"
begin

text \<open>
  What every component of the shop shares and no single source file owns:
  \<^item> two's-complement integers at Go's widths, as \<open>int\<close> with the wrap-around written out;
  \<^item> Go strings as lists of bytes, with \<open>strings.TrimSpace\<close>, \<open>strings.ToLower\<close>,
    \<open>strings.Split\<close> and the decimal verbs of \<open>fmt\<close>.
\<close>

section \<open>Collections of the development\<close>

named_theorems tbl_simps \<open>how the table functions compute\<close>
named_theorems run_simps \<open>how operations on a session run\<close>

section \<open>Machine integers\<close>

text \<open>
  A Go \<open>int32\<close> or \<open>int64\<close> is an \<open>int\<close> in its range; \<open>wrap w\<close> is what an
  arithmetic result becomes when it is stored in \<open>w\<close> bits.
\<close>

definition in_int :: "nat \<Rightarrow> int \<Rightarrow> bool" where
  "in_int w x \<longleftrightarrow> - (2 ^ (w - 1)) \<le> x \<and> x < 2 ^ (w - 1)"

definition wrap :: "nat \<Rightarrow> int \<Rightarrow> int" where
  "wrap w x = (x + 2 ^ (w - 1)) mod 2 ^ w - 2 ^ (w - 1)"

abbreviation in_int32 :: "int \<Rightarrow> bool" where "in_int32 \<equiv> in_int 32"
abbreviation in_int64 :: "int \<Rightarrow> bool" where "in_int64 \<equiv> in_int 64"
abbreviation int32 :: "int \<Rightarrow> int" where "int32 \<equiv> wrap 32"
abbreviation int64 :: "int \<Rightarrow> int" where "int64 \<equiv> wrap 64"

text \<open>The conversion \<open>uint64(x)\<close> of a signed value keeps its bits.\<close>

definition uint64_of :: "int \<Rightarrow> int" where
  "uint64_of x = x mod 2 ^ 64"

text \<open>Division truncates; this is Go's quotient for a positive divisor.\<close>

definition go_quot :: "int \<Rightarrow> int \<Rightarrow> int" where
  "go_quot a b = (if a < 0 then - ((- a) div b) else a div b)"

lemma wrap_in_range: "0 < w \<Longrightarrow> in_int w (wrap w x)"
proof -
  assume "0 < w"
  then have p: "(2::int) ^ w = 2 * 2 ^ (w - 1)"
    by (cases w) simp_all
  have "0 \<le> (x + 2 ^ (w - 1)) mod 2 ^ w" "(x + 2 ^ (w - 1)) mod 2 ^ w < 2 ^ w"
    by simp_all
  then show ?thesis
    unfolding in_int_def wrap_def p by linarith
qed

lemma wrap_id [simp]: "0 < w \<Longrightarrow> in_int w x \<Longrightarrow> wrap w x = x"
proof -
  assume w: "0 < w" and r: "in_int w x"
  have p: "(2::int) ^ w = 2 * 2 ^ (w - 1)"
    using w by (cases w) simp_all
  have "0 \<le> x + 2 ^ (w - 1)" "x + 2 ^ (w - 1) < 2 ^ w"
    using r unfolding in_int_def p by linarith+
  then show ?thesis
    unfolding wrap_def by simp
qed

lemma uint64_of_id [simp]: "0 \<le> x \<Longrightarrow> x < 2 ^ 64 \<Longrightarrow> uint64_of x = x"
  by (simp add: uint64_of_def)

lemma uint64_of_pos_int32 [simp]: "in_int32 x \<Longrightarrow> 0 \<le> x \<Longrightarrow> uint64_of x = x"
  by (simp add: uint64_of_def in_int_def)

section \<open>Go strings\<close>

text \<open>
  A Go string is a sequence of bytes. \<open>strings.TrimSpace\<close> removes white space in the
  sense of Unicode; \<open>go_spaces\<close> lists the UTF-8 encodings of those code points, and
  trimming strips them from both ends. UTF-8 is self-synchronising, so an encoding found
  at the end of a string is the last rune of that string.
\<close>

definition go_spaces :: "string list" where
  "go_spaces =
     [[CHR 0x09], [CHR 0x0A], [CHR 0x0B], [CHR 0x0C], [CHR 0x0D], [CHR 0x20],
      [CHR 0xC2, CHR 0x85], [CHR 0xC2, CHR 0xA0], [CHR 0xE1, CHR 0x9A, CHR 0x80],
      [CHR 0xE2, CHR 0x80, CHR 0x80], [CHR 0xE2, CHR 0x80, CHR 0x81],
      [CHR 0xE2, CHR 0x80, CHR 0x82], [CHR 0xE2, CHR 0x80, CHR 0x83],
      [CHR 0xE2, CHR 0x80, CHR 0x84], [CHR 0xE2, CHR 0x80, CHR 0x85],
      [CHR 0xE2, CHR 0x80, CHR 0x86], [CHR 0xE2, CHR 0x80, CHR 0x87],
      [CHR 0xE2, CHR 0x80, CHR 0x88], [CHR 0xE2, CHR 0x80, CHR 0x89],
      [CHR 0xE2, CHR 0x80, CHR 0x8A], [CHR 0xE2, CHR 0x80, CHR 0xA8],
      [CHR 0xE2, CHR 0x80, CHR 0xA9], [CHR 0xE2, CHR 0x80, CHR 0xAF],
      [CHR 0xE2, CHR 0x81, CHR 0x9F], [CHR 0xE3, CHR 0x80, CHR 0x80]]"

function strip :: "string list \<Rightarrow> string \<Rightarrow> string" where
  "strip ps s =
     (case find (\<lambda>p. p \<noteq> [] \<and> prefix p s) ps of
        None \<Rightarrow> s
      | Some p \<Rightarrow> strip ps (drop (length p) s))"
  by pat_completeness auto
termination
proof (relation "measure (\<lambda>(ps, s). length s)", goal_cases)
  case 1
  show ?case by simp
next
  case (2 ps s p)
  then have "p \<noteq> []" "prefix p s"
    by (auto simp: find_Some_iff)
  then have "0 < length p" "length p \<le> length s"
    by (auto dest: prefix_length_le)
  then have "length (drop (length p) s) < length s"
    unfolding length_drop by linarith
  then show ?case by simp
qed

declare strip.simps [simp del]

definition trim_space :: "string \<Rightarrow> string" where
  "trim_space s = rev (strip (map rev go_spaces) (rev (strip go_spaces s)))"

definition starts_with_any :: "string list \<Rightarrow> string \<Rightarrow> bool" where
  "starts_with_any ps s \<longleftrightarrow> (\<exists>p \<in> set ps. p \<noteq> [] \<and> prefix p s)"

lemma strip_none: "\<not> starts_with_any ps s \<Longrightarrow> strip ps s = s"
  by (subst strip.simps)
    (auto simp: starts_with_any_def find_None_iff find_Some_iff split: option.splits)

lemma strip_done: "\<not> starts_with_any ps (strip ps s)"
proof (induction ps s rule: strip.induct)
  case (1 ps s)
  show ?case
  proof (cases "find (\<lambda>p. p \<noteq> [] \<and> prefix p s) ps")
    case None
    then have "strip ps s = s"
      by (subst strip.simps) simp
    with None show ?thesis
      by (auto simp: starts_with_any_def find_None_iff)
  next
    case (Some p)
    with "1.IH" show ?thesis by (subst strip.simps) simp
  qed
qed

lemma strip_suffix: "suffix (strip ps s) s"
proof (induction ps s rule: strip.induct)
  case (1 ps s)
  show ?case
  proof (cases "find (\<lambda>p. p \<noteq> [] \<and> prefix p s) ps")
    case None
    then show ?thesis by (subst strip.simps) simp
  next
    case (Some p)
    with "1.IH" have "suffix (strip ps (drop (length p) s)) (drop (length p) s)" by simp
    then have "suffix (strip ps (drop (length p) s)) s"
      using suffix_drop suffix_order.trans by blast
    with Some show ?thesis by (subst strip.simps) simp
  qed
qed

lemma strip_idem [simp]: "strip ps (strip ps s) = strip ps s"
  by (rule strip_none) (rule strip_done)

lemma starts_with_any_prefix:
  "starts_with_any ps t \<Longrightarrow> prefix t s \<Longrightarrow> starts_with_any ps s"
  by (auto simp: starts_with_any_def intro: prefix_order.trans)

text \<open>Trimming twice is trimming once, which is why the stores may trim again what a
  service has already trimmed.\<close>

lemma trim_space_idem [simp]: "trim_space (trim_space s) = trim_space s"
proof -
  define l where "l = strip go_spaces s"
  define r where "r = strip (map rev go_spaces) (rev l)"
  have "prefix (rev r) l"
    using strip_suffix [of "map rev go_spaces" "rev l"] by (simp add: r_def suffix_to_prefix)
  moreover have "\<not> starts_with_any go_spaces l"
    by (simp add: l_def strip_done)
  ultimately have "\<not> starts_with_any go_spaces (rev r)"
    using starts_with_any_prefix by blast
  then have "strip go_spaces (rev r) = rev r"
    by (rule strip_none)
  then show ?thesis
    by (simp add: trim_space_def flip: l_def r_def) (simp add: r_def)
qed

lemma trim_space_Nil [simp]: "trim_space [] = []"
  by (simp add: trim_space_def strip_none starts_with_any_def)

text \<open>A string whose first and last byte are visible ASCII characters is left alone.\<close>

definition plain_char :: "char \<Rightarrow> bool" where
  "plain_char c \<longleftrightarrow> 0x21 \<le> (of_char c :: nat) \<and> (of_char c :: nat) \<le> 0x7E"

lemma plain_not_space:
  "plain_char c \<Longrightarrow> \<not> starts_with_any go_spaces (c # s)"
  "plain_char c \<Longrightarrow> \<not> starts_with_any (map rev go_spaces) (c # s)"
  by (auto simp: starts_with_any_def go_spaces_def plain_char_def)

lemma trim_space_plain:
  assumes "s \<noteq> []" "plain_char (hd s)" "plain_char (last s)"
  shows "trim_space s = s"
proof -
  from assms obtain c t where s: "s = c # t" by (cases s) auto
  from assms obtain d u where r: "rev s = d # u" by (cases "rev s") auto
  have "strip go_spaces s = s"
    using assms s plain_not_space(1) [of c t] by (simp add: strip_none)
  moreover have "d = last s"
    using r assms(1) by (simp add: hd_rev [symmetric])
  then have "\<not> starts_with_any (map rev go_spaces) (rev s)"
    using assms(3) plain_not_space(2) [of d u] unfolding r by simp
  then have "strip (map rev go_spaces) (rev s) = rev s"
    by (rule strip_none)
  ultimately show ?thesis by (simp add: trim_space_def)
qed

text \<open>
  \<open>strings.ToLower\<close> and \<open>strings.ToUpper\<close> on ASCII letters; other bytes are kept.
\<close>

definition lower_char :: "char \<Rightarrow> char" where
  "lower_char c =
     (if 65 \<le> (of_char c :: nat) \<and> (of_char c :: nat) \<le> 90 then char_of (of_char c + 32 :: nat) else c)"

definition upper_char :: "char \<Rightarrow> char" where
  "upper_char c =
     (if 97 \<le> (of_char c :: nat) \<and> (of_char c :: nat) \<le> 122 then char_of (of_char c - 32 :: nat) else c)"

definition to_lower :: "string \<Rightarrow> string" where "to_lower s = map lower_char s"
definition to_upper :: "string \<Rightarrow> string" where "to_upper s = map upper_char s"

lemma lower_char_idem [simp]: "lower_char (lower_char c) = lower_char c"
  by (auto simp: lower_char_def)

lemma to_lower_idem [simp]: "to_lower (to_lower s) = to_lower s"
  by (simp add: to_lower_def)

lemma to_lower_Nil [simp]: "to_lower s = [] \<longleftrightarrow> s = []" "to_lower [] = []"
  by (simp_all add: to_lower_def)

text \<open>\<open>strings.Split(s, sep)\<close> for a one-byte separator, and \<open>strings.Join\<close>.\<close>

fun split_on :: "char \<Rightarrow> string \<Rightarrow> string list" where
  "split_on sep [] = [[]]"
| "split_on sep (c # s) =
     (if c = sep then [] # split_on sep s
      else (case split_on sep s of [] \<Rightarrow> [[c]] | p # ps \<Rightarrow> (c # p) # ps))"

fun join_with :: "char \<Rightarrow> string list \<Rightarrow> string" where
  "join_with sep [] = []"
| "join_with sep [p] = p"
| "join_with sep (p # q # ps) = p @ sep # join_with sep (q # ps)"

lemma split_on_not_Nil [simp]: "split_on sep s \<noteq> []"
  by (cases s) (auto split: list.splits)

lemma split_on_no_sep: "sep \<notin> set s \<Longrightarrow> split_on sep s = [s]"
  by (induction s) auto

lemma split_on_append: "sep \<notin> set p \<Longrightarrow> split_on sep (p @ sep # s) = p # split_on sep s"
  by (induction p) auto

lemma split_on_join:
  "ps \<noteq> [] \<Longrightarrow> (\<forall>p \<in> set ps. sep \<notin> set p) \<Longrightarrow> split_on sep (join_with sep ps) = ps"
  by (induction sep ps rule: join_with.induct) (auto simp: split_on_no_sep split_on_append)

subsection \<open>Decimal numerals\<close>

definition digit_char :: "nat \<Rightarrow> char" where
  "digit_char d = char_of (48 + d)"

definition digit_val :: "char \<Rightarrow> nat" where
  "digit_val c = of_char c - 48"

definition is_digit :: "char \<Rightarrow> bool" where
  "is_digit c \<longleftrightarrow> 48 \<le> (of_char c :: nat) \<and> (of_char c :: nat) \<le> 57"

fun show_nat :: "nat \<Rightarrow> string" where
  "show_nat n = (if n < 10 then [digit_char n] else show_nat (n div 10) @ [digit_char (n mod 10)])"

declare show_nat.simps [simp del]

definition nat_of_digits :: "string \<Rightarrow> nat" where
  "nat_of_digits s = foldl (\<lambda>a c. 10 * a + digit_val c) 0 s"

lemma digit_char_val [simp]: "d < 10 \<Longrightarrow> digit_val (digit_char d) = d"
  by (simp add: digit_val_def digit_char_def)

lemma digit_char_digit [simp]: "d < 10 \<Longrightarrow> is_digit (digit_char d)"
  by (simp add: is_digit_def digit_char_def)

lemma nat_of_digits_append: "nat_of_digits (s @ [c]) = 10 * nat_of_digits s + digit_val c"
  by (simp add: nat_of_digits_def)

lemma show_nat_not_Nil [simp]: "show_nat n \<noteq> []"
  by (subst show_nat.simps) simp

lemma nat_of_digits_show [simp]: "nat_of_digits (show_nat n) = n"
proof (induction n rule: show_nat.induct)
  case (1 n)
  show ?case
  proof (cases "n < 10")
    case True
    then show ?thesis by (subst show_nat.simps) (simp add: nat_of_digits_def)
  next
    case False
    with "1.IH" show ?thesis by (subst show_nat.simps) (simp add: nat_of_digits_append)
  qed
qed

lemma show_nat_digits: "c \<in> set (show_nat n) \<Longrightarrow> is_digit c"
proof (induction n rule: show_nat.induct)
  case (1 n)
  then show ?case
    by (subst (asm) show_nat.simps) (auto split: if_splits)
qed

definition show_int :: "int \<Rightarrow> string" where
  "show_int i = (if i < 0 then CHR ''-'' # show_nat (nat (- i)) else show_nat (nat i))"

end
