(* ===== verification/Failure.thy ===== *)
theory Failure
  imports Prelude
begin

text \<open>
  The failures the services return. The numeric codes are the constants of
  \<open>pkg/errcode/base.go\<close> and \<open>app/pkg/bizcode\<close>. An error value is the chain the
  services build: a coded error (\<open>errors.NewCode\<close>), a code put around a cause
  (\<open>errors.WrapCode\<close>, used by \<open>errorcontract.WrapDatabase\<close>), context added with
  \<open>%w\<close> or \<open>errors.Wrap\<close>, a driver error, a gRPC status, or a plain message.
  Diagnostic texts are left out: no code path of the modelled services inspects them.
  Theory \<open>Errors\<close> models \<open>pkg/errors\<close> itself and shows that \<open>is_code\<close> below
  agrees with the package's \<open>IsCode\<close> on these chains.
\<close>

section \<open>Error codes\<close>

abbreviation ErrSuccess :: int where "ErrSuccess \<equiv> 100001"
abbreviation ErrUnknown :: int where "ErrUnknown \<equiv> 100002"
abbreviation ErrBind :: int where "ErrBind \<equiv> 100003"
abbreviation ErrValidation :: int where "ErrValidation \<equiv> 100004"
abbreviation ErrTokenInvalid :: int where "ErrTokenInvalid \<equiv> 100005"
abbreviation ErrPageNotFound :: int where "ErrPageNotFound \<equiv> 100006"
abbreviation ErrConflict :: int where "ErrConflict \<equiv> 100007"
abbreviation ErrServiceUnavailable :: int where "ErrServiceUnavailable \<equiv> 100008"
abbreviation ErrTimeout :: int where "ErrTimeout \<equiv> 100009"
abbreviation ErrRateLimited :: int where "ErrRateLimited \<equiv> 100010"
abbreviation ErrDatabase :: int where "ErrDatabase \<equiv> 100101"
abbreviation ErrSignatureInvalid :: int where "ErrSignatureInvalid \<equiv> 100202"
abbreviation ErrPermissionDenied :: int where "ErrPermissionDenied \<equiv> 100207"

abbreviation ErrGoodsNotFound :: int where "ErrGoodsNotFound \<equiv> 100501"

abbreviation ErrInventoryNotFound :: int where "ErrInventoryNotFound \<equiv> 100601"
abbreviation ErrInvSellDetailNotFound :: int where "ErrInvSellDetailNotFound \<equiv> 100602"
abbreviation ErrInvNotEnough :: int where "ErrInvNotEnough \<equiv> 100603"

abbreviation ErrShopCartItemNotFound :: int where "ErrShopCartItemNotFound \<equiv> 100701"
abbreviation ErrSubmitOrder :: int where "ErrSubmitOrder \<equiv> 100702"
abbreviation ErrNoGoodsSelect :: int where "ErrNoGoodsSelect \<equiv> 100703"
abbreviation ErrOrderNotFound :: int where "ErrOrderNotFound \<equiv> 100704"
abbreviation ErrOrderConflict :: int where "ErrOrderConflict \<equiv> 100705"
abbreviation ErrOrderStatusInvalid :: int where "ErrOrderStatusInvalid \<equiv> 100706"

abbreviation ErrConnectDB :: int where "ErrConnectDB \<equiv> 100801"
abbreviation ErrConnectGRPC :: int where "ErrConnectGRPC \<equiv> 100802"

section \<open>Error values\<close>

text \<open>
  What the driver can report: no row for a \<open>First\<close>, a unique key hit twice, a value that
  does not fit its column, or any other failure of the statement or the connection.
\<close>

datatype db_error = RecordNotFound | DuplicatedKey | OutOfRange | DataTooLong | Fault

datatype err =
    NewCode int
  | WrapCode int err
  | Wrapf err
  | Driver db_error
  | GrpcStatus string
  | Plain string

fun is_code :: "err \<Rightarrow> int \<Rightarrow> bool" where
  "is_code (NewCode c) code = (c = code)"
| "is_code (WrapCode c e) code = (c = code \<or> is_code e code)"
| "is_code (Wrapf e) code = is_code e code"
| "is_code (Driver d) code = False"
| "is_code (GrpcStatus s) code = False"
| "is_code (Plain s) code = False"

definition WrapDatabase :: "err \<Rightarrow> err" where
  "WrapDatabase e = WrapCode ErrDatabase e"

lemma is_code_WrapDatabase [simp]:
  "is_code (WrapDatabase e) code \<longleftrightarrow> code = ErrDatabase \<or> is_code e code"
  by (auto simp: WrapDatabase_def)

lemma WrapDatabase_not_NewCode [simp]: "WrapDatabase e \<noteq> NewCode c" "NewCode c \<noteq> WrapDatabase e"
  by (simp_all add: WrapDatabase_def)

type_synonym 'a result = "err + 'a"

text \<open>\<open>is_ok\<close> tells the results with no error, as \<open>err == nil\<close> does in the source.\<close>

definition is_ok :: "'a result \<Rightarrow> bool" where
  "is_ok r = (case r of Inl _ \<Rightarrow> False | Inr _ \<Rightarrow> True)"

lemma is_ok_simps [simp]: "is_ok (Inr a)" "\<not> is_ok (Inl e)"
  by (simp_all add: is_ok_def)

end
