(* ===== verification/Database.thy ===== *)
theory Database
  imports Failure
begin

text \<open>
  The database as the stores see it. A table is the list of its rows in primary-key order.
  The statement that a \<open>gorm\<close> call issues is spelled out in the source; here it is the
  function on the table that the statement denotes. Whether the server carries a statement
  out is not up to the program, so a session carries, beside the tables, the outcomes of the
  statements to come: executed, refused, or executed with the reply lost. An exhausted list
  means that everything is executed. Times are points in milliseconds, given by the caller.
\<close>

section \<open>Tables\<close>

type_synonym time = int

text \<open>\<open>SELECT ... WHERE p ORDER BY id LIMIT 1\<close>, \<open>gorm\<close>'s \<open>First\<close>.\<close>

definition first_row :: "('r \<Rightarrow> bool) \<Rightarrow> 'r list \<Rightarrow> 'r option" where
  "first_row p t = find p t"

text \<open>\<open>UPDATE ... SET f WHERE p\<close> and the number of rows it matches.\<close>

definition update_rows :: "('r \<Rightarrow> bool) \<Rightarrow> ('r \<Rightarrow> 'r) \<Rightarrow> 'r list \<Rightarrow> 'r list" where
  "update_rows p f t = map (\<lambda>r. if p r then f r else r) t"

definition count_rows :: "('r \<Rightarrow> bool) \<Rightarrow> 'r list \<Rightarrow> nat" where
  "count_rows p t = length (filter p t)"

text \<open>\<open>OFFSET o LIMIT n\<close> of a query's rows. \<open>gorm\<close> leaves out an offset that is not
  positive, and a limit that is negative.\<close>

definition page_rows :: "int \<Rightarrow> int \<Rightarrow> 'r list \<Rightarrow> 'r list" where
  "page_rows off lim t =
     (let t' = (if 0 < off then drop (nat off) t else t)
      in if lim < 0 then t' else take (nat lim) t')"

lemma first_row_Some: "first_row p t = Some r \<Longrightarrow> r \<in> set t \<and> p r"
  by (auto simp: first_row_def find_Some_iff)

lemma first_row_None: "first_row p t = None \<longleftrightarrow> (\<forall>r \<in> set t. \<not> p r)"
  by (auto simp: first_row_def find_None_iff)

lemma first_row_append:
  "first_row p (t @ u) = (case first_row p t of None \<Rightarrow> first_row p u | Some r \<Rightarrow> Some r)"
  by (induction t) (auto simp: first_row_def)

lemma first_row_update_other:
  "(\<And>r. p (if q r then f r else r) = p r) \<Longrightarrow>
   first_row p (update_rows q f t) = map_option (\<lambda>r. if q r then f r else r) (first_row p t)"
  by (induction t) (auto simp: first_row_def update_rows_def)

lemma count_rows_0: "count_rows p t = 0 \<longleftrightarrow> (\<forall>r \<in> set t. \<not> p r)"
  by (auto simp: count_rows_def filter_empty_conv)

lemma update_rows_none: "\<forall>r \<in> set t. \<not> p r \<Longrightarrow> update_rows p f t = t"
  by (simp add: update_rows_def map_idI)

lemma length_update_rows [simp]: "length (update_rows p f t) = length t"
  by (simp add: update_rows_def)

lemma set_update_rows: "set (update_rows p f t) = (\<lambda>r. if p r then f r else r) ` set t"
  by (simp add: update_rows_def)

lemma update_rows_inverse:
  assumes "\<And>r. r \<in> set t \<Longrightarrow> p r \<Longrightarrow> q (f r) \<and> g (f r) = r"
    and "\<And>r. r \<in> set t \<Longrightarrow> \<not> p r \<Longrightarrow> q r \<Longrightarrow> g r = r"
  shows "update_rows q g (update_rows p f t) = t"
  using assms by (induction t) (auto simp: update_rows_def)

lemma update_rows_Nil [tbl_simps]: "update_rows p f [] = []"
  by (simp add: update_rows_def)

lemma update_rows_Cons [tbl_simps]:
  "update_rows p f (r # t) = (if p r then f r else r) # update_rows p f t"
  by (simp add: update_rows_def)

lemma count_rows_Nil [tbl_simps]: "count_rows p [] = 0"
  by (simp add: count_rows_def)

lemma count_rows_Cons [tbl_simps]:
  "count_rows p (r # t) = (if p r then Suc (count_rows p t) else count_rows p t)"
  by (simp add: count_rows_def)

lemma first_row_Nil [tbl_simps]: "first_row p [] = None"
  by (simp add: first_row_def)

lemma first_row_Cons [tbl_simps]: "first_row p (r # t) = (if p r then Some r else first_row p t)"
  by (simp add: first_row_def)

text \<open>
  The common columns of the models that embed \<open>BaseModel\<close>. \<open>gorm\<close> stamps the two
  times, and hides from every query the rows whose \<open>deleted_at\<close> is set.
\<close>

record base_model =
  ID :: int
  CreatedAt :: time
  UpdatedAt :: time
  DeletedAt :: "time option"
  IsDeleted :: bool

abbreviation live :: "'a base_model_scheme \<Rightarrow> bool" where
  "live r \<equiv> DeletedAt r = None"

text \<open>
  \<open>UPDATE\<close> in strict mode: a row that would not fit its columns fails the whole statement;
  the server reports as affected the rows it really changed.
\<close>

definition update_where ::
    "('r \<Rightarrow> bool) \<Rightarrow> ('r \<Rightarrow> 'r) \<Rightarrow> ('r \<Rightarrow> bool) \<Rightarrow> 'r list \<Rightarrow> (db_error + nat) \<times> 'r list" where
  "update_where p f fits t =
     (if list_all (\<lambda>r. p r \<longrightarrow> fits (f r)) t
      then (Inr (count_rows (\<lambda>r. p r \<and> f r \<noteq> r) t), update_rows p f t)
      else (Inl OutOfRange, t))"

text \<open>The next value of an \<open>AUTO_INCREMENT\<close> key.\<close>

definition next_id :: "('r \<Rightarrow> int) \<Rightarrow> 'r list \<Rightarrow> int" where
  "next_id key t = foldr (\<lambda>r m. max (key r) m) t 0 + 1"

lemma next_id_fresh: "r \<in> set t \<Longrightarrow> key r < next_id key t"
  by (induction t) (auto simp: next_id_def)

lemma next_id_new: "next_id key t \<notin> key ` set t"
  using next_id_fresh [of _ t key] by fastforce

lemma next_id_pos: "0 < next_id key t"
  by (induction t) (auto simp: next_id_def)

text \<open>
  \<open>INSERT\<close> of a row whose key the server assigns: the row is checked against its columns
  and against the unique keys of the rows already there.
\<close>

definition insert_row ::
    "('r \<Rightarrow> db_error option) \<Rightarrow> ('r \<Rightarrow> 'r \<Rightarrow> bool) \<Rightarrow> 'r \<Rightarrow> 'r list \<Rightarrow> (db_error + 'r) \<times> 'r list" where
  "insert_row check clash r t =
     (case check r of
        Some d \<Rightarrow> (Inl d, t)
      | None \<Rightarrow> if list_ex (clash r) t then (Inl DuplicatedKey, t) else (Inr r, t @ [r]))"

section \<open>Sessions\<close>

datatype outcome = Executed | Refused | ReplyLost

record 't session =
  tables :: 't
  outcomes :: "outcome list"

text \<open>An operation on a database: it runs on a session and gives a result.\<close>

type_synonym ('t, 'a) op = "('t session, 'a result) state"

fun pop_outcome :: "outcome list \<Rightarrow> outcome \<times> outcome list" where
  "pop_outcome [] = (Executed, [])"
| "pop_outcome (x # xs) = (x, xs)"

text \<open>
  One statement. It is a function of the tables that gives the driver's answer and the
  tables after it; a statement that the server refuses changes nothing, and one whose reply
  is lost has run although the program is told of a failure.
\<close>

definition statement :: "('t \<Rightarrow> (db_error + 'a) \<times> 't) \<Rightarrow> ('t session, db_error + 'a) state" where
  "statement f = State (\<lambda>s.
     case pop_outcome (outcomes s) of
       (Executed, os) \<Rightarrow> (case f (tables s) of (r, t) \<Rightarrow> (r, \<lparr>tables = t, outcomes = os\<rparr>))
     | (Refused, os) \<Rightarrow> (Inl Fault, \<lparr>tables = tables s, outcomes = os\<rparr>)
     | (ReplyLost, os) \<Rightarrow> (Inl Fault, \<lparr>tables = snd (f (tables s)), outcomes = os\<rparr>))"

text \<open>
  \<open>x, err := m; if err != nil { return err }\<close>: go on with the value, or stop.
\<close>

definition bindE :: "('s, 'e + 'a) state \<Rightarrow> ('a \<Rightarrow> ('s, 'e + 'b) state) \<Rightarrow> ('s, 'e + 'b) state" where
  "bindE m f = do { r \<leftarrow> m; case r of Inl e \<Rightarrow> State_Monad.return (Inl e) | Inr a \<Rightarrow> f a }"

text \<open>The same, with what the source wraps around the error on its way out.\<close>

definition bind_err :: "('e \<Rightarrow> 'f) \<Rightarrow> ('s, 'e + 'a) state \<Rightarrow> ('a \<Rightarrow> ('s, 'f + 'b) state) \<Rightarrow> ('s, 'f + 'b) state" where
  "bind_err w m f = do { r \<leftarrow> m; case r of Inl e \<Rightarrow> State_Monad.return (Inl (w e)) | Inr a \<Rightarrow> f a }"

abbreviation ok :: "'a \<Rightarrow> ('s, 'e + 'a) state" where "ok a \<equiv> State_Monad.return (Inr a)"
abbreviation fail :: "'e \<Rightarrow> ('s, 'e + 'a) state" where "fail e \<equiv> State_Monad.return (Inl e)"

text \<open>The same error handling with nothing after it.\<close>

definition map_err :: "('e \<Rightarrow> 'f) \<Rightarrow> ('s, 'e + 'a) state \<Rightarrow> ('s, 'f + 'a) state" where
  "map_err w m = bind_err w m ok"

text \<open>\<open>First\<close> as a statement: \<open>gorm.ErrRecordNotFound\<close> when no row matches.\<close>

definition first_stmt :: "('t \<Rightarrow> 'r list) \<Rightarrow> ('r \<Rightarrow> bool) \<Rightarrow> ('t session, db_error + 'r) state" where
  "first_stmt tbl p = statement (\<lambda>t.
     (case first_row p (tbl t) of None \<Rightarrow> Inl RecordNotFound | Some r \<Rightarrow> Inr r, t))"

text \<open>A query that only reads.\<close>

definition query_stmt :: "('t \<Rightarrow> 'a) \<Rightarrow> ('t session, db_error + 'a) state" where
  "query_stmt f = statement (\<lambda>t. (Inr (f t), t))"

text \<open>A statement that writes one table, through that table's field of the tables.\<close>

definition write_stmt ::
    "('t \<Rightarrow> 'r list) \<Rightarrow> (('r list \<Rightarrow> 'r list) \<Rightarrow> 't \<Rightarrow> 't) \<Rightarrow>
     ('r list \<Rightarrow> (db_error + 'a) \<times> 'r list) \<Rightarrow> ('t session, db_error + 'a) state" where
  "write_stmt get upd f = statement (\<lambda>t. (fst (f (get t)), upd (\<lambda>_. snd (f (get t))) t))"

abbreviation driver_err :: "db_error \<Rightarrow> err" where "driver_err d \<equiv> WrapDatabase (Driver d)"

text \<open>\<open>for _, x := range xs { if err := f(x); err != nil { return err } }\<close>\<close>

primrec for_each :: "('x \<Rightarrow> ('s, 'e + unit) state) \<Rightarrow> 'x list \<Rightarrow> ('s, 'e + unit) state" where
  "for_each f [] = ok ()"
| "for_each f (x # xs) = bindE (f x) (\<lambda>_. for_each f xs)"

text \<open>
  A transaction: \<open>BEGIN\<close>, the body, \<open>COMMIT\<close>. An error of the body rolls back; so does a
  refused commit, while a commit whose reply is lost has taken place. \<open>begin_err\<close> and
  \<open>commit_err\<close> are the errors the caller makes of a failing \<open>BEGIN\<close> and \<open>COMMIT\<close>.
\<close>

definition transaction :: "err \<Rightarrow> err \<Rightarrow> ('t, 'a) op \<Rightarrow> ('t, 'a) op" where
  "transaction begin_err commit_err body = State (\<lambda>s.
     case pop_outcome (outcomes s) of
       (Executed, os) \<Rightarrow>
         (case run_state body (s\<lparr>outcomes := os\<rparr>) of
            (Inl e, s') \<Rightarrow> (Inl e, s'\<lparr>tables := tables s\<rparr>)
          | (Inr a, s') \<Rightarrow>
              (case pop_outcome (outcomes s') of
                 (Executed, os') \<Rightarrow> (Inr a, s'\<lparr>outcomes := os'\<rparr>)
               | (Refused, os') \<Rightarrow> (Inl commit_err, \<lparr>tables = tables s, outcomes = os'\<rparr>)
               | (ReplyLost, os') \<Rightarrow> (Inl commit_err, s'\<lparr>outcomes := os'\<rparr>)))
     | (_, os) \<Rightarrow> (Inl begin_err, s\<lparr>outcomes := os\<rparr>))"

section \<open>Running operations\<close>

lemma run_bindE [run_simps]:
  "run_state (bindE m f) s =
     (case run_state m s of (Inl e, s') \<Rightarrow> (Inl e, s') | (Inr a, s') \<Rightarrow> run_state (f a) s')"
  by (auto simp: bindE_def split: prod.splits sum.splits)

lemma run_bind_err [run_simps]:
  "run_state (bind_err w m f) s =
     (case run_state m s of (Inl e, s') \<Rightarrow> (Inl (w e), s') | (Inr a, s') \<Rightarrow> run_state (f a) s')"
  by (auto simp: bind_err_def split: prod.splits sum.splits)

lemma run_statement_ok [run_simps]:
  "outcomes s = [] \<Longrightarrow> run_state (statement f) s = (fst (f (tables s)), \<lparr>tables = snd (f (tables s)), outcomes = []\<rparr>)"
  by (simp add: statement_def split_beta)

lemma run_first_ok [run_simps]:
  "outcomes s = [] \<Longrightarrow> run_state (first_stmt tbl p) s =
     (case first_row p (tbl (tables s)) of None \<Rightarrow> Inl RecordNotFound | Some r \<Rightarrow> Inr r, s)"
  by (simp add: first_stmt_def run_statement_ok)

lemma run_query_ok [run_simps]:
  "outcomes s = [] \<Longrightarrow> run_state (query_stmt f) s = (Inr (f (tables s)), s)"
  by (simp add: query_stmt_def run_statement_ok)

lemma run_write_ok [run_simps]:
  "outcomes s = [] \<Longrightarrow> run_state (write_stmt get upd f) s =
     (fst (f (get (tables s))), s\<lparr>tables := upd (\<lambda>_. snd (f (get (tables s)))) (tables s)\<rparr>)"
  by (simp add: write_stmt_def run_statement_ok)

lemma run_map_err [run_simps]:
  "run_state (map_err w m) s =
     (case run_state m s of (Inl e, s') \<Rightarrow> (Inl (w e), s') | (Inr a, s') \<Rightarrow> (Inr a, s'))"
  by (simp add: map_err_def run_bind_err split: prod.split sum.split)

text \<open>When every statement is executed, a transaction is its body, undone on an error.\<close>

lemma run_transaction_ok:
  assumes "outcomes s = []"
    and "\<And>r s'. run_state body s = (r, s') \<Longrightarrow> outcomes s' = []"
  shows "run_state (transaction b c body) s =
     (case run_state body s of
        (Inl e, s') \<Rightarrow> (Inl e, s)
      | (Inr a, s') \<Rightarrow> (Inr a, s'))"
proof (cases s)
  case (fields t os)
  obtain r t' os' where r: "run_state body s = (r, \<lparr>tables = t', outcomes = os'\<rparr>)"
    by (metis session.cases surj_pair)
  with assms have "os' = []" by fastforce
  with assms(1) r fields show ?thesis
    by (simp add: transaction_def split: sum.splits)
qed

text \<open>Sessions in which everything is executed stay so.\<close>

definition calm :: "('t session, 'a) state \<Rightarrow> bool" where
  "calm m \<longleftrightarrow> (\<forall>s. outcomes s = [] \<longrightarrow> outcomes (snd (run_state m s)) = [])"

named_theorems calm_intros \<open>operations that use up no outcome when there is none\<close>

lemma calm_return [calm_intros]: "calm (State_Monad.return a)"
  by (simp add: calm_def)

lemma calm_statement [calm_intros]: "calm (statement f)"
  by (simp add: calm_def run_statement_ok)

lemma calm_bind [calm_intros]:
  "calm m \<Longrightarrow> (\<And>a. calm (f a)) \<Longrightarrow> calm (State_Monad.bind m f)"
  by (auto simp: calm_def split_beta)

lemma calm_bindE [calm_intros]: "calm m \<Longrightarrow> (\<And>a. calm (f a)) \<Longrightarrow> calm (bindE m f)"
  unfolding bindE_def by (intro calm_bind) (auto intro: calm_return split: sum.splits)

lemma calm_bind_err [calm_intros]: "calm m \<Longrightarrow> (\<And>a. calm (f a)) \<Longrightarrow> calm (bind_err w m f)"
  unfolding bind_err_def by (intro calm_bind) (auto intro: calm_return split: sum.splits)

lemma calm_stmts [calm_intros]:
  "calm (first_stmt tbl p)" "calm (query_stmt f)" "calm (write_stmt get upd g)"
  by (simp_all add: first_stmt_def query_stmt_def write_stmt_def calm_statement)

lemma calm_map_err [calm_intros]: "calm m \<Longrightarrow> calm (map_err w m)"
  by (simp add: map_err_def calm_bind_err calm_return)

lemma calm_for_each [calm_intros]: "(\<And>x. calm (f x)) \<Longrightarrow> calm (for_each f xs)"
  by (induction xs) (auto intro: calm_intros)

lemma calmD: "calm m \<Longrightarrow> run_state m s = (r, s') \<Longrightarrow> outcomes s = [] \<Longrightarrow> outcomes s' = []"
  unfolding calm_def by (metis snd_conv)

lemma calm_transaction [calm_intros]: "calm m \<Longrightarrow> calm (transaction b c m)"
proof (unfold calm_def, intro allI impI)
  fix s :: "'a session"
  assume m: "\<forall>s. outcomes s = [] \<longrightarrow> outcomes (snd (run_state m s)) = []" and s: "outcomes s = []"
  obtain r s' where r: "run_state m (s\<lparr>outcomes := []\<rparr>) = (r, s')" by fastforce
  with m have "outcomes s' = []" by (metis session.select_convs(2) session.surjective session.update_convs(2) snd_conv)
  with s r show "outcomes (snd (run_state (transaction b c m) s)) = []"
    by (cases r) (simp_all add: transaction_def)
qed

section \<open>Facts about every run\<close>

text \<open>
  A preorder on tables that each statement respects is respected by everything built from
  statements, whatever the server's answers: the locale states what is needed of the
  relation, and the rules below carry it through operations, loops and transactions. An
  invariant \<open>P\<close> is the preorder \<open>\<lambda>t t'. P t \<longrightarrow> P t'\<close>.
\<close>

locale table_preorder =
  fixes R :: "'t \<Rightarrow> 't \<Rightarrow> bool"
  assumes R_refl: "R t t"
    and R_trans: "R t u \<Longrightarrow> R u v \<Longrightarrow> R t v"
begin

definition evolves :: "('t session, 'a) state \<Rightarrow> bool" where
  "evolves m \<longleftrightarrow> (\<forall>s. R (tables s) (tables (snd (run_state m s))))"

lemma evolvesD: "evolves m \<Longrightarrow> run_state m s = (r, s') \<Longrightarrow> R (tables s) (tables s')"
  unfolding evolves_def by (metis snd_conv)

lemma evolves_return: "evolves (State_Monad.return a)"
  by (simp add: evolves_def R_refl)

lemma evolves_statement:
  assumes "\<And>t. R t (snd (f t))"
  shows "evolves (statement f)"
  using assms R_refl
  by (auto simp: evolves_def statement_def split_beta split: outcome.splits prod.splits)

lemma evolves_bind:
  assumes "evolves m" "\<And>a. evolves (f a)"
  shows "evolves (State_Monad.bind m f)"
proof -
  have "R (tables s) (tables (snd (run_state (f (fst (run_state m s))) (snd (run_state m s)))))" for s
    using assms R_trans unfolding evolves_def by blast
  then show ?thesis
    by (simp add: evolves_def split_beta)
qed

lemma evolves_bindE: "evolves m \<Longrightarrow> (\<And>a. evolves (f a)) \<Longrightarrow> evolves (bindE m f)"
  unfolding bindE_def
  by (intro evolves_bind) (auto intro: evolves_return split: sum.splits)

lemma evolves_bind_err: "evolves m \<Longrightarrow> (\<And>a. evolves (f a)) \<Longrightarrow> evolves (bind_err w m f)"
  unfolding bind_err_def
  by (intro evolves_bind) (auto intro: evolves_return split: sum.splits)

lemma evolves_map_err: "evolves m \<Longrightarrow> evolves (map_err w m)"
  by (simp add: map_err_def evolves_bind_err evolves_return)

lemma evolves_first: "evolves (first_stmt tbl p)"
  unfolding first_stmt_def by (rule evolves_statement) (simp add: R_refl)

lemma evolves_query: "evolves (query_stmt f)"
  unfolding query_stmt_def by (rule evolves_statement) (simp add: R_refl)

lemma evolves_write:
  assumes "\<And>t. R t (upd (\<lambda>_. snd (f (get t))) t)"
  shows "evolves (write_stmt get upd f)"
  unfolding write_stmt_def by (rule evolves_statement) (simp add: assms)

lemma evolves_for_each: "(\<And>x. x \<in> set xs \<Longrightarrow> evolves (f x)) \<Longrightarrow> evolves (for_each f xs)"
  by (induction xs) (auto intro: evolves_return evolves_bindE)

lemma evolves_transaction:
  assumes "evolves m"
  shows "evolves (transaction b c m)"
proof (unfold evolves_def, rule allI)
  fix s :: "'t session"
  obtain x os where p: "pop_outcome (outcomes s) = (x, os)" by fastforce
  obtain r s' where r: "run_state m (s\<lparr>outcomes := os\<rparr>) = (r, s')" by fastforce
  have "R (tables s) (tables s')"
    using evolvesD [OF assms r] by simp
  then show "R (tables s) (tables (snd (run_state (transaction b c m) s)))"
    using p r R_refl
    by (auto simp: transaction_def split: outcome.splits sum.splits prod.splits)
qed

lemmas evolves_rules =
  evolves_return evolves_bind evolves_bindE evolves_bind_err evolves_map_err
  evolves_for_each evolves_transaction evolves_first evolves_query

end

text \<open>
  A transaction that reports an error has left the tables alone, unless the reply to its
  commit was lost: the shape every handler below inherits.
\<close>

lemma transaction_atomic:
  assumes "run_state (transaction b c m) s = (Inl e, s')"
  shows "tables s' = tables s \<or> e = c"
  using assms
  by (auto simp: transaction_def split: outcome.splits sum.splits prod.splits)

lemma transaction_ok:
  assumes "run_state (transaction b c m) s = (Inr a, s')"
  obtains os s'' where "run_state m (s\<lparr>outcomes := os\<rparr>) = (Inr a, s'')" "tables s'' = tables s'"
  using assms
  by (auto simp: transaction_def split: outcome.splits sum.splits prod.splits)

section \<open>Successful runs\<close>

text \<open>
  \<open>yields m t a t'\<close>: some run of \<open>m\<close> on the tables \<open>t\<close> returns \<open>a\<close> without an error and
  leaves \<open>t'\<close>. The rules take such a run apart: a statement of it has been executed.
\<close>

definition yields :: "('t session, 'e + 'a) state \<Rightarrow> 't \<Rightarrow> 'a \<Rightarrow> 't \<Rightarrow> bool" where
  "yields m t a t' \<longleftrightarrow>
     (\<exists>os os'. run_state m \<lparr>tables = t, outcomes = os\<rparr> = (Inr a, \<lparr>tables = t', outcomes = os'\<rparr>))"

lemma yieldsI: "run_state m s = (Inr a, s') \<Longrightarrow> yields m (tables s) a (tables s')"
  unfolding yields_def by (cases s; cases s') auto

lemma yields_ok [simp]: "yields (ok a) t b t' \<longleftrightarrow> b = a \<and> t' = t"
  by (auto simp: yields_def)

lemma yields_fail [simp]: "\<not> yields (fail e) t b t'"
  by (auto simp: yields_def)

lemma yields_bindE:
  assumes "yields (bindE m f) t b t'"
  obtains a u where "yields m t a u" "yields (f a) u b t'"
proof -
  from assms obtain os os' where
    r: "run_state (bindE m f) \<lparr>tables = t, outcomes = os\<rparr> = (Inr b, \<lparr>tables = t', outcomes = os'\<rparr>)"
    unfolding yields_def by blast
  obtain x s' where m: "run_state m \<lparr>tables = t, outcomes = os\<rparr> = (x, s')" by fastforce
  with r obtain a where "x = Inr a" "run_state (f a) s' = (Inr b, \<lparr>tables = t', outcomes = os'\<rparr>)"
    by (cases x) (simp_all add: run_bindE)
  with m show thesis
    by (auto intro!: that dest!: yieldsI)
qed

lemma yields_bind_err:
  assumes "yields (bind_err w m f) t b t'"
  obtains a u where "yields m t a u" "yields (f a) u b t'"
proof -
  from assms obtain os os' where
    r: "run_state (bind_err w m f) \<lparr>tables = t, outcomes = os\<rparr> = (Inr b, \<lparr>tables = t', outcomes = os'\<rparr>)"
    unfolding yields_def by blast
  obtain x s' where m: "run_state m \<lparr>tables = t, outcomes = os\<rparr> = (x, s')" by fastforce
  with r obtain a where "x = Inr a" "run_state (f a) s' = (Inr b, \<lparr>tables = t', outcomes = os'\<rparr>)"
    by (cases x) (simp_all add: run_bind_err)
  with m show thesis
    by (auto intro!: that dest!: yieldsI)
qed

lemma yields_map_err:
  assumes "yields (map_err w m) t b t'"
  shows "yields m t b t'"
  using assms unfolding map_err_def by (auto elim: yields_bind_err)

lemma yields_statement:
  assumes "yields (statement f) t a t'"
  shows "f t = (Inr a, t')"
proof -
  from assms obtain os os' where
    "run_state (statement f) \<lparr>tables = t, outcomes = os\<rparr> = (Inr a, \<lparr>tables = t', outcomes = os'\<rparr>)"
    unfolding yields_def by blast
  then show ?thesis
    by (auto simp: statement_def split: prod.splits outcome.splits)
qed

lemma yields_first:
  assumes "yields (first_stmt tbl p) t r t'"
  shows "t' = t \<and> first_row p (tbl t) = Some r"
  using yields_statement [OF assms [unfolded first_stmt_def]] by (auto split: option.splits)

lemma yields_first_set: "yields (first_stmt tbl p) t r t' \<Longrightarrow> t' = t \<and> r \<in> set (tbl t) \<and> p r"
  by (drule yields_first) (auto dest: first_row_Some)

lemma yields_query: "yields (query_stmt f) t a t' \<Longrightarrow> t' = t \<and> a = f t"
  unfolding query_stmt_def by (drule yields_statement) auto

lemma yields_write:
  assumes "yields (write_stmt get upd f) t a t'"
  shows "fst (f (get t)) = Inr a \<and> t' = upd (\<lambda>_. snd (f (get t))) t"
  using yields_statement [OF assms [unfolded write_stmt_def]] by auto

lemma yields_transaction:
  assumes "yields (transaction b c m) t a t'"
  shows "yields m t a t'"
proof -
  from assms obtain os os' where
    "run_state (transaction b c m) \<lparr>tables = t, outcomes = os\<rparr> = (Inr a, \<lparr>tables = t', outcomes = os'\<rparr>)"
    unfolding yields_def by blast
  then show ?thesis
    by (rule transaction_ok) (auto dest: yieldsI)
qed

text \<open>Whatever a transaction answers, it has done all of its body or nothing.\<close>

lemma transaction_cases:
  assumes "run_state (transaction b c m) s = (r, s')"
  shows "tables s' = tables s \<or> (\<exists>a. yields m (tables s) a (tables s'))"
  using assms unfolding transaction_def
  by (auto dest!: yieldsI split: outcome.splits sum.splits prod.splits)

lemma bind_cases:
  assumes "run_state (State_Monad.bind m f) s = (r, s')"
  obtains a u where "run_state m s = (a, u)" "run_state (f a) u = (r, s')"
  using assms by (auto split: prod.splits)

lemma yields_bind:
  assumes "yields (State_Monad.bind m f) t b t'"
  obtains os os' a u where
    "run_state m \<lparr>tables = t, outcomes = os\<rparr> = (a, \<lparr>tables = u, outcomes = os'\<rparr>)" "yields (f a) u b t'"
proof -
  from assms obtain os os' a u where
    m: "run_state m \<lparr>tables = t, outcomes = os\<rparr> = (a, u)"
    and f: "run_state (f a) u = (Inr b, \<lparr>tables = t', outcomes = os'\<rparr>)"
    unfolding yields_def by (metis bind_cases)
  from yieldsI [OF f] m that show ?thesis
    by (cases u) fastforce
qed

lemmas yields_elims = yields_bindE yields_bind_err

section \<open>Runs from given tables\<close>

context table_preorder begin

text \<open>
  The same for runs that start from given tables: what an operation has read there may be used
  for what it does next.
\<close>

definition evolves_from :: "'t \<Rightarrow> ('t session, 'a) state \<Rightarrow> bool" where
  "evolves_from t m \<longleftrightarrow> (\<forall>os. R t (tables (snd (run_state m \<lparr>tables = t, outcomes = os\<rparr>))))"

lemma evolves_fromD: "evolves_from (tables s) m \<Longrightarrow> run_state m s = (r, s') \<Longrightarrow> R (tables s) (tables s')"
  unfolding evolves_from_def by (cases s) (metis session.select_convs(1) snd_conv)

lemma evolves_from_all: "(\<And>t. evolves_from t m) \<Longrightarrow> evolves m"
  unfolding evolves_def by (simp add: evolves_fromD [OF _ prod.collapse [symmetric]])

lemma evolves_from_evolves: "evolves m \<Longrightarrow> evolves_from t m"
  unfolding evolves_def evolves_from_def by (metis session.select_convs(1))

lemma evolves_from_return: "evolves_from t (State_Monad.return a)"
  by (simp add: evolves_from_def R_refl)

lemma evolves_from_bind:
  assumes "evolves_from t m"
    and "\<And>os a u os'. run_state m \<lparr>tables = t, outcomes = os\<rparr> = (a, \<lparr>tables = u, outcomes = os'\<rparr>) \<Longrightarrow> evolves_from u (f a)"
  shows "evolves_from t (State_Monad.bind m f)"
proof (unfold evolves_from_def, rule allI)
  fix os
  obtain a u os' where m: "run_state m \<lparr>tables = t, outcomes = os\<rparr> = (a, \<lparr>tables = u, outcomes = os'\<rparr>)"
    by (metis session.cases surj_pair)
  have "R t u" using evolves_fromD [of "\<lparr>tables = t, outcomes = os\<rparr>" m] assms(1) m by simp
  moreover have "R u (tables (snd (run_state (f a) \<lparr>tables = u, outcomes = os'\<rparr>)))"
    using assms(2) [OF m] by (simp add: evolves_from_def)
  ultimately show "R t (tables (snd (run_state (State_Monad.bind m f) \<lparr>tables = t, outcomes = os\<rparr>)))"
    using m R_trans by (auto simp: split_beta)
qed

lemma evolves_from_bindE:
  assumes "evolves_from t m" "\<And>a u. yields m t a u \<Longrightarrow> evolves_from u (f a)"
  shows "evolves_from t (bindE m f)"
  unfolding bindE_def using assms
  by (intro evolves_from_bind)
    (auto intro: evolves_from_return dest!: yieldsI split: sum.splits)

lemma evolves_from_bind_err:
  assumes "evolves_from t m" "\<And>a u. yields m t a u \<Longrightarrow> evolves_from u (f a)"
  shows "evolves_from t (bind_err w m f)"
  unfolding bind_err_def using assms
  by (intro evolves_from_bind)
    (auto intro: evolves_from_return dest!: yieldsI split: sum.splits)

lemma evolves_from_map_err: "evolves_from t m \<Longrightarrow> evolves_from t (map_err w m)"
  by (simp add: map_err_def evolves_from_bind_err evolves_from_return)

lemma evolves_from_statement: "R t (snd (f t)) \<Longrightarrow> evolves_from t (statement f)"
  using R_refl
  by (auto simp: evolves_from_def statement_def split_beta split: outcome.splits prod.splits)

lemma evolves_from_write:
  "R t (upd (\<lambda>_. snd (f (get t))) t) \<Longrightarrow> evolves_from t (write_stmt get upd f)"
  unfolding write_stmt_def by (rule evolves_from_statement) simp

lemma evolves_from_reads: "evolves_from t (first_stmt tbl p)" "evolves_from t (query_stmt g)"
  unfolding first_stmt_def query_stmt_def by (rule evolves_from_statement, simp add: R_refl)+

lemma evolves_from_transaction:
  assumes "evolves_from t m"
  shows "evolves_from t (transaction b c m)"
proof (unfold evolves_from_def, rule allI)
  fix os
  obtain x os' where p: "pop_outcome os = (x, os')" by fastforce
  obtain r s' where r: "run_state m \<lparr>tables = t, outcomes = os'\<rparr> = (r, s')" by fastforce
  have "R t (tables s')"
    using evolves_fromD [of "\<lparr>tables = t, outcomes = os'\<rparr>" m] assms r by simp
  then show "R t (tables (snd (run_state (transaction b c m) \<lparr>tables = t, outcomes = os\<rparr>)))"
    using p r R_refl
    by (auto simp: transaction_def split: outcome.splits sum.splits prod.splits)
qed

lemmas evolves_from_rules =
  evolves_from_return evolves_from_bindE evolves_from_bind_err evolves_from_map_err
  evolves_from_transaction evolves_from_reads

end

text \<open>Operations that only read leave the tables as they are.\<close>

interpretation still: table_preorder "\<lambda>t u. u = t"
  by unfold_locales auto

named_theorems still_rules \<open>operations that only read\<close>

declare still.evolves_rules [still_rules]

end
