(* ===== verification/Inventory_Store.thy ===== *)
theory Inventory_Store
  imports Database
begin

text \<open>
  The inventory service's data: \<open>app/inventory/srv/internal/domain/do\<close> and the MySQL store
  \<open>data/v1/db/inventory.go\<close>. A stock row counts the units of one goods that are
  available, locked by an unpaid order and sold; a sell detail is the record of what an order
  has reserved and of what became of it. One definition per method of the store, each the
  statement it issues with the checks around it. A \<open>nil\<close> pointer argument is \<open>None\<close>.
\<close>

section \<open>Data\<close>

record GoodsDetail =
  gd_Goods :: int
  gd_Num :: int

type_synonym GoodsDetailList = "GoodsDetail list"

record InventoryDO = base_model +
  inv_Goods :: int
  inv_Stocks :: int
  inv_Total :: int
  inv_Available :: int
  inv_Locked :: int
  inv_Sold :: int
  inv_Version :: int

record StockSellDetailDO =
  sd_OrderSn :: string
  sd_Status :: int
  sd_Detail :: GoodsDetailList

record InventoryAdjustmentDO =
  adj_ID :: int
  adj_GoodsID :: int
  adj_BeforeAvailable :: int
  adj_AfterAvailable :: int
  adj_ActorUserID :: int
  adj_CorrelationID :: string
  adj_RequestID :: string
  adj_Reason :: string
  adj_CreatedAt :: time

record inventory_db =
  inventory :: "InventoryDO list"
  stockselldetail :: "StockSellDetailDO list"
  inventory_adjustment_logs :: "InventoryAdjustmentDO list"

type_synonym 'a inv_op = "(inventory_db, 'a) op"

text \<open>The column a sell detail's lines are stored in: \<open>json.Marshal\<close> of the list.\<close>

definition json_line :: "GoodsDetail \<Rightarrow> string" where
  "json_line g = ''{\"Goods\":'' @ show_int (gd_Goods g) @ '',\"Num\":'' @ show_int (gd_Num g) @ ''}''"

definition Value :: "GoodsDetailList \<Rightarrow> string" where
  "Value ds = ''['' @ join_with (CHR '','') (map json_line ds) @ '']''"

text \<open>
  \<open>sort.Sort\<close> by \<open>Less\<close>, that is by goods; up to twelve elements the library sorts by
  insertion, which keeps lines of the same goods in order.
\<close>

definition sort_details :: "GoodsDetailList \<Rightarrow> GoodsDetailList" where
  "sort_details ds = sort_key gd_Goods ds"

section \<open>Columns and keys\<close>

text \<open>Every counter of \<open>inventory\<close> is an \<open>int\<close> column; the table has no unique key but its id.\<close>

definition inventory_fits :: "InventoryDO \<Rightarrow> bool" where
  "inventory_fits r \<longleftrightarrow> in_int32 (inv_Goods r) \<and> in_int32 (inv_Stocks r) \<and> in_int32 (inv_Total r) \<and>
     in_int32 (inv_Available r) \<and> in_int32 (inv_Locked r) \<and> in_int32 (inv_Sold r) \<and> in_int32 (inv_Version r)"

definition insert_inventory :: "time \<Rightarrow> InventoryDO \<Rightarrow> InventoryDO list \<Rightarrow> (db_error + InventoryDO) \<times> InventoryDO list" where
  "insert_inventory now iv t =
     insert_row (\<lambda>r. if inventory_fits r then None else Some OutOfRange) (\<lambda>r r'. ID r = ID r')
       (iv\<lparr>ID := if ID iv = 0 then next_id ID t else ID iv, CreatedAt := now, UpdatedAt := now\<rparr>) t"

text \<open>\<open>stockselldetail\<close>: \<open>order_sn\<close> is unique, \<open>order_sn\<close> and \<open>detail\<close> are \<open>varchar(200)\<close>.\<close>

definition sell_detail_check :: "StockSellDetailDO \<Rightarrow> db_error option" where
  "sell_detail_check d =
     (if 200 < length (sd_OrderSn d) \<or> 200 < length (Value (sd_Detail d)) then Some DataTooLong
      else if in_int32 (sd_Status d) then None else Some OutOfRange)"

abbreviation same_order_sn :: "StockSellDetailDO \<Rightarrow> StockSellDetailDO \<Rightarrow> bool" where
  "same_order_sn d d' \<equiv> sd_OrderSn d = sd_OrderSn d'"

definition insert_sell_detail :: "StockSellDetailDO \<Rightarrow> StockSellDetailDO list \<Rightarrow> (db_error + StockSellDetailDO) \<times> StockSellDetailDO list" where
  "insert_sell_detail d t = insert_row sell_detail_check same_order_sn d t"

definition adjustment_check :: "InventoryAdjustmentDO \<Rightarrow> db_error option" where
  "adjustment_check a =
     (if 36 < length (adj_CorrelationID a) \<or> 128 < length (adj_RequestID a) \<or> 255 < length (adj_Reason a)
      then Some DataTooLong
      else if in_int32 (adj_GoodsID a) \<and> in_int32 (adj_BeforeAvailable a) \<and> in_int32 (adj_AfterAvailable a)
           \<and> in_int32 (adj_ActorUserID a) then None else Some OutOfRange)"

definition insert_adjustment :: "time \<Rightarrow> InventoryAdjustmentDO \<Rightarrow> InventoryAdjustmentDO list \<Rightarrow> (db_error + InventoryAdjustmentDO) \<times> InventoryAdjustmentDO list" where
  "insert_adjustment now a t =
     insert_row adjustment_check (\<lambda>a a'. adj_CorrelationID a = adj_CorrelationID a')
       (a\<lparr>adj_ID := next_id adj_ID t, adj_CreatedAt := now\<rparr>) t"

section \<open>Sell details\<close>

definition UpdateStockSellDetailStatus :: "string \<Rightarrow> int \<Rightarrow> unit inv_op" where
  "UpdateStockSellDetailStatus ordersn status =
     (let sn = trim_space ordersn in
      if sn = [] then fail (NewCode ErrInvSellDetailNotFound)
      else if status \<le> 0 then fail (NewCode ErrValidation)
      else bind_err driver_err
        (write_stmt stockselldetail stockselldetail_update
          (update_where (\<lambda>d. sd_OrderSn d = sn) (\<lambda>d. d\<lparr>sd_Status := status\<rparr>) (\<lambda>d. in_int32 (sd_Status d))))
        (\<lambda>n. if n = 0 then fail (NewCode ErrInvSellDetailNotFound) else ok ()))"

text \<open>\<open>GetSellDetailForUpdate\<close> is the same query with a row lock, which a single session does not see.\<close>

definition GetSellDetail :: "string \<Rightarrow> StockSellDetailDO inv_op" where
  "GetSellDetail ordersn =
     (let sn = trim_space ordersn in
      if sn = [] then fail (NewCode ErrInvSellDetailNotFound)
      else map_err (\<lambda>e. if e = RecordNotFound then NewCode ErrInvSellDetailNotFound else driver_err e)
        (first_stmt stockselldetail (\<lambda>d. sd_OrderSn d = sn)))"

definition GetSellDetailForUpdate :: "string \<Rightarrow> StockSellDetailDO inv_op" where
  "GetSellDetailForUpdate ordersn =
     (let sn = trim_space ordersn in
      if sn = [] then fail (NewCode ErrInvSellDetailNotFound)
      else map_err (\<lambda>e. if e = RecordNotFound then NewCode ErrInvSellDetailNotFound else driver_err e)
        (first_stmt stockselldetail (\<lambda>d. sd_OrderSn d = sn)))"

definition validateStockSellDetail :: "StockSellDetailDO option \<Rightarrow> unit result" where
  "validateStockSellDetail od =
     (case od of None \<Rightarrow> Inl (NewCode ErrInvSellDetailNotFound)
      | Some d \<Rightarrow>
          if trim_space (sd_OrderSn d) = [] then Inl (NewCode ErrInvSellDetailNotFound)
          else if sd_Status d \<le> 0 then Inl (NewCode ErrValidation)
          else if list_ex (\<lambda>i. gd_Goods i \<le> 0 \<or> gd_Num i \<le> 0) (sd_Detail d) then Inl (NewCode ErrValidation)
          else Inr ())"

definition CreateStockSellDetail :: "StockSellDetailDO \<Rightarrow> unit inv_op" where
  "CreateStockSellDetail d =
     (case validateStockSellDetail (Some d) of
        Inl e \<Rightarrow> fail e
      | Inr _ \<Rightarrow> bind_err driver_err
          (write_stmt stockselldetail stockselldetail_update (insert_sell_detail d)) (\<lambda>_. ok ()))"

text \<open>\<open>ON DUPLICATE KEY\<close> do nothing: the number of rows inserted.\<close>

definition insert_sell_detail_if_absent :: "StockSellDetailDO \<Rightarrow> StockSellDetailDO list \<Rightarrow> (db_error + nat) \<times> StockSellDetailDO list" where
  "insert_sell_detail_if_absent d t =
     (case insert_sell_detail d t of
        (Inl DuplicatedKey, t') \<Rightarrow> (Inr 0, t')
      | (Inl e, t') \<Rightarrow> (Inl e, t')
      | (Inr _, t') \<Rightarrow> (Inr 1, t'))"

definition CreateStockSellDetailIfAbsent :: "StockSellDetailDO \<Rightarrow> bool inv_op" where
  "CreateStockSellDetailIfAbsent d =
     (case validateStockSellDetail (Some d) of
        Inl e \<Rightarrow> fail e
      | Inr _ \<Rightarrow> bind_err driver_err
          (write_stmt stockselldetail stockselldetail_update (insert_sell_detail_if_absent d))
          (\<lambda>n. ok (0 < n)))"

section \<open>Stock\<close>

text \<open>The counters an \<open>UPDATE\<close> of the store moves: by how much each changes.\<close>

definition move_stock :: "time \<Rightarrow> int \<Rightarrow> int \<Rightarrow> int \<Rightarrow> int \<Rightarrow> InventoryDO \<Rightarrow> InventoryDO" where
  "move_stock now avail lock sell stocks r =
     r\<lparr>inv_Available := inv_Available r + avail, inv_Locked := inv_Locked r + lock,
       inv_Sold := inv_Sold r + sell, inv_Stocks := inv_Stocks r + stocks, UpdatedAt := now\<rparr>"

definition update_stock ::
    "(InventoryDO \<Rightarrow> bool) \<Rightarrow> (InventoryDO \<Rightarrow> InventoryDO) \<Rightarrow> (inventory_db session, db_error + nat) state" where
  "update_stock p f = write_stmt inventory inventory_update (update_where p f inventory_fits)"

definition Reduce :: "time \<Rightarrow> int \<Rightarrow> int \<Rightarrow> unit inv_op" where
  "Reduce now goodsID num =
     (if goodsID = 0 then fail (NewCode ErrInventoryNotFound)
      else if num \<le> 0 then fail (NewCode ErrValidation)
      else bind_err driver_err
        (update_stock (\<lambda>r. live r \<and> inv_Goods r = goodsID \<and> num \<le> inv_Available r)
          (move_stock now (- num) num 0 (- num)))
        (\<lambda>n. if n = 0 then fail (NewCode ErrInvNotEnough) else ok ()))"

definition Increase :: "time \<Rightarrow> int \<Rightarrow> int \<Rightarrow> unit inv_op" where
  "Increase now goodsID num =
     (if goodsID = 0 then fail (NewCode ErrInventoryNotFound)
      else if num \<le> 0 then fail (NewCode ErrValidation)
      else bind_err driver_err
        (update_stock (\<lambda>r. live r \<and> inv_Goods r = goodsID \<and> num \<le> inv_Locked r)
          (move_stock now num (- num) 0 num))
        (\<lambda>n. if n = 0 then fail (NewCode ErrInventoryNotFound) else ok ()))"

definition ConfirmSell :: "time \<Rightarrow> int \<Rightarrow> int \<Rightarrow> unit inv_op" where
  "ConfirmSell now goodsID num =
     (if goodsID = 0 then fail (NewCode ErrInventoryNotFound)
      else if num \<le> 0 then fail (NewCode ErrValidation)
      else bind_err driver_err
        (update_stock (\<lambda>r. live r \<and> inv_Goods r = goodsID \<and> num \<le> inv_Locked r)
          (move_stock now 0 (- num) num 0))
        (\<lambda>n. if n = 0 then fail (NewCode ErrInventoryNotFound) else ok ()))"

text \<open>The sums of \<open>normalizeInventory\<close> are taken in \<open>int32\<close>, so they wrap.\<close>

definition normalizeInventory :: "InventoryDO option \<Rightarrow> InventoryDO result" where
  "normalizeInventory oinv =
     (case oinv of None \<Rightarrow> Inl (NewCode ErrValidation)
      | Some iv \<Rightarrow>
          if inv_Goods iv \<le> 0 then Inl (NewCode ErrValidation)
          else if inv_Stocks iv < 0 \<or> inv_Total iv < 0 \<or> inv_Available iv < 0 \<or> inv_Locked iv < 0 \<or> inv_Sold iv < 0
          then Inl (NewCode ErrValidation)
          else
            let lifecycleProvided = (0 < inv_Total iv \<or> 0 < inv_Available iv \<or> 0 < inv_Locked iv \<or> 0 < inv_Sold iv);
                iv' = (if \<not> lifecycleProvided
                        then iv\<lparr>inv_Total := inv_Stocks iv, inv_Available := inv_Stocks iv, inv_Locked := 0, inv_Sold := 0\<rparr>
                        else if inv_Total iv = 0
                        then iv\<lparr>inv_Total := int32 (inv_Available iv + inv_Locked iv + inv_Sold iv)\<rparr>
                        else iv)
            in if inv_Total iv' < int32 (inv_Available iv' + inv_Locked iv' + inv_Sold iv')
               then Inl (NewCode ErrValidation)
               else Inr (iv'\<lparr>inv_Stocks := inv_Available iv'\<rparr>))"

definition store_Create :: "time \<Rightarrow> InventoryDO option \<Rightarrow> unit inv_op" where
  "store_Create now oinv =
     (case normalizeInventory oinv of
        Inl e \<Rightarrow> fail e
      | Inr iv \<Rightarrow> bind_err driver_err
          (write_stmt inventory inventory_update (insert_inventory now iv)) (\<lambda>_. ok ()))"

text \<open>
  \<open>Adjust\<close>: in one transaction, overwrite the counters of the goods' first row or create
  it, and record who did it. The update addresses the row by its primary key.
\<close>

definition adjust_body :: "time \<Rightarrow> InventoryDO \<Rightarrow> InventoryAdjustmentDO \<Rightarrow> unit inv_op" where
  "adjust_body now iv audit = do {
     found \<leftarrow> first_stmt inventory (\<lambda>r. live r \<and> inv_Goods r = inv_Goods iv);
     case found of
       Inl e \<Rightarrow>
         if e \<noteq> RecordNotFound then fail (Driver e)
         else bind_err Driver (write_stmt inventory inventory_update (insert_inventory now iv))
           (\<lambda>_. bind_err Driver
             (write_stmt inventory_adjustment_logs inventory_adjustment_logs_update
               (insert_adjustment now (audit\<lparr>adj_GoodsID := inv_Goods iv, adj_AfterAvailable := inv_Available iv\<rparr>)))
             (\<lambda>_. ok ()))
     | Inr cur \<Rightarrow>
         bind_err Driver
           (update_stock (\<lambda>r. live r \<and> ID r = ID cur)
             (\<lambda>r. r\<lparr>inv_Stocks := inv_Available iv, inv_Total := inv_Total iv, inv_Available := inv_Available iv,
                    inv_Locked := inv_Locked iv, inv_Sold := inv_Sold iv, UpdatedAt := now\<rparr>))
           (\<lambda>_. bind_err Driver
             (write_stmt inventory_adjustment_logs inventory_adjustment_logs_update
               (insert_adjustment now (audit\<lparr>adj_GoodsID := inv_Goods iv,
                  adj_BeforeAvailable := inv_Available cur, adj_AfterAvailable := inv_Available iv\<rparr>)))
             (\<lambda>_. ok ()))
   }"

definition store_Adjust :: "time \<Rightarrow> InventoryDO option \<Rightarrow> InventoryAdjustmentDO option \<Rightarrow> unit inv_op" where
  "store_Adjust now oinv oaudit =
     (case normalizeInventory oinv of
        Inl e \<Rightarrow> fail e
      | Inr iv \<Rightarrow>
          (case oaudit of None \<Rightarrow> fail (NewCode ErrValidation)
           | Some audit \<Rightarrow>
               if adj_ActorUserID audit \<le> 0 \<or> trim_space (adj_CorrelationID audit) = [] \<or> trim_space (adj_Reason audit) = []
               then fail (NewCode ErrValidation)
               else map_err WrapDatabase
                 (transaction (Driver Fault) (Driver Fault) (adjust_body now iv audit))))"

section \<open>Queries\<close>

definition store_ListAdjustments :: "int \<Rightarrow> int \<Rightarrow> int \<Rightarrow> (InventoryAdjustmentDO list \<times> int) inv_op" where
  "store_ListAdjustments goodsID offset limit =
     bind_err driver_err
       (query_stmt (\<lambda>t. int (count_rows (\<lambda>a. adj_GoodsID a = goodsID) (inventory_adjustment_logs t))))
       (\<lambda>total. bind_err driver_err
         (query_stmt (\<lambda>t. page_rows offset limit
            (rev (sort_key adj_ID (filter (\<lambda>a. adj_GoodsID a = goodsID) (inventory_adjustment_logs t))))))
         (\<lambda>items. ok (items, total)))"

definition ListAdjustmentsByGoods :: "int list \<Rightarrow> int \<Rightarrow> InventoryAdjustmentDO list inv_op" where
  "ListAdjustmentsByGoods goodsIDs limit =
     (if goodsIDs = [] then ok []
      else let lim = (if limit \<le> 0 \<or> 500 < limit then 200 else limit) in
        map_err driver_err (query_stmt (\<lambda>t. page_rows 0 lim
          (rev (sort_key adj_ID (filter (\<lambda>a. adj_GoodsID a \<in> set goodsIDs) (inventory_adjustment_logs t)))))))"

definition store_Get :: "int \<Rightarrow> InventoryDO inv_op" where
  "store_Get goodsID =
     (if goodsID = 0 then fail (NewCode ErrInventoryNotFound)
      else bind_err (\<lambda>e. if e = RecordNotFound then NewCode ErrInventoryNotFound else driver_err e)
        (first_stmt inventory (\<lambda>r. live r \<and> inv_Goods r = goodsID))
        (\<lambda>iv. ok (iv\<lparr>inv_Stocks := inv_Available iv\<rparr>)))"

end
