(* ===== verification/Inventory_Service.thy ===== *)
theory Inventory_Service
  imports Inventory_Store
begin

text \<open>
  The inventory service, \<open>app/inventory/srv/internal/service/v1/inventory.go\<close>, with the
  transaction wrapper of \<open>txn.go\<close> and the gRPC handlers of \<open>controller/v1/inventory.go\<close>.
  \<open>lock\<close> is the answer of the Redis lock of an order, \<open>None\<close> when it is acquired; while
  it is held no other operation on the order runs, so operations are steps of one session.
\<close>

section \<open>Service\<close>

abbreviation (input) stockSellStatusReserved :: int where "stockSellStatusReserved \<equiv> 1"
abbreviation (input) stockSellStatusReleased :: int where "stockSellStatusReleased \<equiv> 2"
abbreviation (input) stockSellStatusConfirmed :: int where "stockSellStatusConfirmed \<equiv> 3"

type_synonym order_lock = "string \<Rightarrow> err option"

definition orderLockPrefix :: string where "orderLockPrefix = ''order_''"

definition lockOrder :: "order_lock \<Rightarrow> string \<Rightarrow> ('s, unit result) state" where
  "lockOrder lock orderSn = (case lock (orderLockPrefix @ orderSn) of None \<Rightarrow> ok () | Some e \<Rightarrow> fail e)"

text \<open>
  \<open>withTxnExecutor\<close>: \<open>beginTxn\<close> does not look at the error of \<open>BEGIN\<close>, and the first
  statement on a session that failed to begin reports it instead.
\<close>

definition withTxnExecutor :: "'a inv_op \<Rightarrow> 'a inv_op" where
  "withTxnExecutor body = transaction (driver_err Fault) (Wrapf (Driver Fault)) body"

definition validateStockOperation :: "string \<Rightarrow> GoodsDetail list \<Rightarrow> unit result" where
  "validateStockOperation orderSn details =
     (if trim_space orderSn = [] then Inl (NewCode ErrValidation)
      else if details = [] then Inl (NewCode ErrValidation)
      else if list_ex (\<lambda>d. gd_Goods d \<le> 0 \<or> gd_Num d \<le> 0) details then Inl (NewCode ErrValidation)
      else Inr ())"

definition sell_body :: "time \<Rightarrow> string \<Rightarrow> GoodsDetail list \<Rightarrow> unit inv_op" where
  "sell_body now ordersn detail = do {
     existing \<leftarrow> GetSellDetail ordersn;
     let create =
       bindE (for_each (\<lambda>g. Reduce now (uint64_of (gd_Goods g)) (gd_Num g)) detail) (\<lambda>_.
         CreateStockSellDetail \<lparr>sd_OrderSn = ordersn, sd_Status = stockSellStatusReserved, sd_Detail = detail\<rparr>);
     case existing of
       Inr d \<Rightarrow>
         if sd_Status d = stockSellStatusReserved then ok ()
         else if sd_Status d = stockSellStatusReleased \<or> sd_Status d = stockSellStatusConfirmed then ok ()
         else create
     | Inl e \<Rightarrow> if \<not> is_code e ErrInvSellDetailNotFound then fail e else create
   }"

definition Sell :: "order_lock \<Rightarrow> time \<Rightarrow> string \<Rightarrow> GoodsDetail list \<Rightarrow> unit inv_op" where
  "Sell lock now ordersn details =
     (case validateStockOperation ordersn details of
        Inl e \<Rightarrow> fail e
      | Inr _ \<Rightarrow> bindE (lockOrder lock ordersn) (\<lambda>_.
          withTxnExecutor (sell_body now ordersn (sort_details details))))"

definition reback_body :: "time \<Rightarrow> string \<Rightarrow> GoodsDetail list \<Rightarrow> unit inv_op" where
  "reback_body now ordersn details = do {
     found \<leftarrow> GetSellDetailForUpdate ordersn;
     case found of
       Inl e \<Rightarrow>
         if is_code e ErrInvSellDetailNotFound
         then bindE (CreateStockSellDetailIfAbsent
                \<lparr>sd_OrderSn = ordersn, sd_Status = stockSellStatusReleased, sd_Detail = sort_details details\<rparr>)
              (\<lambda>_. ok ())
         else fail e
     | Inr d \<Rightarrow>
         if sd_Status d = stockSellStatusReleased then ok ()
         else if sd_Status d = stockSellStatusConfirmed then ok ()
         else if sd_Detail d = [] then fail (NewCode ErrDatabase)
         else bindE (for_each (\<lambda>g. Increase now (uint64_of (gd_Goods g)) (gd_Num g)) (sort_details (sd_Detail d)))
           (\<lambda>_. UpdateStockSellDetailStatus ordersn stockSellStatusReleased)
   }"

definition Reback :: "order_lock \<Rightarrow> time \<Rightarrow> string \<Rightarrow> GoodsDetail list \<Rightarrow> unit inv_op" where
  "Reback lock now ordersn details =
     (case validateStockOperation ordersn details of
        Inl e \<Rightarrow> fail e
      | Inr _ \<Rightarrow> bindE (lockOrder lock ordersn) (\<lambda>_.
          withTxnExecutor (reback_body now ordersn details)))"

definition confirm_body :: "time \<Rightarrow> string \<Rightarrow> unit inv_op" where
  "confirm_body now ordersn =
     bindE (GetSellDetailForUpdate ordersn) (\<lambda>d.
       if sd_Status d = stockSellStatusReleased then ok ()
       else if sd_Status d = stockSellStatusConfirmed then ok ()
       else if sd_Detail d = [] then fail (NewCode ErrDatabase)
       else bindE (for_each (\<lambda>g. ConfirmSell now (uint64_of (gd_Goods g)) (gd_Num g)) (sort_details (sd_Detail d)))
         (\<lambda>_. UpdateStockSellDetailStatus ordersn stockSellStatusConfirmed))"

definition Confirm :: "order_lock \<Rightarrow> time \<Rightarrow> string \<Rightarrow> GoodsDetail list \<Rightarrow> unit inv_op" where
  "Confirm lock now ordersn details =
     (case validateStockOperation ordersn details of
        Inl e \<Rightarrow> fail e
      | Inr _ \<Rightarrow> bindE (lockOrder lock ordersn) (\<lambda>_.
          withTxnExecutor (confirm_body now ordersn)))"

definition Release :: "order_lock \<Rightarrow> time \<Rightarrow> string \<Rightarrow> GoodsDetail list \<Rightarrow> unit inv_op" where
  "Release lock now ordersn details = Reback lock now ordersn details"

definition Create :: "time \<Rightarrow> InventoryDO option \<Rightarrow> unit inv_op" where
  "Create now oinv =
     (case oinv of None \<Rightarrow> fail (NewCode ErrValidation)
      | Some iv \<Rightarrow>
          if inv_Goods iv \<le> 0 \<or> inv_Stocks iv < 0 \<or> inv_Total iv < 0 \<or> inv_Available iv < 0
             \<or> inv_Locked iv < 0 \<or> inv_Sold iv < 0
          then fail (NewCode ErrValidation)
          else store_Create now (Some iv))"

definition Adjust :: "time \<Rightarrow> InventoryDO option \<Rightarrow> InventoryAdjustmentDO option \<Rightarrow> unit inv_op" where
  "Adjust now oinv audit =
     (case oinv of None \<Rightarrow> fail (NewCode ErrValidation) | Some iv \<Rightarrow> store_Adjust now (Some iv) audit)"

definition ListAdjustments :: "int \<Rightarrow> int \<Rightarrow> int \<Rightarrow> (InventoryAdjustmentDO list \<times> int) inv_op" where
  "ListAdjustments goodsID page pageSize =
     (if goodsID = 0 then fail (NewCode ErrInventoryNotFound)
      else let pg = (if page < 1 then 1 else page);
               sz = (if pageSize < 1 \<or> 100 < pageSize then 20 else pageSize)
           in store_ListAdjustments goodsID ((pg - 1) * sz) sz)"

definition Get :: "int \<Rightarrow> InventoryDO inv_op" where
  "Get goodsID = (if goodsID = 0 then fail (NewCode ErrInventoryNotFound) else store_Get goodsID)"

definition GetOrderDetail :: "string \<Rightarrow> StockSellDetailDO inv_op" where
  "GetOrderDetail orderSn = (if trim_space orderSn = [] then fail (NewCode ErrValidation) else GetSellDetail orderSn)"

record OrderFlow =
  of_SellDetail :: StockSellDetailDO
  of_Adjustments :: "InventoryAdjustmentDO list"
  of_Inventories :: "InventoryDO list"

text \<open>The loop over the lines that keeps the first occurrence of each goods.\<close>

fun collect_goods :: "int list \<Rightarrow> GoodsDetail list \<Rightarrow> int list" where
  "collect_goods seen [] = []"
| "collect_goods seen (i # is) =
     (if gd_Goods i \<le> 0 then collect_goods seen is
      else if gd_Goods i \<in> set seen then collect_goods seen is
      else uint64_of (gd_Goods i) # collect_goods (gd_Goods i # seen) is)"

primrec get_all :: "int list \<Rightarrow> InventoryDO list inv_op" where
  "get_all [] = ok []"
| "get_all (g # gs) = bindE (store_Get g) (\<lambda>iv. bindE (get_all gs) (\<lambda>invs. ok (iv # invs)))"

definition GetOrderFlow :: "string \<Rightarrow> OrderFlow inv_op" where
  "GetOrderFlow orderSn =
     bindE (GetOrderDetail orderSn) (\<lambda>detail.
       let goodsIDs = collect_goods [] (sd_Detail detail) in
       bindE (ListAdjustmentsByGoods goodsIDs 200) (\<lambda>adjustments.
         bindE (get_all goodsIDs) (\<lambda>inventories.
           ok \<lparr>of_SellDetail = detail, of_Adjustments = adjustments, of_Inventories = inventories\<rparr>)))"

section \<open>gRPC handlers\<close>

record GoodsInvInfo =
  gi_GoodsId :: int
  gi_Num :: int
  gi_Total :: int
  gi_Available :: int
  gi_Locked :: int
  gi_Sold :: int
  gi_ActorUserId :: int
  gi_CorrelationId :: string
  gi_RequestId :: string
  gi_Reason :: string

record SellInfo =
  si_GoodsInfo :: "GoodsInvInfo list"
  si_OrderSn :: string

record InventoryAdjustment =
  ia_Id :: int
  ia_GoodsId :: int
  ia_BeforeAvailable :: int
  ia_AfterAvailable :: int
  ia_ActorUserId :: int
  ia_CorrelationId :: string
  ia_RequestId :: string
  ia_Reason :: string
  ia_CreatedAt :: int

record SellDetailInfo =
  sdi_OrderSn :: string
  sdi_Status :: int
  sdi_StatusName :: string
  sdi_GoodsInfo :: "GoodsInvInfo list"
  sdi_Adjustments :: "InventoryAdjustment list"
  sdi_InventorySnapshot :: "GoodsInvInfo list"

definition inventory_of_info :: "GoodsInvInfo \<Rightarrow> InventoryDO" where
  "inventory_of_info info =
     \<lparr>ID = 0, CreatedAt = 0, UpdatedAt = 0, DeletedAt = None, IsDeleted = False,
      inv_Goods = gi_GoodsId info, inv_Stocks = gi_Num info, inv_Total = gi_Total info,
      inv_Available = gi_Available info, inv_Locked = gi_Locked info, inv_Sold = gi_Sold info, inv_Version = 0\<rparr>"

definition audit_of_info :: "GoodsInvInfo \<Rightarrow> InventoryAdjustmentDO" where
  "audit_of_info info =
     \<lparr>adj_ID = 0, adj_GoodsID = 0, adj_BeforeAvailable = 0, adj_AfterAvailable = 0,
      adj_ActorUserID = gi_ActorUserId info, adj_CorrelationID = gi_CorrelationId info,
      adj_RequestID = gi_RequestId info, adj_Reason = gi_Reason info, adj_CreatedAt = 0\<rparr>"

definition SetInv :: "time \<Rightarrow> GoodsInvInfo option \<Rightarrow> unit inv_op" where
  "SetInv now oinfo =
     (case oinfo of None \<Rightarrow> fail (NewCode ErrValidation) | Some info \<Rightarrow> Create now (Some (inventory_of_info info)))"

definition SetStock :: "time \<Rightarrow> GoodsInvInfo option \<Rightarrow> unit inv_op" where
  "SetStock now oinfo =
     (case oinfo of None \<Rightarrow> fail (NewCode ErrValidation)
      | Some info \<Rightarrow> Adjust now (Some (inventory_of_info info)) (Some (audit_of_info info)))"

definition info_of_inventory :: "InventoryDO \<Rightarrow> GoodsInvInfo" where
  "info_of_inventory iv =
     \<lparr>gi_GoodsId = inv_Goods iv, gi_Num = inv_Stocks iv, gi_Total = inv_Total iv,
      gi_Available = inv_Available iv, gi_Locked = inv_Locked iv, gi_Sold = inv_Sold iv,
      gi_ActorUserId = 0, gi_CorrelationId = [], gi_RequestId = [], gi_Reason = []\<rparr>"

definition info_of_line :: "GoodsDetail \<Rightarrow> GoodsInvInfo" where
  "info_of_line g =
     \<lparr>gi_GoodsId = gd_Goods g, gi_Num = gd_Num g, gi_Total = 0, gi_Available = 0, gi_Locked = 0, gi_Sold = 0,
      gi_ActorUserId = 0, gi_CorrelationId = [], gi_RequestId = [], gi_Reason = []\<rparr>"

text \<open>\<open>Unix()\<close> of a time in milliseconds is its second.\<close>

definition adjustment_message :: "InventoryAdjustmentDO \<Rightarrow> InventoryAdjustment" where
  "adjustment_message a =
     \<lparr>ia_Id = int64 (adj_ID a), ia_GoodsId = adj_GoodsID a, ia_BeforeAvailable = adj_BeforeAvailable a,
      ia_AfterAvailable = adj_AfterAvailable a, ia_ActorUserId = adj_ActorUserID a,
      ia_CorrelationId = adj_CorrelationID a, ia_RequestId = adj_RequestID a, ia_Reason = adj_Reason a,
      ia_CreatedAt = adj_CreatedAt a div 1000\<rparr>"

definition ctl_ListAdjustments :: "int \<Rightarrow> int \<Rightarrow> int \<Rightarrow> (int \<times> InventoryAdjustment list) inv_op" where
  "ctl_ListAdjustments goodsId page pageSize =
     bindE (ListAdjustments (uint64_of goodsId) page pageSize)
       (\<lambda>(items, cnt). ok (int32 cnt, map adjustment_message items))"

definition InvDetail :: "GoodsInvInfo option \<Rightarrow> GoodsInvInfo inv_op" where
  "InvDetail oinfo =
     (case oinfo of None \<Rightarrow> fail (NewCode ErrValidation)
      | Some info \<Rightarrow> bindE (Get (uint64_of (gi_GoodsId info))) (\<lambda>iv. ok (info_of_inventory iv)))"

definition GetStock :: "GoodsInvInfo option \<Rightarrow> GoodsInvInfo inv_op" where
  "GetStock oinfo = InvDetail oinfo"

definition stockSellStatusName :: "int \<Rightarrow> string" where
  "stockSellStatusName status =
     (if status = 1 then ''reserved'' else if status = 2 then ''released''
      else if status = 3 then ''confirmed'' else ''unknown'')"

definition ctl_GetSellDetail :: "string option \<Rightarrow> SellDetailInfo inv_op" where
  "ctl_GetSellDetail oinfo =
     (case oinfo of None \<Rightarrow> fail (NewCode ErrValidation)
      | Some orderSn \<Rightarrow> bindE (GetOrderFlow orderSn) (\<lambda>flow.
          let detail = of_SellDetail flow in
          ok \<lparr>sdi_OrderSn = sd_OrderSn detail, sdi_Status = sd_Status detail,
              sdi_StatusName = stockSellStatusName (sd_Status detail),
              sdi_GoodsInfo = map info_of_line (sd_Detail detail),
              sdi_Adjustments = map adjustment_message (of_Adjustments flow),
              sdi_InventorySnapshot = map info_of_inventory (of_Inventories flow)\<rparr>))"

definition details_of_info :: "SellInfo \<Rightarrow> GoodsDetail list" where
  "details_of_info info = map (\<lambda>v. \<lparr>gd_Goods = gi_GoodsId v, gd_Num = gi_Num v\<rparr>) (si_GoodsInfo info)"

definition ctl_Sell :: "order_lock \<Rightarrow> time \<Rightarrow> SellInfo option \<Rightarrow> unit inv_op" where
  "ctl_Sell lock now oinfo =
     (case oinfo of None \<Rightarrow> fail (NewCode ErrValidation)
      | Some info \<Rightarrow>
          map_err (\<lambda>e. if is_code e ErrInvNotEnough then GrpcStatus ''Aborted'' else e)
            (Sell lock now (si_OrderSn info) (details_of_info info)))"

definition Reserve :: "order_lock \<Rightarrow> time \<Rightarrow> SellInfo option \<Rightarrow> unit inv_op" where
  "Reserve lock now oinfo = ctl_Sell lock now oinfo"

definition ctl_Reback :: "order_lock \<Rightarrow> time \<Rightarrow> SellInfo option \<Rightarrow> unit inv_op" where
  "ctl_Reback lock now oinfo =
     (case oinfo of None \<Rightarrow> fail (NewCode ErrValidation)
      | Some info \<Rightarrow> Reback lock now (si_OrderSn info) (details_of_info info))"

definition ctl_Confirm :: "order_lock \<Rightarrow> time \<Rightarrow> SellInfo option \<Rightarrow> unit inv_op" where
  "ctl_Confirm lock now oinfo =
     (case oinfo of None \<Rightarrow> fail (NewCode ErrValidation)
      | Some info \<Rightarrow> Confirm lock now (si_OrderSn info) (details_of_info info))"

definition ctl_Release :: "order_lock \<Rightarrow> time \<Rightarrow> SellInfo option \<Rightarrow> unit inv_op" where
  "ctl_Release lock now oinfo =
     (case oinfo of None \<Rightarrow> fail (NewCode ErrValidation)
      | Some info \<Rightarrow> Release lock now (si_OrderSn info) (details_of_info info))"

end
