(* ===== verification/Inventory_Ledger.thy ===== *)
theory Inventory_Ledger
  imports Inventory_Service "HOL-Library.Multiset"
begin

text \<open>
  Correctness of the inventory service. The stock of a goods is the sum of what is available,
  locked and sold; every operation on an order moves units between the three. The sell
  details are a ledger of the moves: what a goods has locked is what the reserved details
  hold of it. The three moves of the store (\<open>Reduce\<close>, \<open>Increase\<close>, \<open>ConfirmSell\<close>) share
  one contract, the locale \<open>stock_move\<close>, from which the loops over an order's lines and the
  invariants of the handlers are derived once.
\<close>

section \<open>Lines and rows\<close>

definition qty :: "int \<Rightarrow> GoodsDetail list \<Rightarrow> int" where
  "qty g ds = sum_list (map (\<lambda>l. if gd_Goods l = g then gd_Num l else 0) ds)"

text \<open>A line as \<open>validateStockOperation\<close> lets it through; the bounds are those of \<open>int32\<close>.\<close>

definition line_ok :: "GoodsDetail \<Rightarrow> bool" where
  "line_ok l \<longleftrightarrow> 0 < gd_Goods l \<and> in_int32 (gd_Goods l) \<and> 0 < gd_Num l \<and> in_int32 (gd_Num l)"

definition row_ok :: "InventoryDO \<Rightarrow> bool" where
  "row_ok r \<longleftrightarrow> 0 < inv_Goods r \<and> in_int32 (inv_Goods r) \<and> in_int32 (inv_Total r) \<and> in_int32 (inv_Version r) \<and>
     0 \<le> inv_Available r \<and> 0 \<le> inv_Locked r \<and> 0 \<le> inv_Sold r \<and> inv_Stocks r = inv_Available r \<and>
     inv_Available r + inv_Locked r + inv_Sold r \<le> inv_Total r"

text \<open>No goods has two rows.\<close>

definition one_row_per_goods :: "inventory_db \<Rightarrow> bool" where
  "one_row_per_goods t \<longleftrightarrow> distinct (map inv_Goods (filter live (inventory t)))"

definition has_row :: "inventory_db \<Rightarrow> int \<Rightarrow> bool" where
  "has_row t g \<longleftrightarrow> list_ex (\<lambda>r. live r \<and> inv_Goods r = g) (inventory t)"

definition row_shift :: "int \<Rightarrow> int \<Rightarrow> int \<Rightarrow> int \<Rightarrow> InventoryDO \<Rightarrow> InventoryDO \<Rightarrow> bool" where
  "row_shift da dl dx q r r' \<longleftrightarrow>
     ID r' = ID r \<and> DeletedAt r' = DeletedAt r \<and> inv_Goods r' = inv_Goods r \<and> inv_Total r' = inv_Total r \<and>
     inv_Version r' = inv_Version r \<and>
     inv_Available r' = inv_Available r + da * q \<and> inv_Locked r' = inv_Locked r + dl * q \<and>
     inv_Sold r' = inv_Sold r + dx * q \<and> inv_Stocks r' = inv_Stocks r + da * q \<and>
     (row_ok r \<longrightarrow> row_ok r')"

definition stock_shifted :: "int \<Rightarrow> int \<Rightarrow> int \<Rightarrow> (int \<Rightarrow> int) \<Rightarrow> inventory_db \<Rightarrow> inventory_db \<Rightarrow> bool" where
  "stock_shifted da dl dx Q t t' \<longleftrightarrow>
     list_all2 (\<lambda>r r'. row_shift da dl dx (if live r then Q (inv_Goods r) else 0) r r') (inventory t) (inventory t') \<and>
     stockselldetail t' = stockselldetail t \<and> inventory_adjustment_logs t' = inventory_adjustment_logs t"

lemma qty_Nil [simp]: "qty g [] = 0"
  by (simp add: qty_def)

lemma qty_Cons [simp]: "qty g (l # ds) = (if gd_Goods l = g then gd_Num l else 0) + qty g ds"
  by (simp add: qty_def)

lemma qty_sort [simp]: "qty g (sort_details ds) = qty g ds"
proof -
  have "mset (map f (sort_key gd_Goods ds)) = mset (map f ds)" for f :: "GoodsDetail \<Rightarrow> int"
    by simp
  then show ?thesis
    unfolding qty_def sort_details_def by (metis sum_mset_sum_list)
qed

lemma set_sort_details [simp]: "set (sort_details ds) = set ds"
  by (simp add: sort_details_def)

lemma sort_details_Nil [simp]: "sort_details ds = [] \<longleftrightarrow> ds = []"
  by (metis set_empty set_sort_details)

lemma qty_nonneg: "list_all line_ok ds \<Longrightarrow> 0 \<le> qty g ds"
  by (induction ds) (auto simp: line_ok_def)

lemma line_ok_pos: "line_ok l \<Longrightarrow> 0 < gd_Goods l" "line_ok l \<Longrightarrow> 0 < gd_Num l"
  by (simp_all add: line_ok_def)

lemma line_ok_uint64: "line_ok l \<Longrightarrow> uint64_of (gd_Goods l) = gd_Goods l"
  by (auto simp: line_ok_def intro: uint64_of_pos_int32)

lemma row_ok_fits: "row_ok r \<Longrightarrow> inventory_fits r"
  by (auto simp: row_ok_def inventory_fits_def in_int_def)

lemma row_shift_0: "row_shift da dl dx 0 r r"
  by (simp add: row_shift_def)

lemma row_shift_trans:
  "row_shift da dl dx q r r' \<Longrightarrow> row_shift da dl dx q' r' r'' \<Longrightarrow> row_shift da dl dx (q + q') r r''"
  by (auto simp: row_shift_def algebra_simps)

lemma stock_shifted_refl: "(\<And>g. Q g = 0) \<Longrightarrow> stock_shifted da dl dx Q t t"
  by (auto simp: stock_shifted_def list_all2_same row_shift_0)

lemma stock_shifted_trans:
  assumes "stock_shifted da dl dx Q t u" "stock_shifted da dl dx Q' u v"
  shows "stock_shifted da dl dx (\<lambda>g. Q g + Q' g) t v"
proof -
  have "list_all2 (\<lambda>r r'. row_shift da dl dx (if live r then Q (inv_Goods r) + Q' (inv_Goods r) else 0) r r')
          (inventory t) (inventory v)"
  proof (rule list_all2_trans)
    show "list_all2 (\<lambda>r r'. row_shift da dl dx (if live r then Q (inv_Goods r) else 0) r r') (inventory t) (inventory u)"
      "list_all2 (\<lambda>r r'. row_shift da dl dx (if live r then Q' (inv_Goods r) else 0) r r') (inventory u) (inventory v)"
      using assms by (auto simp: stock_shifted_def)
  next
    fix a b c
    assume "row_shift da dl dx (if live a then Q (inv_Goods a) else 0) a b"
      and "row_shift da dl dx (if live b then Q' (inv_Goods b) else 0) b c"
    moreover from this have "live b = live a" "inv_Goods b = inv_Goods a" by (auto simp: row_shift_def)
    ultimately show "row_shift da dl dx (if live a then Q (inv_Goods a) + Q' (inv_Goods a) else 0) a c"
      using row_shift_trans by (fastforce split: if_splits)
  qed
  with assms show ?thesis by (auto simp: stock_shifted_def)
qed

lemma shifted_goods:
  "stock_shifted da dl dx Q t t' \<Longrightarrow> map inv_Goods (filter live (inventory t')) = map inv_Goods (filter live (inventory t))"
  unfolding stock_shifted_def by (elim conjE, induction rule: list_all2_induct) (auto simp: row_shift_def)

lemma shifted_one_row: "stock_shifted da dl dx Q t t' \<Longrightarrow> one_row_per_goods t' = one_row_per_goods t"
  by (simp add: one_row_per_goods_def shifted_goods)

lemma has_row_goods: "has_row t g \<longleftrightarrow> g \<in> set (map inv_Goods (filter live (inventory t)))"
  by (auto simp: has_row_def list_ex_iff)

lemma shifted_has_row: "stock_shifted da dl dx Q t t' \<Longrightarrow> has_row t' g = has_row t g"
  by (simp only: has_row_goods shifted_goods)

text \<open>Each row of the stock after the move has the row it came from, and back.\<close>

lemma shifted_row_back:
  assumes "stock_shifted da dl dx Q t t'" "r' \<in> set (inventory t')"
  obtains r where "r \<in> set (inventory t)" "row_shift da dl dx (if live r then Q (inv_Goods r) else 0) r r'"
proof -
  from assms obtain i where i: "i < length (inventory t)" "inventory t' ! i = r'"
    by (auto simp: stock_shifted_def list_all2_conv_all_nth in_set_conv_nth)
  with assms(1) that [of "inventory t ! i"] show ?thesis
    by (auto simp: stock_shifted_def list_all2_conv_all_nth)
qed

lemma one_row_unique:
  "one_row_per_goods t \<Longrightarrow> r \<in> set (inventory t) \<Longrightarrow> r' \<in> set (inventory t) \<Longrightarrow> live r \<Longrightarrow> live r' \<Longrightarrow>
   inv_Goods r = inv_Goods r' \<Longrightarrow> r = r'"
  by (auto simp: one_row_per_goods_def distinct_map inj_on_def)

section \<open>The three moves of the store\<close>

locale stock_move =
  fixes move :: "time \<Rightarrow> int \<Rightarrow> int \<Rightarrow> unit inv_op"
    and col :: "InventoryDO \<Rightarrow> int"
    and da dl dx :: int
    and missing :: int
  assumes move_eq: "0 < g \<Longrightarrow> 0 < n \<Longrightarrow> move now g n =
      bind_err driver_err
        (update_stock (\<lambda>r. live r \<and> inv_Goods r = g \<and> n \<le> col r) (move_stock now (da * n) (dl * n) (dx * n) (da * n)))
        (\<lambda>k. if k = 0 then fail (NewCode missing) else ok ())"
    and balanced: "da + dl + dx = 0"
    and column: "(col = inv_Available \<and> da = - 1 \<and> 0 \<le> dl \<and> 0 \<le> dx) \<or>
                 (col = inv_Locked \<and> dl = - 1 \<and> 0 \<le> da \<and> 0 \<le> dx)"
begin

lemma col_shift: "row_shift da dl dx q r r' \<Longrightarrow> col r' = col r - q"
  using column by (auto simp: row_shift_def)

lemma move_stock_shift:
  assumes "0 \<le> n" "n \<le> col r"
  shows "row_shift da dl dx n r (move_stock now (da * n) (dl * n) (dx * n) (da * n) r)"
proof -
  have sum: "da * n + dl * n + dx * n = 0"
    using balanced by (metis distrib_right mult_zero_left)
  from column show ?thesis
  proof (elim disjE conjE)
    assume "col = inv_Available" "da = - 1" "0 \<le> dl" "0 \<le> dx"
    moreover from this assms(1) have "0 \<le> dl * n" "0 \<le> dx * n" by simp_all
    ultimately show ?thesis
      using assms sum by (auto simp: row_shift_def move_stock_def row_ok_def)
  next
    assume "col = inv_Locked" "dl = - 1" "0 \<le> da" "0 \<le> dx"
    moreover from this assms(1) have "0 \<le> da * n" "0 \<le> dx * n" by simp_all
    ultimately show ?thesis
      using assms sum by (auto simp: row_shift_def move_stock_def row_ok_def)
  qed
qed

lemma move_stock_changes: "0 < n \<Longrightarrow> move_stock now (da * n) (dl * n) (dx * n) (da * n) r \<noteq> r"
proof
  assume n: "0 < n" and e: "move_stock now (da * n) (dl * n) (dx * n) (da * n) r = r"
  have "col (move_stock now (da * n) (dl * n) (dx * n) (da * n) r) = col r - n"
    using column by (auto simp: move_stock_def)
  with n e show False by simp
qed

abbreviation hit :: "int \<Rightarrow> int \<Rightarrow> InventoryDO \<Rightarrow> bool" where
  "hit g n r \<equiv> live r \<and> inv_Goods r = g \<and> n \<le> col r"

lemma move_shifted:
  assumes u: "one_row_per_goods t" and n: "0 < n" and r: "r \<in> set (inventory t)" "hit g n r"
    and t': "t' = t\<lparr>inventory := update_rows (hit g n) (move_stock now (da * n) (dl * n) (dx * n) (da * n)) (inventory t)\<rparr>"
  shows "stock_shifted da dl dx (\<lambda>x. if x = g then n else 0) t t'"
proof -
  have "row_shift da dl dx (if live r' then if inv_Goods r' = g then n else 0 else 0) r'
          (if hit g n r' then move_stock now (da * n) (dl * n) (dx * n) (da * n) r' else r')"
    if r': "r' \<in> set (inventory t)" for r'
  proof (cases "live r' \<and> inv_Goods r' = g")
    case True
    with one_row_unique [OF u r(1) r'] r(2) have "hit g n r'" by simp
    with move_stock_shift [of n r'] n True show ?thesis by simp
  next
    case False
    with row_shift_0 show ?thesis by auto
  qed
  then show ?thesis
    by (simp add: t' stock_shifted_def update_rows_def list_all2_map2 list_all2_same)
qed

lemma move_yields:
  assumes "yields (move now g n) t () t'" "0 < g" "0 < n" "one_row_per_goods t"
  shows "stock_shifted da dl dx (\<lambda>x. if x = g then n else 0) t t' \<and> has_row t g"
proof -
  from assms(1) obtain k u where
    w: "yields (update_stock (hit g n) (move_stock now (da * n) (dl * n) (dx * n) (da * n))) t k u"
    and k: "yields (if k = 0 then fail (NewCode missing) else ok ()) u () t'"
    unfolding move_eq [OF assms(2,3)] by (rule yields_bind_err)
  from k have "k \<noteq> 0" "u = t'" by (auto split: if_splits)
  with yields_write [OF w [unfolded update_stock_def]]
  have c: "count_rows (\<lambda>r. hit g n r \<and> move_stock now (da * n) (dl * n) (dx * n) (da * n) r \<noteq> r) (inventory t) \<noteq> 0"
    and t': "t' = t\<lparr>inventory := update_rows (hit g n) (move_stock now (da * n) (dl * n) (dx * n) (da * n)) (inventory t)\<rparr>"
    by (auto simp: update_where_def split: if_splits)
  from c obtain r where r: "r \<in> set (inventory t)" "hit g n r"
    unfolding count_rows_0 by blast
  then show ?thesis
    using move_shifted [OF assms(4,3) r t'] by (auto simp: has_row_def list_ex_iff)
qed

lemma loop_yields:
  assumes "yields (for_each (\<lambda>l. move now (uint64_of (gd_Goods l)) (gd_Num l)) ds) t () t'"
    and "list_all line_ok ds" "one_row_per_goods t"
  shows "stock_shifted da dl dx (\<lambda>g. qty g ds) t t' \<and> (\<forall>l \<in> set ds. has_row t (gd_Goods l))"
  using assms
proof (induction ds arbitrary: t)
  case Nil
  then show ?case by (simp add: stock_shifted_refl)
next
  case (Cons l ds)
  then have l: "line_ok l" and ds: "list_all line_ok ds" and pos: "0 < gd_Goods l" "0 < gd_Num l"
    by (simp_all add: line_ok_pos)
  from Cons.prems(1) obtain u where
    1: "yields (move now (gd_Goods l) (gd_Num l)) t () u"
    and 2: "yields (for_each (\<lambda>l. move now (uint64_of (gd_Goods l)) (gd_Num l)) ds) u () t'"
    using l by (auto simp: line_ok_uint64 elim: yields_bindE)
  from move_yields [OF 1 pos Cons.prems(3)]
  have s: "stock_shifted da dl dx (\<lambda>x. if x = gd_Goods l then gd_Num l else 0) t u" "has_row t (gd_Goods l)"
    by simp_all
  from Cons.IH [OF 2 ds] shifted_one_row [OF s(1)] Cons.prems(3)
  have "stock_shifted da dl dx (\<lambda>g. qty g ds) u t'" "\<forall>l \<in> set ds. has_row u (gd_Goods l)"
    by auto
  moreover have "(\<lambda>g. (if g = gd_Goods l then gd_Num l else 0) + qty g ds) = (\<lambda>g. qty g (l # ds))"
    by (simp add: fun_eq_iff)
  ultimately show ?case
    using stock_shifted_trans [OF s(1)] s(2) shifted_has_row [OF s(1)] by (metis set_ConsD)
qed

text \<open>The moves go through whenever the rows have enough in the column they take from.\<close>

lemma move_runs:
  assumes s: "outcomes s = []" and pos: "0 < g" "0 < n"
    and ok: "\<And>r. r \<in> set (inventory (tables s)) \<Longrightarrow> live r \<Longrightarrow> row_ok r"
    and r: "r \<in> set (inventory (tables s))" "hit g n r"
  shows "\<exists>s'. run_state (move now g n) s = (Inr (), s') \<and> outcomes s' = []"
proof -
  let ?f = "move_stock now (da * n) (dl * n) (dx * n) (da * n)"
  have "inventory_fits (?f r')" if "r' \<in> set (inventory (tables s))" "hit g n r'" for r'
    using move_stock_shift [of n r'] ok [OF that(1)] that(2) pos row_ok_fits
    unfolding row_shift_def by force
  then have "list_all (\<lambda>r. hit g n r \<longrightarrow> inventory_fits (?f r)) (inventory (tables s))"
    by (simp add: list_all_iff)
  moreover have "count_rows (\<lambda>r. hit g n r \<and> ?f r \<noteq> r) (inventory (tables s)) \<noteq> 0"
    unfolding count_rows_0 using r move_stock_changes [OF pos(2)] by blast
  ultimately show ?thesis
    unfolding move_eq [OF pos] update_stock_def by (simp add: run_simps s update_where_def)
qed

text \<open>When every statement is executed, the only failure of the loop is a row without enough.\<close>

lemma move_result:
  assumes s: "outcomes s = []" and pos: "0 < g" "0 < n"
    and ok: "\<And>r. r \<in> set (inventory (tables s)) \<Longrightarrow> live r \<Longrightarrow> row_ok r"
    and run: "run_state (move now g n) s = (x, s')"
  shows "(x = Inr () \<or> x = Inl (NewCode missing)) \<and> outcomes s' = []"
proof (cases "\<exists>r \<in> set (inventory (tables s)). hit g n r")
  case True
  then obtain r where "r \<in> set (inventory (tables s))" "hit g n r" by blast
  from move_runs [OF s pos _ this, where now = now] ok run show ?thesis by auto
next
  case False
  then show ?thesis
    using run unfolding move_eq [OF pos] update_stock_def
    by (auto simp: run_simps s update_where_def count_rows_0 list_all_iff split: if_splits)
qed

lemma loop_result:
  assumes "outcomes s = []" "list_all line_ok ds" "one_row_per_goods (tables s)"
    and "\<And>r. r \<in> set (inventory (tables s)) \<Longrightarrow> live r \<Longrightarrow> row_ok r"
    and "run_state (for_each (\<lambda>l. move now (uint64_of (gd_Goods l)) (gd_Num l)) ds) s = (x, s')"
  shows "x = Inr () \<or> x = Inl (NewCode missing)"
  using assms
proof (induction ds arbitrary: s)
  case (Cons l ds)
  from Cons.prems(2) have l: "line_ok l" and ds: "list_all line_ok ds" and pos: "0 < gd_Goods l" "0 < gd_Num l"
    by (simp_all add: line_ok_pos)
  obtain y s1 where 1: "run_state (move now (gd_Goods l) (gd_Num l)) s = (y, s1)" by fastforce
  note y = move_result [OF Cons.prems(1) pos Cons.prems(4) 1]
  show ?case
  proof (cases y)
    case (Inl e)
    with y 1 Cons.prems(5) l show ?thesis by (auto simp: run_bindE line_ok_uint64)
  next
    case (Inr v)
    with 1 have sh: "stock_shifted da dl dx (\<lambda>x. if x = gd_Goods l then gd_Num l else 0) (tables s) (tables s1)"
      using move_yields [OF _ pos Cons.prems(3)] yieldsI by fastforce
    have "row_ok r'" if r': "r' \<in> set (inventory (tables s1))" "live r'" for r'
      by (rule shifted_row_back [OF sh r'(1)])
        (use r'(2) Cons.prems(4) in \<open>auto simp: row_shift_def split: if_splits\<close>)
    moreover have "run_state (for_each (\<lambda>l. move now (uint64_of (gd_Goods l)) (gd_Num l)) ds) s1 = (x, s')"
      using Cons.prems(5) 1 l Inr by (simp add: run_bindE line_ok_uint64)
    ultimately show ?thesis
      using Cons.IH [of s1] y ds Cons.prems(3) shifted_one_row [OF sh] by blast
  qed
qed simp

lemma loop_runs:
  assumes "outcomes s = []" "list_all line_ok ds" "one_row_per_goods (tables s)"
    and "\<And>r. r \<in> set (inventory (tables s)) \<Longrightarrow> live r \<Longrightarrow> row_ok r \<and> qty (inv_Goods r) ds \<le> col r"
    and "\<And>l. l \<in> set ds \<Longrightarrow> has_row (tables s) (gd_Goods l)"
  shows "\<exists>s'. run_state (for_each (\<lambda>l. move now (uint64_of (gd_Goods l)) (gd_Num l)) ds) s = (Inr (), s') \<and> outcomes s' = []"
  using assms
proof (induction ds arbitrary: s)
  case Nil
  then show ?case by simp
next
  case (Cons l ds)
  from Cons.prems(2) have l: "line_ok l" and ds: "list_all line_ok ds" and pos: "0 < gd_Goods l" "0 < gd_Num l"
    by (simp_all add: line_ok_pos)
  from Cons.prems(5) [of l] obtain r where r: "r \<in> set (inventory (tables s))" "live r" "inv_Goods r = gd_Goods l"
    by (auto simp: has_row_def list_ex_iff)
  with Cons.prems(4) [OF r(1,2)] qty_nonneg [OF ds, of "gd_Goods l"] have "hit (gd_Goods l) (gd_Num l) r" by simp
  then obtain s1 where s1: "run_state (move now (gd_Goods l) (gd_Num l)) s = (Inr (), s1)" "outcomes s1 = []"
    using move_runs [OF Cons.prems(1) pos _ r(1)] Cons.prems(4) by blast
  have sh: "stock_shifted da dl dx (\<lambda>x. if x = gd_Goods l then gd_Num l else 0) (tables s) (tables s1)"
    using move_yields [OF yieldsI [OF s1(1)] pos Cons.prems(3)] by simp
  have "row_ok r' \<and> qty (inv_Goods r') ds \<le> col r'"
    if r': "r' \<in> set (inventory (tables s1))" "live r'" for r'
  proof -
    obtain r0 where r0: "r0 \<in> set (inventory (tables s))"
      "row_shift da dl dx (if live r0 then if inv_Goods r0 = gd_Goods l then gd_Num l else 0 else 0) r0 r'"
      by (rule shifted_row_back [OF sh r'(1)])
    moreover have "live r0" "inv_Goods r' = inv_Goods r0" using r0(2) r'(2) by (auto simp: row_shift_def)
    ultimately show ?thesis
      using Cons.prems(4) [OF r0(1)] col_shift [OF r0(2)] by (auto simp: row_shift_def split: if_splits)
  qed
  with Cons.IH [OF s1(2) ds] Cons.prems(3,5) shifted_one_row [OF sh] shifted_has_row [OF sh] s1(1) l
  show ?case by (simp add: run_bindE line_ok_uint64)
qed

end

interpretation reduce: stock_move Reduce inv_Available "- 1" 1 0 ErrInvNotEnough
  by unfold_locales (simp_all add: Reduce_def)

interpretation increase: stock_move Increase inv_Locked 1 "- 1" 0 ErrInventoryNotFound
  by unfold_locales (simp_all add: Increase_def)

interpretation confirm: stock_move ConfirmSell inv_Locked 0 "- 1" 1 ErrInventoryNotFound
  by unfold_locales (simp_all add: ConfirmSell_def)

section \<open>What the handlers do to the tables\<close>

definition detail_of :: "inventory_db \<Rightarrow> string \<Rightarrow> StockSellDetailDO option" where
  "detail_of t sn = first_row (\<lambda>d. sd_OrderSn d = sn) (stockselldetail t)"

lemma sell_detail_check_column [simp]: "sell_detail_check d \<noteq> Some DuplicatedKey"
  by (simp add: sell_detail_check_def)

lemma GetSellDetail_run:
  assumes "run_state (GetSellDetail sn) s = (a, s')" "trim_space sn \<noteq> []"
  shows "tables s' = tables s \<and>
    (case a of
       Inr d \<Rightarrow> detail_of (tables s) (trim_space sn) = Some d
     | Inl e \<Rightarrow> is_code e ErrInvSellDetailNotFound \<longrightarrow> detail_of (tables s) (trim_space sn) = None)"
  using assms
  by (auto simp: GetSellDetail_def Let_def run_map_err first_stmt_def statement_def detail_of_def
      split: if_splits prod.splits sum.splits outcome.splits option.splits)

lemma GetSellDetailForUpdate_eq [simp]: "GetSellDetailForUpdate = GetSellDetail"
  by (simp add: fun_eq_iff GetSellDetailForUpdate_def GetSellDetail_def)

text \<open>The successful runs of the three bodies, as relations on the tables.\<close>

lemma sell_body_yields:
  assumes "yields (sell_body now sn ds) t () t'" "list_all line_ok ds" "one_row_per_goods t" "trim_space sn \<noteq> []"
  obtains (seen) d where "t' = t" "detail_of t (trim_space sn) = Some d"
    | (reserved) u where
      "\<forall>d. detail_of t (trim_space sn) = Some d \<longrightarrow> sd_Status d \<notin> {1, 2, 3}"
      "stock_shifted (- 1) 1 0 (\<lambda>g. qty g ds) t u" "\<forall>l \<in> set ds. has_row t (gd_Goods l)"
      "sn \<notin> sd_OrderSn ` set (stockselldetail t)"
      "t' = u\<lparr>stockselldetail := stockselldetail t @ [\<lparr>sd_OrderSn = sn, sd_Status = 1, sd_Detail = ds\<rparr>]\<rparr>"
proof -
  let ?create = "bindE (for_each (\<lambda>g. Reduce now (uint64_of (gd_Goods g)) (gd_Num g)) ds) (\<lambda>_.
         CreateStockSellDetail \<lparr>sd_OrderSn = sn, sd_Status = 1, sd_Detail = ds\<rparr>)"
  from assms(1) obtain os os' a u where
    g: "run_state (GetSellDetail sn) \<lparr>tables = t, outcomes = os\<rparr> = (a, \<lparr>tables = u, outcomes = os'\<rparr>)" and
    k: "yields (case a of
       Inr d \<Rightarrow> if sd_Status d = 1 then ok ()
         else if sd_Status d = 2 \<or> sd_Status d = 3 then ok () else ?create
     | Inl e \<Rightarrow> if \<not> is_code e ErrInvSellDetailNotFound then fail e else ?create) u () t'"
    unfolding sell_body_def Let_def by (rule yields_bind)
  from GetSellDetail_run [OF g assms(4)] have u: "u = t"
    and a: "case a of Inr d \<Rightarrow> detail_of t (trim_space sn) = Some d
        | Inl e \<Rightarrow> is_code e ErrInvSellDetailNotFound \<longrightarrow> detail_of t (trim_space sn) = None"
    by (auto split: sum.splits)
  have created: thesis
    if c: "yields ?create t () t'" and n: "\<forall>d. detail_of t (trim_space sn) = Some d \<longrightarrow> sd_Status d \<notin> {1, 2, 3}"
  proof -
    from c obtain v where
      1: "yields (for_each (\<lambda>g. Reduce now (uint64_of (gd_Goods g)) (gd_Num g)) ds) t () v"
      and 2: "yields (CreateStockSellDetail \<lparr>sd_OrderSn = sn, sd_Status = 1, sd_Detail = ds\<rparr>) v () t'"
      by (auto elim: yields_bindE)
    have s: "stock_shifted (- 1) 1 0 (\<lambda>g. qty g ds) t v" "\<forall>l \<in> set ds. has_row t (gd_Goods l)"
      using reduce.loop_yields [OF 1 assms(2,3)] by simp_all
    from 2 have "sn \<notin> sd_OrderSn ` set (stockselldetail v)"
      "t' = v\<lparr>stockselldetail := stockselldetail v @ [\<lparr>sd_OrderSn = sn, sd_Status = 1, sd_Detail = ds\<rparr>]\<rparr>"
      by (auto simp: CreateStockSellDetail_def insert_sell_detail_def insert_row_def list_ex_iff image_iff
          dest!: yields_write elim!: yields_bind_err split: sum.splits option.splits if_splits)
    with s n reserved show thesis by (auto simp: stock_shifted_def)
  qed
  show thesis
  proof (cases a)
    case (Inl e)
    with k a u show thesis
      by (auto intro!: created split: if_splits)
  next
    case (Inr d)
    with k a u seen show thesis
      by (auto intro!: created split: if_splits)
  qed
qed

text \<open>Settling a reservation: move its lines, then mark the detail.\<close>

context stock_move
begin

lemma settle_yields:
  assumes "yields (bindE (for_each (\<lambda>g. move now (uint64_of (gd_Goods g)) (gd_Num g)) (sort_details ds))
             (\<lambda>_. UpdateStockSellDetailStatus sn st)) t () t'"
    and "list_all line_ok ds" "one_row_per_goods t"
  obtains u where "stock_shifted da dl dx (\<lambda>g. qty g ds) t u"
    "t' = u\<lparr>stockselldetail := update_rows (\<lambda>d. sd_OrderSn d = trim_space sn) (\<lambda>d. d\<lparr>sd_Status := st\<rparr>) (stockselldetail t)\<rparr>"
proof -
  from assms(1) obtain u where
    1: "yields (for_each (\<lambda>g. move now (uint64_of (gd_Goods g)) (gd_Num g)) (sort_details ds)) t () u"
    and 2: "yields (UpdateStockSellDetailStatus sn st) u () t'"
    by (auto elim: yields_bindE)
  from assms(2) have "list_all line_ok (sort_details ds)" by (simp add: list_all_iff)
  from loop_yields [OF 1 this assms(3)] have s: "stock_shifted da dl dx (\<lambda>g. qty g ds) t u" by simp
  from 2 have "t' = u\<lparr>stockselldetail := update_rows (\<lambda>d. sd_OrderSn d = trim_space sn) (\<lambda>d. d\<lparr>sd_Status := st\<rparr>) (stockselldetail u)\<rparr>"
    by (auto simp: UpdateStockSellDetailStatus_def Let_def update_where_def
        dest!: yields_write elim!: yields_bind_err split: if_splits)
  with s that show thesis by (simp add: stock_shifted_def)
qed

end

lemma reback_body_yields:
  assumes "yields (reback_body now sn ds) t () t'" "one_row_per_goods t" "trim_space sn \<noteq> []"
    and lines: "list_all (\<lambda>d. list_all line_ok (sd_Detail d)) (stockselldetail t)"
  obtains (same) "t' = t" "case detail_of t (trim_space sn) of None \<Rightarrow> sn \<in> sd_OrderSn ` set (stockselldetail t) | Some d \<Rightarrow> sd_Status d \<in> {2, 3}"
    | (void) "detail_of t (trim_space sn) = None" "sn \<notin> sd_OrderSn ` set (stockselldetail t)"
      "t' = t\<lparr>stockselldetail := stockselldetail t @ [\<lparr>sd_OrderSn = sn, sd_Status = 2, sd_Detail = sort_details ds\<rparr>]\<rparr>"
    | (released) d u where "detail_of t (trim_space sn) = Some d" "sd_Status d \<notin> {2, 3}"
      "stock_shifted 1 (- 1) 0 (\<lambda>g. qty g (sd_Detail d)) t u"
      "t' = u\<lparr>stockselldetail := update_rows (\<lambda>d. sd_OrderSn d = trim_space sn) (\<lambda>d. d\<lparr>sd_Status := 2\<rparr>) (stockselldetail t)\<rparr>"
proof -
  from assms(1) [unfolded reback_body_def] obtain os os' a u where
    g: "run_state (GetSellDetailForUpdate sn) \<lparr>tables = t, outcomes = os\<rparr> = (a, \<lparr>tables = u, outcomes = os'\<rparr>)" and
    k: "yields (case a of
       Inl e \<Rightarrow> if is_code e ErrInvSellDetailNotFound
         then bindE (CreateStockSellDetailIfAbsent \<lparr>sd_OrderSn = sn, sd_Status = 2, sd_Detail = sort_details ds\<rparr>) (\<lambda>_. ok ())
         else fail e
     | Inr d \<Rightarrow>
         if sd_Status d = 2 then ok () else if sd_Status d = 3 then ok ()
         else if sd_Detail d = [] then fail (NewCode ErrDatabase)
         else bindE (for_each (\<lambda>g. Increase now (uint64_of (gd_Goods g)) (gd_Num g)) (sort_details (sd_Detail d)))
           (\<lambda>_. UpdateStockSellDetailStatus sn 2)) u () t'"
    by (rule yields_bind)
  from GetSellDetail_run [OF g [simplified] assms(3)] have u: "u = t"
    and a: "case a of Inr d \<Rightarrow> detail_of t (trim_space sn) = Some d
        | Inl e \<Rightarrow> is_code e ErrInvSellDetailNotFound \<longrightarrow> detail_of t (trim_space sn) = None"
    by (auto split: sum.splits)
  show thesis
  proof (cases a)
    case (Inl e)
    with k u have e: "is_code e ErrInvSellDetailNotFound" and
      c: "yields (bindE (CreateStockSellDetailIfAbsent \<lparr>sd_OrderSn = sn, sd_Status = 2, sd_Detail = sort_details ds\<rparr>) (\<lambda>_. ok ())) t () t'"
      by (auto split: if_splits)
    from c same void a Inl e show thesis
      by (auto simp: CreateStockSellDetailIfAbsent_def insert_sell_detail_if_absent_def insert_sell_detail_def
          insert_row_def list_ex_iff image_iff
          dest!: yields_write elim!: yields_bind_err yields_bindE split: sum.splits option.splits if_splits db_error.splits)
  next
    case (Inr d)
    with a have d: "detail_of t (trim_space sn) = Some d" by simp
    then have "list_all line_ok (sd_Detail d)"
      using lines unfolding detail_of_def by (auto simp: list_all_iff dest!: first_row_Some)
    with k Inr u d same released show thesis
      by (auto split: if_splits elim: increase.settle_yields [OF _ _ assms(2)])
  qed
qed

lemma confirm_body_yields:
  assumes "yields (confirm_body now sn) t () t'" "one_row_per_goods t" "trim_space sn \<noteq> []"
    and lines: "list_all (\<lambda>d. list_all line_ok (sd_Detail d)) (stockselldetail t)"
  obtains (same) d where "t' = t" "detail_of t (trim_space sn) = Some d" "sd_Status d \<in> {2, 3}"
    | (confirmed) d u where "detail_of t (trim_space sn) = Some d" "sd_Status d \<notin> {2, 3}"
      "stock_shifted 0 (- 1) 1 (\<lambda>g. qty g (sd_Detail d)) t u"
      "t' = u\<lparr>stockselldetail := update_rows (\<lambda>d. sd_OrderSn d = trim_space sn) (\<lambda>d. d\<lparr>sd_Status := 3\<rparr>) (stockselldetail t)\<rparr>"
proof -
  from assms(1) obtain d u where g: "yields (GetSellDetail sn) t d u" and
    k: "yields (if sd_Status d = 2 then ok () else if sd_Status d = 3 then ok ()
         else if sd_Detail d = [] then fail (NewCode ErrDatabase)
         else bindE (for_each (\<lambda>g. ConfirmSell now (uint64_of (gd_Goods g)) (gd_Num g)) (sort_details (sd_Detail d)))
           (\<lambda>_. UpdateStockSellDetailStatus sn 3)) u () t'"
    unfolding confirm_body_def GetSellDetailForUpdate_eq by (rule yields_bindE)
  from g assms(3) have d: "u = t" "detail_of t (trim_space sn) = Some d"
    unfolding yields_def by (auto dest!: GetSellDetail_run)
  then have "list_all line_ok (sd_Detail d)"
    using lines unfolding detail_of_def by (auto simp: list_all_iff dest!: first_row_Some)
  with k d same confirmed show thesis
    by (auto split: if_splits elim: confirm.settle_yields [OF _ _ assms(2)])
qed

section \<open>The ledger\<close>

definition held :: "int \<Rightarrow> StockSellDetailDO \<Rightarrow> int" where
  "held g d = (if sd_Status d = stockSellStatusReserved then qty g (sd_Detail d) else 0)"

text \<open>What the unsettled reservations hold of a goods.\<close>

definition reserved :: "inventory_db \<Rightarrow> int \<Rightarrow> int" where
  "reserved t g = sum_list (map (held g) (stockselldetail t))"

definition detail_ok :: "inventory_db \<Rightarrow> StockSellDetailDO \<Rightarrow> bool" where
  "detail_ok t d \<longleftrightarrow> sd_Status d \<in> {1, 2, 3} \<and> sd_Detail d \<noteq> [] \<and> list_all line_ok (sd_Detail d) \<and>
     (sd_Status d = 1 \<longrightarrow> list_all (\<lambda>l. has_row t (gd_Goods l)) (sd_Detail d))"

definition ledger :: "inventory_db \<Rightarrow> bool" where
  "ledger t \<longleftrightarrow>
     one_row_per_goods t \<and> distinct (map sd_OrderSn (stockselldetail t)) \<and>
     list_all (detail_ok t) (stockselldetail t) \<and>
     list_all (\<lambda>r. live r \<longrightarrow> row_ok r \<and> inv_Locked r = reserved t (inv_Goods r)) (inventory t)"

lemma ledgerD:
  assumes "ledger t"
  shows ledger_one_row: "one_row_per_goods t"
    and ledger_distinct: "distinct (map sd_OrderSn (stockselldetail t))"
    and ledger_detail: "\<And>d. d \<in> set (stockselldetail t) \<Longrightarrow> detail_ok t d"
    and ledger_row: "\<And>r. r \<in> set (inventory t) \<Longrightarrow> live r \<Longrightarrow> row_ok r \<and> inv_Locked r = reserved t (inv_Goods r)"
  using assms by (auto simp: ledger_def list_all_iff)

lemma held_nonneg: "detail_ok t d \<Longrightarrow> 0 \<le> held g d"
  by (simp add: held_def detail_ok_def qty_nonneg)

text \<open>A reservation of the ledger is covered: no reserved detail holds more than is locked.\<close>

lemma held_le_reserved:
  assumes "ledger t" "d \<in> set (stockselldetail t)"
  shows "held g d \<le> reserved t g"
proof -
  from split_list [OF assms(2)] obtain xs ys where s: "stockselldetail t = xs @ d # ys" by blast
  have "0 \<le> sum_list (map (held g) zs)" if "set zs \<subseteq> set (stockselldetail t)" for zs
    by (rule sum_list_nonneg) (use that in \<open>auto intro!: held_nonneg ledger_detail [OF assms(1)]\<close>)
  from this [of xs] this [of ys] s show ?thesis
    unfolding reserved_def by force
qed

lemma reserved_settle:
  assumes "distinct (map sd_OrderSn ds)" "first_row (\<lambda>d. sd_OrderSn d = sn) ds = Some d" "st \<noteq> 1"
  shows "sum_list (map (held g) (update_rows (\<lambda>d. sd_OrderSn d = sn) (\<lambda>d. d\<lparr>sd_Status := st\<rparr>) ds))
    = sum_list (map (held g) ds) - held g d"
  using assms
proof (induction ds)
  case (Cons e ds)
  show ?case
  proof (cases "sd_OrderSn e = sn")
    case True
    with Cons.prems have "update_rows (\<lambda>d. sd_OrderSn d = sn) (\<lambda>d. d\<lparr>sd_Status := st\<rparr>) ds = ds"
      by (intro update_rows_none) (auto simp: image_iff)
    with True Cons.prems show ?thesis
      by (auto simp: tbl_simps held_def [of _ "sd_Status_update f x" for f x])
  next
    case False
    with Cons show ?thesis by (simp add: tbl_simps)
  qed
qed (simp add: tbl_simps)

text \<open>Moving the stock as the ledger says keeps the ledger.\<close>

lemma ledger_move:
  assumes L: "ledger t" and sh: "stock_shifted da dl dx Q t u"
    and dist: "distinct (map sd_OrderSn ds)"
    and ds: "\<And>d. d \<in> set ds \<Longrightarrow> detail_ok t d"
    and held: "\<And>g. sum_list (map (held g) ds) = reserved t g + dl * Q g"
  shows "ledger (u\<lparr>stockselldetail := ds\<rparr>)"
proof -
  let ?t' = "u\<lparr>stockselldetail := ds\<rparr>"
  have rows: "has_row ?t' g = has_row t g" for g
    using shifted_has_row [OF sh] by (simp add: has_row_def)
  have "row_ok r' \<and> inv_Locked r' = reserved ?t' (inv_Goods r')" if r': "r' \<in> set (inventory u)" "live r'" for r'
  proof -
    obtain r where r: "r \<in> set (inventory t)" "row_shift da dl dx (if live r then Q (inv_Goods r) else 0) r r'"
      by (rule shifted_row_back [OF sh r'(1)])
    with r'(2) ledger_row [OF L r(1)] show ?thesis
      by (auto simp: row_shift_def reserved_def held [unfolded reserved_def])
  qed
  with shifted_one_row [OF sh] ledger_one_row [OF L] dist ds rows show ?thesis
    by (auto simp: ledger_def list_all_iff one_row_per_goods_def detail_ok_def)
qed

lemma ledger_sell:
  assumes "ledger t" "yields (sell_body now sn ds) t () t'" "list_all line_ok ds" "ds \<noteq> []" "trim_space sn \<noteq> []"
  shows "ledger t'"
  using assms(2,3) ledger_one_row [OF assms(1)] assms(5)
proof (cases rule: sell_body_yields)
  case (reserved u)
  let ?d = "\<lparr>sd_OrderSn = sn, sd_Status = 1, sd_Detail = ds\<rparr>"
  have "detail_ok t ?d"
    using assms(3,4) reserved(3) by (auto simp: detail_ok_def list_all_iff)
  then show ?thesis
    unfolding reserved(5) using reserved(4) ledger_distinct [OF assms(1)] ledger_detail [OF assms(1)]
    by (intro ledger_move [OF assms(1) reserved(2)])
      (auto simp: held_def Inventory_Ledger.reserved_def)
qed (use assms in simp)

lemma ledger_settle:
  assumes L: "ledger t" and d: "detail_of t sn = Some d" "sd_Status d \<notin> {2, 3}"
    and sh: "stock_shifted da (- 1) dx (\<lambda>g. qty g (sd_Detail d)) t u" and st: "st \<in> {2, 3}"
  shows "ledger (u\<lparr>stockselldetail := update_rows (\<lambda>d. sd_OrderSn d = sn) (\<lambda>d. d\<lparr>sd_Status := st\<rparr>) (stockselldetail t)\<rparr>)"
proof (rule ledger_move [OF L sh])
  let ?ds = "update_rows (\<lambda>d. sd_OrderSn d = sn) (\<lambda>d. d\<lparr>sd_Status := st\<rparr>) (stockselldetail t)"
  have "map sd_OrderSn ?ds = map sd_OrderSn (stockselldetail t)"
    by (simp add: update_rows_def)
  then show "distinct (map sd_OrderSn ?ds)"
    using ledger_distinct [OF L] by simp
  show "detail_ok t e" if "e \<in> set ?ds" for e
    using that ledger_detail [OF L] st by (auto simp: set_update_rows detail_ok_def)
  from d(1) have "d \<in> set (stockselldetail t)"
    by (auto simp: detail_of_def dest: first_row_Some)
  with ledger_detail [OF L] d(2) have "held g d = qty g (sd_Detail d)" for g
    by (fastforce simp: held_def detail_ok_def)
  moreover have "st \<noteq> 1" using st by auto
  ultimately show "sum_list (map (held g) ?ds) = reserved t g + - 1 * qty g (sd_Detail d)" for g
    using reserved_settle [OF ledger_distinct [OF L] d(1) [unfolded detail_of_def]] by (simp add: reserved_def)
qed

lemma ledger_lines: "ledger t \<Longrightarrow> list_all (\<lambda>d. list_all line_ok (sd_Detail d)) (stockselldetail t)"
  using ledger_detail by (simp add: detail_ok_def list_all_iff)

lemma ledger_reback:
  assumes "ledger t" "yields (reback_body now sn ds) t () t'" "list_all line_ok ds" "ds \<noteq> []" "trim_space sn \<noteq> []"
  shows "ledger t'"
  using assms(2) ledger_one_row [OF assms(1)] assms(5) ledger_lines [OF assms(1)]
proof (cases rule: reback_body_yields)
  case void
  let ?d = "\<lparr>sd_OrderSn = sn, sd_Status = 2, sd_Detail = sort_details ds\<rparr>"
  have "detail_ok t ?d"
    using assms(3,4) by (auto simp: detail_ok_def list_all_iff)
  then show ?thesis
    unfolding void(3) using void(2) ledger_distinct [OF assms(1)] ledger_detail [OF assms(1)]
    by (intro ledger_move [OF assms(1) stock_shifted_refl [of "\<lambda>_. 0" 0 0 0]])
      (auto simp: held_def Inventory_Ledger.reserved_def)
next
  case (released d u)
  then show ?thesis by (simp add: ledger_settle [OF assms(1)])
qed (use assms in simp)

lemma ledger_confirm:
  assumes "ledger t" "yields (confirm_body now sn) t () t'" "trim_space sn \<noteq> []"
  shows "ledger t'"
  using assms(2) ledger_one_row [OF assms(1)] assms(3) ledger_lines [OF assms(1)]
proof (cases rule: confirm_body_yields)
  case (confirmed d u)
  then show ?thesis by (simp add: ledger_settle [OF assms(1)])
qed (use assms in simp)

end
