(* ===== verification/Inventory_Correct.thy ===== *)
theory Inventory_Correct
  imports Inventory_Ledger
begin

text \<open>
  The properties of the inventory service: the operations of the orders as a step relation,
  the ledger and the conservation of stock along every run of it with any failing
  statements and lost replies, the total correctness of the operations when the database
  answers, their behaviour under retries, and the round trip of a reservation.
\<close>

section \<open>Requests\<close>

text \<open>The fields of a line are \<open>int32\<close>.\<close>

definition line_typed :: "GoodsDetail \<Rightarrow> bool" where
  "line_typed l \<longleftrightarrow> in_int32 (gd_Goods l) \<and> in_int32 (gd_Num l)"

lemma validate_ok:
  assumes "validateStockOperation sn ds = Inr ()" "list_all line_typed ds"
  shows "trim_space sn \<noteq> []" "ds \<noteq> []" "list_all line_ok ds"
  using assms
  by (auto simp: validateStockOperation_def list_all_iff list_ex_iff line_typed_def line_ok_def not_le
      split: if_splits)

lemma validate_sn: "validateStockOperation sn ds = Inr () \<Longrightarrow> trim_space sn \<noteq> []"
  by (auto simp: validateStockOperation_def split: if_splits)

lemma validate_okI:
  "trim_space sn \<noteq> [] \<Longrightarrow> ds \<noteq> [] \<Longrightarrow> list_all line_ok ds \<Longrightarrow> validateStockOperation sn ds = Inr ()"
  by (auto simp: validateStockOperation_def list_all_iff list_ex_iff line_ok_def)

text \<open>The frame the three operations share: validation, the lock, the transaction.\<close>

definition guarded :: "order_lock \<Rightarrow> string \<Rightarrow> GoodsDetail list \<Rightarrow> unit inv_op \<Rightarrow> unit inv_op" where
  "guarded lock sn ds body =
     (case validateStockOperation sn ds of Inl e \<Rightarrow> fail e
      | Inr _ \<Rightarrow> bindE (lockOrder lock sn) (\<lambda>_. withTxnExecutor body))"

lemma operations_guarded:
  "Sell lock now sn ds = guarded lock sn ds (sell_body now sn (sort_details ds))"
  "Reback lock now sn ds = guarded lock sn ds (reback_body now sn ds)"
  "Confirm lock now sn ds = guarded lock sn ds (confirm_body now sn)"
  by (simp_all add: Sell_def Reback_def Confirm_def guarded_def)

lemma guarded_cases:
  assumes "run_state (guarded lock sn ds body) s = (r, s')"
  obtains (unchanged) "tables s' = tables s"
    | (effect) "validateStockOperation sn ds = Inr ()" "yields body (tables s) () (tables s')"
  using assms
  by (auto simp: guarded_def run_bindE lockOrder_def withTxnExecutor_def
      dest!: transaction_cases split: sum.splits option.splits prod.splits)

lemma guarded_yields:
  assumes "run_state (guarded lock sn ds body) s = (Inr (), s')"
  shows "validateStockOperation sn ds = Inr () \<and> yields body (tables s) () (tables s')"
  using assms yields_transaction [OF yieldsI]
  by (auto simp: guarded_def run_bindE lockOrder_def withTxnExecutor_def
      split: sum.splits option.splits prod.splits)

text \<open>With the lock acquired and every statement executed, an operation is its body.\<close>

lemma guarded_runs:
  assumes "validateStockOperation sn ds = Inr ()" "lock (orderLockPrefix @ sn) = None"
    and "calm body" "outcomes s = []"
  shows "run_state (guarded lock sn ds body) s =
    (case run_state body s of (Inl e, s') \<Rightarrow> (Inl e, s) | (Inr a, s') \<Rightarrow> (Inr a, s'))"
  using assms run_transaction_ok [OF assms(4) calmD [OF assms(3) _ assms(4)]]
  by (simp add: guarded_def run_bindE lockOrder_def withTxnExecutor_def)

lemma calm_store [calm_intros]:
  "calm (GetSellDetail sn)" "calm (UpdateStockSellDetailStatus sn st)" "calm (CreateStockSellDetail d)"
  "calm (CreateStockSellDetailIfAbsent d)" "calm (Reduce now g n)" "calm (Increase now g n)" "calm (ConfirmSell now g n)"
  by (auto simp: GetSellDetail_def UpdateStockSellDetailStatus_def CreateStockSellDetail_def Let_def
      CreateStockSellDetailIfAbsent_def Reduce_def Increase_def ConfirmSell_def update_stock_def
      split: sum.split intro!: calm_intros)

lemma calm_bodies:
  "calm (sell_body now sn ds)" "calm (reback_body now sn ds)" "calm (confirm_body now sn)"
  by (auto simp: sell_body_def reback_body_def confirm_body_def Let_def split: sum.split
      intro!: calm_intros)

section \<open>The orders' operations as steps\<close>

inductive stock_step :: "inventory_db \<Rightarrow> inventory_db \<Rightarrow> bool" where
  sell: "list_all line_typed ds \<Longrightarrow>
    run_state (Sell lock now sn ds) \<lparr>tables = t, outcomes = os\<rparr> = (r, s') \<Longrightarrow> stock_step t (tables s')"
| reback: "list_all line_typed ds \<Longrightarrow>
    run_state (Reback lock now sn ds) \<lparr>tables = t, outcomes = os\<rparr> = (r, s') \<Longrightarrow> stock_step t (tables s')"
| confirm: "list_all line_typed ds \<Longrightarrow>
    run_state (Confirm lock now sn ds) \<lparr>tables = t, outcomes = os\<rparr> = (r, s') \<Longrightarrow> stock_step t (tables s')"

lemma stock_step_cases:
  assumes "stock_step t t'"
  obtains (unchanged) "t' = t"
    | (sold) now sn ds where "trim_space sn \<noteq> []" "ds \<noteq> []" "list_all line_ok ds"
      "yields (sell_body now sn (sort_details ds)) t () t'"
    | (returned) now sn ds where "trim_space sn \<noteq> []" "ds \<noteq> []" "list_all line_ok ds"
      "yields (reback_body now sn ds) t () t'"
    | (confirmed) now sn where "trim_space sn \<noteq> []" "yields (confirm_body now sn) t () t'"
  using assms
proof (cases rule: stock_step.cases)
  case (sell ds lock now sn os r s')
  from sell(3) [unfolded operations_guarded] show thesis
    by (rule guarded_cases) (use unchanged sold [of sn ds now] validate_ok sell in auto)
next
  case (reback ds lock now sn os r s')
  from reback(3) [unfolded operations_guarded] show thesis
    by (rule guarded_cases) (use unchanged returned [of sn ds now] validate_ok reback in auto)
next
  case (confirm ds lock now sn os r s')
  from confirm(3) [unfolded operations_guarded] show thesis
    by (rule guarded_cases) (use unchanged confirmed [of sn now] validate_ok confirm in auto)
qed

lemma sorted_lines: "list_all line_ok ds \<Longrightarrow> list_all line_ok (sort_details ds)"
  by (simp add: list_all_iff)

lemma ledger_step: "stock_step t t' \<Longrightarrow> ledger t \<Longrightarrow> ledger t'"
  by (erule stock_step_cases)
    (auto intro: ledger_sell ledger_reback ledger_confirm sorted_lines)

lemma ledger_steps: "stock_step\<^sup>*\<^sup>* t t' \<Longrightarrow> ledger t \<Longrightarrow> ledger t'"
  by (induction rule: rtranclp_induct) (auto intro: ledger_step)

section \<open>Conservation\<close>

text \<open>
  The relation between a row and what the orders' operations may have made of it: units
  have moved between the counters, and none of them has become negative.
\<close>

definition row_conserved :: "InventoryDO \<Rightarrow> InventoryDO \<Rightarrow> bool" where
  "row_conserved r r' \<longleftrightarrow>
     ID r' = ID r \<and> DeletedAt r' = DeletedAt r \<and> inv_Goods r' = inv_Goods r \<and> inv_Total r' = inv_Total r \<and>
     inv_Available r' + inv_Locked r' + inv_Sold r' = inv_Available r + inv_Locked r + inv_Sold r \<and>
     inv_Stocks r' - inv_Available r' = inv_Stocks r - inv_Available r \<and>
     inv_Sold r \<le> inv_Sold r' \<and> min 0 (inv_Available r) \<le> inv_Available r' \<and> min 0 (inv_Locked r) \<le> inv_Locked r'"

definition stock_conserved :: "inventory_db \<Rightarrow> inventory_db \<Rightarrow> bool" where
  "stock_conserved t t' \<longleftrightarrow> list_all2 row_conserved (inventory t) (inventory t')"

lemma row_conserved_refl: "row_conserved r r"
  by (simp add: row_conserved_def)

lemma row_conserved_trans: "row_conserved a b \<Longrightarrow> row_conserved b c \<Longrightarrow> row_conserved a c"
  by (auto simp: row_conserved_def)

interpretation conserve: table_preorder stock_conserved
proof
  show "stock_conserved t t" for t
    by (simp add: stock_conserved_def list_all2_same row_conserved_refl)
  show "stock_conserved t v" if "stock_conserved t u" "stock_conserved u v" for t u v
    using that row_conserved_trans unfolding stock_conserved_def list_all2_conv_all_nth by metis
qed

lemma stock_conserved_same: "inventory t' = inventory t \<Longrightarrow> stock_conserved t t'"
  using conserve.R_refl by (simp add: stock_conserved_def)

lemma conserve_update_stock:
  assumes "\<And>r. p r \<Longrightarrow> row_conserved r (f r)"
  shows "conserve.evolves (update_stock p f)"
  unfolding update_stock_def using assms
  by (intro conserve.evolves_write)
    (auto simp: stock_conserved_def update_where_def update_rows_def list_all2_map2 list_all2_same row_conserved_refl)

lemma conserve_store:
  "conserve.evolves (Reduce now g n)" "conserve.evolves (Increase now g n)" "conserve.evolves (ConfirmSell now g n)"
  "conserve.evolves (GetSellDetail sn)" "conserve.evolves (UpdateStockSellDetailStatus sn st)"
  "conserve.evolves (CreateStockSellDetail d)" "conserve.evolves (CreateStockSellDetailIfAbsent d)"
  by (auto simp: Reduce_def Increase_def ConfirmSell_def GetSellDetail_def UpdateStockSellDetailStatus_def
      CreateStockSellDetail_def CreateStockSellDetailIfAbsent_def Let_def row_conserved_def move_stock_def
      split: sum.split
      intro!: conserve.evolves_rules conserve_update_stock conserve.evolves_write stock_conserved_same)

lemma conserve_operations:
  "conserve.evolves (Sell lock now sn ds)" "conserve.evolves (Reback lock now sn ds)"
  "conserve.evolves (Confirm lock now sn ds)"
  by (auto simp: Sell_def Reback_def Confirm_def lockOrder_def withTxnExecutor_def sell_body_def reback_body_def
      confirm_body_def Let_def split: sum.split option.split
      intro!: conserve.evolves_rules conserve_store)

text \<open>
  C6. The stock of a goods is neither made nor lost: along any sequence of reservations,
  returns and confirmations, of any orders, with any statements failing and any replies
  lost, each row keeps its goods, its total and the sum of its available, locked and sold
  units; sold units never come back, and a counter that was not negative does not become so.
\<close>

theorem stock_is_conserved:
  assumes "stock_step\<^sup>*\<^sup>* t t'"
  shows "stock_conserved t t'"
  using assms
proof (induction rule: rtranclp_induct)
  case base
  show ?case by (rule conserve.R_refl)
next
  case (step u v)
  from step(2) have "stock_conserved u v"
    by cases (auto dest: conserve.evolvesD [OF conserve_operations(1)]
        conserve.evolvesD [OF conserve_operations(2)] conserve.evolvesD [OF conserve_operations(3)])
  with step.IH show ?case by (rule conserve.R_trans)
qed

section \<open>Settling a reservation\<close>

context stock_move
begin

lemma settle_runs:
  assumes s: "outcomes s = []" and L: "ledger (tables s)" and col: "col = inv_Locked"
    and d: "detail_of (tables s) (trim_space sn) = Some d" "sd_Status d = 1"
    and st: "st \<in> {2, 3}" and sn: "trim_space sn \<noteq> []"
  shows "\<exists>s'. run_state (bindE (for_each (\<lambda>g. move now (uint64_of (gd_Goods g)) (gd_Num g)) (sort_details (sd_Detail d)))
             (\<lambda>_. UpdateStockSellDetailStatus sn st)) s = (Inr (), s')"
proof -
  from d(1) have m: "d \<in> set (stockselldetail (tables s))" "sd_OrderSn d = trim_space sn"
    by (auto simp: detail_of_def dest: first_row_Some)
  have D: "detail_ok (tables s) d" by (rule ledger_detail [OF L m(1)])
  have lines: "list_all line_ok (sort_details (sd_Detail d))"
    using D by (simp add: detail_ok_def list_all_iff)
  have enough: "row_ok r \<and> qty (inv_Goods r) (sort_details (sd_Detail d)) \<le> col r"
    if r: "r \<in> set (inventory (tables s))" "live r" for r
    using ledger_row [OF L r] held_le_reserved [OF L m(1), of "inv_Goods r"] d(2)
    by (simp add: held_def col)
  have rows: "has_row (tables s) (gd_Goods l)" if "l \<in> set (sort_details (sd_Detail d))" for l
    using that D d(2) by (simp add: detail_ok_def list_all_iff)
  obtain s1 where s1: "run_state (for_each (\<lambda>g. move now (uint64_of (gd_Goods g)) (gd_Num g)) (sort_details (sd_Detail d))) s
      = (Inr (), s1)" "outcomes s1 = []"
    using loop_runs [OF s lines ledger_one_row [OF L] enough rows] by blast
  have "stockselldetail (tables s1) = stockselldetail (tables s)"
    using loop_yields [OF yieldsI [OF s1(1)] lines ledger_one_row [OF L]] by (simp add: stock_shifted_def)
  moreover have "d\<lparr>sd_Status := st\<rparr> \<noteq> d"
    using d(2) st by (metis StockSellDetailDO.select_convs(2) StockSellDetailDO.surjective
        StockSellDetailDO.update_convs(2) insertE numeral_eq_one_iff semiring_norm(83,84) singletonD)
  ultimately have "count_rows (\<lambda>e. sd_OrderSn e = trim_space sn \<and> e\<lparr>sd_Status := st\<rparr> \<noteq> e) (stockselldetail (tables s1)) \<noteq> 0"
    unfolding count_rows_0 using m by auto
  moreover have "0 < st" "in_int32 st" using st by (auto simp: in_int_def)
  ultimately show ?thesis
    using sn s1 by (auto simp: run_bindE UpdateStockSellDetailStatus_def Let_def run_simps update_where_def list_all_iff)
qed

end

lemma detail_of_update:
  "detail_of t sn = Some d \<Longrightarrow>
   detail_of (u\<lparr>stockselldetail := update_rows (\<lambda>d. sd_OrderSn d = sn) (\<lambda>d. d\<lparr>sd_Status := st\<rparr>) (stockselldetail t)\<rparr>) sn
     = Some (d\<lparr>sd_Status := st\<rparr>)"
  using first_row_Some [of "\<lambda>d. sd_OrderSn d = sn" "stockselldetail t" d]
  by (simp add: detail_of_def first_row_update_other)

lemma run_GetSellDetail:
  "outcomes s = [] \<Longrightarrow> trim_space sn \<noteq> [] \<Longrightarrow> run_state (GetSellDetail sn) s =
     (case detail_of (tables s) (trim_space sn) of None \<Rightarrow> Inl (NewCode ErrInvSellDetailNotFound) | Some d \<Rightarrow> Inr d, s)"
  by (simp add: GetSellDetail_def Let_def run_simps detail_of_def split: option.split)

lemma shifted_details: "stock_shifted da dl dx Q t (u\<lparr>stockselldetail := stockselldetail t\<rparr>) \<longleftrightarrow>
    list_all2 (\<lambda>r r'. row_shift da dl dx (if live r then Q (inv_Goods r) else 0) r r') (inventory t) (inventory u) \<and>
    inventory_adjustment_logs u = inventory_adjustment_logs t"
  by (simp add: stock_shifted_def)

lemma reback_settles:
  assumes "ledger (tables s)" "outcomes s = []" "lock (orderLockPrefix @ sn) = None"
    and "validateStockOperation sn ds = Inr ()" "list_all line_typed ds"
    and "detail_of (tables s) (trim_space sn) = Some d" "sd_Status d = stockSellStatusReserved"
  shows "\<exists>s'. run_state (Reback lock now sn ds) s = (Inr (), s') \<and>
    detail_of (tables s') (trim_space sn) = Some (d\<lparr>sd_Status := stockSellStatusReleased\<rparr>) \<and>
    stock_shifted 1 (- 1) 0 (\<lambda>g. qty g (sd_Detail d)) (tables s)
      ((tables s')\<lparr>stockselldetail := stockselldetail (tables s)\<rparr>)"
proof -
  have sn: "trim_space sn \<noteq> []" using validate_ok [OF assms(4,5)] by simp
  have "d \<in> set (stockselldetail (tables s))"
    using assms(6) by (auto simp: detail_of_def dest: first_row_Some)
  then have "sd_Detail d \<noteq> []" using ledger_detail [OF assms(1)] by (simp add: detail_ok_def)
  then obtain s' where b: "run_state (reback_body now sn ds) s = (Inr (), s')"
    using increase.settle_runs [OF assms(2,1) refl assms(6,7), of 2] sn assms(2,6,7)
    by (auto simp: reback_body_def run_GetSellDetail)
  from yieldsI [OF b] ledger_one_row [OF assms(1)] sn ledger_lines [OF assms(1)]
  have "detail_of (tables s') (trim_space sn) = Some (d\<lparr>sd_Status := 2\<rparr>) \<and>
    stock_shifted 1 (- 1) 0 (\<lambda>g. qty g (sd_Detail d)) (tables s) ((tables s')\<lparr>stockselldetail := stockselldetail (tables s)\<rparr>)"
  proof (cases rule: reback_body_yields)
    case (released e u)
    then show ?thesis using assms(6) by (simp add: detail_of_update stock_shifted_def)
  qed (use assms in auto)
  then show ?thesis
    using guarded_runs [where lock = lock, OF assms(4,3) calm_bodies(2) assms(2)] b by (simp add: operations_guarded)
qed

text \<open>
  C19. A reservation can always be returned: in a consistent ledger, \<open>Reback\<close> of an order
  with a reserved detail succeeds whenever the database answers, gives back exactly the
  units of the detail's lines (from locked to available) and marks the detail released.
\<close>

theorem reback_releases:
  assumes "ledger (tables s)" "outcomes s = []" "lock (orderLockPrefix @ sn) = None"
    and "validateStockOperation sn ds = Inr ()" "list_all line_typed ds"
    and "detail_of (tables s) (trim_space sn) = Some d" "sd_Status d = stockSellStatusReserved"
  shows "\<exists>s'. run_state (Reback lock now sn ds) s = (Inr (), s') \<and>
    detail_of (tables s') (trim_space sn) = Some (d\<lparr>sd_Status := stockSellStatusReleased\<rparr>) \<and>
    stock_shifted 1 (- 1) 0 (\<lambda>g. qty g (sd_Detail d)) (tables s)
      ((tables s')\<lparr>stockselldetail := stockselldetail (tables s)\<rparr>)"
  using assms by (rule reback_settles)

lemma confirm_settles:
  assumes "ledger (tables s)" "outcomes s = []" "lock (orderLockPrefix @ sn) = None"
    and "validateStockOperation sn ds = Inr ()" "list_all line_typed ds"
    and "detail_of (tables s) (trim_space sn) = Some d" "sd_Status d = stockSellStatusReserved"
  shows "\<exists>s'. run_state (Confirm lock now sn ds) s = (Inr (), s') \<and>
    detail_of (tables s') (trim_space sn) = Some (d\<lparr>sd_Status := stockSellStatusConfirmed\<rparr>) \<and>
    stock_shifted 0 (- 1) 1 (\<lambda>g. qty g (sd_Detail d)) (tables s)
      ((tables s')\<lparr>stockselldetail := stockselldetail (tables s)\<rparr>)"
proof -
  have sn: "trim_space sn \<noteq> []" using validate_ok [OF assms(4,5)] by simp
  have "d \<in> set (stockselldetail (tables s))"
    using assms(6) by (auto simp: detail_of_def dest: first_row_Some)
  then have "sd_Detail d \<noteq> []" using ledger_detail [OF assms(1)] by (simp add: detail_ok_def)
  then obtain s' where b: "run_state (confirm_body now sn) s = (Inr (), s')"
    using confirm.settle_runs [OF assms(2,1) refl assms(6,7), of 3] sn assms(2,6,7)
    by (auto simp: confirm_body_def run_GetSellDetail run_bindE)
  from yieldsI [OF b] ledger_one_row [OF assms(1)] sn ledger_lines [OF assms(1)]
  have "detail_of (tables s') (trim_space sn) = Some (d\<lparr>sd_Status := 3\<rparr>) \<and>
    stock_shifted 0 (- 1) 1 (\<lambda>g. qty g (sd_Detail d)) (tables s) ((tables s')\<lparr>stockselldetail := stockselldetail (tables s)\<rparr>)"
  proof (cases rule: confirm_body_yields)
    case (confirmed e u)
    then show ?thesis using assms(6) by (simp add: detail_of_update stock_shifted_def)
  qed (use assms in auto)
  then show ?thesis
    using guarded_runs [where lock = lock, OF assms(4,3) calm_bodies(3) assms(2)] b by (simp add: operations_guarded)
qed

text \<open>
  C20. A reservation can always be confirmed: \<open>Confirm\<close> of an order with a reserved detail
  succeeds whenever the database answers, turns exactly the locked units of its lines into
  sold ones and marks the detail confirmed.
\<close>

theorem confirm_sells:
  assumes "ledger (tables s)" "outcomes s = []" "lock (orderLockPrefix @ sn) = None"
    and "validateStockOperation sn ds = Inr ()" "list_all line_typed ds"
    and "detail_of (tables s) (trim_space sn) = Some d" "sd_Status d = stockSellStatusReserved"
  shows "\<exists>s'. run_state (Confirm lock now sn ds) s = (Inr (), s') \<and>
    detail_of (tables s') (trim_space sn) = Some (d\<lparr>sd_Status := stockSellStatusConfirmed\<rparr>) \<and>
    stock_shifted 0 (- 1) 1 (\<lambda>g. qty g (sd_Detail d)) (tables s)
      ((tables s')\<lparr>stockselldetail := stockselldetail (tables s)\<rparr>)"
  using assms by (rule confirm_settles)

section \<open>Making a reservation\<close>

text \<open>What the lines of an order need: a row for each, with enough available.\<close>

definition enough_stock :: "inventory_db \<Rightarrow> GoodsDetail list \<Rightarrow> bool" where
  "enough_stock t ds \<longleftrightarrow> list_all (\<lambda>l. has_row t (gd_Goods l)) ds \<and>
     list_all (\<lambda>r. live r \<longrightarrow> qty (inv_Goods r) ds \<le> inv_Available r) (inventory t)"

text \<open>A detail that its columns can store.\<close>

definition storable :: "string \<Rightarrow> GoodsDetail list \<Rightarrow> bool" where
  "storable sn ds \<longleftrightarrow> length sn \<le> 200 \<and> length (Value (sort_details ds)) \<le> 200"

lemma run_create_detail:
  assumes "outcomes s = []" "storable sn ds" "trim_space sn \<noteq> []" "list_all line_ok ds"
    and "sn \<notin> sd_OrderSn ` set (stockselldetail (tables s))"
  shows "\<exists>s'. run_state (CreateStockSellDetail \<lparr>sd_OrderSn = sn, sd_Status = 1, sd_Detail = sort_details ds\<rparr>) s = (Inr (), s')"
proof -
  have "\<not> list_ex (\<lambda>i. gd_Goods i \<le> 0 \<or> gd_Num i \<le> 0) (sort_details ds)"
    using assms(4) line_ok_pos by (fastforce simp: list_ex_iff list_all_iff)
  with assms show ?thesis
    by (auto simp: CreateStockSellDetail_def validateStockSellDetail_def run_simps insert_sell_detail_def insert_row_def
        sell_detail_check_def storable_def in_int_def list_ex_iff image_iff)
qed

lemma sell_enough:
  assumes "ledger t" "list_all line_ok ds" "list_all (\<lambda>l. has_row t (gd_Goods l)) ds"
    and "stock_shifted (- 1) 1 0 (\<lambda>g. qty g ds) t u"
  shows "enough_stock t ds"
proof -
  have "qty (inv_Goods r) ds \<le> inv_Available r" if "r \<in> set (inventory t)" "live r" for r
  proof -
    from assms(4) that(1) obtain r' where "row_shift (- 1) 1 0 (if live r then qty (inv_Goods r) ds else 0) r r'"
      unfolding stock_shifted_def list_all2_conv_all_nth in_set_conv_nth by blast
    with that(2) ledger_row [OF assms(1) that] show ?thesis
      by (auto simp: row_shift_def row_ok_def)
  qed
  with assms(3) show ?thesis by (simp add: enough_stock_def list_all_iff)
qed


end
