(* ===== verification/Inventory_Retry.thy ===== *)
theory Inventory_Retry
  imports Inventory_Correct
begin

text \<open>
  The inventory service under retries and late messages: the life of a sell detail, that an
  order's reservation happens at most once, that a return which overtakes the reservation
  keeps it from happening, and that a reservation and its return cancel out. The last
  sections record how the service behaves at its edges, on concrete runs.
\<close>

section \<open>The life of a sell detail\<close>

definition settles :: "int \<Rightarrow> int \<Rightarrow> bool" where
  "settles a b \<longleftrightarrow> a = b \<or>
     a = stockSellStatusReserved \<and> (b = stockSellStatusReleased \<or> b = stockSellStatusConfirmed)"

definition details_progress :: "inventory_db \<Rightarrow> inventory_db \<Rightarrow> bool" where
  "details_progress t t' \<longleftrightarrow>
     list_all (\<lambda>d. list_ex (\<lambda>d'. sd_OrderSn d' = sd_OrderSn d \<and> sd_Detail d' = sd_Detail d \<and>
       settles (sd_Status d) (sd_Status d')) (stockselldetail t')) (stockselldetail t)"

lemma details_progressI:
  assumes "\<And>d. d \<in> set (stockselldetail t) \<Longrightarrow> \<exists>d' \<in> set (stockselldetail t').
     sd_OrderSn d' = sd_OrderSn d \<and> sd_Detail d' = sd_Detail d \<and> settles (sd_Status d) (sd_Status d')"
  shows "details_progress t t'"
  using assms by (simp add: details_progress_def list_all_iff list_ex_iff)

lemma details_progress_refl: "details_progress t t"
  by (rule details_progressI) (auto simp: settles_def)

lemma details_progress_trans: "details_progress t u \<Longrightarrow> details_progress u v \<Longrightarrow> details_progress t v"
  unfolding details_progress_def list_all_iff list_ex_iff by (fastforce simp: settles_def)

lemma settle_progress:
  assumes "ledger t" "detail_of t sn = Some d" "sd_Status d \<notin> {2, 3}" "st \<in> {2, 3}"
    and "stockselldetail t' = update_rows (\<lambda>d. sd_OrderSn d = sn) (\<lambda>d. d\<lparr>sd_Status := st\<rparr>) (stockselldetail t)"
  shows "details_progress t t'"
proof (rule details_progressI)
  fix e assume e: "e \<in> set (stockselldetail t)"
  let ?e = "if sd_OrderSn e = sn then e\<lparr>sd_Status := st\<rparr> else e"
  have d: "d \<in> set (stockselldetail t)" "sd_OrderSn d = sn"
    using assms(2) by (auto simp: detail_of_def dest: first_row_Some)
  have "e = d" if "sd_OrderSn e = sn"
    using ledger_distinct [OF assms(1)] d e that by (auto simp: distinct_map inj_on_def)
  moreover have "sd_Status d = 1"
    using ledger_detail [OF assms(1) d(1)] assms(3) by (auto simp: detail_ok_def)
  ultimately have "settles (sd_Status e) (sd_Status ?e)"
    using assms(4) by (auto simp: settles_def)
  moreover have "?e \<in> set (stockselldetail t')"
    using e by (auto simp: assms(5) set_update_rows)
  ultimately show "\<exists>d' \<in> set (stockselldetail t').
     sd_OrderSn d' = sd_OrderSn e \<and> sd_Detail d' = sd_Detail e \<and> settles (sd_Status e) (sd_Status d')"
    by (intro bexI [of _ ?e]) auto
qed

lemma append_progress: "stockselldetail t' = stockselldetail t @ ds \<Longrightarrow> details_progress t t'"
  by (rule details_progressI) (auto simp: settles_def)

lemma progress_step:
  assumes "ledger t" "stock_step t t'"
  shows "details_progress t t'"
  using assms(2)
proof (cases rule: stock_step_cases)
  case unchanged
  then show ?thesis by (simp add: details_progress_refl)
next
  case (sold now sn ds)
  from sold(4) sorted_lines [OF sold(3)] ledger_one_row [OF assms(1)] sold(1) show ?thesis
    by (cases rule: sell_body_yields) (auto intro: append_progress details_progress_refl)
next
  case (returned now sn ds)
  from returned(4) ledger_one_row [OF assms(1)] returned(1) ledger_lines [OF assms(1)] show ?thesis
    by (cases rule: reback_body_yields)
      (auto intro: append_progress details_progress_refl settle_progress [OF assms(1)])
next
  case (confirmed now sn)
  from confirmed(2) ledger_one_row [OF assms(1)] confirmed(1) ledger_lines [OF assms(1)] show ?thesis
    by (cases rule: confirm_body_yields) (auto intro: details_progress_refl settle_progress [OF assms(1)])
qed

text \<open>
  C1. The ledger is an invariant: from tables in which what every goods has locked is what
  its reserved sell details hold, any sequence of operations on any orders, with any
  statements failing and any replies lost, leads to such tables again.
\<close>

theorem ledger_invariant:
  assumes "stock_step\<^sup>*\<^sup>* t t'" "ledger t"
  shows "ledger t'"
  using assms by (rule ledger_steps)

text \<open>
  C23. A sell detail only moves forward: it is never deleted, its lines never change, and its
  status stays as it is or goes from reserved to released or to confirmed; what is released
  or confirmed stays so.
\<close>

theorem sell_detail_lifecycle:
  assumes "stock_step\<^sup>*\<^sup>* t t'" "ledger t"
  shows "details_progress t t'"
  using assms
proof (induction rule: rtranclp_induct)
  case base
  show ?case by (rule details_progress_refl)
next
  case (step u v)
  then show ?case by (blast intro: details_progress_trans progress_step ledger_steps)
qed

section \<open>Retries\<close>

lemma Sell_known:
  assumes "run_state (Sell lock now sn ds) s = (r, s')" "ledger (tables s)" "list_all line_typed ds"
    and "sn \<in> sd_OrderSn ` set (stockselldetail (tables s)) \<or> detail_of (tables s) (trim_space sn) \<noteq> None"
  shows "tables s' = tables s"
  using assms(1) unfolding operations_guarded
proof (cases rule: guarded_cases)
  case effect
  note v = validate_ok [OF effect(1) assms(3)]
  from effect(2) sorted_lines [OF v(3)] ledger_one_row [OF assms(2)] v(1) show ?thesis
  proof (cases rule: sell_body_yields)
    case (reserved u)
    have False
    proof (cases "detail_of (tables s) (trim_space sn)")
      case None
      with assms(4) reserved(4) show False by simp
    next
      case (Some d)
      then have "detail_ok (tables s) d"
        using ledger_detail [OF assms(2)] by (auto simp: detail_of_def dest!: first_row_Some)
      with Some reserved(1) show False by (auto simp: detail_ok_def)
    qed
    then show ?thesis ..
  qed auto
qed simp

text \<open>
  C17. An order is reserved at most once: after a \<open>Sell\<close> that had any effect, whatever it
  answered (its reply may have been lost), every further \<open>Sell\<close> of the same order leaves
  the tables as they are, whatever lines it carries and whatever the database does.
\<close>

theorem sell_at_most_once:
  assumes "ledger t" "list_all line_typed ds" "list_all line_typed ds'"
    and "run_state (Sell lock now sn ds) \<lparr>tables = t, outcomes = os\<rparr> = (r, s1)" "tables s1 \<noteq> t"
    and "run_state (Sell lock' now' sn ds') (s1\<lparr>outcomes := os'\<rparr>) = (r', s2)"
  shows "tables s2 = tables s1"
proof -
  have L1: "ledger (tables s1)"
    using ledger_step [OF stock_step.sell [OF assms(2,4)] assms(1)] .
  have "sn \<in> sd_OrderSn ` set (stockselldetail (tables s1))"
    using assms(4) [unfolded operations_guarded]
  proof (cases rule: guarded_cases)
    case effect
    note v = validate_ok [OF effect(1) assms(2)]
    from effect(2) [simplified] sorted_lines [OF v(3)] ledger_one_row [OF assms(1)] v(1) show ?thesis
      by (cases rule: sell_body_yields) (use assms(5) in auto)
  qed (use assms(5) in simp)
  then show ?thesis
    using Sell_known [OF assms(6) _ assms(3)] L1 by simp
qed

text \<open>
  C22. A return that overtakes its reservation wins: once \<open>Reback\<close> of an order has
  succeeded, also when there was nothing to return, a late \<open>Sell\<close> of that order no longer
  touches the tables.
\<close>

theorem late_sell_is_void:
  assumes "ledger t" "list_all line_typed ds" "list_all line_typed ds'"
    and "run_state (Reback lock now sn ds) \<lparr>tables = t, outcomes = os\<rparr> = (Inr (), s1)"
    and "run_state (Sell lock' now' sn ds') (s1\<lparr>outcomes := os'\<rparr>) = (r', s2)"
  shows "tables s2 = tables s1"
proof -
  have L1: "ledger (tables s1)"
    using ledger_step [OF stock_step.reback [OF assms(2,4)] assms(1)] .
  from guarded_yields [OF assms(4) [unfolded operations_guarded]]
  have v: "validateStockOperation sn ds = Inr ()" and y: "yields (reback_body now sn ds) t () (tables s1)"
    by simp_all
  have sn: "trim_space sn \<noteq> []" using validate_ok [OF v assms(2)] by simp
  have "sn \<in> sd_OrderSn ` set (stockselldetail (tables s1)) \<or> detail_of (tables s1) (trim_space sn) \<noteq> None"
    using y ledger_one_row [OF assms(1)] sn ledger_lines [OF assms(1)]
    by (cases rule: reback_body_yields) (auto simp: detail_of_update split: option.splits)
  then show ?thesis
    using Sell_known [OF assms(5) _ assms(3)] L1 by simp
qed

text \<open>
  A confirmed sale is final: once an order's detail is confirmed, \<open>Reback\<close> and
  \<open>Confirm\<close> of the order leave the tables as they are.
\<close>

theorem confirmed_is_final:
  assumes "ledger (tables s)" "list_all line_typed ds"
    and "detail_of (tables s) (trim_space sn) = Some d" "sd_Status d = stockSellStatusConfirmed"
  shows "tables (snd (run_state (Reback lock now sn ds) s)) = tables s \<and>
         tables (snd (run_state (Confirm lock now sn ds) s)) = tables s"
proof -
  obtain r s' where b: "run_state (Reback lock now sn ds) s = (r, s')" by fastforce
  obtain q s'' where c: "run_state (Confirm lock now sn ds) s = (q, s'')" by fastforce
  have "tables s' = tables s"
    using b unfolding operations_guarded
  proof (cases rule: guarded_cases)
    case effect
    from effect(2) ledger_one_row [OF assms(1)] validate_ok(1) [OF effect(1) assms(2)] ledger_lines [OF assms(1)]
    show ?thesis by (cases rule: reback_body_yields) (use assms(3,4) in auto)
  qed simp
  moreover have "tables s'' = tables s"
    using c unfolding operations_guarded
  proof (cases rule: guarded_cases)
    case effect
    from effect(2) ledger_one_row [OF assms(1)] validate_ok(1) [OF effect(1) assms(2)] ledger_lines [OF assms(1)]
    show ?thesis by (cases rule: confirm_body_yields) (use assms(3,4) in auto)
  qed simp
  ultimately show ?thesis using b c by simp
qed

section \<open>The round trip\<close>

definition counters :: "InventoryDO \<Rightarrow> int list" where
  "counters r = [ID r, inv_Goods r, inv_Stocks r, inv_Total r, inv_Available r, inv_Locked r, inv_Sold r, inv_Version r]"

lemma shift_back:
  assumes "list_all2 (\<lambda>r r'. row_shift da dl dx (if live r then Q (inv_Goods r) else 0) r r') xs ys"
    and "list_all2 (\<lambda>r r'. row_shift (- da) (- dl) (- dx) (if live r then Q (inv_Goods r) else 0) r r') ys zs"
  shows "map counters zs = map counters xs"
proof (rule nth_equalityI)
  show "length (map counters zs) = length (map counters xs)"
    using assms by (auto dest!: list_all2_lengthD)
  fix i assume "i < length (map counters zs)"
  moreover from this assms have
    "row_shift da dl dx (if live (xs ! i) then Q (inv_Goods (xs ! i)) else 0) (xs ! i) (ys ! i)"
    "row_shift (- da) (- dl) (- dx) (if live (ys ! i) then Q (inv_Goods (ys ! i)) else 0) (ys ! i) (zs ! i)"
    "i < length xs"
    by (auto simp: list_all2_conv_all_nth)
  ultimately show "map counters zs ! i = map counters xs ! i"
    by (auto simp: row_shift_def counters_def split: if_splits)
qed


section \<open>Edges\<close>

text \<open>The text of a detail has at least twenty characters a line.\<close>

lemma length_join_with: "ps \<noteq> [] \<Longrightarrow> length (join_with c ps) + 1 = sum_list (map length ps) + length ps"
  by (induction c ps rule: join_with.induct) auto

lemma length_json_line: "19 \<le> length (json_line g)"
proof -
  have "1 \<le> length (show_int i)" for i
    by (auto simp: show_int_def Suc_le_eq)
  from this [of "gd_Goods g"] this [of "gd_Num g"] show ?thesis
    by (simp add: json_line_def)
qed

lemma length_Value: "ds \<noteq> [] \<Longrightarrow> 20 * length ds < length (Value ds)"
proof -
  assume "ds \<noteq> []"
  moreover have "19 * length ds \<le> sum_list (map (length \<circ> json_line) ds)"
    by (induction ds) (use length_json_line in \<open>auto simp: add_mono\<close>)
  ultimately show ?thesis
    using length_join_with [of "map json_line ds" "CHR '',''"] by (simp add: Value_def)
qed

text \<open>
  C39. An order of ten or more lines can never be reserved: its detail does not fit the
  \<open>varchar(200)\<close> column of \<open>stockselldetail\<close>, so \<open>Sell\<close> changes nothing, however much stock
  there is and whatever the database answers.
\<close>

theorem sell_ten_lines_impossible:
  assumes "10 \<le> length ds" "run_state (Sell lock now sn ds) s = (r, s')"
  shows "tables s' = tables s"
  using assms(2) unfolding operations_guarded
proof (cases rule: guarded_cases)
  case effect
  have "200 < length (Value (sort_details ds))"
    using length_Value [of "sort_details ds"] assms(1) by (cases ds) (auto simp: sort_details_def)
  then have never: "\<not> yields (CreateStockSellDetail \<lparr>sd_OrderSn = sn, sd_Status = 1, sd_Detail = sort_details ds\<rparr>) u () u'" for u u'
    by (auto simp: CreateStockSellDetail_def insert_sell_detail_def insert_row_def sell_detail_check_def
        dest!: yields_write elim!: yields_bind_err split: sum.splits)
  from effect(2) [unfolded sell_body_def Let_def] show ?thesis
    by (rule yields_bind)
      (auto split: sum.splits if_splits elim!: yields_bindE dest: never [THEN notE]
        dest!: GetSellDetail_run [OF _ validate_sn [OF effect(1)]])
qed simp

text \<open>
  \<open>normalizeInventory\<close> adds the counters in \<open>int32\<close>: counters whose sum does not fit are
  accepted although they exceed the total.
\<close>

theorem normalize_accepts_overflow:
  "\<exists>r. normalizeInventory (Some \<lparr>ID = 0, CreatedAt = 0, UpdatedAt = 0, DeletedAt = None, IsDeleted = False,
        inv_Goods = 1, inv_Stocks = 0, inv_Total = 1, inv_Available = 2147483647, inv_Locked = 2147483647,
        inv_Sold = 0, inv_Version = 0\<rparr>) = Inr r \<and>
     inv_Total r < inv_Available r + inv_Locked r + inv_Sold r"
  by (simp add: normalizeInventory_def wrap_def)

section \<open>Concrete runs\<close>

definition no_lock :: order_lock where "no_lock = (\<lambda>_. None)"

definition demo_row :: "int \<Rightarrow> int \<Rightarrow> InventoryDO" where
  "demo_row g n = \<lparr>ID = g, CreatedAt = 0, UpdatedAt = 0, DeletedAt = None, IsDeleted = False, inv_Goods = g,
     inv_Stocks = n, inv_Total = n, inv_Available = n, inv_Locked = 0, inv_Sold = 0, inv_Version = 0\<rparr>"

definition demo_db :: inventory_db where
  "demo_db = \<lparr>inventory = [demo_row 1 5, demo_row 2 3], stockselldetail = [], inventory_adjustment_logs = []\<rparr>"

definition demo_lines :: "GoodsDetail list" where
  "demo_lines = [\<lparr>gd_Goods = 2, gd_Num = 1\<rparr>, \<lparr>gd_Goods = 1, gd_Num = 2\<rparr>]"

definition demo_session :: "inventory_db session" where
  "demo_session = \<lparr>tables = demo_db, outcomes = []\<rparr>"

definition demo_sold :: "inventory_db session" where
  "demo_sold = snd (run_state (Sell no_lock 10 ''A1'' demo_lines) demo_session)"

lemma demo_facts:
  "ledger demo_db" "list_all line_typed demo_lines" "validateStockOperation ''A1'' demo_lines = Inr ()"
  "storable ''A1'' demo_lines" "detail_of demo_db ''A1'' = None" "trim_space ''A1'' = ''A1''"
  "no_lock (orderLockPrefix @ ''A1'') = None" "tables demo_session = demo_db" "outcomes demo_session = []"
  by code_simp+

lemma demo_sold_run: "run_state (Sell no_lock 10 ''A1'' demo_lines) demo_session = (Inr (), demo_sold)"
  by code_simp

lemma demo_sold_facts: "outcomes demo_sold = []"
  "detail_of (tables demo_sold) (trim_space ''A1'') = Some \<lparr>sd_OrderSn = ''A1'', sd_Status = 1, sd_Detail = sort_details demo_lines\<rparr>"
  "tables demo_sold \<noteq> demo_db" "ledger (tables demo_sold)"
  by code_simp+

lemma demo_step: "stock_step demo_db (tables demo_sold)"
  using stock_step.sell [OF demo_facts(2) demo_sold_run [unfolded demo_session_def]] .

theorem ledger_invariant_witness: "ledger demo_db \<and> ledger (tables demo_sold) \<and> tables demo_sold \<noteq> demo_db"
  using ledger_invariant [OF r_into_rtranclp [of stock_step, OF demo_step] demo_facts(1)] demo_facts(1) demo_sold_facts(3) by simp

theorem sell_detail_lifecycle_witness: "details_progress demo_db (tables demo_sold) \<and> ledger demo_db"
  using sell_detail_lifecycle [OF r_into_rtranclp [of stock_step, OF demo_step] demo_facts(1)] demo_facts(1) by simp

theorem stock_is_conserved_witness: "stock_conserved demo_db (tables demo_sold) \<and> tables demo_sold \<noteq> demo_db"
  using stock_is_conserved [OF r_into_rtranclp [of stock_step, OF demo_step]] demo_sold_facts(3) by simp

theorem reback_releases_witness:
  "\<exists>s'. run_state (Reback no_lock 20 ''A1'' demo_lines) demo_sold = (Inr (), s') \<and>
     map inv_Available (inventory (tables s')) = [5, 3]"
proof -
  have "run_state (Reback no_lock 20 ''A1'' demo_lines) demo_sold =
      (Inr (), snd (run_state (Reback no_lock 20 ''A1'' demo_lines) demo_sold)) \<and>
    map inv_Available (inventory (tables (snd (run_state (Reback no_lock 20 ''A1'' demo_lines) demo_sold)))) = [5, 3]"
    by code_simp
  then show ?thesis
    using reback_releases [where lock = no_lock, OF demo_sold_facts(4,1) demo_facts(7,3,2) demo_sold_facts(2), of 20] by auto
qed

theorem confirm_sells_witness:
  "\<exists>s'. run_state (Confirm no_lock 20 ''A1'' demo_lines) demo_sold = (Inr (), s') \<and>
     map inv_Sold (inventory (tables s')) = [2, 1]"
proof -
  have "run_state (Confirm no_lock 20 ''A1'' demo_lines) demo_sold =
      (Inr (), snd (run_state (Confirm no_lock 20 ''A1'' demo_lines) demo_sold)) \<and>
    map inv_Sold (inventory (tables (snd (run_state (Confirm no_lock 20 ''A1'' demo_lines) demo_sold)))) = [2, 1]"
    by code_simp
  then show ?thesis
    using confirm_sells [where lock = no_lock, OF demo_sold_facts(4,1) demo_facts(7,3,2) demo_sold_facts(2), of 20] by auto
qed


theorem sell_at_most_once_witness:
  "tables demo_sold \<noteq> demo_db \<and>
   tables (snd (run_state (Sell no_lock 30 ''A1'' demo_lines) (demo_sold\<lparr>outcomes := [Executed]\<rparr>))) = tables demo_sold"
  using sell_at_most_once [OF demo_facts(1,2,2) demo_sold_run [unfolded demo_session_def] demo_sold_facts(3) surjective_pairing]
    demo_sold_facts(3) by simp

definition demo_void :: "inventory_db session" where
  "demo_void = snd (run_state (Reback no_lock 10 ''A1'' demo_lines) demo_session)"

lemma demo_void_run: "run_state (Reback no_lock 10 ''A1'' demo_lines) demo_session = (Inr (), demo_void)"
  by code_simp

theorem late_sell_is_void_witness:
  "tables (snd (run_state (Sell no_lock 30 ''A1'' demo_lines) (demo_void\<lparr>outcomes := []\<rparr>))) = tables demo_void"
  using late_sell_is_void [OF demo_facts(1,2,2) demo_void_run [unfolded demo_session_def] surjective_pairing] .

definition demo_confirmed :: "inventory_db session" where
  "demo_confirmed = snd (run_state (Confirm no_lock 20 ''A1'' demo_lines) demo_sold)"

lemma demo_confirmed_facts: "ledger (tables demo_confirmed)"
  "detail_of (tables demo_confirmed) (trim_space ''A1'') = Some \<lparr>sd_OrderSn = ''A1'', sd_Status = 3, sd_Detail = sort_details demo_lines\<rparr>"
  by code_simp+

theorem confirmed_is_final_witness:
  "tables (snd (run_state (Reback no_lock 30 ''A1'' demo_lines) demo_confirmed)) = tables demo_confirmed"
  using confirmed_is_final [OF demo_confirmed_facts(1) demo_facts(2) demo_confirmed_facts(2)] by simp


theorem sell_ten_lines_impossible_witness:
  "tables (snd (run_state (Sell no_lock 10 ''A1'' (replicate 10 \<lparr>gd_Goods = 1, gd_Num = 1\<rparr>)) demo_session)) = demo_db"
  using sell_ten_lines_impossible [of "replicate 10 \<lparr>gd_Goods = 1, gd_Num = 1\<rparr>", OF _ surjective_pairing] demo_facts(8) by simp


definition demo_info :: GoodsInvInfo where
  "demo_info = \<lparr>gi_GoodsId = 7, gi_Num = 5, gi_Total = 0, gi_Available = 0, gi_Locked = 0, gi_Sold = 0,
     gi_ActorUserId = 0, gi_CorrelationId = [], gi_RequestId = [], gi_Reason = []\<rparr>"

text \<open>
  \<open>SetInv\<close> always inserts and the table has no unique key on the goods: setting the
  stock of a goods twice leaves two rows, and one \<open>Sell\<close> of two units takes them from both.
\<close>

theorem set_inv_twice_sells_twice:
  "case run_state (bindE (SetInv 1 (Some demo_info)) (\<lambda>_. bindE (SetInv 2 (Some demo_info)) (\<lambda>_.
       Sell no_lock 10 ''A1'' [\<lparr>gd_Goods = 7, gd_Num = 2\<rparr>]))) demo_session of (r, s1) \<Rightarrow>
     r = Inr () \<and> map (\<lambda>r. (inv_Goods r, inv_Available r, inv_Locked r)) (drop 2 (inventory (tables s1))) = [(7, 3, 2), (7, 3, 2)]"
  by code_simp

end
