(* ===== verification/Money.thy ===== *)
theory Money
  imports Failure
begin

text \<open>
  Amounts of money, \<open>pkg/money/money.go\<close>: a number of fen in an \<open>int64\<close>, here a 64-bit
  word read with \<open>sint\<close>; a \<open>uint64\<close> is the same word read with \<open>uint\<close>. Shown: the checked
  sum and product are exact and fail exactly when the true value does not fit; printing and
  parsing are inverse on every amount, the least \<open>int64\<close> included.
\<close>

section \<open>The operations\<close>

type_synonym fen = "64 word"

abbreviation MaxInt64 :: fen where "MaxInt64 \<equiv> 0x7FFFFFFFFFFFFFFF"
abbreviation MinInt64 :: fen where "MinInt64 \<equiv> 0x8000000000000000"

definition NewFen :: "int \<Rightarrow> fen" where "NewFen v = word_of_int v"

definition Int64 :: "fen \<Rightarrow> int" where "Int64 f = sint f"

definition int64Magnitude :: "fen \<Rightarrow> 64 word" where
  "int64Magnitude v = (if v <s 0 then - (v + 1) + 1 else v)"

text \<open>\<open>bits.Mul64\<close>: the high and the low half of the product.\<close>

definition Mul64 :: "64 word \<Rightarrow> 64 word \<Rightarrow> 64 word \<times> 64 word" where
  "Mul64 x y = (word_of_int (uint x * uint y div 2 ^ 64), x * y)"

definition YuanString :: "fen \<Rightarrow> string" where
  "YuanString f =
     (let sign = (if f <s 0 then ''-'' else '''');
          magnitude = int64Magnitude f;
          yuan = magnitude div 100;
          fen = magnitude mod 100;
          digits = show_nat (unat fen)
      in sign @ show_nat (unat yuan) @ ''.'' @ (if length digits < 2 then ''0'' @ digits else digits))"

definition Add :: "fen \<Rightarrow> fen \<Rightarrow> fen result" where
  "Add left right =
     (if (0 <s right \<and> MaxInt64 - right <s left) \<or> (right <s 0 \<and> left <s MinInt64 - right)
      then Inl (Plain ''money add overflow'')
      else Inr (left + right))"

definition Multiply :: "fen \<Rightarrow> fen \<Rightarrow> fen result" where
  "Multiply f qty =
     (if qty = 0 \<or> f = 0 then Inr 0
      else
        let (overflow, product) = Mul64 (int64Magnitude f) (int64Magnitude qty);
            negative = ((f <s 0) \<noteq> (qty <s 0));
            limit = (if negative then MaxInt64 + 1 else MaxInt64)
        in if overflow \<noteq> 0 \<or> limit < product
           then Inl (Plain ''money multiply overflow'')
           else Inr (if negative \<and> product \<noteq> push_bit 63 1 then - product else product))"

definition allDigits :: "string \<Rightarrow> bool" where
  "allDigits s = list_all is_digit s"

definition ParseYuan :: "string \<Rightarrow> fen result" where
  "ParseYuan value0 =
     (let v = trim_space value0 in
      if v = [] then Inl (Plain ''money string is empty'')
      else
        let negative = (hd v = CHR ''-'');
            v' = (if hd v = CHR ''-'' \<or> hd v = CHR ''+'' then tl v else v)
        in if v' = [] then Inl (Plain ''money string is invalid'')
        else
          let parts = split_on (CHR ''.'') v' in
          if 2 < length parts then Inl (Plain ''money string is invalid'')
          else
            let intPart = (if parts ! 0 = [] then ''0'' else parts ! 0);
                fracPart = (if length parts = 2 then parts ! 1 else [])
            in if 2 < length fracPart then Inl (Plain ''money string has more than 2 decimal places'')
            else
              let fracPart' = (if fracPart = [] then ''00'' else if length fracPart = 1 then fracPart @ ''0'' else fracPart)
              in if \<not> allDigits intPart \<or> \<not> allDigits fracPart' then Inl (Plain ''money string is invalid'')
              else
                let normalized = dropWhile (\<lambda>c. c = CHR ''0'') (intPart @ fracPart')
                in if normalized = [] then Inr 0
                else if 2 ^ 64 \<le> nat_of_digits normalized then Inl (Plain ''parse money'')
                else
                  let fenValue = (of_nat (nat_of_digits normalized) :: 64 word);
                      limit = (if negative then MaxInt64 + 1 else MaxInt64)
                  in if limit < fenValue then Inl (Plain ''value out of range'')
                  else Inr (if negative \<and> fenValue \<noteq> push_bit 63 1 then - fenValue else fenValue))"

section \<open>Signed arithmetic\<close>

lemma sint_range: "- (2 ^ 63) \<le> sint (w :: fen)" "sint (w :: fen) < 2 ^ 63"
  using sint_ge [of w] sint_lt [of w] by simp_all

lemma sint_exact: "- (2 ^ 63) \<le> i \<Longrightarrow> i < 2 ^ 63 \<Longrightarrow> sint (word_of_int i :: fen) = i"
  by (subst sint_sbintrunc') (simp add: signed_take_bit_int_eq_self)

lemma word_of_sint: "word_of_int (sint (w :: fen)) = w"
  by simp

lemma sint_eqI: "sint (a :: fen) = sint b \<Longrightarrow> a = b"
  by (metis word_of_sint)

lemma uint_exact: "0 \<le> i \<Longrightarrow> i < 2 ^ 64 \<Longrightarrow> uint (word_of_int i :: fen) = i"
  by (simp add: uint_word_of_int)

lemma sint_add_exact: "- (2 ^ 63) \<le> sint a + sint b \<Longrightarrow> sint a + sint b < 2 ^ 63 \<Longrightarrow> sint (a + b :: fen) = sint a + sint b"
  using sint_exact [of "sint a + sint b"] by simp

lemma sint_sub_exact: "- (2 ^ 63) \<le> sint a - sint b \<Longrightarrow> sint a - sint b < 2 ^ 63 \<Longrightarrow> sint (a - b :: fen) = sint a - sint b"
  using sint_exact [of "sint a - sint b"] by simp

lemma sint_limits [simp]: "sint MaxInt64 = 2 ^ 63 - 1" "sint MinInt64 = - (2 ^ 63)"
  by code_simp+

lemma uint_magnitude: "uint (int64Magnitude f) = \<bar>sint f\<bar>"
proof -
  have "- (f + 1) + 1 = - f" by simp
  moreover have "uint (- f) = - sint f" if "sint f < 0"
  proof -
    have "- f = word_of_int (- sint f)" by simp
    moreover have "0 \<le> - sint f" "- sint f < 2 ^ 64" using that sint_range [of f] by auto
    ultimately show ?thesis by (metis uint_exact)
  qed
  moreover have "uint f = sint f" if "0 \<le> sint f"
  proof -
    have "f = word_of_int (sint f)" by simp
    moreover have "sint f < 2 ^ 64" using sint_range [of f] by auto
    ultimately show ?thesis using that by (metis uint_exact)
  qed
  ultimately show ?thesis
    by (auto simp: int64Magnitude_def word_sless_alt)
qed

section \<open>Exactness\<close>

definition fits64 :: "int \<Rightarrow> bool" where
  "fits64 i \<longleftrightarrow> - (2 ^ 63) \<le> i \<and> i < 2 ^ 63"

lemma Add_overflow_iff:
  "(0 <s right \<and> MaxInt64 - right <s left) \<or> (right <s 0 \<and> left <s MinInt64 - right) \<longleftrightarrow>
   \<not> fits64 (sint left + sint right)"
proof -
  have "sint (MaxInt64 - right) = 2 ^ 63 - 1 - sint right" if "0 < sint right"
    using that sint_range [of right] sint_sub_exact [of MaxInt64 right] by simp
  moreover have "sint (MinInt64 - right) = - (2 ^ 63) - sint right" if "sint right < 0"
    using that sint_range [of right] sint_sub_exact [of MinInt64 right] by simp
  ultimately show ?thesis
    using sint_range [of left] sint_range [of right]
    by (cases "0 < sint right"; cases "sint right < 0") (auto simp: word_sless_alt fits64_def)
qed

lemma Add_lemma:
  "(if fits64 (sint a + sint b) then \<exists>c. Add a b = Inr c \<and> sint c = sint a + sint b
    else Add a b = Inl (Plain ''money add overflow''))"
  using Add_overflow_iff [of b a] by (auto simp: Add_def fits64_def sint_add_exact)

text \<open>
  The checked sum of two amounts is the true sum whenever that fits an \<open>int64\<close>, and an
  error exactly when it does not.
\<close>

theorem add_exact:
  "(if fits64 (sint a + sint b) then \<exists>c. Add a b = Inr c \<and> sint c = sint a + sint b
    else Add a b = Inl (Plain ''money add overflow''))"
  by (rule Add_lemma)

lemma signed_product:
  assumes "negative \<longleftrightarrow> i < 0" "fits64 i" "uint p = \<bar>i\<bar>"
  shows "sint (if negative \<and> p \<noteq> push_bit 63 1 then - p else p :: fen) = i"
proof -
  have p: "p = word_of_int \<bar>i\<bar>" by (metis assms(3) word_of_int_uint)
  show ?thesis
  proof (cases "i < 0")
    case False
    with assms p show ?thesis by (simp add: sint_exact fits64_def)
  next
    case True
    then have neg: "- p = word_of_int i" by (simp add: p)
    have "p = push_bit 63 1 \<longleftrightarrow> i = - (2 ^ 63)"
    proof -
      have "uint (push_bit 63 1 :: fen) = 2 ^ 63" by code_simp
      then show ?thesis using assms(3) True word_uint_eqI [of p "push_bit 63 1"] by auto
    qed
    moreover have "sint (push_bit 63 1 :: fen) = - (2 ^ 63)" by code_simp
    ultimately show ?thesis
      using True assms neg by (auto simp: sint_exact fits64_def)
  qed
qed

lemma Multiply_lemma:
  "(if fits64 (sint f * sint q) then \<exists>c. Multiply f q = Inr c \<and> sint c = sint f * sint q
    else Multiply f q = Inl (Plain ''money multiply overflow''))"
proof (cases "q = 0 \<or> f = 0")
  case True
  then show ?thesis by (auto simp: Multiply_def fits64_def)
next
  case False
  then have nz: "sint f \<noteq> 0" "sint q \<noteq> 0" using sint_eqI [of f 0] sint_eqI [of q 0] by auto
  define m where "m = \<bar>sint f\<bar> * \<bar>sint q\<bar>"
  let ?neg = "(f <s 0) \<noteq> (q <s 0)"
  have neg: "?neg \<longleftrightarrow> sint f * sint q < 0"
    using nz by (auto simp: word_sless_alt mult_less_0_iff)
  have m: "0 < m" "m = \<bar>sint f * sint q\<bar>" using nz by (auto simp: m_def abs_mult)
  have bound: "m \<le> 2 ^ 126"
  proof -
    have "\<bar>sint f\<bar> \<le> 2 ^ 63" "\<bar>sint q\<bar> \<le> 2 ^ 63" using sint_range [of f] sint_range [of q] by auto
    then have "m \<le> 2 ^ 63 * 2 ^ 63" unfolding m_def by (intro mult_mono) auto
    then show ?thesis by simp
  qed
  let ?p = "int64Magnitude f * int64Magnitude q"
  have hi: "fst (Mul64 (int64Magnitude f) (int64Magnitude q)) = 0 \<longleftrightarrow> m < 2 ^ 64"
  proof -
    have d: "0 \<le> m div 2 ^ 64" "m div 2 ^ 64 < 2 ^ 64" using bound m by auto
    then have "uint (word_of_int (m div 2 ^ 64) :: fen) = m div 2 ^ 64" by (simp add: uint_word_of_int)
    then have "(word_of_int (m div 2 ^ 64) :: fen) = 0 \<longleftrightarrow> m div 2 ^ 64 = 0" by (metis uint_0_iff)
    moreover have "m div 2 ^ 64 = 0 \<longleftrightarrow> m < 2 ^ 64" using m by (simp add: zdiv_eq_0_iff)
    ultimately show ?thesis by (simp add: Mul64_def uint_magnitude m_def)
  qed
  have lo: "m < 2 ^ 64 \<Longrightarrow> uint ?p = m"
    using m by (simp add: uint_word_ariths(3) uint_magnitude m_def)
  have lim: "uint (if ?neg then MaxInt64 + 1 else MaxInt64) = (if ?neg then 2 ^ 63 else 2 ^ 63 - 1)"
    by (simp split: if_split; code_simp)
  have over: "fst (Mul64 (int64Magnitude f) (int64Magnitude q)) \<noteq> 0 \<or> (if ?neg then MaxInt64 + 1 else MaxInt64) < ?p
     \<longleftrightarrow> \<not> fits64 (sint f * sint q)"
  proof (cases "m < 2 ^ 64")
    case True
    then show ?thesis using hi lo lim neg m by (auto simp: word_less_def fits64_def)
  next
    case False
    then show ?thesis using hi m by (auto simp: fits64_def)
  qed
  have small: "m < 2 ^ 64" if "fits64 (sint f * sint q)" using that m by (auto simp: fits64_def)
  have "Multiply f q = (if \<not> fits64 (sint f * sint q) then Inl (Plain ''money multiply overflow'')
     else Inr (if ?neg \<and> ?p \<noteq> push_bit 63 1 then - ?p else ?p))"
    unfolding over [symmetric] using False by (simp add: Multiply_def Mul64_def Let_def)
  then show ?thesis
    using signed_product [OF neg, of ?p] lo small m by auto
qed

text \<open>
  C30. The checked product of an amount and a quantity is the true product whenever that fits
  an \<open>int64\<close>, the least one included, and an error exactly when it does not.
\<close>

theorem multiply_exact:
  "(if fits64 (sint f * sint q) then \<exists>c. Multiply f q = Inr c \<and> sint c = sint f * sint q
    else Multiply f q = Inl (Plain ''money multiply overflow''))"
  by (rule Multiply_lemma)

section \<open>Printing and parsing\<close>

lemma nat_of_digits_append_gen: "nat_of_digits (s @ t) = nat_of_digits s * 10 ^ length t + nat_of_digits t"
proof (induction t rule: rev_induct)
  case (snoc c t)
  have "nat_of_digits (s @ t @ [c]) = 10 * nat_of_digits (s @ t) + digit_val c"
    using nat_of_digits_append [of "s @ t" c] by simp
  with snoc show ?case by (simp add: nat_of_digits_append algebra_simps)
qed (simp add: nat_of_digits_def)

lemma nat_of_digits_zeros: "nat_of_digits (dropWhile (\<lambda>c. c = CHR ''0'') s) = nat_of_digits s"
proof (induction s)
  case (Cons c s)
  have "nat_of_digits (CHR ''0'' # s) = nat_of_digits s"
    by (simp add: nat_of_digits_def digit_val_def)
  with Cons show ?case by simp
qed simp

definition two_digits :: "nat \<Rightarrow> string" where
  "two_digits n = (let d = show_nat n in if length d < 2 then ''0'' @ d else d)"

lemma two_digits:
  assumes "n < 100"
  shows "length (two_digits n) = 2" "nat_of_digits (two_digits n) = n" "list_all is_digit (two_digits n)"
proof -
  have "n < 10 \<Longrightarrow> show_nat n = [digit_char n]" "\<not> n < 10 \<Longrightarrow> show_nat n = [digit_char (n div 10), digit_char (n mod 10)]"
    using assms show_nat.simps [of n] show_nat.simps [of "n div 10"] by simp_all
  then show "length (two_digits n) = 2" by (cases "n < 10") (simp_all add: two_digits_def)
  show "list_all is_digit (two_digits n)"
    by (auto simp: two_digits_def Let_def list_all_iff show_nat_digits) (simp add: is_digit_def)
  show "nat_of_digits (two_digits n) = n"
    using nat_of_digits_append_gen [of "''0''" "show_nat n"]
    by (simp add: two_digits_def Let_def) (simp add: nat_of_digits_def digit_val_def)
qed

lemma digit_plain: "is_digit c \<Longrightarrow> plain_char c \<and> c \<noteq> CHR ''.'' \<and> c \<noteq> CHR ''-'' \<and> c \<noteq> CHR ''+''"
  by (auto simp: is_digit_def plain_char_def)

text \<open>What \<open>ParseYuan\<close> makes of a sign, a numeral, a point and two digits.\<close>

lemma ParseYuan_decimal:
  assumes "n < 100" "y * 100 + n \<le> (if neg then 2 ^ 63 else 2 ^ 63 - 1)"
  shows "ParseYuan ((if neg then ''-'' else []) @ show_nat y @ ''.'' @ two_digits n)
    = Inr (word_of_int (if neg then - int (y * 100 + n) else int (y * 100 + n)))"
proof -
  define body where "body = show_nat y @ ''.'' @ two_digits n"
  define v where "v = (if neg then ''-'' else []) @ body"
  note t = two_digits [OF assms(1)]
  have ne: "show_nat y \<noteq> []" "two_digits n \<noteq> []" using t(1) by auto
  have dig: "is_digit (hd (show_nat y))" "is_digit (last (two_digits n))"
    using ne t(3) by (auto simp: list_all_iff intro: show_nat_digits [OF hd_in_set])
  have hd: "hd v = (if neg then CHR ''-'' else hd (show_nat y))" "last v = last (two_digits n)" "v \<noteq> []"
    using ne by (simp_all add: v_def body_def)
  have trim: "trim_space v = v"
    by (rule trim_space_plain) (use hd dig digit_plain in \<open>auto simp: plain_char_def\<close>)
  have neg: "(hd v = CHR ''-'') = neg" "hd v \<noteq> CHR ''+''" using hd(1) digit_plain [OF dig(1)] by auto
  have rest: "(if neg \<or> hd v = CHR ''+'' then tl v else v) = body"
    using neg by (auto simp: v_def split: if_splits)
  have dots: "CHR ''.'' \<notin> set (show_nat y)" "CHR ''.'' \<notin> set (two_digits n)"
    using digit_plain show_nat_digits t(3) by (auto simp: list_all_iff)
  then have parts: "split_on (CHR ''.'') body = [show_nat y, two_digits n]"
    using split_on_append [of "CHR ''.''" "show_nat y" "two_digits n"] by (simp add: body_def split_on_no_sep)
  define norm where "norm = dropWhile (\<lambda>c. c = CHR ''0'') (show_nat y @ two_digits n)"
  define k where "k = y * 100 + n"
  have val: "nat_of_digits norm = k"
    using t by (simp add: norm_def k_def nat_of_digits_zeros nat_of_digits_append_gen)
  have bound: "k \<le> (if neg then 2 ^ 63 else 2 ^ 63 - 1)" using assms(2) by (simp add: k_def)
  have u: "uint (of_nat k :: fen) = int k"
    using uint_exact [of "int k"] bound by (auto split: if_splits)
  have lim: "uint (if neg then MaxInt64 + 1 else MaxInt64) = (if neg then 2 ^ 63 else 2 ^ 63 - 1)"
    by (simp split: if_split; code_simp)
  have "int k \<le> (if neg then 2 ^ 63 else 2 ^ 63 - 1)"
    using bound by (auto split: if_splits)
  then have inlim: "((if neg then MaxInt64 + 1 else MaxInt64) < (of_nat k :: fen)) = False"
    using u lim by (simp add: word_less_def not_less)
  have empty: "norm = [] \<Longrightarrow> k = 0" using val by (metis foldl_Nil nat_of_digits_def)
  have small: "(2 ^ 64 \<le> k) = False" using bound by (auto split: if_splits)
  have signed: "(if neg \<and> (of_nat k :: fen) \<noteq> push_bit 63 1 then - of_nat k else of_nat k)
      = (word_of_int (if neg then - int k else int k) :: fen)"
  proof -
    have "- (push_bit 63 1 :: fen) = push_bit 63 1" by code_simp
    then show ?thesis by auto
  qed
  have digits: "allDigits (show_nat y)" "allDigits (two_digits n)"
    using t(3) show_nat_digits by (auto simp: allDigits_def list_all_iff)
  have body: "(body = []) = False" "(v = []) = False" using ne hd(3) by (simp_all add: body_def)
  have shape: "length [show_nat y, two_digits n] = 2" "[show_nat y, two_digits n] ! 0 = show_nat y"
    "[show_nat y, two_digits n] ! 1 = two_digits n" "((2 :: nat) < 2) = False" "(show_nat y = []) = False"
    "(two_digits n = []) = False" "length (two_digits n) = 2" "((2 :: nat) = 1) = False"
    using ne t(1) by simp_all
  have "ParseYuan v = (if norm = [] then Inr 0 else Inr (word_of_int (if neg then - int k else int k)))"
    unfolding ParseYuan_def Let_def trim rest parts neg(1) body if_False
    by (simp only: shape digits if_False if_True simp_thms norm_def [symmetric] val inlim small signed)
  also have "\<dots> = Inr (word_of_int (if neg then - int k else int k))"
    using empty by simp
  finally show ?thesis
    by (simp add: v_def body_def k_def)
qed

text \<open>
  C29. Printing an amount in yuan and parsing the text gives the amount back, for every
  \<open>int64\<close> number of fen, negative ones and the least one included.
\<close>

theorem parse_print_roundtrip: "ParseYuan (YuanString f) = Inr f"
proof -
  define m where "m = nat \<bar>sint f\<bar>"
  have m: "unat (int64Magnitude f) = m"
    by (simp add: m_def unat_eq_nat_uint uint_magnitude)
  have parts: "unat (int64Magnitude f div 100) = m div 100" "unat (int64Magnitude f mod 100) = m mod 100"
    using m by (simp_all add: unat_div unat_mod)
  have neg: "(f <s 0) = (sint f < 0)" by (simp add: word_sless_alt)
  have y: "YuanString f = (if f <s 0 then ''-'' else []) @ show_nat (m div 100) @ ''.'' @ two_digits (m mod 100)"
    by (simp add: YuanString_def Let_def parts two_digits_def)
  have bound: "m div 100 * 100 + m mod 100 \<le> (if f <s 0 then 2 ^ 63 else 2 ^ 63 - 1)"
    using sint_range [of f] neg by (auto simp: m_def nat_le_iff)
  have "(if f <s 0 then - int (m div 100 * 100 + m mod 100) else int (m div 100 * 100 + m mod 100)) = sint f"
    using neg by (simp add: m_def)
  then have "word_of_int (if f <s 0 then - int (m div 100 * 100 + m mod 100) else int (m div 100 * 100 + m mod 100)) = f"
    by (simp only: word_of_sint)
  then show ?thesis
    unfolding y using ParseYuan_decimal [OF _ bound] by simp
qed

end
