(* ===== verification/Order_Store.thy ===== *)
theory Order_Store
  imports Database
begin

text \<open>
  The order service's data, \<open>app/order/srv/internal/domain/do\<close>, and its MySQL stores
  \<open>data/v1/db/order.go\<close>, \<open>shopcart.go\<close>, \<open>order_status_log.go\<close> and \<open>order_by.go\<close>. The
  goods of an order are rows of their own table that refer to the order by its key; an order
  that has been loaded carries them, a row of \<open>orderinfo\<close> never does.
\<close>

section \<open>Data\<close>

record OrderGoods = base_model +
  og_Order :: int
  og_Goods :: int
  og_GoodsName :: string
  og_GoodsImage :: string
  og_GoodsPriceFen :: int
  og_Nums :: int

record OrderInfoDO = base_model +
  od_OrderGoods :: "OrderGoods list"
  od_User :: int
  od_OrderSn :: string
  od_PayType :: string
  od_Status :: string
  od_TradeNo :: string
  od_OrderMountFen :: int
  od_StoreID :: string
  od_PayTime :: "time option"
  od_Address :: string
  od_SignerName :: string
  od_SingerMobile :: string
  od_Post :: string

record ShoppingCartDO = base_model +
  sc_User :: int
  sc_Goods :: int
  sc_Nums :: int
  sc_Checked :: bool

record OrderStatusLogDO = base_model +
  sl_OrderID :: int
  sl_OrderSn :: string
  sl_FromStatus :: string
  sl_ToStatus :: string
  sl_Reason :: string
  sl_Source :: string
  sl_Operator :: string

record RefundRequestDO =
  rr_ID :: int
  rr_OrderSN :: string
  rr_ActorUserID :: int
  rr_AmountFen :: int
  rr_Reason :: string
  rr_Status :: string
  rr_Provider :: string
  rr_ProviderRefundID :: string
  rr_FailureReason :: string
  rr_CorrelationID :: string
  rr_CreatedAt :: time
  rr_UpdatedAt :: time

record RefundOutboxDO =
  ro_ID :: int
  ro_RefundRequestID :: int
  ro_Status :: string
  ro_Attempts :: int
  ro_AvailableAt :: time
  ro_LockedAt :: "time option"
  ro_LastError :: string
  ro_CreatedAt :: time
  ro_UpdatedAt :: time

record PaymentEventDO =
  pe_ID :: int
  pe_Provider :: string
  pe_EventID :: string
  pe_OrderSN :: string
  pe_TradeNo :: string
  pe_EventType :: string
  pe_OrderAmountFen :: int
  pe_ProviderAmountFen :: int
  pe_RefundAmountFen :: int
  pe_Status :: string
  pe_ErrorDetail :: string
  pe_ReceivedAt :: time
  pe_CompletedAt :: "time option"

record PaymentReconciliationRunDO =
  pr_ID :: int
  pr_Provider :: string
  pr_WindowStart :: time
  pr_WindowEnd :: time
  pr_StartedAt :: time
  pr_FinishedAt :: "time option"
  pr_CheckedCount :: int
  pr_MismatchCount :: int
  pr_Status :: string

record PaymentReconciliationItemDO =
  pi_ID :: int
  pi_RunID :: int
  pi_ProviderEventID :: string
  pi_OrderSN :: string
  pi_TradeNo :: string
  pi_EventType :: string
  pi_ProviderAmountFen :: int
  pi_LocalAmountFen :: int
  pi_Result :: string
  pi_Detail :: string
  pi_CreatedAt :: time

record AccountDeletionInboxDO =
  ai_RequestID :: string
  ai_UserID :: int
  ai_Decision :: string
  ai_Reason :: string
  ai_CreatedAt :: time

text \<open>\<open>accountdeletion.Decision\<close>; the outbox stores it as JSON.\<close>

record Decision =
  dc_EventID :: string
  dc_RequestID :: string
  dc_UserID :: int
  dc_Confirmed :: bool
  dc_Reason :: string
  dc_DecidedAt :: time

record AccountDeletionOutboxDO =
  ao_ID :: string
  ao_RequestID :: string
  ao_EventType :: string
  ao_UserID :: int
  ao_Payload :: Decision
  ao_Status :: string
  ao_RetryCount :: int
  ao_AvailableAt :: time
  ao_LockedAt :: "time option"
  ao_PublishedAt :: "time option"
  ao_LastError :: string
  ao_CreatedAt :: time
  ao_UpdatedAt :: time

record order_db =
  orderinfo :: "OrderInfoDO list"
  ordergoods :: "OrderGoods list"
  shoppingcart :: "ShoppingCartDO list"
  order_status_logs :: "OrderStatusLogDO list"
  order_refund_requests :: "RefundRequestDO list"
  order_refund_outbox :: "RefundOutboxDO list"
  payment_events :: "PaymentEventDO list"
  payment_reconciliation_runs :: "PaymentReconciliationRunDO list"
  payment_reconciliation_items :: "PaymentReconciliationItemDO list"
  account_deletion_inbox :: "AccountDeletionInboxDO list"
  account_deletion_outbox :: "AccountDeletionOutboxDO list"

type_synonym 'a ord_op = "(order_db, 'a) op"

section \<open>Columns\<close>

definition order_check :: "OrderInfoDO \<Rightarrow> db_error option" where
  "order_check r =
     (if 30 < length (od_OrderSn r) \<or> 20 < length (od_PayType r) \<or> 20 < length (od_Status r) \<or>
         100 < length (od_TradeNo r) \<or> 64 < length (od_StoreID r) \<or> 100 < length (od_Address r) \<or>
         20 < length (od_SignerName r) \<or> 11 < length (od_SingerMobile r) \<or> 20 < length (od_Post r)
      then Some DataTooLong
      else if in_int32 (od_User r) \<and> in_int64 (od_OrderMountFen r) then None else Some OutOfRange)"

definition goods_check :: "OrderGoods \<Rightarrow> db_error option" where
  "goods_check g =
     (if 100 < length (og_GoodsName g) \<or> 200 < length (og_GoodsImage g) then Some DataTooLong
      else if in_int32 (og_Order g) \<and> in_int32 (og_Goods g) \<and> in_int64 (og_GoodsPriceFen g) \<and> in_int32 (og_Nums g)
      then None else Some OutOfRange)"

definition cart_check :: "ShoppingCartDO \<Rightarrow> db_error option" where
  "cart_check c = (if in_int32 (sc_User c) \<and> in_int32 (sc_Goods c) \<and> in_int32 (sc_Nums c) then None else Some OutOfRange)"

definition log_check :: "OrderStatusLogDO \<Rightarrow> db_error option" where
  "log_check l =
     (if 30 < length (sl_OrderSn l) \<or> 20 < length (sl_FromStatus l) \<or> 20 < length (sl_ToStatus l) \<or>
         128 < length (sl_Reason l) \<or> 64 < length (sl_Source l) \<or> 64 < length (sl_Operator l)
      then Some DataTooLong
      else if in_int32 (sl_OrderID l) then None else Some OutOfRange)"

definition refund_check :: "RefundRequestDO \<Rightarrow> db_error option" where
  "refund_check r =
     (if 64 < length (rr_OrderSN r) \<or> 255 < length (rr_Reason r) \<or> 24 < length (rr_Status r) \<or>
         32 < length (rr_Provider r) \<or> 128 < length (rr_ProviderRefundID r) \<or> 255 < length (rr_FailureReason r) \<or>
         36 < length (rr_CorrelationID r) then Some DataTooLong
      else if in_int32 (rr_ActorUserID r) \<and> in_int64 (rr_AmountFen r) then None else Some OutOfRange)"

abbreviation fits_check :: "('r \<Rightarrow> db_error option) \<Rightarrow> 'r \<Rightarrow> bool" where
  "fits_check check r \<equiv> check r = None"

text \<open>The row of a record whose key the server assigns, with the two times \<open>gorm\<close> sets.\<close>

definition stamped :: "time \<Rightarrow> 'a base_model_scheme list \<Rightarrow> 'a base_model_scheme \<Rightarrow> 'a base_model_scheme" where
  "stamped now t r = r\<lparr>ID := if ID r = 0 then next_id ID t else ID r, CreatedAt := now, UpdatedAt := now\<rparr>"

text \<open>
  \<open>INSERT\<close> of an order and, in a second statement, of its goods with the order's key in
  their foreign key; a list of rows is inserted as a whole or not at all.
\<close>

definition insert_order :: "time \<Rightarrow> OrderInfoDO \<Rightarrow> OrderInfoDO list \<Rightarrow> (db_error + int) \<times> OrderInfoDO list" where
  "insert_order now order t =
     (case insert_row order_check (\<lambda>r r'. ID r = ID r') (stamped now t (order\<lparr>od_OrderGoods := []\<rparr>)) t of
        (Inl d, t') \<Rightarrow> (Inl d, t')
      | (Inr r, t') \<Rightarrow> (Inr (ID r), t'))"

fun insert_rows :: "('r list \<Rightarrow> 'r \<Rightarrow> 'r) \<Rightarrow> ('r \<Rightarrow> db_error option) \<Rightarrow> ('r \<Rightarrow> 'r \<Rightarrow> bool) \<Rightarrow> 'r list \<Rightarrow> 'r list \<Rightarrow> (db_error + unit) \<times> 'r list" where
  "insert_rows stamp check clash [] t = (Inr (), t)"
| "insert_rows stamp check clash (r # rs) t =
     (case insert_row check clash (stamp t r) t of
        (Inl d, _) \<Rightarrow> (Inl d, t)
      | (Inr _, t') \<Rightarrow>
          (case insert_rows stamp check clash rs t' of
             (Inl d, _) \<Rightarrow> (Inl d, t)
           | (Inr u, t'') \<Rightarrow> (Inr u, t'')))"

section \<open>Ordering\<close>

text \<open>\<open>strings.Fields\<close>: the parts of a text between its white space.\<close>

function fields_from :: "string \<Rightarrow> string \<Rightarrow> string list" where
  "fields_from acc s =
     (case find (\<lambda>p. p \<noteq> [] \<and> prefix p s) go_spaces of
        Some p \<Rightarrow> (if acc = [] then [] else [acc]) @ fields_from [] (drop (length p) s)
      | None \<Rightarrow> (case s of [] \<Rightarrow> if acc = [] then [] else [acc] | c # s' \<Rightarrow> fields_from (acc @ [c]) s'))"
  by pat_completeness auto

termination
proof (relation "measure (\<lambda>(acc, s). length s)", goal_cases)
  case (3 acc s p)
  then have "p \<noteq> []" "prefix p s" by (auto simp: find_Some_iff)
  then have "0 < length p" "length p \<le> length s" by (auto dest: prefix_length_le)
  then have "length (drop (length p) s) < length s" unfolding length_drop by linarith
  then show ?case by simp
qed simp_all

declare fields_from.simps [simp del]

definition fields :: "string \<Rightarrow> string list" where "fields s = fields_from [] s"

definition orderInfoOrderColumns :: "(string \<times> string) list" where
  "orderInfoOrderColumns =
     [(''id'', ''id''), (''user'', ''user''), (''order_sn'', ''order_sn''), (''pay_type'', ''pay_type''),
      (''status'', ''status''), (''trade_no'', ''trade_no''), (''order_mount'', ''order_mount_fen''),
      (''pay_time'', ''pay_time''), (''address'', ''address''), (''signer_name'', ''signer_name''),
      (''singer_mobile'', ''singer_mobile''), (''post'', ''post''), (''add_time'', ''add_time''),
      (''update_time'', ''update_time'')]"

definition shopCartOrderColumns :: "(string \<times> string) list" where
  "shopCartOrderColumns =
     [(''id'', ''id''), (''user'', ''user''), (''goods'', ''goods''), (''nums'', ''nums''),
      (''checked'', ''checked''), (''add_time'', ''add_time''), (''update_time'', ''update_time'')]"

text \<open>\<open>None\<close> is the answer \<open>ok = false\<close>; otherwise the column and whether it is descending.\<close>

definition parseOrderBy :: "string \<Rightarrow> (string \<times> string) list \<Rightarrow> (string \<times> bool) option" where
  "parseOrderBy value0 allowedColumns =
     (let v = trim_space (filter (\<lambda>c. c \<noteq> CHR ''`'') value0) in
      if v = [] then None
      else
        let parts = fields v in
        if parts = [] \<or> 2 < length parts then None
        else
          (case map_of allowedColumns (to_lower (parts ! 0)) of
             None \<Rightarrow> None
           | Some column \<Rightarrow>
               if length parts = 1 then Some (column, False)
               else if to_lower (parts ! 1) = ''asc'' then Some (column, False)
               else if to_lower (parts ! 1) = ''desc'' then Some (column, True)
               else None))"

definition order_terms :: "string list \<Rightarrow> (string \<times> string) list \<Rightarrow> (string \<times> bool) list" where
  "order_terms orderBy allowedColumns = List.map_filter (\<lambda>v. parseOrderBy v allowedColumns) orderBy"

text \<open>The value of a column, and how MySQL orders two of them: \<open>NULL\<close> first.\<close>

datatype cell = CInt int | CStr string | CNull

fun str_less :: "string \<Rightarrow> string \<Rightarrow> bool" where
  "str_less [] [] = False"
| "str_less [] (c # s) = True"
| "str_less (c # s) [] = False"
| "str_less (c # s) (d # t) =
     ((of_char c :: nat) < of_char d \<or> (c = d \<and> str_less s t))"

fun cell_less :: "cell \<Rightarrow> cell \<Rightarrow> bool" where
  "cell_less CNull CNull = False"
| "cell_less CNull _ = True"
| "cell_less _ CNull = False"
| "cell_less (CInt i) (CInt j) = (i < j)"
| "cell_less (CStr s) (CStr t) = str_less s t"
| "cell_less _ _ = False"

fun row_before :: "('r \<Rightarrow> string \<Rightarrow> cell) \<Rightarrow> (string \<times> bool) list \<Rightarrow> 'r \<Rightarrow> 'r \<Rightarrow> bool" where
  "row_before col [] r r' = False"
| "row_before col ((c, desc) # ts) r r' =
     (if cell_less (col r c) (col r' c) then \<not> desc
      else if cell_less (col r' c) (col r c) then desc
      else row_before col ts r r')"

primrec insert_before :: "('r \<Rightarrow> 'r \<Rightarrow> bool) \<Rightarrow> 'r \<Rightarrow> 'r list \<Rightarrow> 'r list" where
  "insert_before lt r [] = [r]"
| "insert_before lt r (x # xs) = (if lt x r then x # insert_before lt r xs else r # x # xs)"

definition applyOrderBy :: "('r \<Rightarrow> string \<Rightarrow> cell) \<Rightarrow> string list \<Rightarrow> (string \<times> string) list \<Rightarrow> 'r list \<Rightarrow> 'r list" where
  "applyOrderBy col orderBy allowedColumns rows =
     foldr (insert_before (row_before col (order_terms orderBy allowedColumns))) rows []"

definition time_cell :: "time option \<Rightarrow> cell" where
  "time_cell t = (case t of None \<Rightarrow> CNull | Some x \<Rightarrow> CInt x)"

definition order_column :: "OrderInfoDO \<Rightarrow> string \<Rightarrow> cell" where
  "order_column r c =
     (if c = ''id'' then CInt (ID r) else if c = ''user'' then CInt (od_User r)
      else if c = ''order_sn'' then CStr (od_OrderSn r) else if c = ''pay_type'' then CStr (od_PayType r)
      else if c = ''status'' then CStr (od_Status r) else if c = ''trade_no'' then CStr (od_TradeNo r)
      else if c = ''order_mount_fen'' then CInt (od_OrderMountFen r) else if c = ''pay_time'' then time_cell (od_PayTime r)
      else if c = ''address'' then CStr (od_Address r) else if c = ''signer_name'' then CStr (od_SignerName r)
      else if c = ''singer_mobile'' then CStr (od_SingerMobile r) else if c = ''post'' then CStr (od_Post r)
      else if c = ''add_time'' then CInt (CreatedAt r) else if c = ''update_time'' then CInt (UpdatedAt r) else CNull)"

definition cart_column :: "ShoppingCartDO \<Rightarrow> string \<Rightarrow> cell" where
  "cart_column r c =
     (if c = ''id'' then CInt (ID r) else if c = ''user'' then CInt (sc_User r)
      else if c = ''goods'' then CInt (sc_Goods r) else if c = ''nums'' then CInt (sc_Nums r)
      else if c = ''checked'' then CInt (if sc_Checked r then 1 else 0)
      else if c = ''add_time'' then CInt (CreatedAt r) else if c = ''update_time'' then CInt (UpdatedAt r) else CNull)"

section \<open>Orders\<close>

text \<open>\<open>Preload("OrderGoods")\<close>: the goods of an order that has been found.\<close>

definition with_goods :: "order_db \<Rightarrow> OrderInfoDO \<Rightarrow> OrderInfoDO" where
  "with_goods t r = r\<lparr>od_OrderGoods := filter (\<lambda>g. live g \<and> og_Order g = ID r) (ordergoods t)\<rparr>"

definition preload :: "OrderInfoDO list \<Rightarrow> (order_db session, db_error + OrderInfoDO list) state" where
  "preload rs = (if rs = [] then ok [] else query_stmt (\<lambda>t. map (with_goods t) rs))"

definition orders_Get :: "string \<Rightarrow> OrderInfoDO ord_op" where
  "orders_Get orderSn =
     (let sn = trim_space orderSn in
      if sn = [] then fail (NewCode ErrOrderNotFound)
      else bind_err (\<lambda>e. if e = RecordNotFound then NewCode ErrOrderNotFound else driver_err e)
        (first_stmt orderinfo (\<lambda>r. live r \<and> od_OrderSn r = sn))
        (\<lambda>r. bind_err driver_err (preload [r]) (\<lambda>rs. ok (hd rs))))"

record ListMeta =
  lm_Page :: int
  lm_PageSize :: int

definition list_window :: "ListMeta \<Rightarrow> int \<times> int" where
  "list_window meta =
     (let limit = (if lm_PageSize meta = 0 then 10 else lm_PageSize meta)
      in (if 0 < lm_Page meta then (lm_Page meta - 1) * limit else 0, limit))"

definition orders_List :: "int \<Rightarrow> ListMeta \<Rightarrow> string list \<Rightarrow> (int \<times> OrderInfoDO list) ord_op" where
  "orders_List userID meta orderBy =
     (if userID = 0 then ok (0, [])
      else let (offset, limit) = list_window meta in
        bind_err driver_err
          (query_stmt (\<lambda>t. int (count_rows (\<lambda>r. live r \<and> od_User r = userID) (orderinfo t))))
          (\<lambda>total. bind_err driver_err
            (query_stmt (\<lambda>t. page_rows offset limit
              (applyOrderBy order_column orderBy orderInfoOrderColumns
                (filter (\<lambda>r. live r \<and> od_User r = userID) (orderinfo t)))))
            (\<lambda>rs. bind_err driver_err (preload rs) (\<lambda>items. ok (total, items)))))"

text \<open>\<open>Create\<close> gives the key the row was stored under, which the source finds in \<open>order.ID\<close>.\<close>

definition orders_Create :: "time \<Rightarrow> OrderInfoDO option \<Rightarrow> int ord_op" where
  "orders_Create now oorder =
     (case oorder of None \<Rightarrow> fail (NewCode ErrSubmitOrder)
      | Some order0 \<Rightarrow>
          let order = order0\<lparr>od_OrderSn := trim_space (od_OrderSn order0)\<rparr> in
          if od_User order \<le> 0 \<or> od_OrderSn order = [] then fail (NewCode ErrSubmitOrder)
          else bind_err driver_err (write_stmt orderinfo orderinfo_update (insert_order now order))
            (\<lambda>oid. if od_OrderGoods order = [] then ok oid
              else bind_err driver_err
                (write_stmt ordergoods ordergoods_update
                  (insert_rows (stamped now) goods_check (\<lambda>g g'. ID g = ID g')
                    (map (\<lambda>g. g\<lparr>og_Order := oid\<rparr>) (od_OrderGoods order))))
                (\<lambda>_. ok oid)))"

text \<open>A soft delete sets \<open>deleted_at\<close> of the rows it hits.\<close>

definition soft_delete :: "time \<Rightarrow> ('a base_model_scheme \<Rightarrow> bool) \<Rightarrow> 'a base_model_scheme list \<Rightarrow> (db_error + nat) \<times> 'a base_model_scheme list" where
  "soft_delete now p = update_where (\<lambda>r. live r \<and> p r) (\<lambda>r. r\<lparr>DeletedAt := Some now\<rparr>) (\<lambda>_. True)"

definition DeleteByOrderSn :: "time \<Rightarrow> string \<Rightarrow> unit ord_op" where
  "DeleteByOrderSn now orderSn =
     (let sn = trim_space orderSn in
      if sn = [] then ok ()
      else do {
        found \<leftarrow> first_stmt orderinfo (\<lambda>r. live r \<and> od_OrderSn r = sn);
        case found of
          Inl e \<Rightarrow> if e = RecordNotFound then ok () else fail (driver_err e)
        | Inr order \<Rightarrow>
            bind_err driver_err
              (write_stmt ordergoods ordergoods_update (soft_delete now (\<lambda>g. og_Order g = ID order)))
              (\<lambda>_. bind_err driver_err
                (write_stmt orderinfo orderinfo_update (soft_delete now (\<lambda>r. ID r = ID order)))
                (\<lambda>_. ok ()))
      })"

definition order_updates :: "time \<Rightarrow> OrderInfoDO \<Rightarrow> OrderInfoDO \<Rightarrow> OrderInfoDO" where
  "order_updates now order r =
     r\<lparr>od_Status := od_Status order,
       od_PayType := (if od_PayType order \<noteq> [] then od_PayType order else od_PayType r),
       od_TradeNo := (if od_TradeNo order \<noteq> [] then od_TradeNo order else od_TradeNo r),
       od_PayTime := (if od_PayTime order \<noteq> None then od_PayTime order else od_PayTime r),
       UpdatedAt := now\<rparr>"

definition orders_Update :: "time \<Rightarrow> OrderInfoDO option \<Rightarrow> unit ord_op" where
  "orders_Update now oorder =
     (case oorder of None \<Rightarrow> fail (NewCode ErrOrderNotFound)
      | Some order0 \<Rightarrow>
          let order = order0\<lparr>od_OrderSn := trim_space (od_OrderSn order0), od_Status := trim_space (od_Status order0)\<rparr> in
          if ID order \<le> 0 \<and> od_OrderSn order = [] then fail (NewCode ErrOrderNotFound)
          else if od_Status order = [] then fail (NewCode ErrOrderStatusInvalid)
          else bind_err driver_err
            (write_stmt orderinfo orderinfo_update
              (update_where
                (\<lambda>r. live r \<and> (if 0 < ID order then ID r = ID order else od_OrderSn r = od_OrderSn order))
                (order_updates now order) (fits_check order_check)))
            (\<lambda>n. if n = 0 then fail (NewCode ErrOrderNotFound) else ok ()))"

definition insert_refund_request :: "RefundRequestDO \<Rightarrow> RefundRequestDO list \<Rightarrow> (db_error + RefundRequestDO) \<times> RefundRequestDO list" where
  "insert_refund_request r t =
     insert_row refund_check (\<lambda>r r'. rr_CorrelationID r = rr_CorrelationID r') (r\<lparr>rr_ID := next_id rr_ID t\<rparr>) t"

definition insert_refund_outbox :: "RefundOutboxDO \<Rightarrow> RefundOutboxDO list \<Rightarrow> (db_error + RefundOutboxDO) \<times> RefundOutboxDO list" where
  "insert_refund_outbox o' t =
     insert_row (\<lambda>_. None) (\<lambda>r r'. ro_RefundRequestID r = ro_RefundRequestID r') (o'\<lparr>ro_ID := next_id ro_ID t\<rparr>) t"

definition CreateRefundRequest :: "time \<Rightarrow> RefundRequestDO option \<Rightarrow> unit ord_op" where
  "CreateRefundRequest now orequest =
     (case orequest of None \<Rightarrow> fail (NewCode ErrValidation)
      | Some request \<Rightarrow>
          if rr_OrderSN request = [] \<or> rr_ActorUserID request \<le> 0 \<or> rr_AmountFen request \<le> 0 \<or>
             rr_Reason request = [] \<or> rr_CorrelationID request = []
          then fail (NewCode ErrValidation)
          else bind_err driver_err
            (write_stmt order_refund_requests order_refund_requests_update (insert_refund_request request))
            (\<lambda>r. bind_err driver_err
              (write_stmt order_refund_outbox order_refund_outbox_update
                (insert_refund_outbox \<lparr>ro_ID = 0, ro_RefundRequestID = rr_ID r, ro_Status = ''pending'', ro_Attempts = 0,
                   ro_AvailableAt = now, ro_LockedAt = None, ro_LastError = [], ro_CreatedAt = now, ro_UpdatedAt = now\<rparr>))
              (\<lambda>_. ok ())))"

definition ListCloseCandidates :: "string list \<Rightarrow> time \<Rightarrow> int \<Rightarrow> OrderInfoDO list ord_op" where
  "ListCloseCandidates statuses createdBefore limit =
     (if statuses = [] then ok []
      else let lim = (if limit \<le> 0 then 20 else limit) in
        bind_err driver_err
          (query_stmt (\<lambda>t. page_rows 0 lim (sort_key CreatedAt
            (filter (\<lambda>r. live r \<and> od_Status r \<in> set statuses \<and> CreatedAt r \<le> createdBefore) (orderinfo t)))))
          (\<lambda>rs. map_err driver_err (preload rs)))"

definition ListFinishCandidates :: "string \<Rightarrow> time \<Rightarrow> int \<Rightarrow> OrderInfoDO list ord_op" where
  "ListFinishCandidates status0 paidBefore limit =
     (let status = trim_space status0 in
      if status = [] then ok []
      else let lim = (if limit \<le> 0 then 20 else limit) in
        bind_err driver_err
          (query_stmt (\<lambda>t. page_rows 0 lim (sort_key (\<lambda>r. the (od_PayTime r))
            (filter (\<lambda>r. live r \<and> od_Status r = status \<and>
               (case od_PayTime r of None \<Rightarrow> False | Some p \<Rightarrow> p \<le> paidBefore)) (orderinfo t)))))
          (\<lambda>rs. map_err driver_err (preload rs)))"

section \<open>Status logs\<close>

definition logs_Create :: "time \<Rightarrow> OrderStatusLogDO option \<Rightarrow> unit ord_op" where
  "logs_Create now oentry =
     (case oentry of None \<Rightarrow> fail (NewCode ErrValidation)
      | Some entry \<Rightarrow>
          if trim_space (sl_OrderSn entry) = [] \<or> trim_space (sl_ToStatus entry) = [] then fail (NewCode ErrValidation)
          else bind_err driver_err
            (write_stmt order_status_logs order_status_logs_update
              (\<lambda>t. insert_row log_check (\<lambda>r r'. ID r = ID r') (stamped now t entry) t))
            (\<lambda>_. ok ()))"

definition ListByOrderSn :: "string \<Rightarrow> OrderStatusLogDO list ord_op" where
  "ListByOrderSn orderSn =
     (let sn = trim_space orderSn in
      if sn = [] then fail (NewCode ErrValidation)
      else map_err driver_err (query_stmt (\<lambda>t.
        sort_key CreatedAt (sort_key ID (filter (\<lambda>l. live l \<and> sl_OrderSn l = sn) (order_status_logs t))))))"

section \<open>Shopping carts\<close>

definition DeleteByGoodsIDs :: "time \<Rightarrow> int \<Rightarrow> int list \<Rightarrow> unit ord_op" where
  "DeleteByGoodsIDs now userID goodsIDs =
     (if userID = 0 \<or> goodsIDs = [] then ok ()
      else bind_err Driver
        (write_stmt shoppingcart shoppingcart_update
          (soft_delete now (\<lambda>c. sc_User c = userID \<and> sc_Goods c \<in> set goodsIDs)))
        (\<lambda>_. ok ()))"

definition insert_cart :: "time \<Rightarrow> ShoppingCartDO \<Rightarrow> ShoppingCartDO list \<Rightarrow> (db_error + ShoppingCartDO) \<times> ShoppingCartDO list" where
  "insert_cart now c t = insert_row cart_check (\<lambda>r r'. ID r = ID r') (stamped now t c) t"

definition new_cart :: "int \<Rightarrow> int \<Rightarrow> int \<Rightarrow> bool \<Rightarrow> ShoppingCartDO" where
  "new_cart u g n chk = \<lparr>ID = 0, CreatedAt = 0, UpdatedAt = 0, DeletedAt = None, IsDeleted = False,
     sc_User = u, sc_Goods = g, sc_Nums = n, sc_Checked = chk\<rparr>"

definition RestoreCheckedItems :: "time \<Rightarrow> int \<Rightarrow> OrderGoods list \<Rightarrow> unit ord_op" where
  "RestoreCheckedItems now userID items =
     (if userID = 0 then ok ()
      else for_each (\<lambda>item.
        if og_Goods item \<le> 0 \<or> og_Nums item \<le> 0 then ok ()
        else bind_err driver_err
          (write_stmt shoppingcart shoppingcart_update
            (update_where (\<lambda>c. live c \<and> sc_User c = userID \<and> sc_Goods c = og_Goods item)
              (\<lambda>c. c\<lparr>sc_Nums := max (sc_Nums c) (og_Nums item), sc_Checked := True, UpdatedAt := now\<rparr>)
              (fits_check cart_check)))
          (\<lambda>n. if 0 < n then ok ()
             else bind_err driver_err
               (write_stmt shoppingcart shoppingcart_update
                 (insert_cart now (new_cart (int32 userID) (og_Goods item) (og_Nums item) True)))
               (\<lambda>_. ok ()))) items)"

definition carts_List :: "int \<Rightarrow> bool \<Rightarrow> ListMeta \<Rightarrow> string list \<Rightarrow> (int \<times> ShoppingCartDO list) ord_op" where
  "carts_List userID checked meta orderBy =
     (if userID = 0 then ok (0, [])
      else let (offset, limit) = list_window meta;
               p = (\<lambda>c. live c \<and> sc_User c = userID \<and> (checked \<longrightarrow> sc_Checked c))
        in bind_err driver_err (query_stmt (\<lambda>t. int (count_rows p (shoppingcart t))))
          (\<lambda>total. bind_err driver_err
            (query_stmt (\<lambda>t. page_rows offset limit
              (applyOrderBy cart_column orderBy shopCartOrderColumns (filter p (shoppingcart t)))))
            (\<lambda>items. ok (total, items))))"

definition cart_invalid :: "ShoppingCartDO \<Rightarrow> bool" where
  "cart_invalid c \<longleftrightarrow> sc_User c \<le> 0 \<or> sc_Goods c \<le> 0 \<or> sc_Nums c \<le> 0"

definition carts_Create :: "time \<Rightarrow> ShoppingCartDO option \<Rightarrow> ShoppingCartDO ord_op" where
  "carts_Create now ocart =
     (case ocart of None \<Rightarrow> fail (NewCode ErrShopCartItemNotFound)
      | Some c \<Rightarrow>
          if cart_invalid c then fail (NewCode ErrShopCartItemNotFound)
          else map_err driver_err (write_stmt shoppingcart shoppingcart_update (insert_cart now c)))"

definition carts_Get :: "int \<Rightarrow> int \<Rightarrow> ShoppingCartDO ord_op" where
  "carts_Get userID goodsID =
     (if userID = 0 \<or> goodsID = 0 then fail (NewCode ErrShopCartItemNotFound)
      else map_err (\<lambda>e. if e = RecordNotFound then NewCode ErrShopCartItemNotFound else driver_err e)
        (first_stmt shoppingcart (\<lambda>c. live c \<and> sc_User c = userID \<and> sc_Goods c = goodsID)))"

definition UpdateNum :: "time \<Rightarrow> ShoppingCartDO option \<Rightarrow> unit ord_op" where
  "UpdateNum now ocart =
     (case ocart of None \<Rightarrow> fail (NewCode ErrShopCartItemNotFound)
      | Some cartItem \<Rightarrow>
          if cart_invalid cartItem then fail (NewCode ErrShopCartItemNotFound)
          else bind_err driver_err
            (write_stmt shoppingcart shoppingcart_update
              (update_where (\<lambda>c. live c \<and> sc_User c = sc_User cartItem \<and> sc_Goods c = sc_Goods cartItem)
                (\<lambda>c. c\<lparr>sc_Nums := sc_Nums cartItem, sc_Checked := sc_Checked cartItem, UpdatedAt := now\<rparr>)
                (fits_check cart_check)))
            (\<lambda>n. if n = 0 then fail (NewCode ErrShopCartItemNotFound) else ok ()))"

definition carts_Delete :: "time \<Rightarrow> int \<Rightarrow> int \<Rightarrow> unit ord_op" where
  "carts_Delete now userID cid =
     (if userID = 0 \<or> cid = 0 then fail (NewCode ErrShopCartItemNotFound)
      else bind_err driver_err
        (write_stmt shoppingcart shoppingcart_update (soft_delete now (\<lambda>c. ID c = cid \<and> sc_User c = userID)))
        (\<lambda>n. if n = 0 then fail (NewCode ErrShopCartItemNotFound) else ok ()))"

definition ClearCheck :: "time \<Rightarrow> int \<Rightarrow> unit ord_op" where
  "ClearCheck now userID =
     (if userID = 0 then ok ()
      else bind_err driver_err
        (write_stmt shoppingcart shoppingcart_update
          (update_where (\<lambda>c. live c \<and> sc_User c = userID \<and> sc_Checked c)
            (\<lambda>c. c\<lparr>sc_Checked := False, UpdatedAt := now\<rparr>) (fits_check cart_check)))
        (\<lambda>_. ok ()))"

end
