(* ===== verification/Payment_Store.thy ===== *)
theory Payment_Store
  imports Order_Store
begin

text \<open>
  The payment side of the order store: payment events (\<open>data/v1/db/order.go\<close>), the refund
  outbox, reconciliation and the order trace (\<open>payment_workflow.go\<close>), and the review of account
  deletions (\<open>account_deletion.go\<close>), all under \<open>app/order/srv/internal/data/v1/db\<close>. One
  worker runs at a time in this model, so no row is locked by another and \<open>SKIP LOCKED\<close> skips
  nothing. Times are milliseconds; the lock timeout, a \<open>time.Duration\<close>, is nanoseconds.
\<close>

section \<open>Statements\<close>

definition event_check :: "PaymentEventDO \<Rightarrow> db_error option" where
  "event_check e =
     (if 32 < length (pe_Provider e) \<or> 128 < length (pe_EventID e) \<or> 64 < length (pe_OrderSN e) \<or>
         128 < length (pe_TradeNo e) \<or> 32 < length (pe_EventType e) \<or> 24 < length (pe_Status e) \<or>
         255 < length (pe_ErrorDetail e) then Some DataTooLong
      else if in_int64 (pe_OrderAmountFen e) \<and> in_int64 (pe_ProviderAmountFen e) \<and> in_int64 (pe_RefundAmountFen e)
      then None else Some OutOfRange)"

definition outbox_check :: "RefundOutboxDO \<Rightarrow> db_error option" where
  "outbox_check o' =
     (if 24 < length (ro_Status o') \<or> 255 < length (ro_LastError o') then Some DataTooLong
      else if in_int32 (ro_Attempts o') then None else Some OutOfRange)"

definition run_check :: "PaymentReconciliationRunDO \<Rightarrow> db_error option" where
  "run_check r =
     (if 32 < length (pr_Provider r) \<or> 24 < length (pr_Status r) then Some DataTooLong
      else if in_int32 (pr_CheckedCount r) \<and> in_int32 (pr_MismatchCount r) then None else Some OutOfRange)"

definition item_check :: "PaymentReconciliationItemDO \<Rightarrow> db_error option" where
  "item_check i =
     (if 128 < length (pi_ProviderEventID i) \<or> 64 < length (pi_OrderSN i) \<or> 128 < length (pi_TradeNo i) \<or>
         32 < length (pi_EventType i) \<or> 24 < length (pi_Result i) \<or> 255 < length (pi_Detail i) then Some DataTooLong
      else if in_int64 (pi_ProviderAmountFen i) \<and> in_int64 (pi_LocalAmountFen i) then None else Some OutOfRange)"

text \<open>
  \<open>db.Transaction(func(tx) error)\<close> with every error of the body handed out as it is; then
  \<open>WrapDatabase\<close> around what came out.
\<close>

abbreviation db_transaction :: "('t, 'a) op \<Rightarrow> ('t, 'a) op" where
  "db_transaction \<equiv> transaction (Driver Fault) (Driver Fault)"

abbreviation wrapped_transaction :: "('t, 'a) op \<Rightarrow> ('t, 'a) op" where
  "wrapped_transaction body \<equiv> map_err WrapDatabase (db_transaction body)"

text \<open>\<open>Updates\<close> of the rows a condition picks.\<close>

definition update_events :: "(PaymentEventDO \<Rightarrow> bool) \<Rightarrow> (PaymentEventDO \<Rightarrow> PaymentEventDO) \<Rightarrow> unit ord_op" where
  "update_events p f = bind_err Driver
     (write_stmt payment_events payment_events_update (update_where p f (fits_check event_check))) (\<lambda>_. ok ())"

definition update_requests :: "(RefundRequestDO \<Rightarrow> bool) \<Rightarrow> (RefundRequestDO \<Rightarrow> RefundRequestDO) \<Rightarrow> unit ord_op" where
  "update_requests p f = bind_err Driver
     (write_stmt order_refund_requests order_refund_requests_update (update_where p f (fits_check refund_check))) (\<lambda>_. ok ())"

definition update_outbox :: "int \<Rightarrow> (RefundOutboxDO \<Rightarrow> RefundOutboxDO) \<Rightarrow> unit ord_op" where
  "update_outbox oid f = bind_err Driver
     (write_stmt order_refund_outbox order_refund_outbox_update
       (update_where (\<lambda>o'. ro_ID o' = oid) f (fits_check outbox_check))) (\<lambda>_. ok ())"

section \<open>Payment events\<close>

definition event_invalid :: "PaymentEventDO \<Rightarrow> bool" where
  "event_invalid e \<longleftrightarrow> pe_Provider e = [] \<or> pe_EventID e = [] \<or> pe_OrderSN e = [] \<or> pe_EventType e = [] \<or>
     pe_ProviderAmountFen e < 0"

definition insert_event :: "PaymentEventDO \<Rightarrow> PaymentEventDO list \<Rightarrow> (db_error + PaymentEventDO) \<times> PaymentEventDO list" where
  "insert_event e t =
     insert_row event_check (\<lambda>r r'. pe_ID r = pe_ID r' \<or> (pe_Provider r = pe_Provider r' \<and> pe_EventID r = pe_EventID r'))
       (e\<lparr>pe_ID := if pe_ID e = 0 then next_id pe_ID t else pe_ID e\<rparr>) t"

definition order_by_sn :: "string \<Rightarrow> OrderInfoDO ord_op" where
  "order_by_sn sn = map_err Driver (first_stmt orderinfo (\<lambda>r. live r \<and> od_OrderSn r = sn))"

definition begin_event_body :: "time \<Rightarrow> PaymentEventDO \<Rightarrow> (PaymentEventDO \<times> OrderInfoDO \<times> bool) ord_op" where
  "begin_event_body now event = do {
     found \<leftarrow> first_stmt payment_events (\<lambda>e. pe_Provider e = pe_Provider event \<and> pe_EventID e = pe_EventID event);
     case found of
       Inr existing \<Rightarrow>
         if pe_Status existing = ''failed''
         then bindE (update_events (\<lambda>e. pe_ID e = pe_ID existing) (\<lambda>e. e\<lparr>pe_Status := ''processing'', pe_ErrorDetail := []\<rparr>))
           (\<lambda>_. bindE (order_by_sn (pe_OrderSN existing))
             (\<lambda>order. ok (existing\<lparr>pe_Status := ''processing'', pe_ErrorDetail := []\<rparr>, order, True)))
         else bindE (order_by_sn (pe_OrderSN existing)) (\<lambda>order. ok (existing, order, False))
     | Inl e \<Rightarrow>
         if e \<noteq> RecordNotFound then fail (Driver e)
         else bindE (order_by_sn (pe_OrderSN event)) (\<lambda>order.
           bind_err Driver
             (write_stmt payment_events payment_events_update
               (insert_event (event\<lparr>pe_OrderAmountFen := od_OrderMountFen order, pe_Status := ''processing'',
                  pe_ReceivedAt := now\<rparr>)))
             (\<lambda>row. ok (row, order, True)))
   }"

definition BeginPaymentEvent :: "time \<Rightarrow> PaymentEventDO option \<Rightarrow> (PaymentEventDO \<times> OrderInfoDO \<times> bool) ord_op" where
  "BeginPaymentEvent now oevent =
     (case oevent of None \<Rightarrow> fail (NewCode ErrValidation)
      | Some event \<Rightarrow>
          if event_invalid event then fail (NewCode ErrValidation)
          else wrapped_transaction (begin_event_body now event))"

text \<open>\<open>ORDER BY id DESC LIMIT 1\<close> of an update: the last row the condition picks.\<close>

definition last_open_refund :: "string \<Rightarrow> RefundRequestDO list \<Rightarrow> RefundRequestDO \<Rightarrow> bool" where
  "last_open_refund sn t r =
     (let open_rows = filter (\<lambda>r. rr_OrderSN r = sn \<and> rr_Status r \<in> {''REFUND_PENDING'', ''PROCESSING''}) t
      in open_rows \<noteq> [] \<and> rr_ID r = rr_ID (last open_rows))"

definition complete_event_body :: "time \<Rightarrow> int \<Rightarrow> bool \<Rightarrow> string \<Rightarrow> unit ord_op" where
  "complete_event_body now eid success detail =
     bind_err Driver (first_stmt payment_events (\<lambda>e. pe_ID e = eid \<and> pe_Status e = ''processing'')) (\<lambda>event.
       bindE (update_events (\<lambda>e. pe_ID e = pe_ID event)
           (\<lambda>e. if success then e\<lparr>pe_Status := ''completed'', pe_CompletedAt := Some now, pe_ErrorDetail := []\<rparr>
                else e\<lparr>pe_Status := ''failed'', pe_ErrorDetail := trim_space detail\<rparr>))
         (\<lambda>_. if success \<and> (pe_EventType event = ''refund_succeeded'' \<or> pe_EventType event = ''refund_failed'')
              then bind_err Driver
                (write_stmt order_refund_requests order_refund_requests_update (\<lambda>t.
                  update_where (last_open_refund (pe_OrderSN event) t)
                    (\<lambda>r. r\<lparr>rr_Status := (if pe_EventType event = ''refund_failed'' then ''FAILED'' else ''REFUNDED''),
                       rr_Provider := pe_Provider event,
                       rr_FailureReason := (if pe_EventType event = ''refund_failed''
                         then ''provider reported refund failure'' else []),
                       rr_UpdatedAt := now\<rparr>)
                    (fits_check refund_check) t))
                (\<lambda>_. ok ())
              else ok ()))"

definition CompletePaymentEvent :: "time \<Rightarrow> int \<Rightarrow> bool \<Rightarrow> string \<Rightarrow> unit ord_op" where
  "CompletePaymentEvent now eid success detail = wrapped_transaction (complete_event_body now eid success detail)"

definition event_mismatch :: "PaymentEventDO \<Rightarrow> bool" where
  "event_mismatch e \<longleftrightarrow>
     (pe_EventType e \<noteq> ''refund_succeeded'' \<and> pe_ProviderAmountFen e \<noteq> pe_OrderAmountFen e) \<or>
     (pe_EventType e = ''refund_succeeded'' \<and>
       (pe_RefundAmountFen e \<noteq> pe_ProviderAmountFen e \<or> pe_OrderAmountFen e < pe_RefundAmountFen e))"

definition ListPaymentEvents :: "string \<Rightarrow> int \<Rightarrow> int \<Rightarrow> bool \<Rightarrow> (PaymentEventDO list \<times> int \<times> int) ord_op" where
  "ListPaymentEvents orderSN offset limit mismatchesOnly =
     (let of_order = (\<lambda>e. orderSN \<noteq> [] \<longrightarrow> pe_OrderSN e = orderSN);
          p = (\<lambda>e. of_order e \<and> (mismatchesOnly \<longrightarrow> event_mismatch e))
      in bind_err driver_err (query_stmt (\<lambda>t. int (count_rows p (payment_events t)))) (\<lambda>cnt.
        bind_err driver_err
          (query_stmt (\<lambda>t. int (count_rows (\<lambda>e. event_mismatch e \<and> of_order e) (payment_events t)))) (\<lambda>mismatches.
          bind_err driver_err (query_stmt (\<lambda>t. page_rows offset limit (rev (filter p (payment_events t))))) (\<lambda>items.
            ok (items, cnt, mismatches)))))"

section \<open>Refund jobs\<close>

record RefundJob =
  rj_OutboxID :: int
  rj_RefundRequestID :: int
  rj_OrderSN :: string
  rj_TradeNo :: string
  rj_AmountFen :: int
  rj_Reason :: string
  rj_CorrelationID :: string
  rj_Attempts :: int

definition claimable :: "time \<Rightarrow> int \<Rightarrow> int \<Rightarrow> RefundOutboxDO \<Rightarrow> bool" where
  "claimable now maxAttempts lockTimeout o' \<longleftrightarrow>
     (ro_Attempts o' < maxAttempts \<and> ro_AvailableAt o' \<le> now \<and> ro_Status o' \<in> {''pending'', ''retry''}) \<or>
     (ro_Status o' = ''processing'' \<and>
       (case ro_LockedAt o' of None \<Rightarrow> False | Some l \<Rightarrow> l * 1000000 < now * 1000000 - lockTimeout))"

text \<open>
  The join of a request with the orders of its number, deleted ones included. \<open>Scan\<close> into a
  struct takes the first row.
\<close>

definition request_with_trade :: "int \<Rightarrow> order_db \<Rightarrow> (RefundRequestDO \<times> string) list" where
  "request_with_trade rid t =
     concat (map (\<lambda>r. map (\<lambda>o'. (r, od_TradeNo o')) (filter (\<lambda>o'. od_OrderSn o' = rr_OrderSN r) (orderinfo t)))
       (filter (\<lambda>r. rr_ID r = rid) (order_refund_requests t)))"

definition claim_one :: "time \<Rightarrow> RefundOutboxDO \<Rightarrow> RefundJob ord_op" where
  "claim_one now outbox =
     bindE (update_outbox (ro_ID outbox)
         (\<lambda>o'. o'\<lparr>ro_Status := ''processing'', ro_Attempts := ro_Attempts o' + 1, ro_LockedAt := Some now, ro_UpdatedAt := now\<rparr>))
       (\<lambda>_. bind_err Driver (query_stmt (request_with_trade (ro_RefundRequestID outbox))) (\<lambda>rows.
         case rows of
           [] \<Rightarrow> fail (Plain ''refund request has no order'')
         | (r, tradeNo) # _ \<Rightarrow>
             ok \<lparr>rj_OutboxID = ro_ID outbox, rj_RefundRequestID = rr_ID r, rj_OrderSN = rr_OrderSN r, rj_TradeNo = tradeNo,
               rj_AmountFen = rr_AmountFen r, rj_Reason = rr_Reason r, rj_CorrelationID = rr_CorrelationID r,
               rj_Attempts = ro_Attempts outbox + 1\<rparr>))"

primrec claim_all :: "time \<Rightarrow> RefundOutboxDO list \<Rightarrow> RefundJob list ord_op" where
  "claim_all now [] = ok []"
| "claim_all now (o' # os) = bindE (claim_one now o') (\<lambda>j. bindE (claim_all now os) (\<lambda>js. ok (j # js)))"

definition ClaimRefundJobs :: "time \<Rightarrow> int \<Rightarrow> int \<Rightarrow> int \<Rightarrow> RefundJob list ord_op" where
  "ClaimRefundJobs now limit0 maxAttempts0 lockTimeout0 =
     (let limit = (if limit0 \<le> 0 then 20 else limit0);
          maxAttempts = (if maxAttempts0 \<le> 0 then 8 else maxAttempts0);
          lockTimeout = (if lockTimeout0 \<le> 0 then 2 * 60 * 1000000000 else lockTimeout0)
      in wrapped_transaction
        (bind_err Driver
          (query_stmt (\<lambda>t. page_rows 0 limit (filter (claimable now maxAttempts lockTimeout) (order_refund_outbox t))))
          (claim_all now)))"

text \<open>\<open>None\<close> is the decision to give up; otherwise when the job is tried again.\<close>

definition refundFailureDecision :: "int \<Rightarrow> int \<Rightarrow> time \<Rightarrow> time option" where
  "refundFailureDecision attempts maxAttempts0 now =
     (let maxAttempts = (if maxAttempts0 \<le> 0 then 8 else maxAttempts0)
      in if maxAttempts \<le> attempts then None else Some (now + 2 ^ nat (min attempts 10) * 1000))"

abbreviation (input) OrderStatusRefundPendingDB :: string where "OrderStatusRefundPendingDB \<equiv> ''REFUND_PENDING''"
abbreviation (input) OrderStatusRefundedDB :: string where "OrderStatusRefundedDB \<equiv> ''REFUNDED''"
abbreviation (input) OrderStatusRefundFailedDB :: string where "OrderStatusRefundFailedDB \<equiv> ''REFUND_FAILED''"

definition updateRefundOrderStatus :: "time \<Rightarrow> string \<Rightarrow> string \<Rightarrow> string \<Rightarrow> string \<Rightarrow> unit ord_op" where
  "updateRefundOrderStatus now orderSN frm tgt reason =
     bindE (order_by_sn orderSN) (\<lambda>order.
       if od_Status order = tgt then ok ()
       else if od_Status order \<noteq> frm then fail (Plain ''unexpected order status'')
       else bind_err Driver
         (write_stmt orderinfo orderinfo_update
           (update_where (\<lambda>r. live r \<and> ID r = ID order) (\<lambda>r. r\<lparr>od_Status := tgt, UpdatedAt := now\<rparr>)
             (fits_check order_check)))
         (\<lambda>_. bind_err Driver
           (write_stmt order_status_logs order_status_logs_update
             (\<lambda>t. insert_row log_check (\<lambda>r r'. ID r = ID r')
               (stamped now t \<lparr>ID = 0, CreatedAt = 0, UpdatedAt = 0, DeletedAt = None, IsDeleted = False,
                  sl_OrderID = ID order, sl_OrderSn = od_OrderSn order, sl_FromStatus = frm, sl_ToStatus = tgt,
                  sl_Reason = reason, sl_Source = ''payment.refund.worker'', sl_Operator = ''system''\<rparr>) t))
           (\<lambda>_. ok ())))"

definition truncatePaymentDetail :: "string \<Rightarrow> string" where
  "truncatePaymentDetail value = take 255 (trim_space value)"

text \<open>\<open>strings.EqualFold\<close> of ASCII texts.\<close>

definition equal_fold :: "string \<Rightarrow> string \<Rightarrow> bool" where
  "equal_fold s t \<longleftrightarrow> to_lower s = to_lower t"

definition request_by_id :: "int \<Rightarrow> RefundRequestDO ord_op" where
  "request_by_id rid = map_err Driver (first_stmt order_refund_requests (\<lambda>r. rr_ID r = rid))"

definition refund_done :: "time \<Rightarrow> RefundOutboxDO \<Rightarrow> string \<Rightarrow> string \<Rightarrow> string \<Rightarrow> unit ord_op" where
  "refund_done now outbox provider providerRefundID providerStatus =
     (let final = (equal_fold providerStatus ''refunded'' \<or> equal_fold providerStatus ''succeeded'')
      in bindE (update_requests (\<lambda>r. rr_ID r = ro_RefundRequestID outbox)
             (\<lambda>r. r\<lparr>rr_Status := (if final then ''REFUNDED'' else ''PROCESSING''), rr_Provider := provider,
                rr_ProviderRefundID := providerRefundID, rr_FailureReason := [], rr_UpdatedAt := now\<rparr>))
        (\<lambda>_. bindE (request_by_id (ro_RefundRequestID outbox))
          (\<lambda>refund. bindE
            (if final then updateRefundOrderStatus now (rr_OrderSN refund) OrderStatusRefundPendingDB OrderStatusRefundedDB
               ''provider refund completed'' else ok ())
            (\<lambda>_. update_outbox (ro_ID outbox)
              (\<lambda>o'. o'\<lparr>ro_Status := ''completed'', ro_LockedAt := None, ro_LastError := [], ro_UpdatedAt := now\<rparr>)))))"

definition refund_dead :: "time \<Rightarrow> RefundOutboxDO \<Rightarrow> string \<Rightarrow> unit ord_op" where
  "refund_dead now outbox detail =
     bindE (update_requests (\<lambda>r. rr_ID r = ro_RefundRequestID outbox)
         (\<lambda>r. r\<lparr>rr_Status := ''FAILED'', rr_FailureReason := detail, rr_UpdatedAt := now\<rparr>))
       (\<lambda>_. bindE (request_by_id (ro_RefundRequestID outbox))
         (\<lambda>refund. bindE
           (updateRefundOrderStatus now (rr_OrderSN refund) OrderStatusRefundPendingDB OrderStatusRefundFailedDB
             ''refund retry limit reached'')
           (\<lambda>_. update_outbox (ro_ID outbox)
             (\<lambda>o'. o'\<lparr>ro_Status := ''dead'', ro_LockedAt := None, ro_LastError := detail, ro_UpdatedAt := now\<rparr>))))"

definition complete_refund_body ::
    "time \<Rightarrow> int \<Rightarrow> bool \<Rightarrow> string \<Rightarrow> string \<Rightarrow> string \<Rightarrow> string \<Rightarrow> int \<Rightarrow> unit ord_op" where
  "complete_refund_body now oid success provider providerRefundID providerStatus detail maxAttempts =
     bind_err Driver (first_stmt order_refund_outbox (\<lambda>o'. ro_ID o' = oid \<and> ro_Status o' = ''processing'')) (\<lambda>outbox.
       if success then refund_done now outbox provider providerRefundID providerStatus
       else
         let detail' = truncatePaymentDetail detail in
         (case refundFailureDecision (ro_Attempts outbox) maxAttempts now of
            None \<Rightarrow> refund_dead now outbox detail'
          | Some availableAt \<Rightarrow> update_outbox (ro_ID outbox)
              (\<lambda>o'. o'\<lparr>ro_Status := ''retry'', ro_AvailableAt := availableAt, ro_LockedAt := None,
                 ro_LastError := detail', ro_UpdatedAt := now\<rparr>)))"

definition CompleteRefundJob ::
    "time \<Rightarrow> int \<Rightarrow> bool \<Rightarrow> string \<Rightarrow> string \<Rightarrow> string \<Rightarrow> string \<Rightarrow> int \<Rightarrow> unit ord_op" where
  "CompleteRefundJob now oid success provider providerRefundID providerStatus detail maxAttempts0 =
     (if oid = 0 then fail (NewCode ErrValidation)
      else let maxAttempts = (if maxAttempts0 \<le> 0 then 8 else maxAttempts0) in
        wrapped_transaction
          (complete_refund_body now oid success provider providerRefundID providerStatus detail maxAttempts))"

definition retry_dead_body :: "time \<Rightarrow> int \<Rightarrow> RefundJob ord_op" where
  "retry_dead_body now oid =
     bind_err Driver (first_stmt order_refund_outbox (\<lambda>o'. ro_ID o' = oid \<and> ro_Status o' = ''dead'')) (\<lambda>outbox.
       bindE (request_by_id (ro_RefundRequestID outbox)) (\<lambda>refund.
         bindE (if rr_Status refund = ''FAILED''
                then update_requests (\<lambda>r. rr_ID r = rr_ID refund)
                  (\<lambda>r. r\<lparr>rr_Status := ''PROCESSING'', rr_FailureReason := [], rr_UpdatedAt := now\<rparr>) else ok ()) (\<lambda>_.
           bindE (order_by_sn (rr_OrderSN refund)) (\<lambda>order.
             bindE (if od_Status order = OrderStatusRefundFailedDB
                    then updateRefundOrderStatus now (rr_OrderSN refund) OrderStatusRefundFailedDB
                      OrderStatusRefundPendingDB ''refund dead-letter retry requested'' else ok ()) (\<lambda>_.
               bindE (update_outbox (ro_ID outbox)
                   (\<lambda>o'. o'\<lparr>ro_Status := ''retry'', ro_Attempts := 0, ro_AvailableAt := now, ro_LockedAt := None,
                      ro_LastError := [], ro_UpdatedAt := now\<rparr>)) (\<lambda>_.
                 ok \<lparr>rj_OutboxID = ro_ID outbox, rj_RefundRequestID = rr_ID refund, rj_OrderSN = rr_OrderSN refund,
                   rj_TradeNo = od_TradeNo order, rj_AmountFen = rr_AmountFen refund, rj_Reason = rr_Reason refund,
                   rj_CorrelationID = rr_CorrelationID refund, rj_Attempts = 0\<rparr>))))))"

definition RetryDeadRefundJob :: "time \<Rightarrow> int \<Rightarrow> RefundJob ord_op" where
  "RetryDeadRefundJob now oid =
     (if oid = 0 then fail (NewCode ErrValidation) else wrapped_transaction (retry_dead_body now oid))"

section \<open>Reconciliation\<close>

definition transaction_invalid :: "PaymentEventDO \<Rightarrow> bool" where
  "transaction_invalid e \<longleftrightarrow> trim_space (pe_EventID e) = [] \<or> trim_space (pe_OrderSN e) = [] \<or>
     trim_space (pe_EventType e) = [] \<or> pe_ProviderAmountFen e < 0"

text \<open>The item of a provider transaction, and that of a local one the statement does not have.\<close>

definition remote_item :: "time \<Rightarrow> int \<Rightarrow> PaymentEventDO list \<Rightarrow> PaymentEventDO \<Rightarrow> PaymentReconciliationItemDO" where
  "remote_item now runID locals remote =
     (let local = map_of (rev (map (\<lambda>l. (pe_EventID l, l)) locals)) (pe_EventID remote);
          verdict = (case local of
              None \<Rightarrow> (''missing_local'', ''provider transaction missing locally'', 0)
            | Some l \<Rightarrow>
                if pe_OrderSN l \<noteq> pe_OrderSN remote \<or> pe_TradeNo l \<noteq> pe_TradeNo remote \<or>
                   pe_EventType l \<noteq> pe_EventType remote \<or> pe_ProviderAmountFen l \<noteq> pe_ProviderAmountFen remote
                then (''mismatch'', ''provider and local transaction differ'', pe_ProviderAmountFen l)
                else (''matched'', [], pe_ProviderAmountFen l))
      in \<lparr>pi_ID = 0, pi_RunID = runID, pi_ProviderEventID = pe_EventID remote, pi_OrderSN = pe_OrderSN remote,
          pi_TradeNo = pe_TradeNo remote, pi_EventType = pe_EventType remote,
          pi_ProviderAmountFen = pe_ProviderAmountFen remote, pi_LocalAmountFen = snd (snd verdict),
          pi_Result = fst verdict, pi_Detail = fst (snd verdict), pi_CreatedAt = now\<rparr>)"

definition local_item :: "time \<Rightarrow> int \<Rightarrow> PaymentEventDO \<Rightarrow> PaymentReconciliationItemDO" where
  "local_item now runID l =
     \<lparr>pi_ID = 0, pi_RunID = runID, pi_ProviderEventID = pe_EventID l, pi_OrderSN = pe_OrderSN l,
      pi_TradeNo = pe_TradeNo l, pi_EventType = pe_EventType l, pi_ProviderAmountFen = 0,
      pi_LocalAmountFen = pe_ProviderAmountFen l, pi_Result = ''missing_provider'',
      pi_Detail = ''local transaction missing from provider statement'', pi_CreatedAt = now\<rparr>"

definition reconcile_items :: "time \<Rightarrow> int \<Rightarrow> PaymentEventDO list \<Rightarrow> PaymentEventDO list \<Rightarrow> PaymentReconciliationItemDO list" where
  "reconcile_items now runID locals transactions =
     map (remote_item now runID locals) transactions @
     map (local_item now runID) (filter (\<lambda>l. pe_EventID l \<notin> set (map pe_EventID transactions)) locals)"

definition count_mismatches :: "PaymentReconciliationItemDO list \<Rightarrow> int" where
  "count_mismatches items = int (length (filter (\<lambda>i. pi_Result i \<noteq> ''matched'') items))"

text \<open>\<open>CreateInBatches(items, 100)\<close>: one \<open>INSERT\<close> per batch.\<close>

function batches :: "nat \<Rightarrow> 'a list \<Rightarrow> 'a list list" where
  "batches n xs = (if n = 0 \<or> xs = [] then [] else take n xs # batches n (drop n xs))"
  by pat_completeness auto

termination
  by (relation "measure (\<lambda>(n, xs). length xs)") auto

declare batches.simps [simp del]

definition stamp_item :: "PaymentReconciliationItemDO list \<Rightarrow> PaymentReconciliationItemDO \<Rightarrow> PaymentReconciliationItemDO" where
  "stamp_item t i = i\<lparr>pi_ID := next_id pi_ID t\<rparr>"

definition item_clash :: "PaymentReconciliationItemDO \<Rightarrow> PaymentReconciliationItemDO \<Rightarrow> bool" where
  "item_clash i j \<longleftrightarrow> pi_RunID i = pi_RunID j \<and> pi_ProviderEventID i = pi_ProviderEventID j"

definition insert_items :: "PaymentReconciliationItemDO list \<Rightarrow> unit ord_op" where
  "insert_items items = for_each (\<lambda>batch. map_err Driver
     (write_stmt payment_reconciliation_items payment_reconciliation_items_update
       (insert_rows stamp_item item_check item_clash batch))) (batches 100 items)"

definition reconcile_body ::
    "time \<Rightarrow> string \<Rightarrow> time \<Rightarrow> time \<Rightarrow> PaymentEventDO list \<Rightarrow> PaymentReconciliationRunDO ord_op" where
  "reconcile_body now provider frm tgt transactions =
     bind_err Driver
       (write_stmt payment_reconciliation_runs payment_reconciliation_runs_update (\<lambda>t.
         insert_row run_check (\<lambda>r r'. pr_ID r = pr_ID r')
           \<lparr>pr_ID = next_id pr_ID t, pr_Provider = provider, pr_WindowStart = frm, pr_WindowEnd = tgt, pr_StartedAt = now,
            pr_FinishedAt = None, pr_CheckedCount = 0, pr_MismatchCount = 0, pr_Status = ''processing''\<rparr> t))
       (\<lambda>run. bind_err Driver
         (query_stmt (\<lambda>t. filter (\<lambda>e. pe_Provider e = provider \<and> frm \<le> pe_ReceivedAt e \<and> pe_ReceivedAt e < tgt)
            (payment_events t)))
         (\<lambda>locals.
           let items = reconcile_items now (pr_ID run) locals transactions;
               mismatches = count_mismatches items;
               finish = (\<lambda>r. r\<lparr>pr_CheckedCount := int (length items), pr_MismatchCount := mismatches,
                 pr_Status := ''completed'', pr_FinishedAt := Some now\<rparr>)
           in bindE (insert_items items) (\<lambda>_.
             bind_err Driver
               (write_stmt payment_reconciliation_runs payment_reconciliation_runs_update
                 (update_where (\<lambda>r. pr_ID r = pr_ID run) finish (fits_check run_check)))
               (\<lambda>_. ok (finish run)))))"

definition ReconcilePayments ::
    "time \<Rightarrow> string \<Rightarrow> time \<Rightarrow> time \<Rightarrow> PaymentEventDO list \<Rightarrow> PaymentReconciliationRunDO ord_op" where
  "ReconcilePayments now provider0 frm tgt transactions =
     (let provider = to_lower (trim_space provider0) in
      if provider = [] \<or> \<not> frm < tgt then fail (NewCode ErrValidation)
      else if 10000 < length transactions then fail (NewCode ErrValidation)
      else if list_ex transaction_invalid transactions then fail (NewCode ErrValidation)
      else if \<not> distinct (map pe_EventID transactions) then fail (NewCode ErrValidation)
      else wrapped_transaction (reconcile_body now provider frm tgt transactions))"

definition run_matches :: "string \<Rightarrow> time option \<Rightarrow> time option \<Rightarrow> PaymentReconciliationRunDO \<Rightarrow> bool" where
  "run_matches provider frm tgt r \<longleftrightarrow>
     (provider \<noteq> [] \<longrightarrow> pr_Provider r = provider) \<and>
     (case frm of None \<Rightarrow> True | Some f \<Rightarrow> f \<le> pr_WindowStart r) \<and>
     (case tgt of None \<Rightarrow> True | Some u \<Rightarrow> pr_WindowEnd r \<le> u)"

definition ListPaymentReconciliationRuns ::
    "string \<Rightarrow> time option \<Rightarrow> time option \<Rightarrow> int \<Rightarrow> int \<Rightarrow> (PaymentReconciliationRunDO list \<times> int) ord_op" where
  "ListPaymentReconciliationRuns provider frm tgt offset limit =
     bind_err driver_err
       (query_stmt (\<lambda>t. int (count_rows (run_matches provider frm tgt) (payment_reconciliation_runs t)))) (\<lambda>cnt.
       bind_err driver_err
         (query_stmt (\<lambda>t. page_rows offset limit
           (rev (filter (run_matches provider frm tgt) (payment_reconciliation_runs t))))) (\<lambda>items.
         ok (items, cnt)))"

definition items_matching ::
    "string \<Rightarrow> time option \<Rightarrow> time option \<Rightarrow> string \<Rightarrow> int \<Rightarrow> order_db \<Rightarrow> PaymentReconciliationItemDO list" where
  "items_matching provider frm tgt res runID t =
     concat (map (\<lambda>i. map (\<lambda>_. i)
         (filter (\<lambda>r. pr_ID r = pi_RunID i \<and> run_matches provider frm tgt r) (payment_reconciliation_runs t)))
       (filter (\<lambda>i. (res \<noteq> [] \<longrightarrow> pi_Result i = res) \<and> (0 < runID \<longrightarrow> pi_RunID i = runID))
         (payment_reconciliation_items t)))"

definition ListPaymentReconciliationItems ::
    "string \<Rightarrow> time option \<Rightarrow> time option \<Rightarrow> string \<Rightarrow> int \<Rightarrow> int \<Rightarrow> int \<Rightarrow> (PaymentReconciliationItemDO list \<times> int) ord_op" where
  "ListPaymentReconciliationItems provider frm tgt res runID offset limit =
     bind_err driver_err (query_stmt (\<lambda>t. int (length (items_matching provider frm tgt res runID t)))) (\<lambda>cnt.
       bind_err driver_err (query_stmt (\<lambda>t. page_rows offset limit (rev (items_matching provider frm tgt res runID t))))
         (\<lambda>items. ok (items, cnt)))"

section \<open>The trace of an order\<close>

record OrderTraceLookup =
  lk_OrderSN :: string
  lk_TradeNo :: string
  lk_CorrelationID :: string

record RefundTraceRecord =
  rt_RefundRequest :: RefundRequestDO
  rt_RefundOutbox :: "RefundOutboxDO option"

record OrderTrace =
  tr_MatchedBy :: string
  tr_MatchedValue :: string
  tr_Order :: OrderInfoDO
  tr_StatusLogs :: "OrderStatusLogDO list"
  tr_PaymentEvents :: "PaymentEventDO list"
  tr_Refunds :: "RefundTraceRecord list"

definition scan_first :: "string list \<Rightarrow> string" where
  "scan_first xs = (case xs of [] \<Rightarrow> [] | x # _ \<Rightarrow> x)"

definition order_of_scan :: "string \<Rightarrow> OrderInfoDO ord_op" where
  "order_of_scan orderSN =
     (if trim_space orderSN = [] then fail (NewCode ErrOrderNotFound) else orders_Get orderSN)"

definition resolveTraceOrder :: "OrderTraceLookup \<Rightarrow> (OrderInfoDO \<times> string \<times> string) ord_op" where
  "resolveTraceOrder lookup =
     (if lk_OrderSN lookup \<noteq> []
      then bindE (orders_Get (lk_OrderSN lookup)) (\<lambda>order. ok (order, ''order_sn'', lk_OrderSN lookup))
      else if lk_TradeNo lookup \<noteq> []
      then bind_err driver_err
        (query_stmt (\<lambda>t. scan_first (map od_OrderSn (filter (\<lambda>r. od_TradeNo r = lk_TradeNo lookup) (orderinfo t)))))
        (\<lambda>sn. bindE (order_of_scan sn) (\<lambda>order. ok (order, ''trade_no'', lk_TradeNo lookup)))
      else if lk_CorrelationID lookup \<noteq> []
      then bind_err driver_err
        (query_stmt (\<lambda>t. scan_first (map rr_OrderSN
          (filter (\<lambda>r. rr_CorrelationID r = lk_CorrelationID lookup) (order_refund_requests t)))))
        (\<lambda>sn. bindE (order_of_scan sn) (\<lambda>order. ok (order, ''correlation_id'', lk_CorrelationID lookup)))
      else fail (NewCode ErrValidation))"

definition loadTraceStatusLogs :: "string \<Rightarrow> OrderStatusLogDO list ord_op" where
  "loadTraceStatusLogs orderSN = map_err driver_err (query_stmt (\<lambda>t.
     sort_key CreatedAt (sort_key ID (filter (\<lambda>l. live l \<and> sl_OrderSn l = orderSN) (order_status_logs t)))))"

text \<open>The zero of Go's \<open>time.Time\<close>, for the two times the trace leaves out.\<close>

definition zero_time :: time where "zero_time = - 62135596800000"

definition trace_outbox :: "RefundOutboxDO \<Rightarrow> RefundOutboxDO" where
  "trace_outbox o' = o'\<lparr>ro_CreatedAt := zero_time, ro_UpdatedAt := zero_time\<rparr>"

definition trace_refund :: "order_db \<Rightarrow> RefundRequestDO \<Rightarrow> RefundTraceRecord list" where
  "trace_refund t r =
     (case filter (\<lambda>o'. ro_RefundRequestID o' = rr_ID r) (order_refund_outbox t) of
        [] \<Rightarrow> [\<lparr>rt_RefundRequest = r, rt_RefundOutbox = None\<rparr>]
      | os \<Rightarrow> map (\<lambda>o'. \<lparr>rt_RefundRequest = r, rt_RefundOutbox = Some (trace_outbox o')\<rparr>) os)"

definition loadTraceRefunds :: "string \<Rightarrow> RefundTraceRecord list ord_op" where
  "loadTraceRefunds orderSN = map_err driver_err (query_stmt (\<lambda>t.
     concat (map (trace_refund t) (filter (\<lambda>r. rr_OrderSN r = orderSN) (order_refund_requests t)))))"

definition GetOrderTrace :: "OrderTraceLookup \<Rightarrow> OrderTrace ord_op" where
  "GetOrderTrace lookup =
     bindE (resolveTraceOrder lookup) (\<lambda>(order, matchedBy, matchedValue).
       bindE (loadTraceStatusLogs (od_OrderSn order)) (\<lambda>statusLogs.
         bindE (ListPaymentEvents (od_OrderSn order) 0 100 False) (\<lambda>(paymentEvents, _, _).
           bindE (loadTraceRefunds (od_OrderSn order)) (\<lambda>refunds.
             ok \<lparr>tr_MatchedBy = matchedBy, tr_MatchedValue = matchedValue, tr_Order = order, tr_StatusLogs = statusLogs,
                tr_PaymentEvents = paymentEvents, tr_Refunds = refunds\<rparr>))))"

section \<open>Account deletion\<close>

record Requested =
  rq_EventID :: string
  rq_UserID :: int

text \<open>The reason of a refusal, the UTF-8 text of the source.\<close>

definition deletion_reason :: string where
  "deletion_reason = map char_of [229::nat, 173, 152, 229, 156, 168, 230, 156, 170, 229, 174, 140, 230, 136, 144, 232, 174,
     162, 229, 141, 149, 230, 136, 150, 233, 128, 128, 230, 172, 190, 239, 188, 140, 230, 154, 130, 228, 184, 141, 232,
     131, 189, 230, 179, 168, 233, 148, 128]"

definition accountDeletionCanProceed :: "string list \<Rightarrow> string list \<Rightarrow> bool \<times> string" where
  "accountDeletionCanProceed orders refunds =
     (if list_ex (\<lambda>s. to_upper (trim_space s) \<notin> {''TRADE_CLOSED'', ''TRADE_FINISHED'', ''REFUNDED'', ''REFUND_FAILED''}) orders
      then (False, deletion_reason)
      else if list_ex (\<lambda>s. to_upper (trim_space s) \<notin> {''REFUNDED'', ''FAILED'', ''CLOSED'', ''CANCELLED''}) refunds
      then (False, deletion_reason)
      else (True, []))"

definition inbox_check :: "AccountDeletionInboxDO \<Rightarrow> db_error option" where
  "inbox_check i = (if 36 < length (ai_RequestID i) then Some DataTooLong else None)"

text \<open>\<open>uuid\<close> is the identifier \<open>uuid.NewString\<close> draws.\<close>

definition review_body :: "time \<Rightarrow> string \<Rightarrow> Requested \<Rightarrow> Decision ord_op" where
  "review_body now uuid request = do {
     found \<leftarrow> first_stmt account_deletion_inbox (\<lambda>i. ai_RequestID i = rq_EventID request);
     case found of
       Inr inbox \<Rightarrow> ok \<lparr>dc_EventID = [], dc_RequestID = ai_RequestID inbox, dc_UserID = uint64_of (ai_UserID inbox),
         dc_Confirmed = (ai_Decision inbox = ''CONFIRMED''), dc_Reason = ai_Reason inbox, dc_DecidedAt = ai_CreatedAt inbox\<rparr>
     | Inl e \<Rightarrow>
         if e \<noteq> RecordNotFound then fail (Driver e)
         else bind_err Driver
           (query_stmt (\<lambda>t. map od_Status (filter (\<lambda>r. live r \<and> od_User r = rq_UserID request) (orderinfo t)))) (\<lambda>orders.
           bind_err Driver
             (query_stmt (\<lambda>t. concat (map (\<lambda>r. map (\<lambda>_. rr_Status r)
                (filter (\<lambda>o'. od_OrderSn o' = rr_OrderSN r \<and> od_User o' = rq_UserID request) (orderinfo t)))
                (order_refund_requests t)))) (\<lambda>refunds.
             let (confirmed, reason) = accountDeletionCanProceed orders refunds;
                 decision = \<lparr>dc_EventID = uuid, dc_RequestID = rq_EventID request, dc_UserID = rq_UserID request,
                   dc_Confirmed = confirmed, dc_Reason = reason, dc_DecidedAt = now\<rparr>
             in bind_err Driver
               (write_stmt account_deletion_inbox account_deletion_inbox_update
                 (insert_row inbox_check (\<lambda>r r'. ai_RequestID r = ai_RequestID r')
                   \<lparr>ai_RequestID = rq_EventID request, ai_UserID = int32 (rq_UserID request),
                    ai_Decision = (if confirmed then ''CONFIRMED'' else ''REJECTED''), ai_Reason = reason, ai_CreatedAt = now\<rparr>))
               (\<lambda>_. bind_err Driver
                 (write_stmt account_deletion_outbox account_deletion_outbox_update
                   (insert_row (\<lambda>o'. if 36 < length (ao_RequestID o') then Some DataTooLong else None)
                     (\<lambda>r r'. ao_ID r = ao_ID r' \<or> ao_RequestID r = ao_RequestID r')
                     \<lparr>ao_ID = uuid, ao_RequestID = rq_EventID request,
                      ao_EventType = (if confirmed then ''goshop.account.deletion.confirmed''
                        else ''goshop.account.deletion.rejected''),
                      ao_UserID = int32 (rq_UserID request), ao_Payload = decision, ao_Status = ''PENDING'', ao_RetryCount = 0,
                      ao_AvailableAt = now, ao_LockedAt = None, ao_PublishedAt = None, ao_LastError = [], ao_CreatedAt = now,
                      ao_UpdatedAt = now\<rparr>))
                 (\<lambda>_. ok decision))))
   }"

definition ReviewAccountDeletion :: "time \<Rightarrow> string \<Rightarrow> Requested \<Rightarrow> Decision ord_op" where
  "ReviewAccountDeletion now uuid request =
     (if trim_space (rq_EventID request) = [] \<or> rq_UserID request = 0 then fail (Plain ''unsupported data'')
      else db_transaction (review_body now uuid request))"

end
