(* ===== verification/Order_Service.thy ===== *)
theory Order_Service
  imports Order_Store Money "HOL-Library.AList"
begin

text \<open>
  The order service, \<open>app/order/srv/internal/service/v1/order.go\<close>, with the goods gateway of
  \<open>boundary/goods.go\<close> and the order handlers of \<open>controller/order/v1/order.go\<close>. The goods
  service's answer and the DTM coordinator are parameters. \<open>now\<close> is the time an operation
  reads; metrics and log lines are left out. \<open>data.Begin()\<close> gives a transaction: its other
  answer, \<open>nil\<close>, exists for the stores of the tests.
\<close>

section \<open>Statuses\<close>

abbreviation (input) OrderStatusPaying :: string where "OrderStatusPaying \<equiv> ''PAYING''"
abbreviation (input) OrderStatusWaitBuyerPay :: string where "OrderStatusWaitBuyerPay \<equiv> ''WAIT_BUYER_PAY''"
abbreviation (input) OrderStatusTradeSuccess :: string where "OrderStatusTradeSuccess \<equiv> ''TRADE_SUCCESS''"
abbreviation (input) OrderStatusTradeClosed :: string where "OrderStatusTradeClosed \<equiv> ''TRADE_CLOSED''"
abbreviation (input) OrderStatusTradeFinished :: string where "OrderStatusTradeFinished \<equiv> ''TRADE_FINISHED''"
abbreviation (input) OrderStatusRefundPending :: string where "OrderStatusRefundPending \<equiv> ''REFUND_PENDING''"
abbreviation (input) OrderStatusRefundFailed :: string where "OrderStatusRefundFailed \<equiv> ''REFUND_FAILED''"
abbreviation (input) OrderStatusRefunded :: string where "OrderStatusRefunded \<equiv> ''REFUNDED''"

definition validOrderStatuses :: "string list" where
  "validOrderStatuses = [OrderStatusPaying, OrderStatusWaitBuyerPay, OrderStatusTradeSuccess, OrderStatusTradeClosed,
     OrderStatusTradeFinished, OrderStatusRefundPending, OrderStatusRefundFailed, OrderStatusRefunded]"

definition isValidOrderStatus :: "string \<Rightarrow> bool" where
  "isValidOrderStatus status \<longleftrightarrow> status \<in> set validOrderStatuses"

definition canTransitionOrderStatus :: "string \<Rightarrow> string \<Rightarrow> bool" where
  "canTransitionOrderStatus current0 next0 =
     (let current = trim_space current0; next = trim_space next0 in
      if current = [] \<or> current = next then True
      else if current = OrderStatusWaitBuyerPay
        then next = OrderStatusPaying \<or> next = OrderStatusTradeSuccess \<or> next = OrderStatusTradeClosed
      else if current = OrderStatusPaying then next = OrderStatusTradeSuccess \<or> next = OrderStatusTradeClosed
      else if current = OrderStatusTradeClosed \<or> current = OrderStatusTradeFinished
        then current = OrderStatusTradeFinished \<and> next = OrderStatusRefundPending
      else if current = OrderStatusTradeSuccess
        then next = OrderStatusTradeFinished \<or> next = OrderStatusRefundPending
      else if current = OrderStatusRefundPending
        then next = OrderStatusRefunded \<or> next = OrderStatusRefundFailed
      else if current = OrderStatusRefundFailed then next = OrderStatusRefundPending
      else False)"

definition normalizeInitialOrderStatus :: "string \<Rightarrow> string" where
  "normalizeInitialOrderStatus status0 =
     (let status = trim_space status0 in if status = [] then OrderStatusWaitBuyerPay else status)"

section \<open>Requests\<close>

record OrderDTO = OrderInfoDO +
  dt_StatusReason :: string
  dt_StatusSource :: string
  dt_StatusOperator :: string
  dt_RefundAmountFen :: int
  dt_ActorUserID :: int
  dt_CorrelationID :: string
  dt_RequestID :: string

abbreviation info_of :: "OrderDTO \<Rightarrow> OrderInfoDO" where "info_of \<equiv> OrderInfoDO.truncate"

text \<open>A literal of the source that leaves out the other fields has Go's zero values there.\<close>

definition zero_goods :: OrderGoods where
  "zero_goods = \<lparr>ID = 0, CreatedAt = 0, UpdatedAt = 0, DeletedAt = None, IsDeleted = False,
     og_Order = 0, og_Goods = 0, og_GoodsName = [], og_GoodsImage = [], og_GoodsPriceFen = 0, og_Nums = 0\<rparr>"

definition zero_order :: OrderDTO where
  "zero_order = \<lparr>ID = 0, CreatedAt = 0, UpdatedAt = 0, DeletedAt = None, IsDeleted = False,
     od_OrderGoods = [], od_User = 0, od_OrderSn = [], od_PayType = [], od_Status = [], od_TradeNo = [],
     od_OrderMountFen = 0, od_StoreID = [], od_PayTime = None, od_Address = [], od_SignerName = [],
     od_SingerMobile = [], od_Post = [], dt_StatusReason = [], dt_StatusSource = [], dt_StatusOperator = [],
     dt_RefundAmountFen = 0, dt_ActorUserID = 0, dt_CorrelationID = [], dt_RequestID = []\<rparr>"

section \<open>Carts\<close>

definition CartItemList :: "int \<Rightarrow> ListMeta \<Rightarrow> string list \<Rightarrow> (int \<times> ShoppingCartDO list) ord_op" where
  "CartItemList userID meta orderBy =
     (if userID = 0 then ok (0, []) else carts_List userID False meta orderBy)"

definition CreateCartItem :: "time \<Rightarrow> ShoppingCartDO option \<Rightarrow> ShoppingCartDO ord_op" where
  "CreateCartItem now ocart =
     (case ocart of None \<Rightarrow> fail (NewCode ErrShopCartItemNotFound)
      | Some cartItem \<Rightarrow>
          if cart_invalid cartItem then fail (NewCode ErrShopCartItemNotFound)
          else do {
            found \<leftarrow> carts_Get (uint64_of (sc_User cartItem)) (uint64_of (sc_Goods cartItem));
            case found of
              Inr existing \<Rightarrow>
                let existing' = existing\<lparr>sc_Nums := int32 (sc_Nums existing + sc_Nums cartItem), sc_Checked := sc_Checked cartItem\<rparr>
                in bindE (UpdateNum now (Some existing')) (\<lambda>_. ok existing')
            | Inl e \<Rightarrow>
                if \<not> is_code e ErrShopCartItemNotFound then fail e
                else carts_Create now (Some cartItem)
          })"

definition UpdateCartItem :: "time \<Rightarrow> ShoppingCartDO option \<Rightarrow> unit ord_op" where
  "UpdateCartItem now ocart =
     (case ocart of None \<Rightarrow> fail (NewCode ErrShopCartItemNotFound)
      | Some cartItem \<Rightarrow>
          if cart_invalid cartItem then fail (NewCode ErrShopCartItemNotFound) else UpdateNum now (Some cartItem))"

definition DeleteCartItem :: "time \<Rightarrow> int \<Rightarrow> int \<Rightarrow> unit ord_op" where
  "DeleteCartItem now userID cid =
     (if userID = 0 \<or> cid = 0 then fail (NewCode ErrShopCartItemNotFound) else carts_Delete now userID cid)"

section \<open>Creating an order\<close>

text \<open>\<open>aggregateOrderGoods\<close>: the quantity of each goods; \<open>None\<close> when there is no line or a bad one.\<close>

primrec add_lines :: "(int \<times> int) list \<Rightarrow> OrderGoods list \<Rightarrow> (int \<times> int) list option" where
  "add_lines m [] = Some m"
| "add_lines m (i # is) =
     (if og_Goods i \<le> 0 \<or> og_Nums i \<le> 0 then None
      else add_lines (AList.update (og_Goods i)
             (int64 ((case map_of m (og_Goods i) of None \<Rightarrow> 0 | Some n \<Rightarrow> n) + og_Nums i)) m) is)"

definition aggregateOrderGoods :: "OrderGoods list \<Rightarrow> (int \<times> int) list option" where
  "aggregateOrderGoods items = (if items = [] then None else add_lines [] items)"

definition hasOrderGoods :: "OrderGoods list \<Rightarrow> bool" where
  "hasOrderGoods items \<longleftrightarrow> aggregateOrderGoods items \<noteq> None"

definition sameOrderGoods :: "OrderGoods list \<Rightarrow> OrderGoods list \<Rightarrow> bool" where
  "sameOrderGoods left right =
     (case aggregateOrderGoods left of None \<Rightarrow> False
      | Some l \<Rightarrow>
          (case aggregateOrderGoods right of None \<Rightarrow> False
           | Some r \<Rightarrow> length l = length r \<and>
               list_all (\<lambda>(g, n). (case map_of r g of None \<Rightarrow> 0 | Some n' \<Rightarrow> n') = n) l))"

definition sameCreateOrder :: "OrderInfoDO \<Rightarrow> OrderDTO \<Rightarrow> bool" where
  "sameCreateOrder existing incoming =
     (if od_User existing \<noteq> od_User incoming then False
      else if trim_space (od_OrderSn existing) \<noteq> trim_space (od_OrderSn incoming) then False
      else if trim_space (od_Address existing) \<noteq> trim_space (od_Address incoming) then False
      else if trim_space (od_SignerName existing) \<noteq> trim_space (od_SignerName incoming) then False
      else if trim_space (od_SingerMobile existing) \<noteq> trim_space (od_SingerMobile incoming) then False
      else if trim_space (od_Post existing) \<noteq> trim_space (od_Post incoming) then False
      else if trim_space (od_StoreID existing) \<noteq> [] \<and> trim_space (od_StoreID incoming) \<noteq> [] \<and>
              trim_space (od_StoreID existing) \<noteq> trim_space (od_StoreID incoming) then False
      else sameOrderGoods (od_OrderGoods existing) (od_OrderGoods incoming))"

text \<open>The goods gateway turns the items of the goods service's response into a map by id.\<close>

record GoodsInfo =
  gs_ID :: int
  gs_Name :: string
  gs_ShopPriceFen :: int
  gs_GoodsFrontImage :: string
  gs_StoreID :: string

type_synonym goods_rpc = "int list \<Rightarrow> GoodsInfo list result"

definition BatchGetGoods :: "goods_rpc \<Rightarrow> int list \<Rightarrow> (int \<times> GoodsInfo) list result" where
  "BatchGetGoods rpc ids =
     (case rpc ids of Inl e \<Rightarrow> Inl e
      | Inr items \<Rightarrow> Inr (foldl (\<lambda>m i. AList.update (gs_ID i) i m) [] items))"

text \<open>The loop that prices the lines: the total, the store they all belong to, the lines filled in.\<close>

fun price_lines :: "(int \<times> GoodsInfo) list \<Rightarrow> fen \<Rightarrow> string \<Rightarrow> OrderGoods list \<Rightarrow> (fen \<times> string \<times> OrderGoods list) result" where
  "price_lines goodsMap amount storeID [] = Inr (amount, storeID, [])"
| "price_lines goodsMap amount storeID (v # vs) =
     (case map_of goodsMap (og_Goods v) of
        None \<Rightarrow> Inl (NewCode ErrGoodsNotFound)
      | Some info \<Rightarrow>
          let currentStoreID = trim_space (gs_StoreID info) in
          if currentStoreID = [] then Inl (NewCode ErrGoodsNotFound)
          else if storeID \<noteq> [] \<and> storeID \<noteq> currentStoreID then Inl (NewCode ErrSubmitOrder)
          else
            (case Multiply (NewFen (gs_ShopPriceFen info)) (NewFen (og_Nums v)) of
               Inl e \<Rightarrow> Inl (Wrapf e)
             | Inr lineAmount \<Rightarrow>
                 (case Add amount lineAmount of
                    Inl e \<Rightarrow> Inl (Wrapf e)
                  | Inr amount' \<Rightarrow>
                      (case price_lines goodsMap amount' currentStoreID vs of
                         Inl e \<Rightarrow> Inl e
                       | Inr (tot, sid, vs') \<Rightarrow>
                           Inr (tot, sid, v\<lparr>og_GoodsName := gs_Name info,
                             og_GoodsPriceFen := Int64 (NewFen (gs_ShopPriceFen info)),
                             og_GoodsImage := gs_GoodsFrontImage info\<rparr> # vs')))))"

definition user_operator :: "int \<Rightarrow> string" where
  "user_operator u = ''user:'' @ show_int u"

definition zero_log :: OrderStatusLogDO where
  "zero_log = \<lparr>ID = 0, CreatedAt = 0, UpdatedAt = 0, DeletedAt = None, IsDeleted = False,
     sl_OrderID = 0, sl_OrderSn = [], sl_FromStatus = [], sl_ToStatus = [], sl_Reason = [], sl_Source = [], sl_Operator = []\<rparr>"

definition create_body :: "time \<Rightarrow> OrderDTO \<Rightarrow> int list \<Rightarrow> unit ord_op" where
  "create_body now order goodsIds =
     bind_err Wrapf (orders_Create now (Some (info_of order))) (\<lambda>oid.
       bind_err Wrapf (DeleteByGoodsIDs now (uint64_of (od_User order)) goodsIds) (\<lambda>_.
         map_err Wrapf (logs_Create now (Some (zero_log\<lparr>
           sl_OrderID := oid, sl_OrderSn := od_OrderSn order, sl_FromStatus := [], sl_ToStatus := od_Status order,
           sl_Reason := ''order created'', sl_Source := ''order.create'', sl_Operator := user_operator (od_User order)\<rparr>)))))"

definition Create_priced :: "goods_rpc \<Rightarrow> time \<Rightarrow> OrderDTO \<Rightarrow> unit ord_op" where
  "Create_priced rpc now order =
     (let goodsIds = map og_Goods (od_OrderGoods order) in
      case BatchGetGoods rpc goodsIds of
        Inl e \<Rightarrow> fail e
      | Inr goodsMap \<Rightarrow>
          if length goodsMap \<noteq> length goodsIds then fail (NewCode ErrGoodsNotFound)
          else
            (case price_lines goodsMap 0 [] (od_OrderGoods order) of
               Inl e \<Rightarrow> fail e
             | Inr (amount, storeID, lines) \<Rightarrow>
                 transaction (Wrapf (Driver Fault)) (Wrapf (Driver Fault))
                   (create_body now
                     (order\<lparr>od_OrderMountFen := Int64 amount, od_StoreID := storeID, od_OrderGoods := lines\<rparr>) goodsIds)))"

definition order_Create :: "goods_rpc \<Rightarrow> time \<Rightarrow> OrderDTO option \<Rightarrow> unit ord_op" where
  "order_Create rpc now oorder =
     (case oorder of None \<Rightarrow> fail (NewCode ErrSubmitOrder)
      | Some order0 \<Rightarrow>
          let sn = trim_space (od_OrderSn order0) in
          if sn = [] then fail (NewCode ErrSubmitOrder)
          else if \<not> hasOrderGoods (od_OrderGoods order0) then fail (NewCode ErrNoGoodsSelect)
          else
            let order = order0\<lparr>od_OrderSn := sn, od_Status := normalizeInitialOrderStatus (od_Status order0)\<rparr> in
            do {
              found \<leftarrow> orders_Get sn;
              case found of
                Inr existing \<Rightarrow> if sameCreateOrder existing order then ok () else fail (NewCode ErrOrderConflict)
              | Inl e \<Rightarrow> if \<not> is_code e ErrOrderNotFound then fail e else Create_priced rpc now order
            })"

text \<open>The compensation of \<open>Create\<close>.\<close>

definition CreateCom :: "time \<Rightarrow> OrderDTO option \<Rightarrow> unit ord_op" where
  "CreateCom now oorder =
     (case oorder of None \<Rightarrow> ok ()
      | Some order \<Rightarrow>
          if trim_space (od_OrderSn order) = [] then ok ()
          else do {
            found \<leftarrow> orders_Get (od_OrderSn order);
            case found of
              Inl e \<Rightarrow> if is_code e ErrOrderNotFound then ok () else fail e
            | Inr existing \<Rightarrow>
                transaction (Wrapf (Driver Fault)) (Wrapf (Driver Fault))
                  (bind_err Wrapf (RestoreCheckedItems now (uint64_of (od_User existing)) (od_OrderGoods existing))
                    (\<lambda>_. map_err Wrapf (DeleteByOrderSn now (od_OrderSn existing))))
          })"

section \<open>Reading\<close>

definition order_Get :: "int \<Rightarrow> string \<Rightarrow> OrderInfoDO ord_op" where
  "order_Get userID orderSn =
     (if userID = 0 \<or> trim_space orderSn = [] then fail (NewCode ErrOrderNotFound)
      else bindE (orders_Get orderSn) (\<lambda>order.
        if uint64_of (od_User order) \<noteq> userID then fail (NewCode ErrOrderNotFound) else ok order))"

definition StatusLogs :: "int \<Rightarrow> string \<Rightarrow> (int \<times> OrderStatusLogDO list) ord_op" where
  "StatusLogs userID orderSn =
     bindE (order_Get userID orderSn) (\<lambda>order.
       bindE (ListByOrderSn (od_OrderSn order)) (\<lambda>entries. ok (int (length entries), entries)))"

definition order_List :: "int \<Rightarrow> ListMeta \<Rightarrow> string list \<Rightarrow> (int \<times> OrderInfoDO list) ord_op" where
  "order_List userID meta orderBy = (if userID = 0 then ok (0, []) else orders_List userID meta orderBy)"

section \<open>Submitting\<close>

text \<open>
  The saga \<open>Submit\<close> hands to DTM: the request of the inventory's \<open>Sell\<close> and \<open>Reback\<close> and
  that of \<open>CreateOrder\<close> and \<open>CreateOrderCom\<close>. \<open>dtm\<close> is the coordinator's answer.
\<close>

record OrderRequest =
  oq_OrderSn :: string
  oq_UserId :: int
  oq_Address :: string
  oq_Name :: string
  oq_Mobile :: string
  oq_Post :: string
  oq_OrderItems :: "(int \<times> int) option list"

record saga_request =
  sq_OrderSn :: string
  sq_GoodsInfo :: "(int \<times> int) list"
  sq_Order :: OrderRequest

definition Submit :: "string option \<Rightarrow> (saga_request \<Rightarrow> err option) \<Rightarrow> OrderDTO option \<Rightarrow> unit ord_op" where
  "Submit dtmServer dtm oorder =
     (case oorder of None \<Rightarrow> fail (NewCode ErrSubmitOrder)
      | Some order \<Rightarrow>
          let sn = trim_space (od_OrderSn order) in
          if od_User order \<le> 0 \<or> sn = [] then fail (NewCode ErrSubmitOrder)
          else if (case dtmServer of None \<Rightarrow> True | Some srv \<Rightarrow> trim_space srv = []) then fail (NewCode ErrSubmitOrder)
          else bindE (carts_List (uint64_of (od_User order)) True \<lparr>lm_Page = 0, lm_PageSize = 0\<rparr> []) (\<lambda>(cnt, items).
            if items = [] then fail (NewCode ErrNoGoodsSelect)
            else
              let lines = map (\<lambda>c. (sc_Goods c, sc_Nums c)) items in
              (case dtm \<lparr>sq_OrderSn = sn, sq_GoodsInfo = lines,
                  sq_Order = \<lparr>oq_OrderSn = sn, oq_UserId = od_User order, oq_Address = od_Address order,
                    oq_Name = od_SignerName order, oq_Mobile = od_SingerMobile order, oq_Post = od_Post order,
                    oq_OrderItems = map Some lines\<rparr>\<rparr> of
                 None \<Rightarrow> ok () | Some e \<Rightarrow> fail e)))"

section \<open>Changing the status\<close>

definition defaultStatusLogReason :: "string \<Rightarrow> string \<Rightarrow> string \<Rightarrow> string" where
  "defaultStatusLogReason reason fromStatus toStatus =
     (if trim_space reason \<noteq> [] then trim_space reason
      else if fromStatus = [] \<and> toStatus = OrderStatusWaitBuyerPay then ''order created''
      else if toStatus = OrderStatusTradeSuccess then ''payment confirmed''
      else if toStatus = OrderStatusTradeClosed then ''order closed''
      else if toStatus = OrderStatusTradeFinished then ''order finished''
      else ''order status changed'')"

definition defaultStatusLogSource :: "string \<Rightarrow> string \<Rightarrow> string \<Rightarrow> string" where
  "defaultStatusLogSource source fromStatus toStatus =
     (if trim_space source \<noteq> [] then trim_space source
      else if fromStatus = [] \<and> toStatus = OrderStatusWaitBuyerPay then ''order.create''
      else if toStatus = OrderStatusTradeSuccess then ''order.payment''
      else if toStatus = OrderStatusTradeClosed then ''order.close''
      else if toStatus = OrderStatusTradeFinished then ''order.finish''
      else ''order.update'')"

definition defaultStatusLogOperator :: "string \<Rightarrow> int \<Rightarrow> string" where
  "defaultStatusLogOperator operator userID =
     (if trim_space operator \<noteq> [] then trim_space operator
      else if 0 < userID then user_operator userID
      else ''system'')"

definition buildStatusLog :: "OrderInfoDO \<Rightarrow> OrderDTO \<Rightarrow> OrderStatusLogDO" where
  "buildStatusLog existing order = zero_log\<lparr>
     sl_OrderID := ID existing, sl_OrderSn := od_OrderSn existing,
     sl_FromStatus := od_Status existing, sl_ToStatus := od_Status order,
     sl_Reason := defaultStatusLogReason (dt_StatusReason order) (od_Status existing) (od_Status order),
     sl_Source := defaultStatusLogSource (dt_StatusSource order) (od_Status existing) (od_Status order),
     sl_Operator := defaultStatusLogOperator (dt_StatusOperator order) (od_User existing)\<rparr>"

definition refund_request_of :: "time \<Rightarrow> OrderDTO \<Rightarrow> RefundRequestDO" where
  "refund_request_of now order =
     \<lparr>rr_ID = 0, rr_OrderSN = od_OrderSn order, rr_ActorUserID = dt_ActorUserID order, rr_AmountFen = dt_RefundAmountFen order,
      rr_Reason = dt_StatusReason order, rr_Status = OrderStatusRefundPending, rr_Provider = [], rr_ProviderRefundID = [],
      rr_FailureReason = [], rr_CorrelationID = dt_CorrelationID order, rr_CreatedAt = now, rr_UpdatedAt = now\<rparr>"

definition update_body :: "time \<Rightarrow> OrderInfoDO \<Rightarrow> OrderDTO \<Rightarrow> unit ord_op" where
  "update_body now existing order =
     bindE (orders_Update now (Some (info_of order))) (\<lambda>_.
       bindE (if trim_space (od_Status existing) \<noteq> trim_space (od_Status order)
              then map_err Wrapf (logs_Create now (Some (buildStatusLog existing order))) else ok ()) (\<lambda>_.
         if od_Status order = OrderStatusRefundPending
         then CreateRefundRequest now (Some (refund_request_of now order)) else ok ()))"

text \<open>The checks between reading the order and writing it; the order with its payment time.\<close>

definition update_checks :: "time \<Rightarrow> OrderInfoDO \<Rightarrow> OrderDTO \<Rightarrow> OrderDTO result" where
  "update_checks now existing order =
     (if \<not> canTransitionOrderStatus (od_Status existing) (od_Status order) then Inl (NewCode ErrOrderStatusInvalid)
      else if od_Status order = OrderStatusTradeSuccess \<and> trim_space (od_TradeNo order) = []
      then Inl (NewCode ErrOrderStatusInvalid)
      else
        let order' = (if od_Status order = OrderStatusTradeSuccess \<and> od_PayTime order = None
                      then order\<lparr>od_PayTime := Some now\<rparr> else order)
        in if od_Status order = OrderStatusRefundPending \<and>
              (dt_ActorUserID order \<le> 0 \<or> dt_RefundAmountFen order \<le> 0 \<or> trim_space (dt_StatusReason order) = [] \<or>
               trim_space (dt_CorrelationID order) = [])
           then Inl (NewCode ErrOrderStatusInvalid)
           else if od_Status order = OrderStatusRefundPending \<and> od_OrderMountFen existing < dt_RefundAmountFen order
           then Inl (NewCode ErrOrderStatusInvalid)
           else Inr order')"

text \<open>What follows once the order has been read.\<close>

definition update_found :: "time \<Rightarrow> OrderInfoDO \<Rightarrow> OrderDTO \<Rightarrow> unit ord_op" where
  "update_found now existing order =
     (case update_checks now existing order of
        Inl e \<Rightarrow> fail e
      | Inr order' \<Rightarrow> transaction (Wrapf (Driver Fault)) (Wrapf (Driver Fault)) (update_body now existing order'))"

definition order_Update :: "time \<Rightarrow> OrderDTO option \<Rightarrow> unit ord_op" where
  "order_Update now oorder =
     (case oorder of None \<Rightarrow> fail (NewCode ErrOrderStatusInvalid)
      | Some order0 \<Rightarrow>
          let order = order0\<lparr>od_OrderSn := trim_space (od_OrderSn order0), od_Status := trim_space (od_Status order0)\<rparr> in
          if od_OrderSn order = [] \<or> od_Status order = [] then fail (NewCode ErrOrderStatusInvalid)
          else if \<not> isValidOrderStatus (od_Status order) then fail (NewCode ErrOrderStatusInvalid)
          else bindE (orders_Get (od_OrderSn order)) (\<lambda>existing. update_found now existing order))"

end
