(* ===== verification/Order_Handlers.thy ===== *)
theory Order_Handlers
  imports Order_Service
begin

text \<open>
  The gRPC handlers of the order service, \<open>app/order/srv/internal/controller/order/v1/order.go\<close>.
  A message is a record with the fields of its protocol buffer, a pointer an option. The text of
  \<open>add_time\<close> depends on the server's time zone: the function that renders it is an argument.
\<close>

section \<open>Messages\<close>

record CartItemRequest =
  cq_Id :: int
  cq_UserId :: int
  cq_GoodsId :: int
  cq_Nums :: int
  cq_Checked :: bool

record ShopCartInfoResponse =
  cp_Id :: int
  cp_UserId :: int
  cp_GoodsId :: int
  cp_Nums :: int
  cp_Checked :: bool

record OrderInfoResponse =
  op_Id :: int
  op_UserId :: int
  op_OrderSn :: string
  op_PayType :: string
  op_Status :: string
  op_Post :: string
  op_TotalFen :: int
  op_Address :: string
  op_Name :: string
  op_Mobile :: string
  op_AddTime :: string
  op_TradeNo :: string
  op_PayTime :: int
  op_StoreId :: string

record OrderItemResponse =
  ip_Id :: int
  ip_OrderId :: int
  ip_GoodsId :: int
  ip_GoodsName :: string
  ip_GoodsImage :: string
  ip_GoodsPriceFen :: int
  ip_Nums :: int

record OrderStatusLogResponse =
  lp_Id :: int
  lp_OrderId :: int
  lp_OrderSn :: string
  lp_FromStatus :: string
  lp_ToStatus :: string
  lp_Reason :: string
  lp_Source :: string
  lp_Operator :: string
  lp_AddTime :: string

definition shopCartToResponse :: "ShoppingCartDO \<Rightarrow> ShopCartInfoResponse" where
  "shopCartToResponse c = \<lparr>cp_Id = ID c, cp_UserId = sc_User c, cp_GoodsId = sc_Goods c, cp_Nums = sc_Nums c,
     cp_Checked = sc_Checked c\<rparr>"

definition orderToResponse :: "(time \<Rightarrow> string) \<Rightarrow> OrderInfoDO \<Rightarrow> OrderInfoResponse" where
  "orderToResponse fmt order = \<lparr>op_Id = ID order, op_UserId = od_User order, op_OrderSn = od_OrderSn order,
     op_PayType = od_PayType order, op_Status = od_Status order, op_Post = od_Post order,
     op_TotalFen = od_OrderMountFen order, op_Address = od_Address order, op_Name = od_SignerName order,
     op_Mobile = od_SingerMobile order, op_AddTime = fmt (CreatedAt order), op_TradeNo = od_TradeNo order,
     op_PayTime = (case od_PayTime order of None \<Rightarrow> 0 | Some p \<Rightarrow> p div 1000), op_StoreId = od_StoreID order\<rparr>"

definition orderGoodsToResponse :: "OrderGoods list \<Rightarrow> OrderItemResponse list" where
  "orderGoodsToResponse goods = map (\<lambda>item. \<lparr>ip_Id = ID item, ip_OrderId = og_Order item, ip_GoodsId = og_Goods item,
     ip_GoodsName = og_GoodsName item, ip_GoodsImage = og_GoodsImage item, ip_GoodsPriceFen = og_GoodsPriceFen item,
     ip_Nums = og_Nums item\<rparr>) goods"

definition orderStatusLogToResponse :: "(time \<Rightarrow> string) \<Rightarrow> OrderStatusLogDO \<Rightarrow> OrderStatusLogResponse" where
  "orderStatusLogToResponse fmt item = \<lparr>lp_Id = ID item, lp_OrderId = sl_OrderID item, lp_OrderSn = sl_OrderSn item,
     lp_FromStatus = sl_FromStatus item, lp_ToStatus = sl_ToStatus item, lp_Reason = sl_Reason item,
     lp_Source = sl_Source item, lp_Operator = sl_Operator item, lp_AddTime = fmt (CreatedAt item)\<rparr>"

section \<open>Carts\<close>

definition cart_of_request :: "CartItemRequest \<Rightarrow> ShoppingCartDO" where
  "cart_of_request request = new_cart (cq_UserId request) (cq_GoodsId request) (cq_Nums request) (cq_Checked request)"

definition ctl_CartItemList :: "int option \<Rightarrow> (int \<times> ShopCartInfoResponse list) ord_op" where
  "ctl_CartItemList oinfo =
     (case oinfo of None \<Rightarrow> fail (NewCode ErrValidation)
      | Some uid \<Rightarrow> bindE (CartItemList (uint64_of uid) \<lparr>lm_Page = 0, lm_PageSize = 0\<rparr> [])
          (\<lambda>(cnt, items). ok (int32 cnt, map shopCartToResponse items)))"

definition ctl_CreateCartItem :: "time \<Rightarrow> CartItemRequest option \<Rightarrow> ShopCartInfoResponse ord_op" where
  "ctl_CreateCartItem now orequest =
     (case orequest of None \<Rightarrow> fail (NewCode ErrValidation)
      | Some request \<Rightarrow> bindE (CreateCartItem now (Some (cart_of_request request))) (\<lambda>c. ok (shopCartToResponse c)))"

definition ctl_UpdateCartItem :: "time \<Rightarrow> CartItemRequest option \<Rightarrow> unit ord_op" where
  "ctl_UpdateCartItem now orequest =
     (case orequest of None \<Rightarrow> fail (NewCode ErrValidation)
      | Some request \<Rightarrow> UpdateCartItem now (Some (cart_of_request request)))"

definition ctl_DeleteCartItem :: "time \<Rightarrow> CartItemRequest option \<Rightarrow> unit ord_op" where
  "ctl_DeleteCartItem now orequest =
     (case orequest of None \<Rightarrow> fail (NewCode ErrValidation)
      | Some request \<Rightarrow> DeleteCartItem now (uint64_of (cq_UserId request)) (uint64_of (cq_Id request)))"

section \<open>Orders\<close>

definition CreateOrder :: "goods_rpc \<Rightarrow> time \<Rightarrow> OrderRequest option \<Rightarrow> unit ord_op" where
  "CreateOrder rpc now orequest =
     (case orequest of None \<Rightarrow> fail (NewCode ErrValidation)
      | Some request \<Rightarrow>
          if None \<in> set (oq_OrderItems request) then fail (NewCode ErrValidation)
          else order_Create rpc now (Some (zero_order\<lparr>od_User := oq_UserId request, od_Address := oq_Address request,
            od_SignerName := oq_Name request, od_SingerMobile := oq_Mobile request, od_Post := oq_Post request,
            od_OrderSn := oq_OrderSn request,
            od_OrderGoods := map (\<lambda>i. zero_goods\<lparr>og_Goods := fst (the i), og_Nums := snd (the i)\<rparr>)
              (oq_OrderItems request)\<rparr>)))"

definition CreateOrderCom :: "time \<Rightarrow> OrderRequest option \<Rightarrow> unit ord_op" where
  "CreateOrderCom now orequest =
     (case orequest of None \<Rightarrow> fail (NewCode ErrValidation)
      | Some request \<Rightarrow> CreateCom now (Some (zero_order\<lparr>od_OrderSn := oq_OrderSn request\<rparr>)))"

definition SubmitOrder :: "string option \<Rightarrow> (saga_request \<Rightarrow> err option) \<Rightarrow> OrderRequest option \<Rightarrow> unit ord_op" where
  "SubmitOrder dtmServer dtm orequest =
     (case orequest of None \<Rightarrow> fail (NewCode ErrValidation)
      | Some request \<Rightarrow> Submit dtmServer dtm (Some (zero_order\<lparr>od_User := oq_UserId request, od_Address := oq_Address request,
          od_SignerName := oq_Name request, od_SingerMobile := oq_Mobile request, od_Post := oq_Post request,
          od_OrderSn := oq_OrderSn request\<rparr>)))"

record OrderFilterRequest =
  fq_UserId :: int
  fq_Pages :: int
  fq_PagePerNums :: int

definition OrderList :: "(time \<Rightarrow> string) \<Rightarrow> OrderFilterRequest option \<Rightarrow> (int \<times> OrderInfoResponse list) ord_op" where
  "OrderList fmt orequest =
     (case orequest of None \<Rightarrow> fail (NewCode ErrValidation)
      | Some request \<Rightarrow> bindE (order_List (uint64_of (fq_UserId request))
            \<lparr>lm_Page = fq_Pages request, lm_PageSize = fq_PagePerNums request\<rparr> [''add_time desc''])
          (\<lambda>(cnt, items). ok (int32 cnt, map (orderToResponse fmt) items)))"

definition OrderDetail :: "(time \<Rightarrow> string) \<Rightarrow> OrderRequest option \<Rightarrow> (OrderInfoResponse \<times> OrderItemResponse list) ord_op" where
  "OrderDetail fmt orequest =
     (case orequest of None \<Rightarrow> fail (NewCode ErrValidation)
      | Some request \<Rightarrow> bindE (order_Get (uint64_of (oq_UserId request)) (oq_OrderSn request))
          (\<lambda>order. ok (orderToResponse fmt order, orderGoodsToResponse (od_OrderGoods order))))"

definition OrderStatusLogs :: "(time \<Rightarrow> string) \<Rightarrow> OrderRequest option \<Rightarrow> (int \<times> OrderStatusLogResponse list) ord_op" where
  "OrderStatusLogs fmt orequest =
     (case orequest of None \<Rightarrow> fail (NewCode ErrValidation)
      | Some request \<Rightarrow> bindE (StatusLogs (uint64_of (oq_UserId request)) (oq_OrderSn request))
          (\<lambda>(cnt, items). ok (int32 cnt, map (orderStatusLogToResponse fmt) items)))"

record OrderStatus =
  os_Id :: int
  os_OrderSn :: string
  os_Status :: string
  os_PayType :: string
  os_TradeNo :: string
  os_Reason :: string
  os_ActorUserId :: int
  os_RefundAmountFen :: int
  os_CorrelationId :: string
  os_RequestId :: string
  os_PayTime :: int

definition UpdateOrderStatus :: "time \<Rightarrow> OrderStatus option \<Rightarrow> unit ord_op" where
  "UpdateOrderStatus now ostatus =
     (case ostatus of None \<Rightarrow> fail (NewCode ErrValidation)
      | Some st \<Rightarrow> order_Update now (Some (zero_order\<lparr>od_OrderSn := os_OrderSn st, od_Status := os_Status st,
          od_PayType := os_PayType st, od_TradeNo := os_TradeNo st, dt_StatusReason := os_Reason st,
          dt_ActorUserID := os_ActorUserId st, dt_RefundAmountFen := os_RefundAmountFen st,
          dt_CorrelationID := os_CorrelationId st, dt_RequestID := os_RequestId st,
          ID := (if 0 < os_Id st then os_Id st else 0),
          od_PayTime := (if 0 < os_PayTime st then Some (os_PayTime st * 1000) else None)\<rparr>)))"

end
