(* ===== verification/Payment_Service.thy ===== *)
theory Payment_Service
  imports Payment_Store Order_Handlers
begin

text \<open>
  The payment operations of the order service (\<open>service/v1/payment.go\<close>) and their gRPC
  handlers (\<open>controller/order/v1/payment.go\<close>). The store of the program implements both
  interfaces the service asks for, so the answers for a store that does not are left out. The
  getters of a message give zero values for a missing one: a request is a record here. Unix times
  are seconds, the model's times milliseconds.
\<close>

section \<open>The service\<close>

definition svc_BeginPaymentEvent :: "time \<Rightarrow> PaymentEventDO \<Rightarrow> (PaymentEventDO \<times> OrderInfoDO \<times> bool) ord_op" where
  "svc_BeginPaymentEvent now event =
     BeginPaymentEvent now (Some (event\<lparr>pe_Provider := to_lower (trim_space (pe_Provider event)),
       pe_EventID := trim_space (pe_EventID event), pe_OrderSN := trim_space (pe_OrderSN event),
       pe_TradeNo := trim_space (pe_TradeNo event), pe_EventType := to_lower (trim_space (pe_EventType event))\<rparr>))"

definition svc_CompleteRefundJob ::
    "time \<Rightarrow> int \<Rightarrow> bool \<Rightarrow> string \<Rightarrow> string \<Rightarrow> string \<Rightarrow> string \<Rightarrow> int \<Rightarrow> unit ord_op" where
  "svc_CompleteRefundJob now oid success provider providerRefundID providerStatus detail maxAttempts =
     CompleteRefundJob now oid success (to_lower (trim_space provider)) (trim_space providerRefundID)
       (to_lower (trim_space providerStatus)) detail maxAttempts"

definition page_window :: "int \<Rightarrow> int \<Rightarrow> int \<times> int" where
  "page_window page0 pageSize0 =
     (let page = (if page0 < 1 then 1 else page0);
          pageSize = (if pageSize0 < 1 \<or> 100 < pageSize0 then 20 else pageSize0)
      in ((page - 1) * pageSize, pageSize))"

definition svc_ListPaymentReconciliationRuns ::
    "string \<Rightarrow> time option \<Rightarrow> time option \<Rightarrow> int \<Rightarrow> int \<Rightarrow> (PaymentReconciliationRunDO list \<times> int) ord_op" where
  "svc_ListPaymentReconciliationRuns provider frm tgt page pageSize =
     (case page_window page pageSize of (offset, limit) \<Rightarrow>
        ListPaymentReconciliationRuns (to_lower (trim_space provider)) frm tgt offset limit)"

definition svc_ListPaymentReconciliationItems ::
    "string \<Rightarrow> time option \<Rightarrow> time option \<Rightarrow> string \<Rightarrow> int \<Rightarrow> int \<Rightarrow> int \<Rightarrow> (PaymentReconciliationItemDO list \<times> int) ord_op" where
  "svc_ListPaymentReconciliationItems provider frm tgt res runID page pageSize =
     (case page_window page pageSize of (offset, limit) \<Rightarrow>
        ListPaymentReconciliationItems (to_lower (trim_space provider)) frm tgt (to_lower (trim_space res)) runID offset limit)"

definition svc_GetOrderTrace :: "OrderTraceLookup \<Rightarrow> OrderTrace ord_op" where
  "svc_GetOrderTrace lookup0 =
     (let lookup = \<lparr>lk_OrderSN = trim_space (lk_OrderSN lookup0), lk_TradeNo = trim_space (lk_TradeNo lookup0),
            lk_CorrelationID = trim_space (lk_CorrelationID lookup0)\<rparr>
      in if lk_OrderSN lookup = [] \<and> lk_TradeNo lookup = [] \<and> lk_CorrelationID lookup = []
         then fail (NewCode ErrValidation) else GetOrderTrace lookup)"

definition svc_ListPaymentEvents :: "string \<Rightarrow> int \<Rightarrow> int \<Rightarrow> bool \<Rightarrow> (PaymentEventDO list \<times> int \<times> int) ord_op" where
  "svc_ListPaymentEvents orderSN page pageSize mismatchesOnly =
     (case page_window page pageSize of (offset, limit) \<Rightarrow>
        ListPaymentEvents (trim_space orderSN) offset limit mismatchesOnly)"

section \<open>Refund jobs\<close>

record pb_RefundJob =
  bj_Id :: int
  bj_RefundRequestId :: int
  bj_OrderSn :: string
  bj_TradeNo :: string
  bj_AmountFen :: int
  bj_Reason :: string
  bj_CorrelationId :: string
  bj_Attempts :: int

definition ctl_ClaimRefundJobs :: "time \<Rightarrow> int \<Rightarrow> int \<Rightarrow> int \<Rightarrow> pb_RefundJob list ord_op" where
  "ctl_ClaimRefundJobs now limit maxAttempts lockTimeoutSeconds =
     bindE (ClaimRefundJobs now limit maxAttempts (int64 (lockTimeoutSeconds * 1000000000))) (\<lambda>jobs.
       ok (map (\<lambda>job. \<lparr>bj_Id = int64 (rj_OutboxID job), bj_RefundRequestId = int64 (rj_RefundRequestID job),
         bj_OrderSn = rj_OrderSN job, bj_TradeNo = rj_TradeNo job, bj_AmountFen = rj_AmountFen job,
         bj_Reason = rj_Reason job, bj_CorrelationId = rj_CorrelationID job, bj_Attempts = int32 (rj_Attempts job)\<rparr>) jobs))"

record CompleteRefundJobRequest =
  jq_Id :: int
  jq_Success :: bool
  jq_Provider :: string
  jq_ProviderRefundId :: string
  jq_ProviderStatus :: string
  jq_ErrorDetail :: string
  jq_MaxAttempts :: int

definition ctl_CompleteRefundJob :: "time \<Rightarrow> CompleteRefundJobRequest \<Rightarrow> unit ord_op" where
  "ctl_CompleteRefundJob now req =
     svc_CompleteRefundJob now (uint64_of (jq_Id req)) (jq_Success req) (jq_Provider req) (jq_ProviderRefundId req)
       (jq_ProviderStatus req) (jq_ErrorDetail req) (jq_MaxAttempts req)"

text \<open>The answer of \<open>RetryDeadRefundJob\<close>: id, status, attempts and correlation id.\<close>

definition ctl_RetryDeadRefundJob :: "time \<Rightarrow> int \<Rightarrow> (int \<times> string \<times> int \<times> string) ord_op" where
  "ctl_RetryDeadRefundJob now oid =
     bindE (RetryDeadRefundJob now (uint64_of oid)) (\<lambda>job.
       ok (int64 (rj_OutboxID job), ''retry'', int32 (rj_Attempts job), rj_CorrelationID job))"

section \<open>Reconciliation\<close>

record ProviderTransaction =
  pt_EventId :: string
  pt_OrderSn :: string
  pt_TradeNo :: string
  pt_EventType :: string
  pt_AmountFen :: int
  pt_OccurredAt :: int

definition zero_event :: PaymentEventDO where
  "zero_event = \<lparr>pe_ID = 0, pe_Provider = [], pe_EventID = [], pe_OrderSN = [], pe_TradeNo = [], pe_EventType = [],
     pe_OrderAmountFen = 0, pe_ProviderAmountFen = 0, pe_RefundAmountFen = 0, pe_Status = [], pe_ErrorDetail = [],
     pe_ReceivedAt = zero_time, pe_CompletedAt = None\<rparr>"

text \<open>The answer of \<open>ReconcilePayments\<close>: the run's id and its two counts.\<close>

definition ctl_ReconcilePayments :: "time \<Rightarrow> string \<Rightarrow> int \<Rightarrow> int \<Rightarrow> ProviderTransaction list \<Rightarrow> (int \<times> int \<times> int) ord_op" where
  "ctl_ReconcilePayments now provider windowStart windowEnd items =
     bindE (ReconcilePayments now provider (windowStart * 1000) (windowEnd * 1000)
         (map (\<lambda>i. zero_event\<lparr>pe_Provider := provider, pe_EventID := pt_EventId i, pe_OrderSN := pt_OrderSn i,
            pe_TradeNo := pt_TradeNo i, pe_EventType := pt_EventType i, pe_ProviderAmountFen := pt_AmountFen i,
            pe_ReceivedAt := pt_OccurredAt i * 1000\<rparr>) items))
       (\<lambda>run. ok (int64 (pr_ID run), int32 (pr_CheckedCount run), int32 (pr_MismatchCount run)))"

definition optionalUnixTime :: "int \<Rightarrow> time option" where
  "optionalUnixTime value = (if value \<le> 0 then None else Some (value * 1000))"

definition unix :: "time \<Rightarrow> int" where "unix t = t div 1000"

record PaymentReconciliationRunRecord =
  wr_Id :: int
  wr_Provider :: string
  wr_WindowStart :: int
  wr_WindowEnd :: int
  wr_StartedAt :: int
  wr_FinishedAt :: int
  wr_CheckedCount :: int
  wr_MismatchCount :: int
  wr_Status :: string

definition ctl_ListPaymentReconciliationRuns ::
    "string \<Rightarrow> int \<Rightarrow> int \<Rightarrow> int \<Rightarrow> int \<Rightarrow> (int \<times> PaymentReconciliationRunRecord list) ord_op" where
  "ctl_ListPaymentReconciliationRuns provider windowStart windowEnd page pageSize =
     bindE (svc_ListPaymentReconciliationRuns provider (optionalUnixTime windowStart) (optionalUnixTime windowEnd) page pageSize)
       (\<lambda>(runs, cnt). ok (int32 cnt, map (\<lambda>run. \<lparr>wr_Id = int64 (pr_ID run), wr_Provider = pr_Provider run,
          wr_WindowStart = unix (pr_WindowStart run), wr_WindowEnd = unix (pr_WindowEnd run),
          wr_StartedAt = unix (pr_StartedAt run),
          wr_FinishedAt = (case pr_FinishedAt run of None \<Rightarrow> 0 | Some f \<Rightarrow> unix f),
          wr_CheckedCount = int32 (pr_CheckedCount run), wr_MismatchCount = int32 (pr_MismatchCount run),
          wr_Status = pr_Status run\<rparr>) runs))"

record PaymentReconciliationItemRecord =
  wi_Id :: int
  wi_RunId :: int
  wi_ProviderEventId :: string
  wi_OrderSn :: string
  wi_TradeNo :: string
  wi_EventType :: string
  wi_ProviderAmountFen :: int
  wi_LocalAmountFen :: int
  wi_Result :: string
  wi_Detail :: string
  wi_CreatedAt :: int

definition ctl_ListPaymentReconciliationItems ::
    "string \<Rightarrow> int \<Rightarrow> int \<Rightarrow> string \<Rightarrow> int \<Rightarrow> int \<Rightarrow> int \<Rightarrow> (int \<times> PaymentReconciliationItemRecord list) ord_op" where
  "ctl_ListPaymentReconciliationItems provider windowStart windowEnd res runId page pageSize =
     bindE (svc_ListPaymentReconciliationItems provider (optionalUnixTime windowStart) (optionalUnixTime windowEnd) res
         (uint64_of runId) page pageSize)
       (\<lambda>(items, cnt). ok (int32 cnt, map (\<lambda>i. \<lparr>wi_Id = int64 (pi_ID i), wi_RunId = int64 (pi_RunID i),
          wi_ProviderEventId = pi_ProviderEventID i, wi_OrderSn = pi_OrderSN i, wi_TradeNo = pi_TradeNo i,
          wi_EventType = pi_EventType i, wi_ProviderAmountFen = pi_ProviderAmountFen i,
          wi_LocalAmountFen = pi_LocalAmountFen i, wi_Result = pi_Result i, wi_Detail = pi_Detail i,
          wi_CreatedAt = unix (pi_CreatedAt i)\<rparr>) items))"

section \<open>Payment events\<close>

record PaymentEventRequest =
  eq_Provider :: string
  eq_EventId :: string
  eq_OrderSn :: string
  eq_TradeNo :: string
  eq_EventType :: string
  eq_ProviderAmountFen :: int
  eq_RefundAmountFen :: int

record PaymentEventResponse =
  ep_Id :: int
  ep_Accepted :: bool
  ep_Completed :: bool
  ep_OrderAmountFen :: int
  ep_OrderStatus :: string

definition ctl_BeginPaymentEvent :: "time \<Rightarrow> PaymentEventRequest \<Rightarrow> PaymentEventResponse ord_op" where
  "ctl_BeginPaymentEvent now req =
     bindE (svc_BeginPaymentEvent now (zero_event\<lparr>pe_Provider := eq_Provider req, pe_EventID := eq_EventId req,
         pe_OrderSN := eq_OrderSn req, pe_TradeNo := eq_TradeNo req, pe_EventType := eq_EventType req,
         pe_ProviderAmountFen := eq_ProviderAmountFen req, pe_RefundAmountFen := eq_RefundAmountFen req\<rparr>))
       (\<lambda>(event, order, accepted). ok \<lparr>ep_Id = int64 (pe_ID event), ep_Accepted = accepted,
          ep_Completed = (pe_Status event = ''completed''), ep_OrderAmountFen = pe_OrderAmountFen event,
          ep_OrderStatus = od_Status order\<rparr>)"

definition ctl_CompletePaymentEvent :: "time \<Rightarrow> int \<Rightarrow> bool \<Rightarrow> string \<Rightarrow> unit ord_op" where
  "ctl_CompletePaymentEvent now eid success detail = CompletePaymentEvent now (uint64_of eid) success detail"

record PaymentEventRecord =
  er_Id :: int
  er_Provider :: string
  er_EventId :: string
  er_OrderSn :: string
  er_TradeNo :: string
  er_EventType :: string
  er_OrderAmountFen :: int
  er_ProviderAmountFen :: int
  er_RefundAmountFen :: int
  er_Status :: string
  er_ErrorDetail :: string
  er_ReceivedAt :: int
  er_CompletedAt :: int

definition event_record :: "PaymentEventDO \<Rightarrow> PaymentEventRecord" where
  "event_record e = \<lparr>er_Id = int64 (pe_ID e), er_Provider = pe_Provider e, er_EventId = pe_EventID e,
     er_OrderSn = pe_OrderSN e, er_TradeNo = pe_TradeNo e, er_EventType = pe_EventType e,
     er_OrderAmountFen = pe_OrderAmountFen e, er_ProviderAmountFen = pe_ProviderAmountFen e,
     er_RefundAmountFen = pe_RefundAmountFen e, er_Status = pe_Status e, er_ErrorDetail = pe_ErrorDetail e,
     er_ReceivedAt = unix (pe_ReceivedAt e), er_CompletedAt = (case pe_CompletedAt e of None \<Rightarrow> 0 | Some c \<Rightarrow> unix c)\<rparr>"

record PaymentEventListResponse =
  el_Total :: int
  el_MismatchCount :: int
  el_Data :: "PaymentEventRecord list"

definition ctl_ListPaymentEvents :: "string \<Rightarrow> int \<Rightarrow> int \<Rightarrow> bool \<Rightarrow> PaymentEventListResponse ord_op" where
  "ctl_ListPaymentEvents orderSn page pageSize mismatchesOnly =
     bindE (svc_ListPaymentEvents orderSn page pageSize mismatchesOnly) (\<lambda>(items, cnt, mismatches).
       ok \<lparr>el_Total = int32 cnt, el_MismatchCount = int32 mismatches, el_Data = map event_record items\<rparr>)"

section \<open>The trace\<close>

definition orderToDetailResponse :: "(time \<Rightarrow> string) \<Rightarrow> OrderInfoDO \<Rightarrow> OrderInfoResponse \<times> OrderItemResponse list" where
  "orderToDetailResponse fmt order = (orderToResponse fmt order, orderGoodsToResponse (od_OrderGoods order))"

definition statusLogsToResponse :: "(time \<Rightarrow> string) \<Rightarrow> OrderStatusLogDO list \<Rightarrow> int \<times> OrderStatusLogResponse list" where
  "statusLogsToResponse fmt entries = (int32 (int (length entries)), map (orderStatusLogToResponse fmt) entries)"

definition countTraceMismatches :: "PaymentEventDO list \<Rightarrow> int" where
  "countTraceMismatches items = int (length (filter (\<lambda>e.
     (pe_EventType e \<noteq> ''refund_succeeded'' \<and> pe_ProviderAmountFen e \<noteq> pe_OrderAmountFen e) \<or>
     (pe_EventType e = ''refund_succeeded'' \<and>
       (pe_RefundAmountFen e \<noteq> pe_ProviderAmountFen e \<or> pe_OrderAmountFen e < pe_RefundAmountFen e))) items))"

record pb_RefundTraceRecord =
  bt_RefundRequestId :: int
  bt_OrderSn :: string
  bt_ActorUserId :: int
  bt_AmountFen :: int
  bt_Reason :: string
  bt_Status :: string
  bt_Provider :: string
  bt_ProviderRefundId :: string
  bt_FailureReason :: string
  bt_CorrelationId :: string
  bt_CreatedAt :: int
  bt_UpdatedAt :: int
  bt_RefundJobId :: int
  bt_RefundJobStatus :: string
  bt_RefundJobAttempts :: int
  bt_RefundJobAvailableAt :: int
  bt_RefundJobLockedAt :: int
  bt_RefundJobLastError :: string

definition refund_trace_record :: "RefundTraceRecord \<Rightarrow> pb_RefundTraceRecord" where
  "refund_trace_record item =
     (let r = rt_RefundRequest item;
          ob = (\<lambda>z f. case rt_RefundOutbox item of None \<Rightarrow> z | Some x \<Rightarrow> f x);
          os = (\<lambda>f. case rt_RefundOutbox item of None \<Rightarrow> [] | Some x \<Rightarrow> f x)
      in \<lparr>bt_RefundRequestId = int64 (rr_ID r), bt_OrderSn = rr_OrderSN r, bt_ActorUserId = rr_ActorUserID r,
          bt_AmountFen = rr_AmountFen r, bt_Reason = rr_Reason r, bt_Status = rr_Status r, bt_Provider = rr_Provider r,
          bt_ProviderRefundId = rr_ProviderRefundID r, bt_FailureReason = rr_FailureReason r,
          bt_CorrelationId = rr_CorrelationID r, bt_CreatedAt = unix (rr_CreatedAt r), bt_UpdatedAt = unix (rr_UpdatedAt r),
          bt_RefundJobId = ob 0 (\<lambda>x. int64 (ro_ID x)), bt_RefundJobStatus = os ro_Status,
          bt_RefundJobAttempts = ob 0 (\<lambda>x. int32 (ro_Attempts x)),
          bt_RefundJobAvailableAt = ob 0 (\<lambda>x. unix (ro_AvailableAt x)),
          bt_RefundJobLockedAt = ob 0 (\<lambda>x. case ro_LockedAt x of None \<Rightarrow> 0 | Some l \<Rightarrow> unix l),
          bt_RefundJobLastError = os ro_LastError\<rparr>)"

record OrderTraceResponse =
  ot_MatchedBy :: string
  ot_MatchedValue :: string
  ot_Order :: "OrderInfoResponse \<times> OrderItemResponse list"
  ot_StatusLogs :: "int \<times> OrderStatusLogResponse list"
  ot_PaymentEvents :: PaymentEventListResponse
  ot_Refunds :: "pb_RefundTraceRecord list"

definition ctl_GetOrderTrace :: "(time \<Rightarrow> string) \<Rightarrow> OrderTraceLookup option \<Rightarrow> OrderTraceResponse ord_op" where
  "ctl_GetOrderTrace fmt oreq =
     (case oreq of None \<Rightarrow> fail (NewCode ErrValidation)
      | Some req \<Rightarrow> bindE (svc_GetOrderTrace req) (\<lambda>trace.
          ok \<lparr>ot_MatchedBy = tr_MatchedBy trace, ot_MatchedValue = tr_MatchedValue trace,
             ot_Order = orderToDetailResponse fmt (tr_Order trace),
             ot_StatusLogs = statusLogsToResponse fmt (tr_StatusLogs trace),
             ot_PaymentEvents = \<lparr>el_Total = int32 (int (length (tr_PaymentEvents trace))),
               el_MismatchCount = int32 (countTraceMismatches (tr_PaymentEvents trace)),
               el_Data = map event_record (tr_PaymentEvents trace)\<rparr>,
             ot_Refunds = map refund_trace_record (tr_Refunds trace)\<rparr>))"

end
