(* ===== verification/Order_Lifecycle.thy ===== *)
theory Order_Lifecycle
  imports Order_Service Inventory_Service
begin

text \<open>
  The background worker of the order service: \<open>service/v1/order_lifecycle.go\<close>, the
  configuration of \<open>service/v1/service.go\<close> and the inventory gateway of
  \<open>boundary/inventory.go\<close>. It works on two databases, the order service's and, through the
  gateway, the inventory service's. A call that fails in transport is one whose statements are
  refused there, or whose commit has its reply lost; a sweep that runs out of time finds the
  statements left refused. The counts a sweep logs are its result.
\<close>

section \<open>Two services\<close>

record world =
  order_side :: "order_db session"
  stock_side :: "inventory_db session"

definition on_orders :: "(order_db session, 'a) state \<Rightarrow> (world, 'a) state" where
  "on_orders m = State (\<lambda>w. case run_state m (order_side w) of (r, s) \<Rightarrow> (r, w\<lparr>order_side := s\<rparr>))"

definition on_stock :: "(inventory_db session, 'a) state \<Rightarrow> (world, 'a) state" where
  "on_stock m = State (\<lambda>w. case run_state m (stock_side w) of (r, s) \<Rightarrow> (r, w\<lparr>stock_side := s\<rparr>))"

lemma run_on_orders [run_simps]:
  "run_state (on_orders m) w = (fst (run_state m (order_side w)), w\<lparr>order_side := snd (run_state m (order_side w))\<rparr>)"
  by (simp add: on_orders_def split_beta)

lemma run_on_stock [run_simps]:
  "run_state (on_stock m) w = (fst (run_state m (stock_side w)), w\<lparr>stock_side := snd (run_state m (stock_side w))\<rparr>)"
  by (simp add: on_stock_def split_beta)

section \<open>Configuration\<close>

record LifecycleConfig =
  lc_PollInterval :: int
  lc_SweepTimeout :: int
  lc_TimeoutCloseAfter :: int
  lc_FinishAfterPayment :: int
  lc_BatchSize :: int

definition orderLifecyclePollInterval :: int where "orderLifecyclePollInterval = 5 * 1000"
definition orderLifecycleSweepTimeout :: int where "orderLifecycleSweepTimeout = 2 * 60 * 1000"
definition orderTimeoutCloseAfter :: int where "orderTimeoutCloseAfter = 30 * 60 * 1000"
definition orderFinishAfterPayment :: int where "orderFinishAfterPayment = 7 * 24 * 60 * 60 * 1000"
definition orderLifecycleBatchSize :: int where "orderLifecycleBatchSize = 20"

definition normalize :: "LifecycleConfig \<Rightarrow> LifecycleConfig" where
  "normalize c =
     \<lparr>lc_PollInterval = (if lc_PollInterval c \<le> 0 then orderLifecyclePollInterval else lc_PollInterval c),
      lc_SweepTimeout = (if lc_SweepTimeout c \<le> 0 then orderLifecycleSweepTimeout else lc_SweepTimeout c),
      lc_TimeoutCloseAfter = (if lc_TimeoutCloseAfter c \<le> 0 then orderTimeoutCloseAfter else lc_TimeoutCloseAfter c),
      lc_FinishAfterPayment = (if lc_FinishAfterPayment c \<le> 0 then orderFinishAfterPayment else lc_FinishAfterPayment c),
      lc_BatchSize = (if lc_BatchSize c \<le> 0 then orderLifecycleBatchSize else lc_BatchSize c)\<rparr>"

section \<open>Sweeps\<close>

text \<open>\<open>inventoryRPCGateway.Release\<close>: the call of the inventory's handler.\<close>

definition gateway_Release :: "order_lock \<Rightarrow> time \<Rightarrow> string \<Rightarrow> (int \<times> int) list \<Rightarrow> unit inv_op" where
  "gateway_Release lock now orderSn items =
     ctl_Release lock now (Some \<lparr>si_GoodsInfo = map (\<lambda>(g, n). info_of_line \<lparr>gd_Goods = g, gd_Num = n\<rparr>) items, si_OrderSn = orderSn\<rparr>)"

definition releaseOrderInventory :: "order_lock \<Rightarrow> time \<Rightarrow> OrderInfoDO \<Rightarrow> (world, unit result) state" where
  "releaseOrderInventory lock now order =
     (let items = map (\<lambda>i. (og_Goods i, og_Nums i)) (filter (\<lambda>i. 0 < og_Goods i \<and> 0 < og_Nums i) (od_OrderGoods order))
      in if items = [] then ok () else on_stock (gateway_Release lock now (trim_space (od_OrderSn order)) items))"

definition worker_order :: "string \<Rightarrow> string \<Rightarrow> string \<Rightarrow> string \<Rightarrow> OrderDTO" where
  "worker_order sn status reason source = zero_order\<lparr>od_OrderSn := sn, od_Status := status,
     dt_StatusReason := reason, dt_StatusSource := source, dt_StatusOperator := ''system''\<rparr>"

definition close_one :: "order_lock \<Rightarrow> time \<Rightarrow> OrderInfoDO \<Rightarrow> (world, unit result) state" where
  "close_one lock now order =
     bindE (releaseOrderInventory lock now order) (\<lambda>_.
       on_orders (order_Update now (Some (worker_order (od_OrderSn order) OrderStatusTradeClosed
         ''order timeout auto close'' ''order.timeout_worker''))))"

definition finish_one :: "time \<Rightarrow> OrderInfoDO \<Rightarrow> (world, unit result) state" where
  "finish_one now order =
     on_orders (order_Update now (Some (worker_order (od_OrderSn order) OrderStatusTradeFinished
       ''payment success auto finish'' ''order.finish_worker'')))"

text \<open>The loop over the candidates: a failure is counted, and the loop goes on.\<close>

primrec process_all :: "(OrderInfoDO \<Rightarrow> (world, unit result) state) \<Rightarrow> OrderInfoDO list \<Rightarrow> (world, nat \<times> nat) state" where
  "process_all f [] = State_Monad.return (0, 0)"
| "process_all f (x # xs) = do {
     r \<leftarrow> f x;
     (good, failed) \<leftarrow> process_all f xs;
     State_Monad.return (if is_ok r then (Suc good, failed) else (good, Suc failed))
   }"

definition processExpiredOrdersOnce :: "order_lock \<Rightarrow> LifecycleConfig \<Rightarrow> time \<Rightarrow> (world, (nat \<times> nat) result) state" where
  "processExpiredOrdersOnce lock cfg now =
     bind_err Wrapf
       (on_orders (ListCloseCandidates [OrderStatusWaitBuyerPay, OrderStatusPaying]
         (now - lc_TimeoutCloseAfter cfg) (lc_BatchSize cfg)))
       (\<lambda>candidates. do { n \<leftarrow> process_all (close_one lock now) candidates; ok n })"

definition processFinishedOrdersOnce :: "LifecycleConfig \<Rightarrow> time \<Rightarrow> (world, (nat \<times> nat) result) state" where
  "processFinishedOrdersOnce cfg now =
     bind_err Wrapf
       (on_orders (ListFinishCandidates OrderStatusTradeSuccess (now - lc_FinishAfterPayment cfg) (lc_BatchSize cfg)))
       (\<lambda>candidates. do { n \<leftarrow> process_all (finish_one now) candidates; ok n })"

definition runLifecycleSweep :: "order_lock \<Rightarrow> LifecycleConfig \<Rightarrow> time \<Rightarrow> (world, unit) state" where
  "runLifecycleSweep lock cfg now = do {
     _ \<leftarrow> processExpiredOrdersOnce lock cfg now;
     _ \<leftarrow> processFinishedOrdersOnce cfg now;
     State_Monad.return ()
   }"

end
