(* ===== verification/Order_Machine.thy ===== *)
theory Order_Machine
  imports Payment_Service Order_Lifecycle
begin

text \<open>
  What the order service promises of an order's status, stated without its tables: a book maps
  each live order number to a phase; a number is entered in the first phase, moves along the
  arrows of \<open>phase_step\<close>, and is struck out by a compensation. The operations that write the
  order table are shown to do just that to the book of the table, whatever the database answers.
\<close>

section \<open>Phases\<close>

datatype order_phase = Waiting | Paying | Paid | Closed | Finished | Refunding | Refund_Failed | Refunded

primrec phase_name :: "order_phase \<Rightarrow> string" where
  "phase_name Waiting = OrderStatusWaitBuyerPay"
| "phase_name Paying = OrderStatusPaying"
| "phase_name Paid = OrderStatusTradeSuccess"
| "phase_name Closed = OrderStatusTradeClosed"
| "phase_name Finished = OrderStatusTradeFinished"
| "phase_name Refunding = OrderStatusRefundPending"
| "phase_name Refund_Failed = OrderStatusRefundFailed"
| "phase_name Refunded = OrderStatusRefunded"

definition phase_of :: "string \<Rightarrow> order_phase option" where
  "phase_of s = map_of (map (\<lambda>p. (phase_name p, p))
     [Waiting, Paying, Paid, Closed, Finished, Refunding, Refund_Failed, Refunded]) s"

inductive phase_step :: "order_phase \<Rightarrow> order_phase \<Rightarrow> bool" where
  "phase_step Waiting Paying"
| "phase_step Waiting Paid"
| "phase_step Waiting Closed"
| "phase_step Paying Paid"
| "phase_step Paying Closed"
| "phase_step Paid Finished"
| "phase_step Paid Refunding"
| "phase_step Finished Refunding"
| "phase_step Refunding Refunded"
| "phase_step Refunding Refund_Failed"
| "phase_step Refund_Failed Refunding"

inductive_simps phase_step_simps [simp]: "phase_step p q"

lemma phase_of_name [simp]: "phase_of (phase_name p) = Some p"
  by (cases p) (simp_all add: phase_of_def)

lemma phase_of_Some: "phase_of s = Some p \<longleftrightarrow> s = phase_name p"
proof
  assume "phase_of s = Some p"
  then show "s = phase_name p"
    using map_of_SomeD unfolding phase_of_def set_map by fastforce
qed simp

lemma phase_name_inj [simp]: "phase_name p = phase_name q \<longleftrightarrow> p = q"
  by (metis phase_of_name option.inject)

lemma valid_status_phase: "isValidOrderStatus s \<longleftrightarrow> (\<exists>p. s = phase_name p)"
proof
  assume "isValidOrderStatus s"
  then show "\<exists>p. s = phase_name p"
    unfolding isValidOrderStatus_def validOrderStatuses_def list.set insert_iff empty_iff
    by (metis phase_name.simps)
next
  assume "\<exists>p. s = phase_name p"
  then obtain p where "s = phase_name p" ..
  then show "isValidOrderStatus s"
    by (cases p) (simp_all add: isValidOrderStatus_def validOrderStatuses_def)
qed

lemma trim_phase_name [simp]: "trim_space (phase_name p) = phase_name p"
  by (cases p; simp only: phase_name.simps; code_simp)

lemma phase_name_not_Nil [simp]: "phase_name p \<noteq> []"
  by (cases p) simp_all

lemma transitions:
  "canTransitionOrderStatus (phase_name p) (phase_name q) \<longleftrightarrow> p = q \<or> phase_step p q"
  by (cases p; cases q) (simp_all only: canTransitionOrderStatus_def trim_phase_name Let_def, simp_all)

text \<open>\<open>canTransitionOrderStatus\<close> on the eight statuses is the transition diagram, with
  the status an order already has allowed as well.\<close>

theorem transition_diagram:
  "canTransitionOrderStatus (phase_name p) (phase_name q) \<longleftrightarrow> p = q \<or> phase_step p q"
  by (rule transitions)

declare phase_name.simps [simp del]

section \<open>The book of the order table\<close>

abbreviation numbered :: "string \<Rightarrow> OrderInfoDO \<Rightarrow> bool" where
  "numbered sn r \<equiv> live r \<and> od_OrderSn r = sn"

definition book :: "OrderInfoDO list \<Rightarrow> string \<Rightarrow> order_phase option" where
  "book t sn = (case first_row (numbered sn) t of None \<Rightarrow> None | Some r \<Rightarrow> phase_of (od_Status r))"

inductive book_step :: "(string \<Rightarrow> order_phase option) \<Rightarrow> (string \<Rightarrow> order_phase option) \<Rightarrow> bool" where
  place: "b sn = None \<Longrightarrow> book_step b (b(sn \<mapsto> Waiting))"
| move: "b sn = Some p \<Longrightarrow> phase_step p q \<Longrightarrow> book_step b (b(sn \<mapsto> q))"
| withdraw: "b sn = Some p \<Longrightarrow> book_step b (b(sn := None))"

text \<open>A paid order and its successors have a trade number and the time of the payment.\<close>

fun settled :: "order_phase \<Rightarrow> bool" where
  "settled Waiting = False"
| "settled Paying = False"
| "settled Closed = False"
| "settled _ = True"

definition row_ok :: "OrderInfoDO \<Rightarrow> bool" where
  "row_ok r \<longleftrightarrow> od_OrderSn r \<noteq> [] \<and> trim_space (od_OrderSn r) = od_OrderSn r \<and>
     (\<exists>p. od_Status r = phase_name p \<and> (settled p \<longrightarrow> od_TradeNo r \<noteq> [] \<and> od_PayTime r \<noteq> None))"

definition wf_orders :: "OrderInfoDO list \<Rightarrow> bool" where
  "wf_orders t \<longleftrightarrow> distinct (map ID t) \<and> (\<forall>r \<in> set t. 0 < ID r) \<and> (\<forall>r \<in> set t. live r \<longrightarrow> row_ok r) \<and>
     (\<forall>r \<in> set t. \<forall>r' \<in> set t. live r \<longrightarrow> numbered (od_OrderSn r) r' \<longrightarrow> r = r')"

lemma wf_ordersD:
  assumes "wf_orders t"
  shows "distinct (map ID t)" "\<And>r. r \<in> set t \<Longrightarrow> 0 < ID r" "\<And>r. r \<in> set t \<Longrightarrow> live r \<Longrightarrow> row_ok r"
    "\<And>r r'. r \<in> set t \<Longrightarrow> r' \<in> set t \<Longrightarrow> live r \<Longrightarrow> numbered (od_OrderSn r) r' \<Longrightarrow> r = r'"
  using assms by (auto simp: wf_orders_def)

lemma wf_same_ID: "wf_orders t \<Longrightarrow> r \<in> set t \<Longrightarrow> r' \<in> set t \<Longrightarrow> ID r = ID r' \<Longrightarrow> r = r'"
  by (auto simp: wf_orders_def distinct_map inj_on_def)

lemma key_one:
  assumes "wf_orders t" "r0 \<in> set t" "live r0"
  shows "\<forall>r \<in> set t. (live r \<and> ID r = ID r0) \<longleftrightarrow> r = r0"
  using wf_same_ID [OF assms(1) _ assms(2)] assms(3) by metis

lemma book_numbered:
  assumes "wf_orders t" "r \<in> set t" "numbered sn r"
  shows "book t sn = phase_of (od_Status r)"
proof -
  have "first_row (numbered sn) t \<noteq> None"
    unfolding first_row_None using assms(2,3) by blast
  then obtain r' where r': "first_row (numbered sn) t = Some r'" by blast
  then have "r' = r" using first_row_Some [OF r'] wf_ordersD(4) [OF assms(1), of r r'] assms by simp
  then show ?thesis using r' by (simp add: book_def)
qed

lemma book_None: "\<forall>r \<in> set t. \<not> numbered sn r \<Longrightarrow> book t sn = None"
  by (simp add: book_def first_row_None [THEN iffD2])

text \<open>A new order.\<close>

lemma book_insert:
  assumes t: "wf_orders t" and new: "\<forall>r \<in> set t. \<not> numbered (od_OrderSn r0) r"
    and r0: "live r0" "row_ok r0" "od_Status r0 = phase_name Waiting" "0 < ID r0" "ID r0 \<notin> ID ` set t"
  shows "wf_orders (t @ [r0])" "book_step (book t) (book (t @ [r0]))"
proof -
  show "wf_orders (t @ [r0])"
    using t new r0 by (auto simp: wf_orders_def)
  have "book (t @ [r0]) = (book t)(od_OrderSn r0 \<mapsto> Waiting)"
  proof
    fix sn
    show "book (t @ [r0]) sn = ((book t)(od_OrderSn r0 \<mapsto> Waiting)) sn"
    proof (cases "sn = od_OrderSn r0")
      case True
      then have "first_row (numbered sn) t = None" using new by (simp add: first_row_None)
      with True r0 show ?thesis
        by (simp add: book_def first_row_append first_row_Cons)
    next
      case False
      then show ?thesis by (auto simp: book_def first_row_append first_row_Cons first_row_Nil split: option.splits)
    qed
  qed
  then show "book_step (book t) (book (t @ [r0]))"
    using place [of "book t" "od_OrderSn r0", OF book_None [OF new]] by (simp only:)
qed

text \<open>One row replaced by another, which is live or not.\<close>

lemma set_replace:
  "set (update_rows (\<lambda>r. r = r0) (\<lambda>_. r1) t) = (if r0 \<in> set t then insert r1 (set t - {r0}) else set t)"
  by (auto simp: set_update_rows)

lemma wf_replace:
  assumes t: "wf_orders t" and r0: "r0 \<in> set t" "live r0"
    and r1: "ID r1 = ID r0" "od_OrderSn r1 = od_OrderSn r0" "live r1 \<Longrightarrow> row_ok r1"
  shows "wf_orders (update_rows (\<lambda>r. r = r0) (\<lambda>_. r1) t)"
proof -
  have "map ID (update_rows (\<lambda>r. r = r0) (\<lambda>_. r1) t) = map ID t"
    using r1 by (simp add: update_rows_def)
  moreover have "\<forall>r \<in> set t. live r \<longrightarrow> r \<noteq> r0 \<longrightarrow> od_OrderSn r \<noteq> od_OrderSn r0"
    using t r0 wf_ordersD(4) by blast
  ultimately show ?thesis
    using t r0 r1 by (auto simp: wf_orders_def set_replace)
qed

lemma book_replace_live:
  assumes t: "wf_orders t" and r0: "r0 \<in> set t" "live r0"
    and r1: "ID r1 = ID r0" "numbered (od_OrderSn r0) r1" "row_ok r1" "od_Status r1 = phase_name q"
  shows "book (update_rows (\<lambda>r. r = r0) (\<lambda>_. r1) t) = (book t)(od_OrderSn r0 \<mapsto> q)"
proof
  fix sn
  have w: "wf_orders (update_rows (\<lambda>r. r = r0) (\<lambda>_. r1) t)" using wf_replace [OF t r0] r1 by simp
  show "book (update_rows (\<lambda>r. r = r0) (\<lambda>_. r1) t) sn = ((book t)(od_OrderSn r0 \<mapsto> q)) sn"
  proof (cases "sn = od_OrderSn r0")
    case True
    then show ?thesis using book_numbered [OF w, of r1 sn] r0 r1 by (simp add: set_replace)
  next
    case False
    have "first_row (numbered sn) (update_rows (\<lambda>r. r = r0) (\<lambda>_. r1) t) =
        map_option (\<lambda>r. if r = r0 then r1 else r) (first_row (numbered sn) t)"
      using False r0 r1 by (intro first_row_update_other) auto
    moreover have "first_row (numbered sn) t \<noteq> Some r0" using False first_row_Some by fastforce
    ultimately show ?thesis using False by (auto simp: book_def split: option.splits)
  qed
qed

lemma book_replace_dead:
  assumes t: "wf_orders t" and r0: "r0 \<in> set t" "live r0"
    and r1: "ID r1 = ID r0" "od_OrderSn r1 = od_OrderSn r0" "\<not> live r1"
  shows "book (update_rows (\<lambda>r. r = r0) (\<lambda>_. r1) t) = (book t)(od_OrderSn r0 := None)"
proof
  fix sn
  show "book (update_rows (\<lambda>r. r = r0) (\<lambda>_. r1) t) sn = ((book t)(od_OrderSn r0 := None)) sn"
  proof (cases "sn = od_OrderSn r0")
    case True
    have "\<forall>r \<in> set (update_rows (\<lambda>r. r = r0) (\<lambda>_. r1) t). \<not> numbered sn r"
      using True r0 r1 wf_ordersD(4) [OF t] by (auto simp: set_replace)
    with True show ?thesis by (simp add: book_None)
  next
    case False
    have "first_row (numbered sn) (update_rows (\<lambda>r. r = r0) (\<lambda>_. r1) t) =
        map_option (\<lambda>r. if r = r0 then r1 else r) (first_row (numbered sn) t)"
      using False r0 r1 by (intro first_row_update_other) auto
    moreover have "first_row (numbered sn) t \<noteq> Some r0" using False first_row_Some by fastforce
    ultimately show ?thesis using False by (auto simp: book_def split: option.splits)
  qed
qed

section \<open>Operations keep the book\<close>

definition keeps_book :: "order_db \<Rightarrow> order_db \<Rightarrow> bool" where
  "keeps_book t t' \<longleftrightarrow> (wf_orders (orderinfo t) \<longrightarrow>
     wf_orders (orderinfo t') \<and> book_step\<^sup>*\<^sup>* (book (orderinfo t)) (book (orderinfo t')))"

interpretation books: table_preorder keeps_book
  by unfold_locales (auto simp: keeps_book_def)

lemma keeps_same: "orderinfo t' = orderinfo t \<Longrightarrow> keeps_book t t'"
  by (simp add: keeps_book_def)

named_theorems book_rules \<open>operations that keep the book\<close>

lemma book_writes [book_rules]:
  "books.evolves (write_stmt ordergoods ordergoods_update f1)"
  "books.evolves (write_stmt shoppingcart shoppingcart_update f2)"
  "books.evolves (write_stmt order_status_logs order_status_logs_update f3)"
  "books.evolves (write_stmt order_refund_requests order_refund_requests_update f4)"
  "books.evolves (write_stmt order_refund_outbox order_refund_outbox_update f5)"
  "books.evolves (write_stmt payment_events payment_events_update f6)"
  "books.evolves (write_stmt payment_reconciliation_runs payment_reconciliation_runs_update f7)"
  "books.evolves (write_stmt payment_reconciliation_items payment_reconciliation_items_update f8)"
  "books.evolves (write_stmt account_deletion_inbox account_deletion_inbox_update f9)"
  "books.evolves (write_stmt account_deletion_outbox account_deletion_outbox_update f10)"
  by (rule books.evolves_write, simp add: keeps_same)+

declare books.evolves_rules [book_rules]

lemma book_preload [book_rules]: "books.evolves (preload rs)"
  unfolding preload_def by (simp add: book_rules)

lemma book_orders_Get [book_rules]: "books.evolves (orders_Get sn)"
  unfolding orders_Get_def Let_def by (simp add: book_rules)

lemma orders_Get_found:
  assumes "yields (orders_Get sn) t o' t'"
  obtains r where "t' = t" "first_row (numbered (trim_space sn)) (orderinfo t) = Some r" "o' = with_goods t r"
  using assms unfolding orders_Get_def Let_def preload_def
  by (fastforce elim!: yields_elims dest!: yields_first yields_query split: if_splits)

lemma orders_Get_reads [still_rules]: "still.evolves (orders_Get sn)"
  unfolding orders_Get_def Let_def preload_def by (simp add: still_rules)

lemma orders_Get_missing:
  assumes "run_state (orders_Get sn) s = (Inl e, s')" "is_code e ErrOrderNotFound" "trim_space sn \<noteq> []"
  shows "\<forall>r \<in> set (orderinfo (tables s)). \<not> numbered (trim_space sn) r"
  using assms unfolding orders_Get_def Let_def preload_def first_stmt_def query_stmt_def
  by (auto simp: run_bind_err statement_def first_row_None split: sum.splits prod.splits outcome.splits option.splits if_splits)

text \<open>The row a number stands for, replaced by what the service writes.\<close>

lemma keeps_replace:
  assumes r0: "r0 \<in> set (orderinfo t)" "live r0" "od_Status r0 = phase_name p"
    and r1: "ID r1 = ID r0" "numbered (od_OrderSn r0) r1" "row_ok r1" "od_Status r1 = phase_name q"
    and pq: "p = q \<or> phase_step p q"
    and t': "wf_orders (orderinfo t) \<Longrightarrow> orderinfo t' = update_rows (\<lambda>r. r = r0) (\<lambda>_. r1) (orderinfo t)"
  shows "keeps_book t t'"
proof (unfold keeps_book_def, intro impI)
  assume w: "wf_orders (orderinfo t)"
  have b: "book (orderinfo t) (od_OrderSn r0) = Some p"
    using book_numbered [OF w r0(1), of "od_OrderSn r0"] r0 by simp
  have "book_step\<^sup>*\<^sup>* (book (orderinfo t)) ((book (orderinfo t))(od_OrderSn r0 \<mapsto> q))"
  proof (cases "p = q")
    case True
    then have "(book (orderinfo t))(od_OrderSn r0 \<mapsto> q) = book (orderinfo t)" using b by auto
    then show ?thesis by simp
  next
    case False
    with pq have "phase_step p q" by blast
    from move [of "book (orderinfo t)", OF b this] show ?thesis by blast
  qed
  then show "wf_orders (orderinfo t') \<and> book_step\<^sup>*\<^sup>* (book (orderinfo t)) (book (orderinfo t'))"
    using t' [OF w] book_replace_live [OF w r0(1,2) r1(1-4)] wf_replace [OF w r0(1,2), of r1] r1 by simp
qed

lemma update_rows_one:
  "\<forall>r \<in> set t. P r \<longleftrightarrow> r = r0 \<Longrightarrow> update_rows P f t = update_rows (\<lambda>r. r = r0) (\<lambda>_. f r0) t"
  by (auto simp: update_rows_def)

lemma keeps_update:
  assumes r0: "r0 \<in> set (orderinfo t)" "live r0" "od_Status r0 = phase_name p"
    and r1: "ID (f r0) = ID r0" "numbered (od_OrderSn r0) (f r0)" "row_ok r0 \<Longrightarrow> row_ok (f r0)" "od_Status (f r0) = phase_name q"
    and pq: "p = q \<or> phase_step p q"
    and P: "wf_orders (orderinfo t) \<Longrightarrow> \<forall>r \<in> set (orderinfo t). P r \<longleftrightarrow> r = r0"
  shows "keeps_book t (orderinfo_update (\<lambda>_. snd (update_where P f fits (orderinfo t))) t)"
proof (cases "list_all (\<lambda>r. P r \<longrightarrow> fits (f r)) (orderinfo t) \<and> wf_orders (orderinfo t)")
  case True
  then have "row_ok (f r0)" using wf_ordersD(3) r0 r1(3) by blast
  then show ?thesis
    using keeps_replace [OF r0 r1(1,2) _ r1(4) pq] update_rows_one [OF P] True
    by (simp add: update_where_def)
next
  case False
  then show ?thesis by (auto simp: update_where_def keeps_same keeps_book_def)
qed

lemma settled_step: "p = q \<or> phase_step p q \<Longrightarrow> settled q \<Longrightarrow> q = Paid \<or> settled p"
  by (cases p; cases q) simp_all

lemma row_ok_updates:
  assumes "row_ok r0" "od_Status r0 = phase_name p" "p = q \<or> phase_step p q" "od_Status order = phase_name q"
    and "q = Paid \<Longrightarrow> od_TradeNo order \<noteq> [] \<and> od_PayTime order \<noteq> None"
  shows "row_ok (order_updates now order r0)"
proof -
  have p: "settled p \<Longrightarrow> od_TradeNo r0 \<noteq> [] \<and> od_PayTime r0 \<noteq> None"
    using assms(1,2) by (auto simp: row_ok_def)
  have "settled q \<Longrightarrow> od_TradeNo (order_updates now order r0) \<noteq> [] \<and> od_PayTime (order_updates now order r0) \<noteq> None"
    using settled_step [OF assms(3)] p assms(5) by (auto simp: order_updates_def)
  then show ?thesis
    using assms(1,4) unfolding row_ok_def by (auto simp: order_updates_def)
qed

lemma numbered_one:
  assumes "wf_orders t" "r0 \<in> set t" "numbered sn r0"
  shows "\<forall>r \<in> set t. numbered sn r \<longleftrightarrow> r = r0"
proof
  fix r assume "r \<in> set t"
  then show "numbered sn r \<longleftrightarrow> r = r0"
    using wf_ordersD(4) [OF assms(1,2), of r] assms(3) by metis
qed

lemma book_update_body:
  assumes r0: "first_row (numbered sn) (orderinfo t) = Some r0" "od_Status r0 = phase_name p"
    and order: "ID order \<le> 0" "trim_space (od_OrderSn order) = sn" "od_Status order = phase_name q"
    and pq: "p = q \<or> phase_step p q"
    and paid: "q = Paid \<Longrightarrow> od_TradeNo order \<noteq> [] \<and> od_PayTime order \<noteq> None"
  shows "books.evolves_from t (orders_Update now (Some order))"
proof -
  note r = first_row_Some [OF r0(1)]
  define o' where "o' = order\<lparr>od_OrderSn := sn, od_Status := phase_name q\<rparr>"
  have "row_ok (order_updates now o' r0)" if "row_ok r0"
    by (rule row_ok_updates [OF that r0(2) pq]) (use paid in \<open>simp_all add: o'_def\<close>)
  then have "keeps_book t (orderinfo_update (\<lambda>_. snd (update_where (numbered sn) (order_updates now o') fits (orderinfo t))) t)" for fits
  proof (intro keeps_update [where f = "order_updates now o'" and q = q, OF _ _ r0(2)])
    show "wf_orders (orderinfo t) \<Longrightarrow> \<forall>x \<in> set (orderinfo t). numbered sn x \<longleftrightarrow> x = r0"
      by (rule numbered_one) (use r in simp_all)
  qed (use r pq in \<open>simp_all add: order_updates_def o'_def\<close>)
  then have "books.evolves_from t (write_stmt orderinfo orderinfo_update
      (update_where (numbered sn) (order_updates now o') (fits_check order_check)))"
    by (rule books.evolves_from_write)
  moreover have "\<not> 0 < ID o'" "od_OrderSn o' = sn" "od_Status o' \<noteq> []"
    using order by (simp_all add: o'_def)
  moreover have "order\<lparr>od_OrderSn := trim_space (od_OrderSn order), od_Status := trim_space (od_Status order)\<rparr> = o'"
    using order by (simp add: o'_def)
  ultimately show ?thesis
    unfolding orders_Update_def option.case Let_def
    by (simp add: books.evolves_from_return books.evolves_from_bind_err)
qed

lemma book_logs_Create [book_rules]: "books.evolves (logs_Create now e)"
  unfolding logs_Create_def by (simp add: book_rules split: option.split)

lemma book_CreateRefundRequest [book_rules]: "books.evolves (CreateRefundRequest now q)"
  unfolding CreateRefundRequest_def by (simp add: book_rules split: option.split)

lemma update_checks_ok:
  assumes "update_checks now existing order = Inr order'" "od_Status existing = phase_name p" "od_Status order = phase_name q"
  shows "p = q \<or> phase_step p q" "ID order' = ID order" "od_OrderSn order' = od_OrderSn order" "od_Status order' = phase_name q"
    "q = Paid \<Longrightarrow> od_TradeNo order' \<noteq> [] \<and> od_PayTime order' \<noteq> None"
proof -
  have "canTransitionOrderStatus (phase_name p) (phase_name q)"
    using assms by (auto simp: update_checks_def split: if_splits)
  then show "p = q \<or> phase_step p q" by (rule transitions [THEN iffD1])
  show "ID order' = ID order" "od_OrderSn order' = od_OrderSn order" "od_Status order' = phase_name q"
    using assms by (auto simp: update_checks_def Let_def split: if_splits)
  assume "q = Paid"
  with assms show "od_TradeNo order' \<noteq> [] \<and> od_PayTime order' \<noteq> None"
    by (auto simp: update_checks_def Let_def phase_name.simps split: if_splits)
qed

lemma book_order_Update [book_rules]:
  assumes "ID order \<le> 0"
  shows "books.evolves (order_Update now (Some order))"
proof (rule books.evolves_from_all)
  fix t
  define o1 where "o1 = order\<lparr>od_OrderSn := trim_space (od_OrderSn order), od_Status := trim_space (od_Status order)\<rparr>"
  have body: "books.evolves_from u (update_body now existing o2)"
    if found: "yields (orders_Get (od_OrderSn o1)) t existing u" and wf: "wf_orders (orderinfo t)"
      and chk: "update_checks now existing o1 = Inr o2" and valid: "isValidOrderStatus (od_Status o1)" for existing o2 u
  proof -
    from found obtain r0 where r0: "u = t" "first_row (numbered (od_OrderSn o1)) (orderinfo t) = Some r0"
        "existing = with_goods t r0"
      by (rule orders_Get_found) (simp add: o1_def)
    obtain q where q: "od_Status o1 = phase_name q" using valid valid_status_phase by blast
    have "row_ok r0" using wf_ordersD(3) [OF wf] first_row_Some [OF r0(2)] by blast
    then obtain p where p: "od_Status r0 = phase_name p" by (auto simp: row_ok_def)
    then have "od_Status existing = phase_name p" by (simp add: r0(3) with_goods_def)
    note ok = update_checks_ok [OF chk this q]
    have "books.evolves_from t (orders_Update now (Some (info_of o2)))"
      by (rule book_update_body [OF r0(2) p _ _ _ ok(1)])
        (use ok(2-) assms in \<open>simp_all add: OrderInfoDO.defs o1_def\<close>)
    then show ?thesis unfolding r0(1) update_body_def
      by (rule books.evolves_from_bindE) (rule books.evolves_from_evolves, simp add: book_rules)
  qed
  show "books.evolves_from t (order_Update now (Some order))"
  proof (cases "wf_orders (orderinfo t)")
    case True
    then show ?thesis
      unfolding order_Update_def update_found_def option.case Let_def o1_def [symmetric]
      by (auto intro!: books.evolves_from_return books.evolves_from_bindE books.evolves_from_transaction body
          books.evolves_from_evolves [OF book_orders_Get] split: sum.split)
  next
    case False
    then show ?thesis by (simp add: books.evolves_from_def keeps_book_def)
  qed
qed

text \<open>Creating and compensating.\<close>

lemma keeps_insert_order:
  assumes new: "\<forall>r \<in> set (orderinfo t). \<not> numbered (od_OrderSn order) r"
    and order: "ID order = 0" "live order" "od_OrderSn order \<noteq> []" "trim_space (od_OrderSn order) = od_OrderSn order"
      "od_Status order = phase_name Waiting"
  shows "keeps_book t (orderinfo_update (\<lambda>_. snd (insert_order now order (orderinfo t))) t)"
proof -
  let ?t = "orderinfo t"
  define r0 where "r0 = stamped now ?t (order\<lparr>od_OrderGoods := []\<rparr>)"
  have "0 < ID r0" using order next_id_pos by (simp add: r0_def stamped_def)
  moreover have "ID r0 \<notin> ID ` set ?t"
    using order(1) next_id_new [of ID ?t] by (simp add: r0_def stamped_def)
  moreover have "live r0" "od_OrderSn r0 = od_OrderSn order" "od_Status r0 = phase_name Waiting"
    using order by (simp_all add: r0_def stamped_def)
  moreover from this have "row_ok r0" using order by (auto simp: row_ok_def)
  ultimately have "wf_orders ?t \<Longrightarrow> wf_orders (?t @ [r0]) \<and> book_step (book ?t) (book (?t @ [r0]))"
    using book_insert [of ?t r0] new by simp
  then show ?thesis
    unfolding insert_order_def r0_def [symmetric]
    by (auto simp: insert_row_def keeps_book_def split: option.splits)
qed

lemma book_carts [book_rules]:
  "books.evolves (DeleteByGoodsIDs now u gs)" "books.evolves (RestoreCheckedItems now u items)"
  "books.evolves (carts_Create now c)" "books.evolves (carts_Get u g)" "books.evolves (UpdateNum now c)"
  "books.evolves (carts_Delete now u i)"
  unfolding DeleteByGoodsIDs_def RestoreCheckedItems_def carts_Create_def carts_Get_def UpdateNum_def carts_Delete_def
  by (simp_all add: book_rules split: option.split sum.split)

lemma book_orders_Create:
  assumes "\<forall>r \<in> set (orderinfo t). \<not> numbered (od_OrderSn order) r" "ID order = 0" "live order"
    "od_OrderSn order \<noteq> []" "trim_space (od_OrderSn order) = od_OrderSn order" "od_Status order = phase_name Waiting"
  shows "books.evolves_from t (orders_Create now (Some order))"
proof -
  have "order\<lparr>od_OrderSn := trim_space (od_OrderSn order)\<rparr> = order" using assms(5) by simp
  moreover have "books.evolves_from t (write_stmt orderinfo orderinfo_update (insert_order now order))"
    by (rule books.evolves_from_write) (rule keeps_insert_order [OF assms])
  ultimately show ?thesis
    unfolding orders_Create_def option.case Let_def
    by (auto intro!: books.evolves_from_bind_err books.evolves_from_return) (simp add: books.evolves_from_evolves book_rules)
qed

lemma book_Create_priced:
  assumes "\<forall>r \<in> set (orderinfo t). \<not> numbered (od_OrderSn order) r" "ID order = 0" "live order"
    "od_OrderSn order \<noteq> []" "trim_space (od_OrderSn order) = od_OrderSn order" "od_Status order = phase_name Waiting"
  shows "books.evolves_from t (Create_priced rpc now order)"
proof -
  have "books.evolves_from t (create_body now
      (order\<lparr>od_OrderMountFen := a, od_StoreID := st, od_OrderGoods := ls\<rparr>) gs)" for a st ls gs
  proof -
    let ?o = "order\<lparr>od_OrderMountFen := a, od_StoreID := st, od_OrderGoods := ls\<rparr>"
    have "books.evolves_from t (orders_Create now (Some (info_of ?o)))"
      by (rule book_orders_Create) (use assms in \<open>simp_all add: OrderInfoDO.defs\<close>)
    then show ?thesis unfolding create_body_def
      by (rule books.evolves_from_bind_err) (rule books.evolves_from_evolves, simp add: book_rules)
  qed
  then show ?thesis
    unfolding Create_priced_def Let_def
    by (auto intro!: books.evolves_from_return books.evolves_from_transaction split: sum.split)
qed

lemma book_order_Create:
  assumes "ID order = 0" "live order" "trim_space (od_Status order) = [] \<or> trim_space (od_Status order) = phase_name Waiting"
  shows "books.evolves (order_Create rpc now (Some order))"
proof (rule books.evolves_from_all)
  fix t
  define sn where "sn = trim_space (od_OrderSn order)"
  define o1 where "o1 = order\<lparr>od_OrderSn := sn, od_Status := normalizeInitialOrderStatus (od_Status order)\<rparr>"
  have st: "od_Status o1 = phase_name Waiting"
    using assms(3) by (auto simp: o1_def normalizeInitialOrderStatus_def phase_name.simps)
  have "books.evolves_from t (do { found \<leftarrow> orders_Get sn;
      case found of
        Inr existing \<Rightarrow> if sameCreateOrder existing o1 then ok () else fail (NewCode ErrOrderConflict)
      | Inl e \<Rightarrow> if \<not> is_code e ErrOrderNotFound then fail e else Create_priced rpc now o1 })"
    if "sn \<noteq> []"
  proof (rule books.evolves_from_bind)
    fix os found u os'
    assume run: "run_state (orders_Get sn) \<lparr>tables = t, outcomes = os\<rparr> = (found, \<lparr>tables = u, outcomes = os'\<rparr>)"
    then have u: "u = t" using still.evolvesD [OF orders_Get_reads run] by simp
    show "books.evolves_from u (case found of
        Inr existing \<Rightarrow> if sameCreateOrder existing o1 then ok () else fail (NewCode ErrOrderConflict)
      | Inl e \<Rightarrow> if \<not> is_code e ErrOrderNotFound then fail e else Create_priced rpc now o1)"
    proof (cases found)
      case (Inl e)
      have "books.evolves_from t (Create_priced rpc now o1)" if "is_code e ErrOrderNotFound"
        by (rule book_Create_priced)
          (use orders_Get_missing [OF run [unfolded Inl] that] \<open>sn \<noteq> []\<close> assms st in \<open>simp_all add: o1_def sn_def\<close>)
      with Inl u show ?thesis by (auto intro: books.evolves_from_return)
    qed (auto intro: books.evolves_from_return)
  qed (simp add: books.evolves_from_evolves book_rules)
  then show "books.evolves_from t (order_Create rpc now (Some order))"
    unfolding order_Create_def option.case Let_def sn_def [symmetric] o1_def [symmetric]
    by (simp add: books.evolves_from_return)
qed

lemma book_DeleteByOrderSn [book_rules]: "books.evolves (DeleteByOrderSn now sn)"
proof (rule books.evolves_from_all)
  fix t
  have del: "keeps_book u (orderinfo_update (\<lambda>_. snd (soft_delete now (\<lambda>r. ID r = ID r0) (orderinfo u))) u)"
    if r0: "r0 \<in> set (orderinfo u)" "live r0" for u :: order_db and r0
  proof (unfold keeps_book_def, intro impI)
    assume w: "wf_orders (orderinfo u)"
    let ?r1 = "r0\<lparr>DeletedAt := Some now\<rparr>"
    from key_one [OF w r0] have "snd (soft_delete now (\<lambda>r. ID r = ID r0) (orderinfo u)) = update_rows (\<lambda>r. r = r0) (\<lambda>_. ?r1) (orderinfo u)"
      by (simp add: soft_delete_def update_where_def update_rows_one [where f = "\<lambda>r. r\<lparr>DeletedAt := Some now\<rparr>"] list_all_iff)
    moreover have "book_step (book (orderinfo u)) ((book (orderinfo u))(od_OrderSn r0 := None))"
    proof -
      obtain p where "od_Status r0 = phase_name p" using wf_ordersD(3) [OF w] r0 by (auto simp: row_ok_def)
      then have "book (orderinfo u) (od_OrderSn r0) = Some p"
        using book_numbered [OF w r0(1)] r0(2) by simp
      then show ?thesis by (rule withdraw)
    qed
    ultimately show "wf_orders (orderinfo (orderinfo_update (\<lambda>_. snd (soft_delete now (\<lambda>r. ID r = ID r0) (orderinfo u))) u)) \<and>
        book_step\<^sup>*\<^sup>* (book (orderinfo u)) (book (orderinfo (orderinfo_update (\<lambda>_. snd (soft_delete now (\<lambda>r. ID r = ID r0) (orderinfo u))) u)))"
      using book_replace_dead [OF w r0, of ?r1] wf_replace [OF w r0, of ?r1] by simp
  qed
  have after: "books.evolves_from u (bind_err driver_err
      (write_stmt ordergoods ordergoods_update (soft_delete now (\<lambda>g. og_Order g = ID r0)))
      (\<lambda>_. bind_err driver_err (write_stmt orderinfo orderinfo_update (soft_delete now (\<lambda>r. ID r = ID r0))) (\<lambda>_. ok ())))"
    if "r0 \<in> set (orderinfo u)" "live r0" for r0 u
  proof (rule books.evolves_from_bind_err)
    fix a v
    assume "yields (write_stmt ordergoods ordergoods_update (soft_delete now (\<lambda>g. og_Order g = ID r0))) u a v"
    then have "r0 \<in> set (orderinfo v)" using that by (auto dest!: yields_write)
    from del [OF this that(2)] show "books.evolves_from v (bind_err driver_err
        (write_stmt orderinfo orderinfo_update (soft_delete now (\<lambda>r. ID r = ID r0))) (\<lambda>_. ok ()))"
      by (intro books.evolves_from_bind_err books.evolves_from_write books.evolves_from_return)
  qed (simp add: books.evolves_from_evolves book_rules)
  show "books.evolves_from t (DeleteByOrderSn now sn)"
    unfolding DeleteByOrderSn_def Let_def
    by (auto intro!: books.evolves_from_return books.evolves_from_bind books.evolves_from_reads after
        dest!: yieldsI yields_first_set split: sum.split)
qed

lemma book_CreateCom [book_rules]: "books.evolves (CreateCom now order)"
  unfolding CreateCom_def by (auto intro!: book_rules split: option.split sum.split)

text \<open>Refunds.\<close>

lemma order_by_sn_found:
  "yields (order_by_sn sn) t r t' \<Longrightarrow> t' = t \<and> first_row (numbered sn) (orderinfo t) = Some r"
  unfolding order_by_sn_def by (drule yields_map_err) (rule yields_first)

lemma book_order_by_sn [book_rules]: "books.evolves (order_by_sn sn)"
  unfolding order_by_sn_def by (simp add: book_rules)

lemma book_updateRefundOrderStatus:
  assumes pq: "phase_step p q" "q \<noteq> Paid" "settled q"
  shows "books.evolves (updateRefundOrderStatus now sn (phase_name p) (phase_name q) reason)"
proof (rule books.evolves_from_all)
  fix t
  have upd: "keeps_book u (orderinfo_update (\<lambda>_. snd (update_where (\<lambda>r. live r \<and> ID r = ID r0)
      (\<lambda>r. r\<lparr>od_Status := phase_name q, UpdatedAt := now\<rparr>) fits (orderinfo u))) u)"
    if r0: "first_row (numbered sn) (orderinfo u) = Some r0" and st: "od_Status r0 = phase_name p" for r0 u fits
  proof -
    note r = first_row_Some [OF r0]
    let ?f = "\<lambda>r. r\<lparr>od_Status := phase_name q, UpdatedAt := now\<rparr>"
    have "row_ok (?f r0)" if "row_ok r0"
      using that st settled_step [of p q] pq by (auto simp: row_ok_def)
    then show ?thesis
    proof (intro keeps_update [where f = ?f and q = q, OF _ _ st])
      show "wf_orders (orderinfo u) \<Longrightarrow> \<forall>x \<in> set (orderinfo u). (live x \<and> ID x = ID r0) \<longleftrightarrow> x = r0"
        by (rule key_one) (use r in simp_all)
    qed (use r pq in simp_all)
  qed
  show "books.evolves_from t (updateRefundOrderStatus now sn (phase_name p) (phase_name q) reason)"
    unfolding updateRefundOrderStatus_def
    by (auto intro!: books.evolves_from_bindE books.evolves_from_bind_err books.evolves_from_return books.evolves_from_write
        upd books.evolves_from_evolves [OF book_order_by_sn] books.evolves_from_evolves [OF book_writes(3)]
        dest!: order_by_sn_found)
qed

lemmas book_refund_moves [book_rules] =
  book_updateRefundOrderStatus [of Refunding Refunded, simplified phase_name.simps, simplified]
  book_updateRefundOrderStatus [of Refunding Refund_Failed, simplified phase_name.simps, simplified]
  book_updateRefundOrderStatus [of Refund_Failed Refunding, simplified phase_name.simps, simplified]

section \<open>Runs of the order service\<close>

lemma book_payments [book_rules]:
  "books.evolves (update_events p f)" "books.evolves (update_requests p' f')" "books.evolves (update_outbox i f'')"
  "books.evolves (request_by_id i)"
  by (simp_all add: update_events_def update_requests_def update_outbox_def request_by_id_def book_rules)

lemma book_BeginPaymentEvent [book_rules]: "books.evolves (BeginPaymentEvent now e)"
  unfolding BeginPaymentEvent_def begin_event_body_def by (auto intro!: book_rules split: option.split sum.split)

lemma book_CompletePaymentEvent [book_rules]: "books.evolves (CompletePaymentEvent now i ok' d)"
  unfolding CompletePaymentEvent_def complete_event_body_def by (auto intro!: book_rules)

lemma book_claim_all [book_rules]: "books.evolves (claim_all now os)"
  by (induction os) (auto simp: claim_one_def intro!: book_rules split: list.split prod.split)

lemma book_ClaimRefundJobs [book_rules]: "books.evolves (ClaimRefundJobs now l m' k)"
  unfolding ClaimRefundJobs_def Let_def by (intro book_rules)

lemma book_CompleteRefundJob [book_rules]: "books.evolves (CompleteRefundJob now i ok' pr ri ps d m')"
  unfolding CompleteRefundJob_def complete_refund_body_def refund_done_def refund_dead_def Let_def
  by (auto intro!: book_rules split: option.split)

lemma book_RetryDeadRefundJob [book_rules]: "books.evolves (RetryDeadRefundJob now i)"
  unfolding RetryDeadRefundJob_def retry_dead_body_def by (auto intro!: book_rules)

lemma book_ReconcilePayments [book_rules]: "books.evolves (ReconcilePayments now p f u ts)"
  unfolding ReconcilePayments_def reconcile_body_def insert_items_def Let_def by (auto intro!: book_rules)

lemma book_ReviewAccountDeletion [book_rules]: "books.evolves (ReviewAccountDeletion now uuid q)"
  unfolding ReviewAccountDeletion_def review_body_def Let_def
  by (auto intro!: book_rules split: sum.split prod.split)

text \<open>
  A step: the database's answers change, or a handler or the worker runs. A status update
  addresses its order by number; what one with a key can do is shown further down.
\<close>

inductive order_step :: "goods_rpc \<Rightarrow> order_db session \<Rightarrow> order_db session \<Rightarrow> bool" for rpc where
  weather: "order_step rpc s (s\<lparr>outcomes := os\<rparr>)"
| cart_create: "run_state (ctl_CreateCartItem now q1) s = (r1, s') \<Longrightarrow> order_step rpc s s'"
| cart_update: "run_state (ctl_UpdateCartItem now q1) s = (r2, s') \<Longrightarrow> order_step rpc s s'"
| cart_delete: "run_state (ctl_DeleteCartItem now q1) s = (r2, s') \<Longrightarrow> order_step rpc s s'"
| create: "run_state (CreateOrder rpc now q2) s = (r2, s') \<Longrightarrow> order_step rpc s s'"
| compensate: "run_state (CreateOrderCom now q2) s = (r2, s') \<Longrightarrow> order_step rpc s s'"
| update: "run_state (UpdateOrderStatus now (Some st)) s = (r2, s') \<Longrightarrow> os_Id st \<le> 0 \<Longrightarrow> order_step rpc s s'"
| worker: "run_state (order_Update now (Some (worker_order sn status reason source))) s = (r2, s') \<Longrightarrow> order_step rpc s s'"
| pay_begin: "run_state (ctl_BeginPaymentEvent now q3) s = (r3, s') \<Longrightarrow> order_step rpc s s'"
| pay_end: "run_state (ctl_CompletePaymentEvent now i ok' d) s = (r2, s') \<Longrightarrow> order_step rpc s s'"
| claim: "run_state (ctl_ClaimRefundJobs now l m k) s = (r4, s') \<Longrightarrow> order_step rpc s s'"
| complete: "run_state (ctl_CompleteRefundJob now q4) s = (r2, s') \<Longrightarrow> order_step rpc s s'"
| retry: "run_state (ctl_RetryDeadRefundJob now i) s = (r5, s') \<Longrightarrow> order_step rpc s s'"
| reconcile: "run_state (ctl_ReconcilePayments now p f u ts) s = (r6, s') \<Longrightarrow> order_step rpc s s'"
| review: "run_state (ReviewAccountDeletion now uuid q5) s = (r7, s') \<Longrightarrow> order_step rpc s s'"

lemma book_handlers:
  "books.evolves (ctl_CreateCartItem now q1)" "books.evolves (ctl_UpdateCartItem now q1)"
  "books.evolves (ctl_DeleteCartItem now q1)" "books.evolves (CreateOrderCom now q2)"
  "books.evolves (ctl_BeginPaymentEvent now q3)" "books.evolves (ctl_CompletePaymentEvent now i ok' d)"
  "books.evolves (ctl_ClaimRefundJobs now l m k)" "books.evolves (ctl_CompleteRefundJob now q4)"
  "books.evolves (ctl_RetryDeadRefundJob now i)" "books.evolves (ctl_ReconcilePayments now p f u ts)"
  unfolding ctl_CreateCartItem_def ctl_UpdateCartItem_def ctl_DeleteCartItem_def CreateCartItem_def UpdateCartItem_def
    DeleteCartItem_def CreateOrderCom_def ctl_BeginPaymentEvent_def svc_BeginPaymentEvent_def ctl_CompletePaymentEvent_def
    ctl_ClaimRefundJobs_def ctl_CompleteRefundJob_def svc_CompleteRefundJob_def ctl_RetryDeadRefundJob_def
    ctl_ReconcilePayments_def
  by (auto intro!: book_rules simp: Let_def split: option.split sum.split)

lemma book_CreateOrder: "books.evolves (CreateOrder rpc now q)"
  unfolding CreateOrder_def
  by (auto intro!: book_rules book_order_Create simp: zero_order_def split: option.split)

lemma book_UpdateOrderStatus: "os_Id st \<le> 0 \<Longrightarrow> books.evolves (UpdateOrderStatus now (Some st))"
  unfolding UpdateOrderStatus_def option.case by (rule book_order_Update) simp

lemma book_worker: "books.evolves (order_Update now (Some (worker_order sn status reason source)))"
  by (rule book_order_Update) (simp add: worker_order_def zero_order_def)

lemma order_step_keeps: "order_step rpc s s' \<Longrightarrow> keeps_book (tables s) (tables s')"
  by (induction rule: order_step.induct)
    (auto intro: keeps_same dest: books.evolvesD [OF book_handlers(1)] books.evolvesD [OF book_handlers(2)]
      books.evolvesD [OF book_handlers(3)] books.evolvesD [OF book_handlers(4)] books.evolvesD [OF book_handlers(5)]
      books.evolvesD [OF book_handlers(6)] books.evolvesD [OF book_handlers(7)] books.evolvesD [OF book_handlers(8)]
      books.evolvesD [OF book_handlers(9)] books.evolvesD [OF book_handlers(10)] books.evolvesD [OF book_CreateOrder]
      books.evolvesD [OF book_UpdateOrderStatus] books.evolvesD [OF book_worker]
      books.evolvesD [OF book_ReviewAccountDeletion])

lemma order_run_keeps: "(order_step rpc)\<^sup>*\<^sup>* s s' \<Longrightarrow> keeps_book (tables s) (tables s')"
  by (induction rule: rtranclp_induct) (auto intro: keeps_same books.R_trans order_step_keeps)

end
