(* ===== verification/Order_Placing.thy ===== *)
theory Order_Placing
  imports Order_Machine
begin

text \<open>
  Placing an order: what \<open>Create\<close> stores, that its total is exact, that repeating it is
  harmless, what its compensation undoes, and how the lines of two orders are compared.
\<close>

section \<open>Comparing order lines\<close>

abbreviation qty :: "(int \<times> int) list \<Rightarrow> int \<Rightarrow> int" where
  "qty m g \<equiv> (case map_of m g of None \<Rightarrow> 0 | Some n \<Rightarrow> n)"

text \<open>The reference: how much of a goods a list of lines asks for.\<close>

definition ordered_qty :: "OrderGoods list \<Rightarrow> int \<Rightarrow> int" where
  "ordered_qty ls g = sum_list (map (\<lambda>i. if og_Goods i = g then og_Nums i else 0) ls)"

definition good_lines :: "OrderGoods list \<Rightarrow> bool" where
  "good_lines ls \<longleftrightarrow> ls \<noteq> [] \<and> list_all (\<lambda>i. 0 < og_Goods i \<and> 0 < og_Nums i) ls"

definition typed_lines :: "OrderGoods list \<Rightarrow> bool" where
  "typed_lines ls \<longleftrightarrow> list_all (\<lambda>i. in_int32 (og_Nums i)) ls \<and> length ls < 2 ^ 31"

lemma add_lines_None: "add_lines m ls = None \<longleftrightarrow> \<not> list_all (\<lambda>i. 0 < og_Goods i \<and> 0 < og_Nums i) ls"
  by (induction ls arbitrary: m) auto

lemma qty_update: "qty (AList.update k v m) g = (if g = k then v else qty m g)"
  by (simp add: update_conv)

lemma add_lines_spec:
  assumes "add_lines m ls = Some m'" "distinct (map fst m)" "list_all (\<lambda>i. in_int32 (og_Nums i)) ls"
    and "\<forall>g. 0 \<le> qty m g \<and> qty m g + 2 ^ 31 * int (length ls) < 2 ^ 63" "\<forall>g \<in> fst ` set m. 0 < qty m g"
  shows "distinct (map fst m') \<and> (\<forall>g. qty m' g = qty m g + ordered_qty ls g) \<and> (\<forall>g \<in> fst ` set m'. 0 < qty m' g)"
  using assms
proof (induction ls arbitrary: m)
  case Nil
  then show ?case by (simp add: ordered_qty_def)
next
  case (Cons i ls)
  let ?v = "qty m (og_Goods i) + og_Nums i"
  let ?m = "AList.update (og_Goods i) ?v m"
  from Cons.prems have i: "0 < og_Goods i" "0 < og_Nums i" "og_Nums i < 2 ^ 31"
    by (auto simp: in_int_def split: if_splits)
  have b: "0 \<le> qty m g" "qty m g + 2 ^ 31 * int (length ls) + 2 ^ 31 < 2 ^ 63" for g
    using Cons.prems(4) by (auto simp: algebra_simps)
  have v: "int64 ?v = ?v" "0 < ?v"
    using b [of "og_Goods i"] i by (simp_all add: wrap_id in_int_def)
  have step: "add_lines ?m ls = Some m'"
    using Cons.prems(1) i v by (simp split: if_splits)
  have "distinct (map fst m') \<and> (\<forall>g. qty m' g = qty ?m g + ordered_qty ls g) \<and> (\<forall>g \<in> fst ` set m'. 0 < qty m' g)"
  proof (rule Cons.IH [OF step])
    show "distinct (map fst ?m)" using Cons.prems(2) by (rule distinct_update)
    show "list_all (\<lambda>i. in_int32 (og_Nums i)) ls" using Cons.prems(3) by simp
    show "\<forall>g. 0 \<le> qty ?m g \<and> qty ?m g + 2 ^ 31 * int (length ls) < 2 ^ 63"
      using b i by (simp add: qty_update) (smt (verit))
    show "\<forall>g \<in> fst ` set ?m. 0 < qty ?m g"
      using Cons.prems(5) v by (auto simp: update_conv' simp flip: dom_map_of_conv_image_fst)
  qed
  moreover have "qty ?m g + ordered_qty ls g = qty m g + ordered_qty (i # ls) g" for g
    by (auto simp: qty_update ordered_qty_def)
  ultimately show ?case by metis
qed

lemma aggregate_spec:
  assumes "good_lines ls" "typed_lines ls"
  obtains m where "aggregateOrderGoods ls = Some m" "distinct (map fst m)" "\<forall>g. qty m g = ordered_qty ls g"
    "\<forall>g \<in> fst ` set m. 0 < qty m g"
proof -
  from assms obtain m where m: "add_lines [] ls = Some m"
    using add_lines_None [of "[]" ls] by (auto simp: good_lines_def)
  have spec: "distinct (map fst m) \<and> (\<forall>g. qty m g = qty [] g + ordered_qty ls g) \<and> (\<forall>g \<in> fst ` set m. 0 < qty m g)"
    by (rule add_lines_spec [OF m]) (use assms in \<open>simp_all add: typed_lines_def\<close>)
  show thesis
  proof (rule that)
    show "aggregateOrderGoods ls = Some m" using m assms(1) by (simp add: aggregateOrderGoods_def good_lines_def)
    show "\<forall>g. qty m g = ordered_qty ls g" using spec by simp
  qed (use spec in blast)+
qed

lemma hasOrderGoods_iff: "hasOrderGoods ls \<longleftrightarrow> good_lines ls"
  using add_lines_None [of "[]" ls] by (simp add: hasOrderGoods_def aggregateOrderGoods_def good_lines_def del: not_None_eq)

text \<open>Two maps of equal size in which the first agrees with the second are the same map.\<close>

lemma qty_agree:
  assumes l: "distinct (map fst l)" "\<forall>g \<in> fst ` set l. 0 < qty l g"
    and r: "distinct (map fst r)" "\<forall>g \<in> fst ` set r. 0 < qty r g"
  shows "(length l = length r \<and> list_all (\<lambda>(g, n). qty r g = n) l) \<longleftrightarrow> (\<forall>g. qty l g = qty r g)"
proof -
  have keys: "fst ` set m = {g. qty m g \<noteq> 0}" if "\<forall>g \<in> fst ` set m. 0 < qty m g" for m
    using that by (force split: option.splits simp: map_of_eq_None_iff)
  have len: "length m = card {g. qty m g \<noteq> 0}" if "distinct (map fst m)" "\<forall>g \<in> fst ` set m. 0 < qty m g" for m
    using keys [OF that(2)] distinct_card [OF that(1)] by simp
  have all: "list_all (\<lambda>(g, n). qty r g = n) l \<longleftrightarrow> (\<forall>g \<in> fst ` set l. qty r g = qty l g)"
    using l(1) by (force simp: list_all_iff)
  show ?thesis
  proof
    assume a: "length l = length r \<and> list_all (\<lambda>(g, n). qty r g = n) l"
    with all have eq: "\<forall>g. qty l g \<noteq> 0 \<longrightarrow> qty r g = qty l g" using keys [OF l(2)] by blast
    then have "{g. qty l g \<noteq> 0} \<subseteq> {g. qty r g \<noteq> 0}" by auto
    moreover have "finite {g. qty r g \<noteq> 0}" using keys [OF r(2)] by (metis List.finite_set finite_imageI)
    ultimately have "{g. qty l g \<noteq> 0} = {g. qty r g \<noteq> 0}"
      using a len [OF l] len [OF r] by (metis card_subset_eq)
    with eq show "\<forall>g. qty l g = qty r g" by (metis (mono_tags, lifting) mem_Collect_eq)
  next
    assume "\<forall>g. qty l g = qty r g"
    with all len [OF l] len [OF r] show "length l = length r \<and> list_all (\<lambda>(g, n). qty r g = n) l" by simp
  qed
qed

lemma sameOrderGoods_lemma:
  assumes "typed_lines ls" "typed_lines rs"
  shows "sameOrderGoods ls rs \<longleftrightarrow> good_lines ls \<and> good_lines rs \<and> (\<forall>g. ordered_qty ls g = ordered_qty rs g)"
proof (cases "good_lines ls \<and> good_lines rs")
  case True
  then obtain l r where lr: "aggregateOrderGoods ls = Some l" "distinct (map fst l)" "\<forall>g. qty l g = ordered_qty ls g"
      "\<forall>g \<in> fst ` set l. 0 < qty l g" "aggregateOrderGoods rs = Some r" "distinct (map fst r)"
      "\<forall>g. qty r g = ordered_qty rs g" "\<forall>g \<in> fst ` set r. 0 < qty r g"
    using assms by (metis aggregate_spec)
  with True qty_agree [of l r] show ?thesis by (simp add: sameOrderGoods_def)
next
  case False
  then show ?thesis
    using hasOrderGoods_iff [of ls] hasOrderGoods_iff [of rs]
    by (auto simp: sameOrderGoods_def hasOrderGoods_def split: option.splits)
qed

text \<open>C31. \<open>sameOrderGoods\<close>, which compares two maps built line by line, says just that both
  lists of lines are non-empty and positive and ask for the same quantity of every goods.\<close>

theorem same_goods_is_same_quantities:
  assumes "typed_lines ls" "typed_lines rs"
  shows "sameOrderGoods ls rs \<longleftrightarrow> good_lines ls \<and> good_lines rs \<and> (\<forall>g. ordered_qty ls g = ordered_qty rs g)"
  using assms by (rule sameOrderGoods_lemma)

theorem same_goods_is_same_quantities_witness:
  "sameOrderGoods [zero_goods\<lparr>og_Goods := 7, og_Nums := 1\<rparr>, zero_goods\<lparr>og_Goods := 7, og_Nums := 2\<rparr>]
     [zero_goods\<lparr>og_Goods := 7, og_Nums := 3\<rparr>] \<and>
   ordered_qty [zero_goods\<lparr>og_Goods := 7, og_Nums := 1\<rparr>, zero_goods\<lparr>og_Goods := 7, og_Nums := 2\<rparr>] 7 = 3"
proof -
  let ?l = "[zero_goods\<lparr>og_Goods := 7, og_Nums := 1\<rparr>, zero_goods\<lparr>og_Goods := 7, og_Nums := 2\<rparr>]"
  let ?r = "[zero_goods\<lparr>og_Goods := 7, og_Nums := 3\<rparr>]"
  have "typed_lines ?l" "typed_lines ?r" by (simp_all add: typed_lines_def in_int_def)
  from same_goods_is_same_quantities [OF this] show ?thesis
    by (simp add: good_lines_def ordered_qty_def)
qed

section \<open>What \<open>Create\<close> stores\<close>

definition line_info :: "(int \<times> GoodsInfo) list \<Rightarrow> OrderGoods \<Rightarrow> GoodsInfo" where
  "line_info m v = the (map_of m (og_Goods v))"

definition filled :: "(int \<times> GoodsInfo) list \<Rightarrow> OrderGoods \<Rightarrow> OrderGoods" where
  "filled m v = v\<lparr>og_GoodsName := gs_Name (line_info m v), og_GoodsPriceFen := gs_ShopPriceFen (line_info m v),
     og_GoodsImage := gs_GoodsFrontImage (line_info m v)\<rparr>"

definition order_total :: "(int \<times> GoodsInfo) list \<Rightarrow> OrderGoods list \<Rightarrow> int" where
  "order_total m vs = sum_list (map (\<lambda>v. gs_ShopPriceFen (line_info m v) * og_Nums v) vs)"

text \<open>The prices of an answer and the quantities of the lines are \<open>int64\<close> values.\<close>

definition typed_goods :: "(int \<times> GoodsInfo) list \<Rightarrow> OrderGoods list \<Rightarrow> bool" where
  "typed_goods m vs \<longleftrightarrow> list_all (\<lambda>(g, i). fits64 (gs_ShopPriceFen i)) m \<and> list_all (\<lambda>v. fits64 (og_Nums v)) vs"

lemma sint_NewFen: "fits64 i \<Longrightarrow> sint (NewFen i) = i"
  by (simp add: NewFen_def fits64_def sint_exact)

lemma price_lines_ConsE:
  assumes "price_lines m amount st (v # vs) = Inr (tot, sid, ls)"
  obtains i line a' ls' where "map_of m (og_Goods v) = Some i" "trim_space (gs_StoreID i) \<noteq> []"
    "st = [] \<or> st = trim_space (gs_StoreID i)"
    "Multiply (NewFen (gs_ShopPriceFen i)) (NewFen (og_Nums v)) = Inr line" "Add amount line = Inr a'"
    "price_lines m a' (trim_space (gs_StoreID i)) vs = Inr (tot, sid, ls')"
    "ls = v\<lparr>og_GoodsName := gs_Name i, og_GoodsPriceFen := Int64 (NewFen (gs_ShopPriceFen i)),
       og_GoodsImage := gs_GoodsFrontImage i\<rparr> # ls'"
  using assms by (simp only: price_lines.simps Let_def split: option.splits sum.splits if_splits prod.splits) blast+

lemma price_lines_spec:
  assumes "price_lines m amount st vs = Inr (tot, sid, ls)" "typed_goods m vs"
  shows "sint tot = sint amount + order_total m vs \<and> ls = map (filled m) vs \<and>
    (\<forall>v \<in> set vs. map_of m (og_Goods v) = Some (line_info m v) \<and> trim_space (gs_StoreID (line_info m v)) = sid) \<and>
    (vs = [] \<and> st = sid \<or> vs \<noteq> [] \<and> sid \<noteq> [] \<and> (st = [] \<or> st = sid))"
  using assms
proof (induction vs arbitrary: amount st ls)
  case Nil
  then show ?case by (simp add: order_total_def)
next
  case (Cons v vs)
  from Cons.prems(1) obtain i line a' ls' where i: "map_of m (og_Goods v) = Some i"
    and c: "trim_space (gs_StoreID i) \<noteq> []" "st = [] \<or> st = trim_space (gs_StoreID i)"
    and line: "Multiply (NewFen (gs_ShopPriceFen i)) (NewFen (og_Nums v)) = Inr line"
    and a': "Add amount line = Inr a'"
    and rest: "price_lines m a' (trim_space (gs_StoreID i)) vs = Inr (tot, sid, ls')"
    and ls: "ls = v\<lparr>og_GoodsName := gs_Name i, og_GoodsPriceFen := Int64 (NewFen (gs_ShopPriceFen i)),
       og_GoodsImage := gs_GoodsFrontImage i\<rparr> # ls'"
    by (rule price_lines_ConsE)
  have li: "line_info m v = i" by (simp add: line_info_def i)
  have f: "fits64 (gs_ShopPriceFen i)" "fits64 (og_Nums v)" "typed_goods m vs"
    using Cons.prems(2) map_of_SomeD [OF i] by (auto simp: typed_goods_def list_all_iff)
  have "sint line = gs_ShopPriceFen i * og_Nums v"
    using Multiply_lemma [of "NewFen (gs_ShopPriceFen i)" "NewFen (og_Nums v)"] line f
    by (auto simp: sint_NewFen split: if_splits)
  moreover have "sint a' = sint amount + sint line"
    using Add_lemma [of amount line] a' by (auto split: if_splits)
  moreover note Cons.IH [OF rest f(3)]
  ultimately show ?case
    using i li c ls f by (auto simp: order_total_def filled_def Int64_def sint_NewFen)
qed

lemma insert_rows_ok:
  assumes "fst (insert_rows stamp check clash rs t) = Inr ()"
  obtains us where "snd (insert_rows stamp check clash rs t) = t @ us" "list_all2 (\<lambda>u r. \<exists>x. u = stamp x r) us rs"
proof -
  have "\<exists>us. snd (insert_rows stamp check clash rs t) = t @ us \<and> list_all2 (\<lambda>u r. \<exists>x. u = stamp x r) us rs"
    using assms
  proof (induction stamp check clash rs t rule: insert_rows.induct)
    case (2 stamp check clash r rs t)
    obtain x t1 where ir: "insert_row check clash (stamp t r) t = (x, t1)" by fastforce
    with "2.prems" obtain y where x: "x = Inr y" by (cases x) auto
    then have t1: "t1 = t @ [stamp t r]"
      using ir by (auto simp: insert_row_def split: option.splits if_splits)
    obtain z t2 where rest: "insert_rows stamp check clash rs t1 = (z, t2)" by fastforce
    with "2.prems" ir x have "z = Inr ()" by (cases z) auto
    then obtain us where "t2 = t1 @ us" "list_all2 (\<lambda>u r. \<exists>x. u = stamp x r) us rs"
      using "2.IH" [OF ir [symmetric] x] rest by auto
    then show ?case
      using ir x rest \<open>z = Inr ()\<close> t1 by (intro exI [of _ "stamp t r # us"]) auto
  qed (auto intro: exI [of _ "[]"])
  with that show thesis by blast
qed

text \<open>
  The tables after a successful creation. \<open>row\<close> is the new order, \<open>gs\<close> its lines, the cart
  items of its goods are deleted, and the status log has one more entry.
\<close>

definition placed :: "time \<Rightarrow> OrderDTO \<Rightarrow> OrderInfoDO \<Rightarrow> OrderGoods list \<Rightarrow> order_db \<Rightarrow> order_db \<Rightarrow> bool" where
  "placed now order row gs t t' \<longleftrightarrow>
     orderinfo t' = orderinfo t @ [row] \<and> ordergoods t' = ordergoods t @ gs \<and>
     shoppingcart t' = update_rows (\<lambda>c. live c \<and> sc_User c = uint64_of (od_User order) \<and>
         sc_Goods c \<in> set (map og_Goods (od_OrderGoods order)))
       (\<lambda>c. c\<lparr>DeletedAt := Some now\<rparr>) (shoppingcart t) \<and>
     (\<exists>l. order_status_logs t' = order_status_logs t @ [l] \<and> sl_OrderID l = ID row \<and> sl_OrderSn l = od_OrderSn order \<and>
        sl_FromStatus l = [] \<and> sl_ToStatus l = od_Status order) \<and>
     order_refund_requests t' = order_refund_requests t \<and> order_refund_outbox t' = order_refund_outbox t \<and>
     payment_events t' = payment_events t"

lemma yields_orders_Create:
  assumes "yields (orders_Create now (Some order)) t oid t'"
    and order: "trim_space (od_OrderSn order) = od_OrderSn order" "ID order = 0"
  shows "0 < od_User order \<and> oid = next_id ID (orderinfo t) \<and>
    (\<exists>us. t' = t\<lparr>orderinfo := orderinfo t @ [stamped now (orderinfo t) (order\<lparr>od_OrderGoods := []\<rparr>)],
        ordergoods := ordergoods t @ us\<rparr> \<and>
      list_all2 (\<lambda>u g. \<exists>x. u = stamped now x (g\<lparr>og_Order := oid\<rparr>)) us (od_OrderGoods order))"
proof -
  have same: "order\<lparr>od_OrderSn := trim_space (od_OrderSn order)\<rparr> = order" using order(1) by simp
  from assms(1) have u: "0 < od_User order"
    unfolding orders_Create_def option.case Let_def same by (auto split: if_splits)
  from assms(1) obtain t1 where
    w: "yields (write_stmt orderinfo orderinfo_update (insert_order now order)) t oid t1"
    and g: "if od_OrderGoods order = [] then t' = t1
      else yields (write_stmt ordergoods ordergoods_update
        (insert_rows (stamped now) goods_check (\<lambda>g g'. ID g = ID g') (map (\<lambda>g. g\<lparr>og_Order := oid\<rparr>) (od_OrderGoods order)))) t1 () t'"
    unfolding orders_Create_def option.case Let_def same
    by (auto elim!: yields_elims split: if_splits)
  have t1: "t1 = t\<lparr>orderinfo := orderinfo t @ [stamped now (orderinfo t) (order\<lparr>od_OrderGoods := []\<rparr>)]\<rparr>"
      "oid = next_id ID (orderinfo t)"
    using yields_write [OF w] order(2)
    by (auto simp: insert_order_def insert_row_def stamped_def split: option.splits if_splits)
  show ?thesis
  proof (cases "od_OrderGoods order = []")
    case True
    with g t1 u show ?thesis by (auto intro!: exI [of _ "[]"])
  next
    case False
    with g have "yields (write_stmt ordergoods ordergoods_update (insert_rows (stamped now) goods_check (\<lambda>g g'. ID g = ID g')
        (map (\<lambda>g. g\<lparr>og_Order := oid\<rparr>) (od_OrderGoods order)))) t1 () t'" by simp
    note w2 = yields_write [OF this]
    obtain us where us: "snd (insert_rows (stamped now) goods_check (\<lambda>g g'. ID g = ID g')
        (map (\<lambda>g. g\<lparr>og_Order := oid\<rparr>) (od_OrderGoods order)) (ordergoods t1)) = ordergoods t1 @ us"
      "list_all2 (\<lambda>u r. \<exists>x. u = stamped now x r) us (map (\<lambda>g. g\<lparr>og_Order := oid\<rparr>) (od_OrderGoods order))"
      by (rule insert_rows_ok [OF w2 [THEN conjunct1]])
    have "t' = t1\<lparr>ordergoods := ordergoods t1 @ us\<rparr>" using w2 us(1) by simp
    with us(2) show ?thesis using t1 u by (auto simp: list_all2_map2)
  qed
qed

definition normalized :: "OrderDTO \<Rightarrow> OrderDTO" where
  "normalized order = order\<lparr>od_OrderSn := trim_space (od_OrderSn order), od_Status := normalizeInitialOrderStatus (od_Status order)\<rparr>"

definition new_row :: "time \<Rightarrow> OrderDTO \<Rightarrow> fen \<Rightarrow> string \<Rightarrow> OrderInfoDO list \<Rightarrow> OrderInfoDO" where
  "new_row now order tot sid t =
     stamped now t (info_of (order\<lparr>od_OrderMountFen := Int64 tot, od_StoreID := sid, od_OrderGoods := []\<rparr>))"

definition created :: "goods_rpc \<Rightarrow> time \<Rightarrow> OrderDTO \<Rightarrow> order_db \<Rightarrow> order_db \<Rightarrow> bool" where
  "created rpc now order t t' \<longleftrightarrow> (\<exists>m tot sid ls gs.
     BatchGetGoods rpc (map og_Goods (od_OrderGoods order)) = Inr m \<and> length m = length (od_OrderGoods order) \<and>
     price_lines m 0 [] (od_OrderGoods order) = Inr (tot, sid, ls) \<and> 0 < od_User order \<and>
     placed now order (new_row now order tot sid (orderinfo t)) gs t t' \<and>
     list_all2 (\<lambda>u g. \<exists>x. u = stamped now x (g\<lparr>og_Order := next_id ID (orderinfo t)\<rparr>)) gs ls)"

lemma yields_DeleteByGoodsIDs:
  assumes "yields (DeleteByGoodsIDs now u gs) t () t'" "u \<noteq> 0" "gs \<noteq> []"
  shows "t' = t\<lparr>shoppingcart := update_rows (\<lambda>c. live c \<and> sc_User c = u \<and> sc_Goods c \<in> set gs)
     (\<lambda>c. c\<lparr>DeletedAt := Some now\<rparr>) (shoppingcart t)\<rparr>"
  using assms unfolding DeleteByGoodsIDs_def
  by (auto elim!: yields_elims dest!: yields_write simp: soft_delete_def update_where_def list_all_iff)

lemma yields_logs_Create:
  assumes "yields (logs_Create now (Some e)) t () t'" "ID e = 0"
  shows "t' = t\<lparr>order_status_logs := order_status_logs t @ [stamped now (order_status_logs t) e]\<rparr>"
  using assms unfolding logs_Create_def
  by (auto elim!: yields_elims dest!: yields_write simp: insert_row_def split: option.splits if_splits)

lemma info_of_simps [simp]:
  "od_User (info_of o') = od_User o'" "od_OrderSn (info_of o') = od_OrderSn o'" "od_OrderGoods (info_of o') = od_OrderGoods o'"
  "ID (info_of o') = ID o'" "od_Status (info_of o') = od_Status o'" "DeletedAt (info_of o') = DeletedAt o'"
  "od_OrderMountFen (info_of o') = od_OrderMountFen o'" "od_StoreID (info_of o') = od_StoreID o'"
  "od_Address (info_of o') = od_Address o'" "od_SignerName (info_of o') = od_SignerName o'"
  "od_SingerMobile (info_of o') = od_SingerMobile o'" "od_Post (info_of o') = od_Post o'"
  by (simp_all add: OrderInfoDO.defs)

lemma created_body:
  assumes "yields (create_body now (order\<lparr>od_OrderMountFen := Int64 tot, od_StoreID := sid, od_OrderGoods := ls\<rparr>)
      (map og_Goods (od_OrderGoods order))) t () t'"
    and order: "trim_space (od_OrderSn order) = od_OrderSn order" "ID order = 0" "od_OrderGoods order \<noteq> []" "in_int32 (od_User order)"
  shows "0 < od_User order \<and> (\<exists>gs. placed now order (new_row now order tot sid (orderinfo t)) gs t t' \<and>
    list_all2 (\<lambda>u g. \<exists>x. u = stamped now x (g\<lparr>og_Order := next_id ID (orderinfo t)\<rparr>)) gs ls)"
proof -
  let ?o = "order\<lparr>od_OrderMountFen := Int64 tot, od_StoreID := sid, od_OrderGoods := ls\<rparr>"
  from assms(1) obtain oid t1 t2 where
    c: "yields (orders_Create now (Some (info_of ?o))) t oid t1"
    and d: "yields (DeleteByGoodsIDs now (uint64_of (od_User order)) (map og_Goods (od_OrderGoods order))) t1 () t2"
    and l: "yields (logs_Create now (Some (zero_log\<lparr>sl_OrderID := oid, sl_OrderSn := od_OrderSn order, sl_FromStatus := [],
        sl_ToStatus := od_Status order, sl_Reason := ''order created'', sl_Source := ''order.create'',
        sl_Operator := user_operator (od_User order)\<rparr>))) t2 () t'"
    unfolding create_body_def by (auto elim!: yields_elims dest!: yields_map_err)
  have "trim_space (od_OrderSn (info_of ?o)) = od_OrderSn (info_of ?o)" "ID (info_of ?o) = 0"
    using order by simp_all
  from yields_orders_Create [OF c this] obtain us where
    u: "0 < od_User order" and oid: "oid = next_id ID (orderinfo t)"
    and t1: "t1 = t\<lparr>orderinfo := orderinfo t @ [stamped now (orderinfo t) ((info_of ?o)\<lparr>od_OrderGoods := []\<rparr>)],
        ordergoods := ordergoods t @ us\<rparr>"
    and us: "list_all2 (\<lambda>u g. \<exists>x. u = stamped now x (g\<lparr>og_Order := oid\<rparr>)) us ls"
    by auto
  have row: "stamped now (orderinfo t) ((info_of ?o)\<lparr>od_OrderGoods := []\<rparr>) = new_row now order tot sid (orderinfo t)"
    by (simp add: new_row_def OrderInfoDO.defs)
  have "uint64_of (od_User order) \<noteq> 0" using u order(4) by (simp add: in_int_def)
  from yields_DeleteByGoodsIDs [OF d this] yields_logs_Create [OF l] order(3)
  have t': "t' = t1\<lparr>shoppingcart := update_rows (\<lambda>c. live c \<and> sc_User c = uint64_of (od_User order) \<and>
        sc_Goods c \<in> set (map og_Goods (od_OrderGoods order))) (\<lambda>c. c\<lparr>DeletedAt := Some now\<rparr>) (shoppingcart t1),
      order_status_logs := order_status_logs t1 @ [stamped now (order_status_logs t1) (zero_log\<lparr>sl_OrderID := oid,
        sl_OrderSn := od_OrderSn order, sl_FromStatus := [],
        sl_ToStatus := od_Status order, sl_Reason := ''order created'', sl_Source := ''order.create'',
        sl_Operator := user_operator (od_User order)\<rparr>)]\<rparr>"
    by (simp add: zero_log_def)
  have "ID (new_row now order tot sid (orderinfo t)) = oid"
    using order(2) oid by (simp add: new_row_def stamped_def)
  with t' t1 row have "placed now order (new_row now order tot sid (orderinfo t)) us t t'"
    by (simp add: placed_def stamped_def)
  with u us oid show ?thesis by blast
qed

lemma created_priced:
  assumes "yields (Create_priced rpc now order) t () t'"
    and order: "trim_space (od_OrderSn order) = od_OrderSn order" "ID order = 0" "od_OrderGoods order \<noteq> []" "in_int32 (od_User order)"
  shows "created rpc now order t t'"
proof -
  from assms(1) obtain m tot sid ls where
    m: "BatchGetGoods rpc (map og_Goods (od_OrderGoods order)) = Inr m" "length m = length (od_OrderGoods order)"
      "price_lines m 0 [] (od_OrderGoods order) = Inr (tot, sid, ls)"
    and b: "yields (create_body now (order\<lparr>od_OrderMountFen := Int64 tot, od_StoreID := sid, od_OrderGoods := ls\<rparr>)
      (map og_Goods (od_OrderGoods order))) t () t'"
    unfolding Create_priced_def Let_def
    by (auto dest!: yields_transaction split: sum.splits if_splits)
  from created_body [OF b order] m show ?thesis unfolding created_def by blast
qed

lemma priced_cases:
  assumes run: "run_state (Create_priced rpc now order) s = (r, s')"
    and order: "trim_space (od_OrderSn order) = od_OrderSn order" "ID order = 0" "od_OrderGoods order \<noteq> []" "in_int32 (od_User order)"
  shows "(tables s' = tables s \<and> \<not> is_ok r) \<or> created rpc now order (tables s) (tables s')"
proof (cases r)
  case (Inl e)
  have "tables s' = tables s \<or> created rpc now order (tables s) (tables s')"
  proof (cases "BatchGetGoods rpc (map og_Goods (od_OrderGoods order))")
    case (Inr m)
    show ?thesis
    proof (cases "price_lines m 0 [] (od_OrderGoods order)")
      case priced: (Inr x)
      obtain tot sid ls where x: "x = (tot, sid, ls)" by (cases x)
      from run Inr priced x have "tables s' = tables s \<or> length m = length (od_OrderGoods order) \<and>
          yields (create_body now (order\<lparr>od_OrderMountFen := Int64 tot, od_StoreID := sid, od_OrderGoods := ls\<rparr>)
            (map og_Goods (od_OrderGoods order))) (tables s) () (tables s')"
        unfolding Create_priced_def Let_def by (auto dest!: transaction_cases split: if_splits)
      then show ?thesis
        using created_body [OF _ order] Inr priced x unfolding created_def by blast
    qed (use run Inr in \<open>auto simp: Create_priced_def Let_def split: if_splits\<close>)
  qed (use run in \<open>simp add: Create_priced_def Let_def\<close>)
  then show ?thesis using Inl by simp
next
  case (Inr a)
  with run have "yields (Create_priced rpc now order) (tables s) () (tables s')" by (auto dest: yieldsI)
  from created_priced [OF this order] show ?thesis ..
qed

lemma order_Create_cases:
  assumes run: "run_state (order_Create rpc now (Some order)) s = (r, s')"
    and order: "ID order = 0" "in_int32 (od_User order)"
  shows "(tables s' = tables s \<and> (is_ok r \<longrightarrow> (\<exists>x \<in> set (orderinfo (tables s)). numbered (trim_space (od_OrderSn order)) x))) \<or>
    (good_lines (od_OrderGoods order) \<and> trim_space (od_OrderSn order) \<noteq> [] \<and>
     (\<forall>x \<in> set (orderinfo (tables s)). \<not> numbered (trim_space (od_OrderSn order)) x) \<and>
     created rpc now (normalized order) (tables s) (tables s'))"
proof (cases "trim_space (od_OrderSn order) \<noteq> [] \<and> good_lines (od_OrderGoods order)")
  case False
  then show ?thesis
    using run by (auto simp: order_Create_def Let_def hasOrderGoods_iff split: if_splits)
next
  case True
  let ?sn = "trim_space (od_OrderSn order)"
  from run True obtain found s1 where get: "run_state (orders_Get ?sn) s = (found, s1)"
    and rest: "run_state (case found of
        Inr existing \<Rightarrow> if sameCreateOrder existing (normalized order) then ok () else fail (NewCode ErrOrderConflict)
      | Inl e \<Rightarrow> if \<not> is_code e ErrOrderNotFound then fail e else Create_priced rpc now (normalized order)) s1 = (r, s')"
    unfolding order_Create_def option.case Let_def hasOrderGoods_iff normalized_def
    by (simp split: prod.splits)
  have s1: "tables s1 = tables s" using still.evolvesD [OF orders_Get_reads get] .
  show ?thesis
  proof (cases found)
    case (Inr existing)
    then obtain x where "first_row (numbered ?sn) (orderinfo (tables s)) = Some x"
      using orders_Get_found [OF yieldsI [OF get [unfolded Inr]]] by auto
    from first_row_Some [OF this] show ?thesis
      using rest Inr s1 by (auto split: if_splits)
  next
    case (Inl e)
    show ?thesis
    proof (cases "is_code e ErrOrderNotFound")
      case False
      with rest Inl s1 show ?thesis by auto
    next
      case missing: True
      have "(tables s' = tables s1 \<and> \<not> is_ok r) \<or> created rpc now (normalized order) (tables s1) (tables s')"
        by (rule priced_cases) (use rest Inl missing order True in \<open>simp_all add: normalized_def good_lines_def\<close>)
      with orders_Get_missing [OF get [unfolded Inl] missing] True s1 show ?thesis by auto
    qed
  qed
qed

section \<open>Repeating a creation\<close>

lemma new_row_facts:
  assumes "placed now order (new_row now order tot sid (orderinfo t)) gs t t'" "ID order = 0" "live order"
  shows "orderinfo t' = orderinfo t @ [new_row now order tot sid (orderinfo t)]"
    "numbered (od_OrderSn order) (new_row now order tot sid (orderinfo t))"
    "ID (new_row now order tot sid (orderinfo t)) = next_id ID (orderinfo t)"
    "od_User (new_row now order tot sid (orderinfo t)) = od_User order"
    "od_Status (new_row now order tot sid (orderinfo t)) = od_Status order"
    "od_OrderMountFen (new_row now order tot sid (orderinfo t)) = sint tot"
    "od_StoreID (new_row now order tot sid (orderinfo t)) = sid"
  using assms by (simp_all add: placed_def new_row_def stamped_def Int64_def)

lemma created_numbered:
  assumes "created rpc now order t t'" "ID order = 0" "live order"
  shows "\<exists>x \<in> set (orderinfo t'). numbered (od_OrderSn order) x"
  using assms new_row_facts(1,2) unfolding created_def by fastforce

lemma normalized_simps [simp]:
  "od_OrderSn (normalized o') = trim_space (od_OrderSn o')" "od_OrderGoods (normalized o') = od_OrderGoods o'"
  "ID (normalized o') = ID o'" "DeletedAt (normalized o') = DeletedAt o'" "od_User (normalized o') = od_User o'"
  "od_Status (normalized o') = normalizeInitialOrderStatus (od_Status o')"
  by (simp_all add: normalized_def)

text \<open>C13. A creation that has changed anything, whatever it answered, has stored the order:
  repeating the request, with any answers of the goods service and the database, changes nothing.\<close>

theorem create_at_most_once:
  assumes "run_state (order_Create rpc now (Some order)) s = (r, s1)" "tables s1 \<noteq> tables s"
    and "ID order = 0" "live order" "in_int32 (od_User order)"
    and "run_state (order_Create rpc' now' (Some order)) s2 = (r', s3)" "tables s2 = tables s1"
  shows "tables s3 = tables s1"
proof -
  have "created rpc now (normalized order) (tables s) (tables s1)"
    using order_Create_cases [OF assms(1,3,5)] assms(2) by blast
  from created_numbered [OF this] assms(3,4)
  have "\<exists>x \<in> set (orderinfo (tables s2)). numbered (trim_space (od_OrderSn order)) x"
    using assms(7) by simp
  then show ?thesis
    using order_Create_cases [OF assms(6,3,5)] assms(7) by auto
qed

section \<open>Reading a new order back\<close>

lemma run_orders_Get:
  assumes "outcomes s = []" "first_row (numbered (trim_space sn)) (orderinfo (tables s)) = Some r" "trim_space sn \<noteq> []"
  shows "run_state (orders_Get sn) s = (Inr (with_goods (tables s) r), s)"
  using assms by (simp add: orders_Get_def Let_def preload_def run_simps)

lemma first_row_new:
  "\<forall>x \<in> set t. \<not> p x \<Longrightarrow> p r \<Longrightarrow> first_row p (t @ [r]) = Some r"
  by (simp add: first_row_append first_row_None [THEN iffD2] first_row_Cons)

lemma new_lines:
  assumes gs: "list_all2 (\<lambda>u g. \<exists>x. u = stamped now x (g\<lparr>og_Order := oid\<rparr>)) gs ls"
    and "\<forall>g \<in> set old. og_Order g < oid" "list_all live ls"
  shows "filter (\<lambda>g. live g \<and> og_Order g = oid) (old @ gs) = gs"
proof -
  have "\<forall>u \<in> set gs. live u \<and> og_Order u = oid"
    using gs assms(3) by (induction rule: list_all2_induct) (auto simp: stamped_def)
  moreover have "filter (\<lambda>g. live g \<and> og_Order g = oid) old = []"
    using assms(2) by (auto simp: filter_empty_conv)
  ultimately show ?thesis by simp
qed

lemma new_lines_values:
  "list_all2 (\<lambda>u g. \<exists>x. u = stamped now x (g\<lparr>og_Order := oid\<rparr>)) gs ls \<Longrightarrow>
   (\<And>x g. f (stamped now x (g\<lparr>og_Order := oid\<rparr>)) = f g) \<Longrightarrow> map f gs = map f ls"
  by (induction rule: list_all2_induct) auto

text \<open>The keys of the line table refer to orders already there.\<close>

definition lines_linked :: "order_db \<Rightarrow> bool" where
  "lines_linked t \<longleftrightarrow> list_all (\<lambda>g. og_Order g < next_id ID (orderinfo t)) (ordergoods t)"

lemma created_read:
  assumes c: "created rpc now order (tables s) (tables s')" and s': "outcomes s' = []"
    and order: "ID order = 0" "live order" "trim_space (od_OrderSn order) = od_OrderSn order" "od_OrderSn order \<noteq> []"
    and new: "\<forall>x \<in> set (orderinfo (tables s)). \<not> numbered (od_OrderSn order) x"
    and lines: "lines_linked (tables s)" "list_all live (od_OrderGoods order)"
  obtains m tot sid ls gs where "BatchGetGoods rpc (map og_Goods (od_OrderGoods order)) = Inr m"
    "length m = length (od_OrderGoods order)"
    "price_lines m 0 [] (od_OrderGoods order) = Inr (tot, sid, ls)" "0 < od_User order"
    "list_all2 (\<lambda>u g. \<exists>x. u = stamped now x (g\<lparr>og_Order := next_id ID (orderinfo (tables s))\<rparr>)) gs ls"
    "run_state (orders_Get (od_OrderSn order)) s' =
       (Inr ((new_row now order tot sid (orderinfo (tables s)))\<lparr>od_OrderGoods := gs\<rparr>), s')"
    "placed now order (new_row now order tot sid (orderinfo (tables s))) gs (tables s) (tables s')"
    "with_goods (tables s') (new_row now order tot sid (orderinfo (tables s))) =
       (new_row now order tot sid (orderinfo (tables s)))\<lparr>od_OrderGoods := gs\<rparr>"
proof -
  from c obtain m tot sid ls gs where
    m: "BatchGetGoods rpc (map og_Goods (od_OrderGoods order)) = Inr m" "length m = length (od_OrderGoods order)"
      "price_lines m 0 [] (od_OrderGoods order) = Inr (tot, sid, ls)" "0 < od_User order"
    and p: "placed now order (new_row now order tot sid (orderinfo (tables s))) gs (tables s) (tables s')"
    and gs: "list_all2 (\<lambda>u g. \<exists>x. u = stamped now x (g\<lparr>og_Order := next_id ID (orderinfo (tables s))\<rparr>)) gs ls"
    unfolding created_def by blast
  note row = new_row_facts [OF p order(1,2)]
  have "first_row (numbered (od_OrderSn order)) (orderinfo (tables s')) = Some (new_row now order tot sid (orderinfo (tables s)))"
    unfolding row(1) by (rule first_row_new [OF new row(2)])
  from run_orders_Get [OF s', of "od_OrderSn order"] this order(3,4)
  have run: "run_state (orders_Get (od_OrderSn order)) s' = (Inr (with_goods (tables s') (new_row now order tot sid (orderinfo (tables s)))), s')"
    by simp
  have "list_all live ls"
  proof -
    have "map DeletedAt ls = map DeletedAt vs" if "price_lines m a st vs = Inr (tot, sid, ls)" for a st vs ls
      using that by (induction vs arbitrary: a st ls) (auto elim!: price_lines_ConsE simp del: price_lines.simps(2))
    from this [OF m(3)] lines(2) show ?thesis by (simp add: list_all_iff) (metis (mono_tags, lifting) image_iff list.set_map)
  qed
  then have "filter (\<lambda>g. live g \<and> og_Order g = next_id ID (orderinfo (tables s))) (ordergoods (tables s')) = gs"
    using new_lines [OF gs] lines(1) p by (simp add: placed_def lines_linked_def list_all_iff)
  then have "with_goods (tables s') (new_row now order tot sid (orderinfo (tables s))) =
      (new_row now order tot sid (orderinfo (tables s)))\<lparr>od_OrderGoods := gs\<rparr>"
    by (simp add: with_goods_def row(3))
  with that [OF m gs _ p] run show thesis by simp
qed

lemma priced_quantities:
  "price_lines m a st vs = Inr (tot, sid, ls) \<Longrightarrow>
   map (\<lambda>g. (og_Goods g, og_Nums g)) ls = map (\<lambda>g. (og_Goods g, og_Nums g)) vs"
  by (induction vs arbitrary: a st ls) (auto elim!: price_lines_ConsE simp del: price_lines.simps(2))

lemma stored_quantities:
  assumes "price_lines m a st vs = Inr (tot, sid, ls)"
    and "list_all2 (\<lambda>u g. \<exists>x. u = stamped now x (g\<lparr>og_Order := oid\<rparr>)) gs ls"
  shows "map (\<lambda>g. (og_Goods g, og_Nums g)) gs = map (\<lambda>g. (og_Goods g, og_Nums g)) vs"
  using priced_quantities [OF assms(1)] new_lines_values [OF assms(2), of "\<lambda>g. (og_Goods g, og_Nums g)"]
  by (simp add: stamped_def)

text \<open>C12. When \<open>Create\<close> succeeds for a new order number, reading the order gives the lines that
  were asked for, each with the price the goods service quoted, all of one store, and a total that
  is the exact sum of price times quantity.\<close>

theorem created_order_is_exact:
  assumes run: "run_state (order_Create rpc now (Some order)) s = (Inr (), s')" and s': "outcomes s' = []"
    and order: "ID order = 0" "live order" "in_int32 (od_User order)"
    and new: "\<forall>x \<in> set (orderinfo (tables s)). \<not> numbered (trim_space (od_OrderSn order)) x"
    and lines: "lines_linked (tables s)" "list_all live (od_OrderGoods order)"
    and typed: "\<And>m. BatchGetGoods rpc (map og_Goods (od_OrderGoods order)) = Inr m \<Longrightarrow> typed_goods m (od_OrderGoods order)"
  shows "\<exists>m o'. BatchGetGoods rpc (map og_Goods (od_OrderGoods order)) = Inr m \<and>
    run_state (order_Get (uint64_of (od_User order)) (od_OrderSn order)) s' = (Inr o', s') \<and>
    od_OrderMountFen o' = order_total m (od_OrderGoods order) \<and>
    map (\<lambda>g. (og_Goods g, og_Nums g, og_GoodsPriceFen g)) (od_OrderGoods o') =
      map (\<lambda>v. (og_Goods v, og_Nums v, gs_ShopPriceFen (line_info m v))) (od_OrderGoods order) \<and>
    (\<forall>v \<in> set (od_OrderGoods order). trim_space (gs_StoreID (line_info m v)) = od_StoreID o') \<and>
    od_Status o' = normalizeInitialOrderStatus (od_Status order)"
proof -
  have c: "created rpc now (normalized order) (tables s) (tables s')" "trim_space (od_OrderSn order) \<noteq> []"
    using order_Create_cases [OF run order(1,3)] new by auto
  obtain m tot sid ls gs where m: "BatchGetGoods rpc (map og_Goods (od_OrderGoods order)) = Inr m"
      "price_lines m 0 [] (od_OrderGoods order) = Inr (tot, sid, ls)" and u: "0 < od_User order"
    and gs: "list_all2 (\<lambda>u g. \<exists>x. u = stamped now x (g\<lparr>og_Order := next_id ID (orderinfo (tables s))\<rparr>)) gs ls"
    and get: "run_state (orders_Get (trim_space (od_OrderSn order))) s' =
       (Inr ((new_row now (normalized order) tot sid (orderinfo (tables s)))\<lparr>od_OrderGoods := gs\<rparr>), s')"
    by (rule created_read [OF c(1) s']) (use order new lines c(2) in \<open>simp_all add: normalized_def\<close>)
  note pl = price_lines_spec [OF m(2) typed [OF m(1)]]
  have same: "orders_Get (od_OrderSn order) = orders_Get (trim_space (od_OrderSn order))" by (simp add: orders_Get_def)
  have "map (\<lambda>g. (og_Goods g, og_Nums g, og_GoodsPriceFen g)) gs = map (\<lambda>g. (og_Goods g, og_Nums g, og_GoodsPriceFen g)) ls"
    by (rule new_lines_values [OF gs]) (simp add: stamped_def)
  with pl have "map (\<lambda>g. (og_Goods g, og_Nums g, og_GoodsPriceFen g)) gs =
      map (\<lambda>v. (og_Goods v, og_Nums v, gs_ShopPriceFen (line_info m v))) (od_OrderGoods order)"
    by (simp add: filled_def)
  moreover have "run_state (order_Get (uint64_of (od_User order)) (od_OrderSn order)) s' =
      (Inr ((new_row now (normalized order) tot sid (orderinfo (tables s)))\<lparr>od_OrderGoods := gs\<rparr>), s')"
    using get c(2) u order(3) by (simp add: order_Get_def same run_simps new_row_def stamped_def in_int_def)
  ultimately show ?thesis
    using m(1) pl by (intro exI [of _ m] exI [of _ "(new_row now (normalized order) tot sid (orderinfo (tables s)))\<lparr>od_OrderGoods := gs\<rparr>"])
      (auto simp: new_row_def stamped_def Int64_def)
qed

text \<open>The same order compared with its stored copy.\<close>

lemma same_values_aggregate:
  assumes "map (\<lambda>g. (og_Goods g, og_Nums g)) ls = map (\<lambda>g. (og_Goods g, og_Nums g)) rs"
  shows "aggregateOrderGoods ls = aggregateOrderGoods rs"
proof -
  have *: "list_all2 (\<lambda>a b. og_Goods a = og_Goods b \<and> og_Nums a = og_Nums b) ls rs"
    using assms unfolding list.rel_eq [symmetric] by (simp add: list.rel_map)
  then have "add_lines m ls = add_lines m rs" for m
    by (induction arbitrary: m rule: list_all2_induct) auto
  with * show ?thesis by (auto simp: aggregateOrderGoods_def)
qed

lemma sameOrderGoods_copy:
  assumes "map (\<lambda>g. (og_Goods g, og_Nums g)) ls = map (\<lambda>g. (og_Goods g, og_Nums g)) rs" "good_lines rs" "typed_lines rs"
  shows "sameOrderGoods ls rs"
  using sameOrderGoods_lemma [OF assms(3,3)] assms(2) same_values_aggregate [OF assms(1)]
  by (simp add: sameOrderGoods_def)

text \<open>Repeating a creation that has succeeded is answered with success and changes nothing.\<close>

theorem create_repeat_succeeds:
  assumes run: "run_state (order_Create rpc now (Some order)) s = (Inr (), s')" and s': "outcomes s' = []"
    and order: "ID order = 0" "live order" "in_int32 (od_User order)" "trim_space (od_StoreID order) = []"
    and new: "\<forall>x \<in> set (orderinfo (tables s)). \<not> numbered (trim_space (od_OrderSn order)) x"
    and lines: "lines_linked (tables s)" "list_all live (od_OrderGoods order)" "typed_lines (od_OrderGoods order)"
  shows "run_state (order_Create rpc' now' (Some order)) s' = (Inr (), s')"
proof -
  have c: "created rpc now (normalized order) (tables s) (tables s')" "trim_space (od_OrderSn order) \<noteq> []" "good_lines (od_OrderGoods order)"
    using order_Create_cases [OF run order(1,3)] new by auto
  obtain m tot sid ls gs where m: "price_lines m 0 [] (od_OrderGoods order) = Inr (tot, sid, ls)"
    and gs: "list_all2 (\<lambda>u g. \<exists>x. u = stamped now x (g\<lparr>og_Order := next_id ID (orderinfo (tables s))\<rparr>)) gs ls"
    and get: "run_state (orders_Get (trim_space (od_OrderSn order))) s' =
       (Inr ((new_row now (normalized order) tot sid (orderinfo (tables s)))\<lparr>od_OrderGoods := gs\<rparr>), s')"
    by (rule created_read [OF c(1) s']) (use order new lines c(2) in \<open>simp_all add: normalized_def\<close>)
  from sameOrderGoods_copy [OF stored_quantities [OF m gs] c(3) lines(3)]
  have "sameCreateOrder ((new_row now (normalized order) tot sid (orderinfo (tables s)))\<lparr>od_OrderGoods := gs\<rparr>)
      (order\<lparr>od_OrderSn := trim_space (od_OrderSn order), od_Status := normalizeInitialOrderStatus (od_Status order)\<rparr>)"
    using order(4) by (simp add: sameCreateOrder_def new_row_def stamped_def normalized_def)
  with get c(2,3) show ?thesis
    by (simp add: order_Create_def Let_def hasOrderGoods_iff)
qed

section \<open>Lines of one goods\<close>

lemma goods_map_keys:
  assumes "distinct (map fst m)"
  shows "distinct (map fst (foldl (\<lambda>m i. AList.update (gs_ID i) i m) m items)) \<and>
    fst ` set (foldl (\<lambda>m i. AList.update (gs_ID i) i m) m items) = fst ` set m \<union> gs_ID ` set items"
  using assms
proof (induction items arbitrary: m)
  case (Cons i items)
  have d: "distinct (map fst (AList.update (gs_ID i) i m))" using Cons.prems by (rule distinct_update)
  have "fst ` set (AList.update (gs_ID i) i m) = insert (gs_ID i) (fst ` set m)"
    unfolding dom_map_of_conv_image_fst [symmetric] by (simp add: update_conv')
  with Cons.IH [OF d] show ?case by auto
qed simp

text \<open>An order with two lines for one goods is never stored: the goods service answers with the
  goods it was asked for, so the map built from the answer is smaller than the list of lines.\<close>

theorem repeated_goods_never_stored:
  assumes "run_state (order_Create rpc now (Some order)) s = (r, s')" "ID order = 0" "in_int32 (od_User order)"
    and "\<not> distinct (map og_Goods (od_OrderGoods order))"
    and "\<And>ids items. rpc ids = Inr items \<Longrightarrow> gs_ID ` set items \<subseteq> set ids"
  shows "tables s' = tables s"
proof (rule ccontr)
  assume "tables s' \<noteq> tables s"
  with order_Create_cases [OF assms(1-3)] obtain m where
    m: "BatchGetGoods rpc (map og_Goods (od_OrderGoods order)) = Inr m" "length m = length (od_OrderGoods order)"
    by (auto simp: created_def)
  then obtain items where items: "rpc (map og_Goods (od_OrderGoods order)) = Inr items"
      "m = foldl (\<lambda>m i. AList.update (gs_ID i) i m) [] items"
    by (auto simp: BatchGetGoods_def split: sum.splits)
  have "distinct (map fst m)" "fst ` set m \<subseteq> og_Goods ` set (od_OrderGoods order)"
    using goods_map_keys [of "[]" items] items assms(5) [OF items(1)] by auto
  then have "length m \<le> card (og_Goods ` set (od_OrderGoods order))"
    by (metis List.finite_set card_mono distinct_card finite_imageI length_map list.set_map)
  moreover have "card (set (map og_Goods (od_OrderGoods order))) < length (od_OrderGoods order)"
    using assms(4) card_length [of "map og_Goods (od_OrderGoods order)"] card_distinct [of "map og_Goods (od_OrderGoods order)"]
    by (auto simp: le_less)
  ultimately show False using m(2) by simp
qed

section \<open>Compensation\<close>

definition in_cart :: "int \<Rightarrow> int \<Rightarrow> int \<Rightarrow> ShoppingCartDO list \<Rightarrow> bool" where
  "in_cart u g n ct \<longleftrightarrow> (\<exists>c \<in> set ct. live c \<and> sc_User c = u \<and> sc_Goods c = g \<and> sc_Checked c \<and> n \<le> sc_Nums c)"

abbreviation typed_carts :: "ShoppingCartDO list \<Rightarrow> bool" where
  "typed_carts ct \<equiv> list_all (\<lambda>c. cart_check c = None) ct"

definition bump :: "time \<Rightarrow> int \<Rightarrow> ShoppingCartDO \<Rightarrow> ShoppingCartDO" where
  "bump now n c = c\<lparr>sc_Nums := max (sc_Nums c) n, sc_Checked := True, UpdatedAt := now\<rparr>"

definition restore_one :: "time \<Rightarrow> int \<Rightarrow> OrderGoods \<Rightarrow> ShoppingCartDO list \<Rightarrow> ShoppingCartDO list" where
  "restore_one now u item ct =
     (if og_Goods item \<le> 0 \<or> og_Nums item \<le> 0 then ct
      else
        let p = (\<lambda>c. live c \<and> sc_User c = u \<and> sc_Goods c = og_Goods item);
            ct1 = update_rows p (bump now (og_Nums item)) ct
        in if 0 < count_rows (\<lambda>c. p c \<and> bump now (og_Nums item) c \<noteq> c) ct then ct1
           else ct1 @ [stamped now ct1 (new_cart u (og_Goods item) (og_Nums item) True)])"

definition typed_line :: "OrderGoods \<Rightarrow> bool" where
  "typed_line i \<longleftrightarrow> in_int32 (og_Goods i) \<and> in_int32 (og_Nums i)"

lemma bump_fits: "cart_check c = None \<Longrightarrow> in_int32 n \<Longrightarrow> cart_check (bump now n c) = None"
  by (auto simp: cart_check_def bump_def max_def in_int_def split: if_splits)

lemma cart_check_deleted: "cart_check (c\<lparr>DeletedAt := d\<rparr>) = cart_check c"
  by (simp add: cart_check_def)

lemma new_cart_fits:
  "in_int32 u \<Longrightarrow> typed_line i \<Longrightarrow> cart_check (stamped now ct (new_cart u (og_Goods i) (og_Nums i) b)) = None"
  by (simp add: cart_check_def stamped_def new_cart_def typed_line_def)

lemma restore_one_typed: "typed_carts ct \<Longrightarrow> typed_line i \<Longrightarrow> in_int32 u \<Longrightarrow> typed_carts (restore_one now u i ct)"
  by (auto simp: restore_one_def Let_def list_all_iff set_update_rows bump_fits new_cart_fits) (auto simp: typed_line_def bump_fits)

lemma run_restore:
  assumes "outcomes s = []" "typed_carts (shoppingcart (tables s))" "list_all typed_line items" "in_int32 u" "0 < u"
  shows "run_state (RestoreCheckedItems now u items) s =
      (Inr (), s\<lparr>tables := (tables s)\<lparr>shoppingcart := fold (restore_one now u) items (shoppingcart (tables s))\<rparr>\<rparr>)"
  using assms
proof (induction items arbitrary: s)
  case Nil
  then show ?case by (simp add: RestoreCheckedItems_def)
next
  case (Cons i items)
  let ?ct = "shoppingcart (tables s)"
  let ?s1 = "s\<lparr>tables := (tables s)\<lparr>shoppingcart := restore_one now u i ?ct\<rparr>\<rparr>"
  let ?p = "\<lambda>c. live c \<and> sc_User c = u \<and> sc_Goods c = og_Goods i"
  let ?ct1 = "update_rows ?p (bump now (og_Nums i)) ?ct"
  let ?body = "\<lambda>item. if og_Goods item \<le> 0 \<or> og_Nums item \<le> 0 then ok ()
    else bind_err driver_err (write_stmt shoppingcart shoppingcart_update
        (update_where (\<lambda>c. live c \<and> sc_User c = u \<and> sc_Goods c = og_Goods item) (bump now (og_Nums item)) (fits_check cart_check)))
      (\<lambda>n. if 0 < n then ok () else bind_err driver_err (write_stmt shoppingcart shoppingcart_update
        (insert_cart now (new_cart u (og_Goods item) (og_Nums item) True))) (\<lambda>_. ok ()))"
  have ri: "RestoreCheckedItems now u items = for_each ?body items" for items
    using Cons.prems(4,5) by (simp add: RestoreCheckedItems_def bump_def [abs_def] cong: if_cong)
  have fits: "list_all (\<lambda>c. ?p c \<longrightarrow> cart_check (bump now (og_Nums i) c) = None) ?ct"
    using Cons.prems(2,3) by (auto simp: list_all_iff bump_fits typed_line_def)
  have ins: "insert_cart now (new_cart u (og_Goods i) (og_Nums i) True) ?ct1 =
      (Inr (stamped now ?ct1 (new_cart u (og_Goods i) (og_Nums i) True)),
       ?ct1 @ [stamped now ?ct1 (new_cart u (og_Goods i) (og_Nums i) True)])"
  proof -
    have "\<not> list_ex (\<lambda>r'. ID (stamped now ?ct1 (new_cart u (og_Goods i) (og_Nums i) True)) = ID r') ?ct1"
      using next_id_new [of ID ?ct1] by (auto simp: list_ex_iff stamped_def new_cart_def)
    moreover have "cart_check (stamped now ?ct1 (new_cart u (og_Goods i) (og_Nums i) True)) = None"
      using Cons.prems(3,4) by (simp add: new_cart_fits)
    ultimately show ?thesis by (simp add: insert_cart_def insert_row_def)
  qed
  have step: "run_state (?body i) s = (Inr (), ?s1)"
    using Cons.prems(1) fits ins
    by (auto simp: run_simps update_where_def restore_one_def Let_def)
  have "run_state (for_each ?body items) ?s1 =
      (Inr (), ?s1\<lparr>tables := (tables ?s1)\<lparr>shoppingcart := fold (restore_one now u) items (shoppingcart (tables ?s1))\<rparr>\<rparr>)"
    unfolding ri [symmetric] by (rule Cons.IH) (use Cons.prems restore_one_typed in \<open>simp_all\<close>)
  with step show ?case unfolding ri for_each.simps by (simp add: run_bindE)
qed

lemma in_cart_restore_one:
  assumes "0 < og_Goods i" "0 < og_Nums i"
  shows "in_cart u (og_Goods i) (og_Nums i) (restore_one now u i ct)"
proof (cases "0 < count_rows (\<lambda>c. (live c \<and> sc_User c = u \<and> sc_Goods c = og_Goods i) \<and> bump now (og_Nums i) c \<noteq> c) ct")
  case True
  then obtain c where c: "c \<in> set ct" "live c \<and> sc_User c = u \<and> sc_Goods c = og_Goods i"
    using count_rows_0 [of "\<lambda>c. (live c \<and> sc_User c = u \<and> sc_Goods c = og_Goods i) \<and> bump now (og_Nums i) c \<noteq> c" ct] by auto
  then have "bump now (og_Nums i) c \<in> set (update_rows (\<lambda>c. live c \<and> sc_User c = u \<and> sc_Goods c = og_Goods i) (bump now (og_Nums i)) ct)"
    by (auto simp: set_update_rows)
  with True assms c show ?thesis
    unfolding in_cart_def restore_one_def Let_def by (auto simp: bump_def intro!: bexI [of _ "bump now (og_Nums i) c"])
next
  case False
  with assms show ?thesis
    unfolding in_cart_def restore_one_def Let_def by (auto simp: new_cart_def stamped_def)
qed

lemma in_cart_keeps: "in_cart u g n ct \<Longrightarrow> in_cart u g n (restore_one now v i ct)"
proof -
  have "\<exists>c' \<in> set (update_rows p (bump now m) ct). live c' \<and> sc_User c' = u \<and> sc_Goods c' = g \<and> sc_Checked c' \<and> n \<le> sc_Nums c'"
    if "c \<in> set ct" "live c" "sc_User c = u" "sc_Goods c = g" "sc_Checked c" "n \<le> sc_Nums c" for p m c
    using that by (intro bexI [of _ "if p c then bump now m c else c"]) (auto simp: bump_def set_update_rows)
  then show "in_cart u g n ct \<Longrightarrow> in_cart u g n (restore_one now v i ct)"
    unfolding in_cart_def restore_one_def Let_def by fastforce
qed

lemma in_cart_restore:
  "in_cart u g n ct \<Longrightarrow> in_cart u g n (fold (restore_one now v) items ct)"
  by (induction items arbitrary: ct) (auto intro: in_cart_keeps)

lemma restored_lines:
  "i \<in> set items \<Longrightarrow> 0 < og_Goods i \<Longrightarrow> 0 < og_Nums i \<Longrightarrow>
   in_cart u (og_Goods i) (og_Nums i) (fold (restore_one now u) items ct)"
  by (induction items arbitrary: ct) (auto intro: in_cart_restore in_cart_restore_one)

text \<open>The deletion of the order with a number, when everything is executed.\<close>

lemma run_DeleteByOrderSn:
  assumes "outcomes s = []" "first_row (numbered (trim_space sn)) (orderinfo (tables s)) = Some r" "trim_space sn \<noteq> []"
  shows "run_state (DeleteByOrderSn now sn) s = (Inr (), s\<lparr>tables := (tables s)\<lparr>
      ordergoods := update_rows (\<lambda>g. live g \<and> og_Order g = ID r) (\<lambda>g. g\<lparr>DeletedAt := Some now\<rparr>) (ordergoods (tables s)),
      orderinfo := update_rows (\<lambda>x. live x \<and> ID x = ID r) (\<lambda>x. x\<lparr>DeletedAt := Some now\<rparr>) (orderinfo (tables s))\<rparr>\<rparr>)"
  using assms by (simp add: DeleteByOrderSn_def Let_def run_simps soft_delete_def update_where_def list_all_iff)

lemma calm_CreateCom_parts [calm_intros]:
  "calm (RestoreCheckedItems now u items)" "calm (DeleteByOrderSn now sn)" "calm (orders_Get sn)"
  unfolding RestoreCheckedItems_def DeleteByOrderSn_def orders_Get_def preload_def Let_def
  by (auto intro!: calm_intros split: sum.split)

lemma run_CreateCom:
  assumes s: "outcomes s = []" and r: "first_row (numbered (trim_space (od_OrderSn order))) (orderinfo (tables s)) = Some r"
    and sn: "trim_space (od_OrderSn order) \<noteq> []"
    and typed: "typed_carts (shoppingcart (tables s))" "list_all typed_line (od_OrderGoods (with_goods (tables s) r))"
      "in_int32 (od_User r)" "0 < od_User r"
  shows "\<exists>s'. run_state (CreateCom now (Some order)) s = (Inr (), s') \<and>
    shoppingcart (tables s') = fold (restore_one now (od_User r)) (od_OrderGoods (with_goods (tables s) r)) (shoppingcart (tables s)) \<and>
    orderinfo (tables s') = update_rows (\<lambda>x. live x \<and> ID x = ID r) (\<lambda>x. x\<lparr>DeletedAt := Some now\<rparr>) (orderinfo (tables s))"
proof -
  let ?o = "with_goods (tables s) r"
  let ?s1 = "s\<lparr>tables := (tables s)\<lparr>shoppingcart := fold (restore_one now (od_User r)) (od_OrderGoods ?o) (shoppingcart (tables s))\<rparr>\<rparr>"
  let ?body = "bind_err Wrapf (RestoreCheckedItems now (uint64_of (od_User ?o)) (od_OrderGoods ?o))
      (\<lambda>_. map_err Wrapf (DeleteByOrderSn now (od_OrderSn ?o)))"
  have u: "od_User ?o = od_User r" "od_OrderSn ?o = trim_space (od_OrderSn order)"
    using first_row_Some [OF r] by (simp_all add: with_goods_def)
  have uu: "uint64_of (od_User r) = od_User r" using typed(3,4) by simp
  have "run_state (RestoreCheckedItems now (uint64_of (od_User ?o)) (od_OrderGoods ?o)) s = (Inr (), ?s1)"
    unfolding u(1) uu by (rule run_restore [OF s typed])
  moreover have "run_state (DeleteByOrderSn now (od_OrderSn ?o)) ?s1 = (Inr (), ?s1\<lparr>tables := (tables ?s1)\<lparr>
      ordergoods := update_rows (\<lambda>g. live g \<and> og_Order g = ID r) (\<lambda>g. g\<lparr>DeletedAt := Some now\<rparr>) (ordergoods (tables ?s1)),
      orderinfo := update_rows (\<lambda>x. live x \<and> ID x = ID r) (\<lambda>x. x\<lparr>DeletedAt := Some now\<rparr>) (orderinfo (tables ?s1))\<rparr>\<rparr>)"
    unfolding u(2) by (rule run_DeleteByOrderSn) (use s r sn in simp_all)
  ultimately have body: "run_state ?body s = (Inr (), ?s1\<lparr>tables := (tables ?s1)\<lparr>
      ordergoods := update_rows (\<lambda>g. live g \<and> og_Order g = ID r) (\<lambda>g. g\<lparr>DeletedAt := Some now\<rparr>) (ordergoods (tables ?s1)),
      orderinfo := update_rows (\<lambda>x. live x \<and> ID x = ID r) (\<lambda>x. x\<lparr>DeletedAt := Some now\<rparr>) (orderinfo (tables ?s1))\<rparr>\<rparr>)"
    by (simp add: run_simps)
  have "run_state (transaction b c ?body) s = run_state ?body s" for b c
    by (subst run_transaction_ok [OF s]) (use body s in simp_all)
  then show ?thesis
    using body run_orders_Get [OF s r sn] sn by (simp add: CreateCom_def)
qed

lemma typed_lines_transfer:
  assumes "map (\<lambda>g. (og_Goods g, og_Nums g)) gs = map (\<lambda>g. (og_Goods g, og_Nums g)) vs" "list_all typed_line vs"
  shows "list_all typed_line gs"
proof -
  have "list_all2 (\<lambda>a b. og_Goods a = og_Goods b \<and> og_Nums a = og_Nums b) gs vs"
    using assms(1) unfolding list.rel_eq [symmetric] by (simp add: list.rel_map)
  then show ?thesis using assms(2) by (induction rule: list_all2_induct) (auto simp: typed_line_def)
qed

text \<open>C16. Compensation undoes a creation: after \<open>CreateCom\<close> no order has the number, and each
  ordered goods is back in the user's cart, checked, with at least the ordered quantity.\<close>

theorem compensation_restores_cart:
  assumes run: "run_state (order_Create rpc now (Some order)) s = (Inr (), s')" and s': "outcomes s' = []"
    and order: "ID order = 0" "live order" "in_int32 (od_User order)"
    and new: "\<forall>x \<in> set (orderinfo (tables s)). \<not> numbered (trim_space (od_OrderSn order)) x"
    and lines: "lines_linked (tables s)" "list_all live (od_OrderGoods order)" "list_all typed_line (od_OrderGoods order)"
    and carts: "typed_carts (shoppingcart (tables s))"
  shows "\<exists>s''. run_state (CreateCom now' (Some order)) s' = (Inr (), s'') \<and>
    (\<forall>x \<in> set (orderinfo (tables s'')). \<not> numbered (trim_space (od_OrderSn order)) x) \<and>
    (\<forall>v \<in> set (od_OrderGoods order). in_cart (od_User order) (og_Goods v) (og_Nums v) (shoppingcart (tables s'')))"
proof -
  have c: "created rpc now (normalized order) (tables s) (tables s')" "trim_space (od_OrderSn order) \<noteq> []" "good_lines (od_OrderGoods order)"
    using order_Create_cases [OF run order(1,3)] new by auto
  obtain m tot sid ls gs where m: "price_lines m 0 [] (od_OrderGoods order) = Inr (tot, sid, ls)" and u: "0 < od_User order"
    and gs: "list_all2 (\<lambda>u g. \<exists>x. u = stamped now x (g\<lparr>og_Order := next_id ID (orderinfo (tables s))\<rparr>)) gs ls"
    and p: "placed now (normalized order) (new_row now (normalized order) tot sid (orderinfo (tables s))) gs (tables s) (tables s')"
    and w: "with_goods (tables s') (new_row now (normalized order) tot sid (orderinfo (tables s))) =
       (new_row now (normalized order) tot sid (orderinfo (tables s)))\<lparr>od_OrderGoods := gs\<rparr>"
    by (rule created_read [OF c(1) s']) (use order new lines c(2) in \<open>simp_all add: normalized_def\<close>)
  let ?row = "new_row now (normalized order) tot sid (orderinfo (tables s))"
  have row: "orderinfo (tables s') = orderinfo (tables s) @ [?row]" "numbered (trim_space (od_OrderSn order)) ?row"
      "od_User ?row = od_User order"
    using new_row_facts [OF p] order by simp_all
  note q = stored_quantities [OF m gs]
  have first: "first_row (numbered (trim_space (od_OrderSn order))) (orderinfo (tables s')) = Some ?row"
    unfolding row(1) by (rule first_row_new [OF new row(2)])
  have ct: "typed_carts (shoppingcart (tables s'))"
    using p carts by (auto simp: placed_def list_all_iff set_update_rows cart_check_deleted)
  from run_CreateCom [OF s' first c(2) ct] obtain s'' where
    com: "run_state (CreateCom now' (Some order)) s' = (Inr (), s'')"
      "shoppingcart (tables s'') = fold (restore_one now' (od_User order)) gs (shoppingcart (tables s'))"
      "orderinfo (tables s'') = update_rows (\<lambda>x. live x \<and> ID x = ID ?row) (\<lambda>x. x\<lparr>DeletedAt := Some now'\<rparr>) (orderinfo (tables s'))"
    using typed_lines_transfer [OF q lines(3)] w row(3) u order(3) by auto
  have "\<forall>x \<in> set (orderinfo (tables s'')). \<not> numbered (trim_space (od_OrderSn order)) x"
    using new unfolding com(3) row(1) by (auto simp: set_update_rows)
  moreover have "in_cart (od_User order) (og_Goods v) (og_Nums v) (shoppingcart (tables s''))" if v: "v \<in> set (od_OrderGoods order)" for v
  proof -
    have "(og_Goods v, og_Nums v) \<in> set (map (\<lambda>g. (og_Goods g, og_Nums g)) gs)" unfolding q using v by auto
    moreover have "0 < og_Goods v" "0 < og_Nums v" using v c(3) by (auto simp: good_lines_def list_all_iff)
    ultimately show ?thesis unfolding com(2) using restored_lines [of _ gs] by fastforce
  qed
  ultimately show ?thesis using com(1) by blast
qed

section \<open>A sample run\<close>

definition shop_line :: "int \<Rightarrow> int \<Rightarrow> OrderGoods" where
  "shop_line g n = zero_goods\<lparr>og_Goods := g, og_Nums := n\<rparr>"

definition shop_order :: OrderDTO where
  "shop_order = zero_order\<lparr>od_User := 5, od_OrderSn := '' A1'', od_OrderGoods := [shop_line 3 2, shop_line 4 1]\<rparr>"

definition shop_cart :: "int \<Rightarrow> int \<Rightarrow> ShoppingCartDO" where
  "shop_cart i g = \<lparr>ID = i, CreatedAt = 0, UpdatedAt = 0, DeletedAt = None, IsDeleted = False,
     sc_User = 5, sc_Goods = g, sc_Nums = 1, sc_Checked = True\<rparr>"

definition shop_db :: order_db where
  "shop_db = \<lparr>orderinfo = [], ordergoods = [], shoppingcart = [shop_cart 1 3, shop_cart 2 9], order_status_logs = [],
     order_refund_requests = [], order_refund_outbox = [], payment_events = [], payment_reconciliation_runs = [],
     payment_reconciliation_items = [], account_deletion_inbox = [], account_deletion_outbox = []\<rparr>"

definition shop_open :: "order_db session" where
  "shop_open = \<lparr>tables = shop_db, outcomes = []\<rparr>"

text \<open>A goods service that knows every goods, all of one store, once each.\<close>

definition shop_rpc :: goods_rpc where
  "shop_rpc ids = Inr (map (\<lambda>i. \<lparr>gs_ID = i, gs_Name = ''tea'', gs_ShopPriceFen = 1250, gs_GoodsFrontImage = [],
     gs_StoreID = ''7''\<rparr>) (remdups ids))"

definition shop_placed :: "order_db session" where
  "shop_placed = snd (run_state (order_Create shop_rpc 100 (Some shop_order)) shop_open)"

lemma shop_placed_run: "run_state (order_Create shop_rpc 100 (Some shop_order)) shop_open = (Inr (), shop_placed)"
  by code_simp

lemma shop_facts:
  "outcomes shop_placed = []" "ID shop_order = 0" "live shop_order" "in_int32 (od_User shop_order)"
  "trim_space (od_StoreID shop_order) = []" "\<forall>x \<in> set (orderinfo (tables shop_open)). \<not> numbered (trim_space (od_OrderSn shop_order)) x"
  "lines_linked (tables shop_open)" "list_all live (od_OrderGoods shop_order)"
  "list_all typed_line (od_OrderGoods shop_order)" "typed_carts (shoppingcart (tables shop_open))"
  "tables shop_placed \<noteq> tables shop_open"
  by code_simp+

lemma shop_typed: "typed_lines (od_OrderGoods shop_order)"
  by (simp add: typed_lines_def shop_order_def shop_line_def in_int_def)

lemma shop_prices:
  "BatchGetGoods shop_rpc (map og_Goods (od_OrderGoods shop_order)) = Inr m \<Longrightarrow> typed_goods m (od_OrderGoods shop_order)"
proof -
  have "(case BatchGetGoods shop_rpc (map og_Goods (od_OrderGoods shop_order)) of Inl e \<Rightarrow> False
    | Inr m \<Rightarrow> typed_goods m (od_OrderGoods shop_order))" by code_simp
  then show "BatchGetGoods shop_rpc (map og_Goods (od_OrderGoods shop_order)) = Inr m \<Longrightarrow> typed_goods m (od_OrderGoods shop_order)"
    by simp
qed

theorem create_at_most_once_witness:
  "tables (snd (run_state (order_Create shop_rpc 200 (Some shop_order)) shop_placed)) = tables shop_placed \<and>
   tables shop_placed \<noteq> tables shop_open"
proof -
  obtain r' s3 where r: "run_state (order_Create shop_rpc 200 (Some shop_order)) shop_placed = (r', s3)" by fastforce
  from create_at_most_once [OF shop_placed_run shop_facts(11) shop_facts(2-4) r refl] r shop_facts(11) show ?thesis by simp
qed

theorem created_order_is_exact_witness:
  "\<exists>m o'. BatchGetGoods shop_rpc (map og_Goods (od_OrderGoods shop_order)) = Inr m \<and>
    run_state (order_Get 5 '' A1'') shop_placed = (Inr o', shop_placed) \<and> od_OrderMountFen o' = 3750"
proof -
  have "order_total m (od_OrderGoods shop_order) = 3750"
    if "BatchGetGoods shop_rpc (map og_Goods (od_OrderGoods shop_order)) = Inr m" for m
  proof -
    have "(case BatchGetGoods shop_rpc (map og_Goods (od_OrderGoods shop_order)) of Inl e \<Rightarrow> False
      | Inr m \<Rightarrow> order_total m (od_OrderGoods shop_order) = 3750)" by code_simp
    with that show ?thesis by simp
  qed
  moreover have "uint64_of (od_User shop_order) = 5" "od_OrderSn shop_order = '' A1''" by code_simp+
  ultimately show ?thesis
    using created_order_is_exact [OF shop_placed_run shop_facts(1-4,6-8) shop_prices] by auto
qed

theorem create_repeat_succeeds_witness:
  "run_state (order_Create shop_rpc 200 (Some shop_order)) shop_placed = (Inr (), shop_placed)"
  by (rule create_repeat_succeeds [OF shop_placed_run shop_facts(1-8) shop_typed])

theorem repeated_goods_never_stored_witness:
  "tables (snd (run_state (order_Create shop_rpc 100
     (Some (shop_order\<lparr>od_OrderGoods := [shop_line 3 2, shop_line 3 1]\<rparr>))) shop_open)) = shop_db"
proof -
  let ?o = "shop_order\<lparr>od_OrderGoods := [shop_line 3 2, shop_line 3 1]\<rparr>"
  obtain r s' where run: "run_state (order_Create shop_rpc 100 (Some ?o)) shop_open = (r, s')" by fastforce
  have "tables s' = tables shop_open"
  proof (rule repeated_goods_never_stored [OF run])
    show "gs_ID ` set items \<subseteq> set ids" if "shop_rpc ids = Inr items" for ids items
      using that by (auto simp: shop_rpc_def)
  qed (code_simp+)
  with run show ?thesis by (simp add: shop_open_def)
qed

theorem compensation_restores_cart_witness:
  "\<exists>s''. run_state (CreateCom 300 (Some shop_order)) shop_placed = (Inr (), s'') \<and>
    (\<forall>v \<in> set (od_OrderGoods shop_order). in_cart (od_User shop_order) (og_Goods v) (og_Nums v) (shoppingcart (tables s'')))"
  using compensation_restores_cart [OF shop_placed_run shop_facts(1-4,6-10), of 300] by blast

end
