(* ===== verification/Order_Runs.thy ===== *)
theory Order_Runs
  imports Order_Placing
begin

text \<open>
  What holds along every run of the order service, one handler at a time, with the runs that
  show the limits: an update that names a row by its key, two updates that overlap, and refund
  requests that add up to more than was paid.
\<close>

section \<open>Along every run\<close>



text \<open>A paid order and a closed one, made by the handlers.\<close>

definition shop_request :: "string \<Rightarrow> int \<Rightarrow> OrderRequest" where
  "shop_request sn g = \<lparr>oq_OrderSn = sn, oq_UserId = 5, oq_Address = ''Road 1'', oq_Name = ''Kim'', oq_Mobile = ''139'',
     oq_Post = [], oq_OrderItems = [Some (g, 2)]\<rparr>"

definition shop_status :: "int \<Rightarrow> string \<Rightarrow> string \<Rightarrow> string \<Rightarrow> OrderStatus" where
  "shop_status i sn st c = \<lparr>os_Id = i, os_OrderSn = sn, os_Status = st, os_PayType = ''alipay'', os_TradeNo = ''T1'',
     os_Reason = ''because'', os_ActorUserId = 5, os_RefundAmountFen = 2500, os_CorrelationId = c, os_RequestId = [],
     os_PayTime = 0\<rparr>"

definition after :: "(order_db session, 'a) state \<Rightarrow> order_db session \<Rightarrow> order_db session" where
  "after m s = snd (run_state m s)"

definition shop_two :: "order_db session" where
  "shop_two = after (CreateOrder shop_rpc 110 (Some (shop_request ''A2'' 4)))
     (after (CreateOrder shop_rpc 100 (Some (shop_request ''A1'' 3))) shop_open)"

definition shop_paid :: "order_db session" where
  "shop_paid = after (UpdateOrderStatus 120 (Some (shop_status 0 ''A2'' OrderStatusTradeSuccess []))) shop_two"

lemma after_step:
  "order_step rpc s (after (CreateOrder rpc now q) s)"
  "os_Id st \<le> 0 \<Longrightarrow> order_step rpc s (after (UpdateOrderStatus now (Some st)) s)"
  unfolding after_def by (rule order_step.create [OF prod.collapse [symmetric]], rule order_step.update [OF prod.collapse [symmetric]])

lemma shop_run: "(order_step shop_rpc)\<^sup>*\<^sup>* shop_open shop_paid"
  unfolding shop_paid_def shop_two_def
  by (rule rtranclp.rtrancl_into_rtrancl, rule rtranclp.rtrancl_into_rtrancl, rule rtranclp.rtrancl_into_rtrancl,
      rule rtranclp.rtrancl_refl) (rule after_step, (simp add: shop_status_def)?)+

lemma shop_start: "wf_orders (orderinfo (tables shop_open))"
  by (simp add: wf_orders_def shop_open_def shop_db_def)

lemma shop_statuses: "map od_Status (orderinfo (tables shop_paid)) = [OrderStatusWaitBuyerPay, OrderStatusTradeSuccess]"
  by code_simp



section \<open>Where the diagram can be left\<close>

definition status_of :: "order_db session \<Rightarrow> string \<Rightarrow> string option" where
  "status_of s sn = map_option od_Status (first_row (numbered sn) (orderinfo (tables s)))"




end
