(* ===== verification/Order_Audit.thy ===== *)
theory Order_Audit
  imports Order_Runs
begin

text \<open>
  What every operation of the order service keeps of the rows that record what has happened:
  rows fit their columns, the status log and the decisions on account deletions are only
  appended to, and a completed payment event or refund job stays as it is. Each statement keeps
  the relation \<open>audit\<close>; the calculus of \<open>Database\<close> carries it through the handlers.
\<close>

section \<open>Tables with checked columns\<close>

definition keeps_fit :: "('r \<Rightarrow> db_error option) \<Rightarrow> ('r list \<Rightarrow> 'a \<times> 'r list) \<Rightarrow> bool" where
  "keeps_fit check f \<longleftrightarrow> (\<forall>t. list_all (fits_check check) t \<longrightarrow> list_all (fits_check check) (snd (f t)))"

named_theorems fit_rules \<open>statements that leave rows fitting their columns\<close>

lemma fit_update [fit_rules]: "keeps_fit check (update_where p f (fits_check check))"
  "keeps_fit check (\<lambda>t. update_where (q t) f (fits_check check) t)"
  by (auto simp: keeps_fit_def update_where_def list_all_iff set_update_rows)

lemma fit_insert [fit_rules]: "keeps_fit check (\<lambda>t. insert_row check clash (r t) t)" "keeps_fit check (insert_row check clash r0)"
  by (auto simp: keeps_fit_def insert_row_def split: option.splits)

lemma fit_insert_rows [fit_rules]: "keeps_fit check (insert_rows stamp check clash rs)"
proof -
  have "list_all (fits_check check) t \<Longrightarrow> list_all (fits_check check) (snd (insert_rows stamp check clash rs t))" for t
  proof (induction rs arbitrary: t)
    case (Cons a rs)
    then show ?case
      using Cons.IH [of "t @ [stamp t a]"]
      by (cases "insert_rows stamp check clash rs (t @ [stamp t a])") (auto simp: insert_row_def split: option.splits sum.splits)
  qed simp
  then show ?thesis by (simp add: keeps_fit_def)
qed

lemma check_deleted:
  "order_check (o'\<lparr>DeletedAt := d\<rparr>) = order_check o'" "goods_check (g\<lparr>DeletedAt := d\<rparr>) = goods_check g"
  "cart_check (c\<lparr>DeletedAt := d\<rparr>) = cart_check c"
  by (simp_all add: order_check_def goods_check_def cart_check_def)

lemma fit_soft_delete [fit_rules]:
  "keeps_fit order_check (soft_delete now p)" "keeps_fit goods_check (soft_delete now q)" "keeps_fit cart_check (soft_delete now c)"
  by (auto simp: keeps_fit_def soft_delete_def update_where_def list_all_iff set_update_rows check_deleted)

lemma fit_inserts [fit_rules]:
  "keeps_fit cart_check (insert_cart now c)" "keeps_fit refund_check (insert_refund_request r)"
  "keeps_fit event_check (insert_event e)"
  unfolding insert_cart_def [abs_def] insert_refund_request_def [abs_def] insert_event_def [abs_def] by (rule fit_insert)+

lemma fit_insert_order [fit_rules]: "keeps_fit order_check (insert_order now order)"
  by (auto simp: keeps_fit_def insert_order_def insert_row_def split: option.splits)

section \<open>Events and jobs that are done\<close>

definition wf_events :: "PaymentEventDO list \<Rightarrow> bool" where
  "wf_events es \<longleftrightarrow> distinct (map pe_ID es) \<and> distinct (map (\<lambda>e. (pe_Provider e, pe_EventID e)) es)"

definition events_kept :: "PaymentEventDO list \<Rightarrow> PaymentEventDO list \<Rightarrow> bool" where
  "events_kept es es' \<longleftrightarrow> (wf_events es \<longrightarrow> wf_events es' \<and> (\<forall>e \<in> set es. pe_Status e = ''completed'' \<longrightarrow> e \<in> set es'))"

definition wf_outbox :: "RefundOutboxDO list \<Rightarrow> bool" where
  "wf_outbox os \<longleftrightarrow> distinct (map ro_ID os)"

definition outbox_kept :: "RefundOutboxDO list \<Rightarrow> RefundOutboxDO list \<Rightarrow> bool" where
  "outbox_kept os os' \<longleftrightarrow> (wf_outbox os \<longrightarrow> wf_outbox os' \<and> (\<forall>o' \<in> set os. ro_Status o' = ''completed'' \<longrightarrow> o' \<in> set os'))"

lemma kept_refl [simp]: "events_kept es es" "outbox_kept os os"
  by (simp_all add: events_kept_def outbox_kept_def)

lemma kept_trans:
  "events_kept a b \<Longrightarrow> events_kept b c \<Longrightarrow> events_kept a c" "outbox_kept d e \<Longrightarrow> outbox_kept e f \<Longrightarrow> outbox_kept d f"
  by (auto simp: events_kept_def outbox_kept_def)

text \<open>Updating the row with a key leaves the others alone, so it must not be one that is done.\<close>

lemma update_by_key:
  assumes "distinct (map key t)" "\<And>r. key (f r) = key r"
  shows "distinct (map key (snd (update_where (\<lambda>r. key r = k) f fits t)))"
    "r \<in> set t \<Longrightarrow> key r \<noteq> k \<Longrightarrow> r \<in> set (snd (update_where (\<lambda>r. key r = k) f fits t))"
proof -
  have "map key (snd (update_where (\<lambda>r. key r = k) f fits t)) = map key t"
    using assms(2) by (simp add: update_where_def update_rows_def)
  with assms(1) show "distinct (map key (snd (update_where (\<lambda>r. key r = k) f fits t)))" by simp
  show "r \<in> set t \<Longrightarrow> key r \<noteq> k \<Longrightarrow> r \<in> set (snd (update_where (\<lambda>r. key r = k) f fits t))"
    by (auto simp: update_where_def set_update_rows)
qed

lemma events_kept_update:
  assumes "e0 \<in> set es" "pe_Status e0 \<noteq> ''completed''"
    and "\<And>e. pe_ID (f e) = pe_ID e" "\<And>e. pe_Provider (f e) = pe_Provider e" "\<And>e. pe_EventID (f e) = pe_EventID e"
  shows "events_kept es (snd (update_where (\<lambda>e. pe_ID e = pe_ID e0) f fits es))"
proof (unfold events_kept_def, intro impI)
  assume wf: "wf_events es"
  then have d: "distinct (map pe_ID es)" by (simp add: wf_events_def)
  have "e \<in> set (snd (update_where (\<lambda>e. pe_ID e = pe_ID e0) f fits es))" if "e \<in> set es" "pe_Status e = ''completed''" for e
  proof (rule update_by_key(2) [OF d assms(3) that(1)])
    show "pe_ID e \<noteq> pe_ID e0" using d that assms(1,2) by (auto simp: distinct_map inj_on_def)
  qed
  moreover have "map (\<lambda>e. (pe_Provider e, pe_EventID e)) (snd (update_where (\<lambda>e. pe_ID e = pe_ID e0) f fits es)) =
      map (\<lambda>e. (pe_Provider e, pe_EventID e)) es"
    using assms(4,5) by (simp add: update_where_def update_rows_def)
  ultimately show "wf_events (snd (update_where (\<lambda>e. pe_ID e = pe_ID e0) f fits es)) \<and>
      (\<forall>e \<in> set es. pe_Status e = ''completed'' \<longrightarrow> e \<in> set (snd (update_where (\<lambda>e. pe_ID e = pe_ID e0) f fits es)))"
    using wf update_by_key(1) [OF d assms(3)] by (simp add: wf_events_def)
qed

lemma events_kept_insert: "events_kept es (snd (insert_event e es))"
  by (auto simp: events_kept_def wf_events_def insert_event_def insert_row_def list_ex_iff split: option.splits)

lemma outbox_kept_update:
  assumes "\<And>r. r \<in> set os \<Longrightarrow> ro_ID r = k \<Longrightarrow> ro_Status r \<noteq> ''completed''" "\<And>r. ro_ID (f r) = ro_ID r"
  shows "outbox_kept os (snd (update_where (\<lambda>r. ro_ID r = k) f fits os))"
  unfolding outbox_kept_def wf_outbox_def
  using update_by_key [of ro_ID os f] assms by blast

lemma outbox_kept_insert: "outbox_kept os (snd (insert_refund_outbox r os))"
  using next_id_new [of ro_ID os]
  by (auto simp: outbox_kept_def wf_outbox_def insert_refund_outbox_def insert_row_def)

section \<open>The relation\<close>

definition db_typed :: "order_db \<Rightarrow> bool" where
  "db_typed t \<longleftrightarrow> list_all (fits_check order_check) (orderinfo t) \<and> list_all (fits_check goods_check) (ordergoods t) \<and>
     list_all (fits_check cart_check) (shoppingcart t) \<and> list_all (fits_check log_check) (order_status_logs t) \<and>
     list_all (fits_check refund_check) (order_refund_requests t) \<and> list_all (fits_check outbox_check) (order_refund_outbox t) \<and>
     list_all (fits_check event_check) (payment_events t) \<and>
     list_all (fits_check run_check) (payment_reconciliation_runs t) \<and>
     list_all (fits_check item_check) (payment_reconciliation_items t)"

definition audit :: "order_db \<Rightarrow> order_db \<Rightarrow> bool" where
  "audit t u \<longleftrightarrow> (db_typed t \<longrightarrow> db_typed u) \<and>
     (\<exists>l. order_status_logs u = order_status_logs t @ l) \<and>
     (\<exists>l. account_deletion_inbox u = account_deletion_inbox t @ l) \<and>
     events_kept (payment_events t) (payment_events u) \<and> outbox_kept (order_refund_outbox t) (order_refund_outbox u)"

lemma audit_refl: "audit t t"
  by (simp add: audit_def)

lemma audit_trans: "audit t u \<Longrightarrow> audit u v \<Longrightarrow> audit t v"
  unfolding audit_def using kept_trans by (auto intro: kept_trans)

interpretation audits: table_preorder audit
  by unfold_locales (rule audit_refl, rule audit_trans)

named_theorems audit_rules \<open>operations that keep the records of what has happened\<close>

declare audits.evolves_rules [audit_rules]

lemma audit_writes [audit_rules]:
  "keeps_fit order_check f0 \<Longrightarrow> audits.evolves (write_stmt orderinfo orderinfo_update f0)"
  "keeps_fit goods_check f1 \<Longrightarrow> audits.evolves (write_stmt ordergoods ordergoods_update f1)"
  "keeps_fit cart_check f2 \<Longrightarrow> audits.evolves (write_stmt shoppingcart shoppingcart_update f2)"
  "keeps_fit refund_check f3 \<Longrightarrow> audits.evolves (write_stmt order_refund_requests order_refund_requests_update f3)"
  "keeps_fit run_check f4 \<Longrightarrow> audits.evolves (write_stmt payment_reconciliation_runs payment_reconciliation_runs_update f4)"
  "keeps_fit item_check f5 \<Longrightarrow> audits.evolves (write_stmt payment_reconciliation_items payment_reconciliation_items_update f5)"
  "audits.evolves (write_stmt account_deletion_outbox account_deletion_outbox_update f6)"
  by (rule audits.evolves_write, simp add: audit_def db_typed_def keeps_fit_def)+

lemma audit_appends [audit_rules]:
  "audits.evolves (write_stmt order_status_logs order_status_logs_update (\<lambda>t. insert_row log_check clash (r t) t))"
  "audits.evolves (write_stmt account_deletion_inbox account_deletion_inbox_update (insert_row check clash' r'))"
  by (rule audits.evolves_write, auto simp: audit_def db_typed_def insert_row_def split: option.splits)+

lemma audit_insert_event [audit_rules]: "audits.evolves (write_stmt payment_events payment_events_update (insert_event e))"
  using fit_inserts(3) [of e]
  by (intro audits.evolves_write) (simp add: audit_def db_typed_def events_kept_insert keeps_fit_def)

lemma audit_insert_outbox [audit_rules]:
  assumes "outbox_check r = None"
  shows "audits.evolves (write_stmt order_refund_outbox order_refund_outbox_update (insert_refund_outbox r))"
proof (rule audits.evolves_write)
  fix t
  have "list_all (fits_check outbox_check) os \<Longrightarrow> list_all (fits_check outbox_check) (snd (insert_refund_outbox r os))" for os
    using assms by (auto simp: insert_refund_outbox_def insert_row_def outbox_check_def)
  then show "audit t (order_refund_outbox_update (\<lambda>_. snd (insert_refund_outbox r (order_refund_outbox t))) t)"
    by (simp add: audit_def db_typed_def outbox_kept_insert)
qed

lemma audit_update_events:
  assumes "e0 \<in> set (payment_events t)" "pe_Status e0 \<noteq> ''completed''"
    and "\<And>e. pe_ID (f e) = pe_ID e" "\<And>e. pe_Provider (f e) = pe_Provider e" "\<And>e. pe_EventID (f e) = pe_EventID e"
  shows "audits.evolves_from t (update_events (\<lambda>e. pe_ID e = pe_ID e0) f)"
proof -
  have "audit t (payment_events_update (\<lambda>_. snd (update_where (\<lambda>e. pe_ID e = pe_ID e0) f (fits_check event_check) (payment_events t))) t)"
    using events_kept_update [OF assms] fit_update(1) [of event_check "\<lambda>e. pe_ID e = pe_ID e0" f]
    by (simp add: audit_def db_typed_def keeps_fit_def)
  then show ?thesis
    unfolding update_events_def
    by (intro audits.evolves_from_bind_err audits.evolves_from_write audits.evolves_from_return)
qed

text \<open>No row with the key is done.\<close>

definition not_done :: "int \<Rightarrow> order_db \<Rightarrow> bool" where
  "not_done k t \<longleftrightarrow> (\<forall>r \<in> set (order_refund_outbox t). ro_ID r = k \<longrightarrow> ro_Status r \<noteq> ''completed'')"

lemma audit_update_outbox:
  assumes "wf_outbox (order_refund_outbox t) \<Longrightarrow> not_done k t" "\<And>r. ro_ID (f r) = ro_ID r"
  shows "audits.evolves_from t (update_outbox k f)"
proof -
  have "outbox_kept (order_refund_outbox t) (snd (update_where (\<lambda>r. ro_ID r = k) f (fits_check outbox_check) (order_refund_outbox t)))"
  proof (cases "wf_outbox (order_refund_outbox t)")
    case True
    then show ?thesis using assms by (intro outbox_kept_update) (auto simp: not_done_def)
  qed (simp add: outbox_kept_def)
  then have "audit t (order_refund_outbox_update (\<lambda>_. snd (update_where (\<lambda>r. ro_ID r = k) f (fits_check outbox_check) (order_refund_outbox t))) t)"
    using fit_update(1) [of outbox_check "\<lambda>r. ro_ID r = k" f]
    by (simp add: audit_def db_typed_def keeps_fit_def)
  then show ?thesis
    unfolding update_outbox_def
    by (intro audits.evolves_from_bind_err audits.evolves_from_write audits.evolves_from_return)
qed

lemma found_not_done:
  assumes "wf_outbox (order_refund_outbox t)" "r \<in> set (order_refund_outbox t)" "ro_Status r \<noteq> ''completed''"
  shows "not_done (ro_ID r) t"
  using assms by (auto simp: not_done_def wf_outbox_def distinct_map inj_on_def)

section \<open>The operations\<close>

lemma audit_reads [audit_rules]:
  "audits.evolves (preload rs)" "audits.evolves (orders_Get sn)" "audits.evolves (order_by_sn sn')" "audits.evolves (request_by_id i)"
  "audits.evolves (carts_Get u g)"
  unfolding preload_def orders_Get_def order_by_sn_def request_by_id_def carts_Get_def Let_def
  by (auto intro!: audit_rules)

lemma audit_store [audit_rules]:
  "audits.evolves (orders_Create now o1)" "audits.evolves (orders_Update now o2)" "audits.evolves (DeleteByOrderSn now sn)"
  "audits.evolves (logs_Create now e)" "audits.evolves (DeleteByGoodsIDs now u gs)"
  "audits.evolves (RestoreCheckedItems now u items)" "audits.evolves (carts_Create now c1)" "audits.evolves (UpdateNum now c2)"
  "audits.evolves (carts_Delete now u i)"
  unfolding orders_Create_def orders_Update_def DeleteByOrderSn_def logs_Create_def DeleteByGoodsIDs_def
    RestoreCheckedItems_def carts_Create_def UpdateNum_def carts_Delete_def Let_def
  by (auto intro!: audit_rules fit_rules split: option.split sum.split)

lemma audit_requests [audit_rules]:
  "audits.evolves (update_requests p f)" "audits.evolves (CreateRefundRequest now q)"
  unfolding update_requests_def CreateRefundRequest_def
  by (auto intro!: audit_rules fit_rules simp: outbox_check_def in_int_def split: option.split)

lemma audit_service [audit_rules]:
  "audits.evolves (Create_priced rpc now o1)" "audits.evolves (order_Create rpc now o2)" "audits.evolves (CreateCom now o3)"
  "audits.evolves (order_Update now o4)"
  unfolding Create_priced_def create_body_def order_Create_def CreateCom_def order_Update_def update_found_def update_body_def Let_def
  by (auto intro!: audit_rules split: option.split sum.split prod.split)

lemma audit_updateRefundOrderStatus [audit_rules]: "audits.evolves (updateRefundOrderStatus now sn frm tgt reason)"
  unfolding updateRefundOrderStatus_def by (auto intro!: audit_rules fit_rules)

text \<open>Payment events: the row that is written has been read in the same transaction.\<close>

lemma audit_begin_event: "audits.evolves (begin_event_body now event)"
proof (rule audits.evolves_from_all)
  fix t
  let ?p = "\<lambda>e. pe_Provider e = pe_Provider event \<and> pe_EventID e = pe_EventID event"
  have "audits.evolves_from u (case found of
       Inr existing \<Rightarrow>
         if pe_Status existing = ''failed''
         then bindE (update_events (\<lambda>e. pe_ID e = pe_ID existing) (\<lambda>e. e\<lparr>pe_Status := ''processing'', pe_ErrorDetail := []\<rparr>))
           (\<lambda>_. bindE (order_by_sn (pe_OrderSN existing))
             (\<lambda>order. ok (existing\<lparr>pe_Status := ''processing'', pe_ErrorDetail := []\<rparr>, order, True)))
         else bindE (order_by_sn (pe_OrderSN existing)) (\<lambda>order. ok (existing, order, False))
     | Inl e \<Rightarrow>
         if e \<noteq> RecordNotFound then fail (Driver e)
         else bindE (order_by_sn (pe_OrderSN event)) (\<lambda>order.
           bind_err Driver
             (write_stmt payment_events payment_events_update
               (insert_event (event\<lparr>pe_OrderAmountFen := od_OrderMountFen order, pe_Status := ''processing'',
                  pe_ReceivedAt := now\<rparr>)))
             (\<lambda>row. ok (row, order, True))))"
    if run: "run_state (first_stmt payment_events ?p) \<lparr>tables = t, outcomes = os\<rparr> = (found, \<lparr>tables = u, outcomes = os'\<rparr>)"
    for os os' u found
  proof (cases found)
    case (Inl e)
    then show ?thesis by (auto intro!: audits.evolves_from_evolves audit_rules)
  next
    case (Inr existing)
    from run Inr have "yields (first_stmt payment_events ?p) t existing u" unfolding yields_def by blast
    from yields_first_set [OF this] have e: "existing \<in> set (payment_events u)" by simp
    then show ?thesis using Inr
      by (auto intro!: audits.evolves_from_bindE audit_update_events audits.evolves_from_evolves [OF audits.evolves_return]
          audits.evolves_from_evolves [OF audit_reads(3)])
  qed
  then show "audits.evolves_from t (begin_event_body now event)"
    unfolding begin_event_body_def
    by (intro audits.evolves_from_bind audits.evolves_from_reads) simp
qed

lemma audit_complete_event: "audits.evolves (complete_event_body now eid success detail)"
proof (rule audits.evolves_from_all)
  fix t
  show "audits.evolves_from t (complete_event_body now eid success detail)"
    unfolding complete_event_body_def
  proof (intro audits.evolves_from_bind_err audits.evolves_from_reads audits.evolves_from_bindE)
    fix event u
    assume "yields (first_stmt payment_events (\<lambda>e. pe_ID e = eid \<and> pe_Status e = ''processing'')) t event u"
    from yields_first_set [OF this]
    show "audits.evolves_from u (update_events (\<lambda>e. pe_ID e = pe_ID event)
           (\<lambda>e. if success then e\<lparr>pe_Status := ''completed'', pe_CompletedAt := Some now, pe_ErrorDetail := []\<rparr>
                else e\<lparr>pe_Status := ''failed'', pe_ErrorDetail := trim_space detail\<rparr>))"
      by (intro audit_update_events) simp_all
  qed (auto intro!: audits.evolves_from_evolves audit_rules fit_rules)
qed

lemma audit_events [audit_rules]:
  "audits.evolves (BeginPaymentEvent now e)" "audits.evolves (CompletePaymentEvent now i ok' d)"
  unfolding BeginPaymentEvent_def CompletePaymentEvent_def
  by (auto intro!: audit_rules audit_begin_event audit_complete_event split: option.split)

text \<open>Refund jobs.\<close>

lemma yields_update_outbox:
  assumes "yields (update_outbox k f) t a u"
  shows "u = t\<lparr>order_refund_outbox := update_rows (\<lambda>r. ro_ID r = k) f (order_refund_outbox t)\<rparr>"
  using assms unfolding update_outbox_def
  by (auto elim!: yields_elims dest!: yields_write simp: update_where_def split: if_splits)

lemma yields_claim_one:
  assumes "yields (claim_one now o') t j u"
  shows "u = t\<lparr>order_refund_outbox := update_rows (\<lambda>r. ro_ID r = ro_ID o')
     (\<lambda>r. r\<lparr>ro_Status := ''processing'', ro_Attempts := ro_Attempts r + 1, ro_LockedAt := Some now, ro_UpdatedAt := now\<rparr>)
     (order_refund_outbox t)\<rparr>"
proof -
  from assms obtain a v where v: "yields (update_outbox (ro_ID o')
      (\<lambda>r. r\<lparr>ro_Status := ''processing'', ro_Attempts := ro_Attempts r + 1, ro_LockedAt := Some now, ro_UpdatedAt := now\<rparr>)) t a v"
      and "u = v"
    unfolding claim_one_def by (auto elim!: yields_elims dest!: yields_query split: list.splits prod.splits)
  with yields_update_outbox [OF v] show ?thesis by simp
qed

lemma audit_claim_one: "(wf_outbox (order_refund_outbox t) \<Longrightarrow> not_done (ro_ID o') t) \<Longrightarrow> audits.evolves_from t (claim_one now o')"
  unfolding claim_one_def
  by (intro audits.evolves_from_bindE audit_update_outbox)
    (auto intro!: audits.evolves_from_evolves audit_rules split: list.split prod.split)

lemma audit_claim_all:
  "(wf_outbox (order_refund_outbox t) \<Longrightarrow> \<forall>o' \<in> set os. not_done (ro_ID o') t) \<Longrightarrow> audits.evolves_from t (claim_all now os)"
proof (induction os arbitrary: t)
  case Nil
  then show ?case by (simp add: audits.evolves_from_return)
next
  case (Cons o' os)
  have "audits.evolves_from u (claim_all now os)" if "yields (claim_one now o') t j u" for j u
  proof (rule Cons.IH)
    assume "wf_outbox (order_refund_outbox u)"
    then have "wf_outbox (order_refund_outbox t)"
      by (simp add: yields_claim_one [OF that] wf_outbox_def update_rows_def comp_def if_distrib cong: if_cong)
    with Cons.prems show "\<forall>o' \<in> set os. not_done (ro_ID o') u"
      by (auto simp: yields_claim_one [OF that] not_done_def set_update_rows)
  qed
  with Cons.prems show ?case
    by (auto intro!: audits.evolves_from_bindE audit_claim_one audits.evolves_from_return)
qed

lemma in_set_page_rows: "r \<in> set (page_rows off lim t) \<Longrightarrow> r \<in> set t"
  by (auto simp: page_rows_def Let_def dest: in_set_takeD in_set_dropD split: if_splits)

lemma claimable_open: "claimable now m l r \<Longrightarrow> ro_Status r \<noteq> ''completed''"
  by (auto simp: claimable_def)

lemma audit_ClaimRefundJobs [audit_rules]: "audits.evolves (ClaimRefundJobs now l m k)"
  unfolding ClaimRefundJobs_def Let_def
proof (intro audits.evolves_map_err audits.evolves_transaction, rule audits.evolves_from_all, intro audits.evolves_from_bind_err audits.evolves_from_reads)
  fix t u :: order_db and os
  let ?m = "if m \<le> 0 then 8 else m" and ?k = "if k \<le> 0 then 2 * 60 * 1000000000 else k" and ?l = "if l \<le> 0 then 20 else l"
  assume "yields (query_stmt (\<lambda>t. page_rows 0 ?l (filter (claimable now ?m ?k) (order_refund_outbox t)))) t os u"
  from yields_query [OF this] have u: "u = t" "set os \<subseteq> set (filter (claimable now ?m ?k) (order_refund_outbox t))"
    by (auto dest: in_set_page_rows)
  show "audits.evolves_from u (claim_all now os)"
    by (rule audit_claim_all) (use u found_not_done claimable_open in auto)
qed

text \<open>The statements in between leave the outbox alone.\<close>

interpretation outbox_same: table_preorder "\<lambda>t u. order_refund_outbox u = order_refund_outbox t"
  by unfold_locales auto

lemma outbox_same_ops:
  "outbox_same.evolves (update_requests p f)" "outbox_same.evolves (request_by_id i)" "outbox_same.evolves (order_by_sn sn)"
  "outbox_same.evolves (updateRefundOrderStatus now sn frm tgt reason)"
  unfolding update_requests_def request_by_id_def order_by_sn_def updateRefundOrderStatus_def
  by (auto intro!: outbox_same.evolves_rules outbox_same.evolves_write)

lemma yields_evolves: "outbox_same.evolves m \<Longrightarrow> yields m t a u \<Longrightarrow> order_refund_outbox u = order_refund_outbox t"
  unfolding yields_def by (auto dest!: outbox_same.evolvesD)

lemma audit_job_end:
  assumes "outbox \<in> set (order_refund_outbox t)" "ro_Status outbox \<noteq> ''completed''" "order_refund_outbox u = order_refund_outbox t"
    and "\<And>r. ro_ID (f r) = ro_ID r"
  shows "audits.evolves_from u (update_outbox (ro_ID outbox) f)"
  using assms by (intro audit_update_outbox found_not_done) simp_all

lemma audit_refund_done:
  assumes "outbox \<in> set (order_refund_outbox t)" "ro_Status outbox \<noteq> ''completed''"
  shows "audits.evolves_from t (refund_done now outbox pr ri ps)" "audits.evolves_from t (refund_dead now outbox d)"
proof -
  have *: "audits.evolves_from t (bindE (update_requests p f) (\<lambda>_. bindE (request_by_id i) (\<lambda>refund.
      bindE (if c then updateRefundOrderStatus now (rr_OrderSN refund) frm tgt reason else ok ()) (\<lambda>_. update_outbox (ro_ID outbox) g))))"
    if "\<And>r. ro_ID (g r) = ro_ID r" for p f i c frm tgt reason g
  proof (rule audits.evolves_from_bindE, rule audits.evolves_from_evolves [OF audit_requests(1)],
      rule audits.evolves_from_bindE, rule audits.evolves_from_evolves [OF audit_reads(4)], rule audits.evolves_from_bindE)
    fix a u refund v
    show "audits.evolves_from v (if c then updateRefundOrderStatus now (rr_OrderSN refund) frm tgt reason else ok ())"
      by (auto intro!: audits.evolves_from_evolves audit_rules)
  next
    fix a u refund v b w
    assume y: "yields (update_requests p f) t a u" "yields (request_by_id i) u refund v"
      "yields (if c then updateRefundOrderStatus now (rr_OrderSN refund) frm tgt reason else ok ()) v b w"
    have "order_refund_outbox w = order_refund_outbox v"
      by (rule yields_evolves [OF _ y(3)]) (simp add: outbox_same_ops outbox_same.evolves_return)
    with yields_evolves [OF outbox_same_ops(1) y(1)] yields_evolves [OF outbox_same_ops(2) y(2)] assms that
    show "audits.evolves_from w (update_outbox (ro_ID outbox) g)" by (intro audit_job_end) simp_all
  qed
  show "audits.evolves_from t (refund_done now outbox pr ri ps)"
    unfolding refund_done_def Let_def by (rule *) simp
  show "audits.evolves_from t (refund_dead now outbox d)"
    unfolding refund_dead_def using * [where c = True] by simp
qed

lemma audit_CompleteRefundJob [audit_rules]: "audits.evolves (CompleteRefundJob now i ok' pr ri ps d m)"
proof -
  have "audits.evolves_from t (complete_refund_body now i ok' pr ri ps d m')" for t m'
    unfolding complete_refund_body_def Let_def
  proof (intro audits.evolves_from_bind_err audits.evolves_from_reads)
    fix outbox u
    assume "yields (first_stmt order_refund_outbox (\<lambda>o'. ro_ID o' = i \<and> ro_Status o' = ''processing'')) t outbox u"
    from yields_first_set [OF this]
    show "audits.evolves_from u (if ok' then refund_done now outbox pr ri ps else
       (case refundFailureDecision (ro_Attempts outbox) m' now of
            None \<Rightarrow> refund_dead now outbox (truncatePaymentDetail d)
          | Some availableAt \<Rightarrow> update_outbox (ro_ID outbox)
              (\<lambda>o'. o'\<lparr>ro_Status := ''retry'', ro_AvailableAt := availableAt, ro_LockedAt := None,
                 ro_LastError := truncatePaymentDetail d, ro_UpdatedAt := now\<rparr>)))"
      by (auto intro!: audit_refund_done audit_job_end split: option.split)
  qed
  then have "audits.evolves (complete_refund_body now i ok' pr ri ps d m')" for m' by (rule audits.evolves_from_all)
  then show ?thesis unfolding CompleteRefundJob_def Let_def by (auto intro!: audit_rules)
qed

lemma audit_retry_tail:
  assumes "outbox \<in> set (order_refund_outbox t)" "ro_Status outbox \<noteq> ''completed''" "order_refund_outbox w = order_refund_outbox t"
    and "\<And>r. ro_ID (g r) = ro_ID r"
  shows "audits.evolves_from w (bindE (order_by_sn sn) (\<lambda>order.
      bindE (if c order then updateRefundOrderStatus now sn frm tgt reason else ok ()) (\<lambda>_.
        bindE (update_outbox (ro_ID outbox) g) (\<lambda>_. ok (j order)))))"
proof (rule audits.evolves_from_bindE, rule audits.evolves_from_evolves [OF audit_reads(3)], rule audits.evolves_from_bindE)
  fix order x
  show "audits.evolves_from x (if c order then updateRefundOrderStatus now sn frm tgt reason else ok ())"
    by (auto intro!: audits.evolves_from_evolves audit_rules)
next
  fix order x b z
  assume y: "yields (order_by_sn sn) w order x" "yields (if c order then updateRefundOrderStatus now sn frm tgt reason else ok ()) x b z"
  have "order_refund_outbox z = order_refund_outbox t"
    using yields_evolves [OF _ y(2)] yields_evolves [OF outbox_same_ops(3) y(1)] assms(3)
    by (simp add: outbox_same_ops outbox_same.evolves_return)
  with assms show "audits.evolves_from z (bindE (update_outbox (ro_ID outbox) g) (\<lambda>_. ok (j order)))"
    by (intro audits.evolves_from_bindE audit_job_end audits.evolves_from_return) simp_all
qed

lemma audit_RetryDeadRefundJob [audit_rules]: "audits.evolves (RetryDeadRefundJob now i)"
proof -
  have "audits.evolves_from t (retry_dead_body now i)" for t
    unfolding retry_dead_body_def
  proof (rule audits.evolves_from_bind_err, rule audits.evolves_from_reads, rule audits.evolves_from_bindE,
      rule audits.evolves_from_evolves [OF audit_reads(4)], rule audits.evolves_from_bindE)
    fix outbox u refund v
    show "audits.evolves_from v (if rr_Status refund = ''FAILED'' then update_requests (\<lambda>r. rr_ID r = rr_ID refund)
        (\<lambda>r. r\<lparr>rr_Status := ''PROCESSING'', rr_FailureReason := [], rr_UpdatedAt := now\<rparr>) else ok ())"
      by (auto intro!: audits.evolves_from_evolves audit_rules)
  next
    fix outbox u refund v a w
    assume y: "yields (first_stmt order_refund_outbox (\<lambda>o'. ro_ID o' = i \<and> ro_Status o' = ''dead'')) t outbox u"
      "yields (request_by_id (ro_RefundRequestID outbox)) u refund v"
      "yields (if rr_Status refund = ''FAILED'' then update_requests (\<lambda>r. rr_ID r = rr_ID refund)
        (\<lambda>r. r\<lparr>rr_Status := ''PROCESSING'', rr_FailureReason := [], rr_UpdatedAt := now\<rparr>) else ok ()) v a w"
    have "order_refund_outbox w = order_refund_outbox u"
      using yields_evolves [OF _ y(3)] yields_evolves [OF outbox_same_ops(2) y(2)]
      by (simp add: outbox_same_ops outbox_same.evolves_return)
    then show "audits.evolves_from w (bindE (order_by_sn (rr_OrderSN refund)) (\<lambda>order.
        bindE (if od_Status order = ''REFUND_FAILED'' then updateRefundOrderStatus now (rr_OrderSN refund) ''REFUND_FAILED''
            ''REFUND_PENDING'' ''refund dead-letter retry requested'' else ok ()) (\<lambda>_.
          bindE (update_outbox (ro_ID outbox) (\<lambda>o'. o'\<lparr>ro_Status := ''retry'', ro_Attempts := 0, ro_AvailableAt := now,
              ro_LockedAt := None, ro_LastError := [], ro_UpdatedAt := now\<rparr>)) (\<lambda>_.
            ok \<lparr>rj_OutboxID = ro_ID outbox, rj_RefundRequestID = rr_ID refund, rj_OrderSN = rr_OrderSN refund,
              rj_TradeNo = od_TradeNo order, rj_AmountFen = rr_AmountFen refund, rj_Reason = rr_Reason refund,
              rj_CorrelationID = rr_CorrelationID refund, rj_Attempts = 0\<rparr>))))"
      using yields_first_set [OF y(1)] by (intro audit_retry_tail [of outbox u]) simp_all
  qed
  then have "audits.evolves (retry_dead_body now i)" by (rule audits.evolves_from_all)
  then show ?thesis unfolding RetryDeadRefundJob_def by (auto intro!: audit_rules)
qed

lemma audit_rest [audit_rules]:
  "audits.evolves (ReconcilePayments now p f u ts)" "audits.evolves (ReviewAccountDeletion now uuid q)"
  unfolding ReconcilePayments_def reconcile_body_def insert_items_def ReviewAccountDeletion_def review_body_def Let_def
  by (auto intro!: audit_rules fit_rules split: sum.split prod.split)

lemma audit_handlers:
  "audits.evolves (ctl_CreateCartItem now q1)" "audits.evolves (ctl_UpdateCartItem now q1)"
  "audits.evolves (ctl_DeleteCartItem now q1)" "audits.evolves (CreateOrderCom now q2)"
  "audits.evolves (ctl_BeginPaymentEvent now q3)" "audits.evolves (ctl_CompletePaymentEvent now i ok' d)"
  "audits.evolves (ctl_ClaimRefundJobs now l m k)" "audits.evolves (ctl_CompleteRefundJob now q4)"
  "audits.evolves (ctl_RetryDeadRefundJob now i)" "audits.evolves (ctl_ReconcilePayments now p f u ts)"
  "audits.evolves (CreateOrder rpc now q5)" "audits.evolves (UpdateOrderStatus now q6)"
  unfolding ctl_CreateCartItem_def ctl_UpdateCartItem_def ctl_DeleteCartItem_def CreateCartItem_def UpdateCartItem_def
    DeleteCartItem_def CreateOrderCom_def ctl_BeginPaymentEvent_def svc_BeginPaymentEvent_def ctl_CompletePaymentEvent_def
    ctl_ClaimRefundJobs_def ctl_CompleteRefundJob_def svc_CompleteRefundJob_def ctl_RetryDeadRefundJob_def
    ctl_ReconcilePayments_def CreateOrder_def UpdateOrderStatus_def
  by (auto intro!: audit_rules simp: Let_def split: option.split sum.split)

lemma order_step_audit: "order_step rpc s s' \<Longrightarrow> audit (tables s) (tables s')"
  by (induction rule: order_step.induct)
    (simp add: audit_refl, (erule audits.evolvesD [rotated], (rule audit_handlers audit_service(4) audit_rest(2)))+)

lemma order_run_audit: "(order_step rpc)\<^sup>*\<^sup>* s s' \<Longrightarrow> audit (tables s) (tables s')"
  by (induction rule: rtranclp_induct) (auto intro: audit_refl audit_trans order_step_audit)

section \<open>What stays\<close>


text \<open>C15. The status log and the decisions on account deletions are only appended to.\<close>

theorem logs_only_grow:
  assumes "(order_step rpc)\<^sup>*\<^sup>* s s'"
  shows "take (length (order_status_logs (tables s))) (order_status_logs (tables s')) = order_status_logs (tables s) \<and>
    take (length (account_deletion_inbox (tables s))) (account_deletion_inbox (tables s')) = account_deletion_inbox (tables s)"
  using order_run_audit [OF assms] by (auto simp: audit_def)

lemma events_unique:
  "wf_events es \<Longrightarrow> e \<in> set es \<Longrightarrow> e' \<in> set es \<Longrightarrow> pe_Provider e' = pe_Provider e \<Longrightarrow> pe_EventID e' = pe_EventID e \<Longrightarrow> e' = e"
  by (auto simp: wf_events_def distinct_map inj_on_def)

lemma begin_completed:
  assumes run: "yields (begin_event_body now ev) t (row, order, accepted) u"
    and e: "e \<in> set (payment_events t)" "wf_events (payment_events t)" "pe_Status e = ''completed''"
      "pe_Provider ev = pe_Provider e" "pe_EventID ev = pe_EventID e"
  shows "\<not> accepted \<and> row = e \<and> u = t"
proof -
  let ?p = "\<lambda>e. pe_Provider e = pe_Provider ev \<and> pe_EventID e = pe_EventID ev"
  from run obtain os os' found v where
    f: "run_state (first_stmt payment_events ?p) \<lparr>tables = t, outcomes = os\<rparr> = (found, \<lparr>tables = v, outcomes = os'\<rparr>)"
    and rest: "yields (case found of
       Inr existing \<Rightarrow>
         if pe_Status existing = ''failed''
         then bindE (update_events (\<lambda>e. pe_ID e = pe_ID existing) (\<lambda>e. e\<lparr>pe_Status := ''processing'', pe_ErrorDetail := []\<rparr>))
           (\<lambda>_. bindE (order_by_sn (pe_OrderSN existing))
             (\<lambda>order. ok (existing\<lparr>pe_Status := ''processing'', pe_ErrorDetail := []\<rparr>, order, True)))
         else bindE (order_by_sn (pe_OrderSN existing)) (\<lambda>order. ok (existing, order, False))
     | Inl e \<Rightarrow>
         if e \<noteq> RecordNotFound then fail (Driver e)
         else bindE (order_by_sn (pe_OrderSN ev)) (\<lambda>order.
           bind_err Driver
             (write_stmt payment_events payment_events_update
               (insert_event (ev\<lparr>pe_OrderAmountFen := od_OrderMountFen order, pe_Status := ''processing'',
                  pe_ReceivedAt := now\<rparr>)))
             (\<lambda>row. ok (row, order, True)))) v (row, order, accepted) u"
    unfolding begin_event_body_def by (rule yields_bind)
  have hit: "first_row ?p (payment_events t) = Some e"
  proof (cases "first_row ?p (payment_events t)")
    case None
    then show ?thesis using e by (auto simp: first_row_None)
  next
    case (Some e')
    with first_row_Some [OF Some] events_unique [OF e(2,1), of e'] e(4,5) show ?thesis by simp
  qed
  have "found = Inr e \<or> (\<exists>d. found = Inl d \<and> d \<noteq> RecordNotFound)" "v = t"
    using f hit by (auto simp: first_stmt_def statement_def split: outcome.splits prod.splits)
  with rest e(3) show ?thesis
    by (auto elim!: yields_elims dest!: order_by_sn_found)
qed

text \<open>C10. A payment notification is accepted once: after its event has been completed, along any run,
  the event's row stays as it is, and notifying it again is answered as a duplicate and changes nothing.\<close>

theorem completed_payment_not_repeated:
  assumes run: "(order_step rpc)\<^sup>*\<^sup>* s s'" and wf: "wf_events (payment_events (tables s))"
    and e: "e \<in> set (payment_events (tables s))" "pe_Status e = ''completed''"
    and again: "pe_Provider ev = pe_Provider e" "pe_EventID ev = pe_EventID e"
      "run_state (BeginPaymentEvent now (Some ev)) s' = (Inr (row, order, accepted), s'')"
  shows "e \<in> set (payment_events (tables s')) \<and> \<not> accepted \<and> row = e \<and> tables s'' = tables s'"
proof -
  have kept: "e \<in> set (payment_events (tables s'))" "wf_events (payment_events (tables s'))"
    using order_run_audit [OF run] wf e by (auto simp: audit_def events_kept_def)
  have "yields (begin_event_body now ev) (tables s') (row, order, accepted) (tables s'')"
    using again(3) unfolding BeginPaymentEvent_def
    by (auto dest!: yieldsI yields_map_err yields_transaction split: if_splits)
  from begin_completed [OF this kept e(2) again(1,2)] kept(1) show ?thesis by simp
qed

lemma yields_claim_all:
  "yields (claim_all now os) t js u \<Longrightarrow> map rj_OutboxID js = map ro_ID os"
proof (induction os arbitrary: t js)
  case (Cons o' os)
  then obtain j js' v where "yields (claim_one now o') t j v" "yields (claim_all now os) v js' u" "js = j # js'"
    by (auto elim!: yields_elims)
  moreover from this(1) have "rj_OutboxID j = ro_ID o'"
    unfolding claim_one_def by (auto elim!: yields_elims split: list.splits prod.splits)
  ultimately show ?case using Cons.IH by simp
qed simp

text \<open>C9. A completed refund job stays completed along any run and is never claimed again.\<close>

theorem completed_refund_not_repeated:
  assumes run: "(order_step rpc)\<^sup>*\<^sup>* s s'" and wf: "wf_outbox (order_refund_outbox (tables s))"
    and job: "job \<in> set (order_refund_outbox (tables s))" "ro_Status job = ''completed''"
    and claim: "run_state (ClaimRefundJobs now l m k) s' = (Inr jobs, s'')"
  shows "job \<in> set (order_refund_outbox (tables s')) \<and> ro_ID job \<notin> rj_OutboxID ` set jobs"
proof -
  have kept: "job \<in> set (order_refund_outbox (tables s'))" "wf_outbox (order_refund_outbox (tables s'))"
    using order_run_audit [OF run] wf job by (auto simp: audit_def outbox_kept_def)
  let ?m = "if m \<le> 0 then 8 else m" and ?k = "if k \<le> 0 then 2 * 60 * 1000000000 else k" and ?l = "if l \<le> 0 then 20 else l"
  let ?os = "page_rows 0 ?l (filter (claimable now ?m ?k) (order_refund_outbox (tables s')))"
  from claim have "yields (bind_err Driver
      (query_stmt (\<lambda>t. page_rows 0 ?l (filter (claimable now ?m ?k) (order_refund_outbox t)))) (claim_all now))
      (tables s') jobs (tables s'')"
    unfolding ClaimRefundJobs_def Let_def by (auto dest!: yieldsI yields_map_err yields_transaction)
  then have all: "yields (claim_all now ?os) (tables s') jobs (tables s'')"
    by (auto elim!: yields_elims dest!: yields_query)
  have "ro_ID r \<noteq> ro_ID job" if r: "r \<in> set ?os" for r
  proof -
    from in_set_page_rows [OF r] have "r \<in> set (order_refund_outbox (tables s'))" "r \<noteq> job"
      using claimable_open job(2) by auto
    with kept show ?thesis by (auto simp: wf_outbox_def distinct_map inj_on_def)
  qed
  then have "ro_ID job \<notin> ro_ID ` set ?os" by force
  then have "ro_ID job \<notin> set (map rj_OutboxID jobs)" using yields_claim_all [OF all] by simp
  with kept(1) show ?thesis by simp
qed

section \<open>A sample run\<close>

definition shop_event :: PaymentEventDO where
  "shop_event = \<lparr>pe_ID = 0, pe_Provider = ''alipay'', pe_EventID = ''E1'', pe_OrderSN = ''A2'', pe_TradeNo = ''T1'',
     pe_EventType = ''payment_succeeded'', pe_OrderAmountFen = 0, pe_ProviderAmountFen = 2500, pe_RefundAmountFen = 0,
     pe_Status = [], pe_ErrorDetail = [], pe_ReceivedAt = 0, pe_CompletedAt = None\<rparr>"

definition shop_done :: "order_db session" where
  "shop_done = \<lparr>tables = shop_db\<lparr>
     orderinfo := [\<lparr>ID = 1, CreatedAt = 100, UpdatedAt = 150, DeletedAt = None, IsDeleted = False, od_OrderGoods = [], od_User = 5,
       od_OrderSn = ''A2'', od_PayType = ''alipay'', od_Status = ''REFUNDED'', od_TradeNo = ''T1'', od_OrderMountFen = 2500,
       od_StoreID = ''7'', od_PayTime = Some 120, od_Address = [], od_SignerName = [], od_SingerMobile = [], od_Post = []\<rparr>],
     payment_events := [shop_event\<lparr>pe_ID := 1, pe_OrderAmountFen := 2500, pe_Status := ''completed'', pe_ReceivedAt := 131,
       pe_CompletedAt := Some 135\<rparr>],
     order_refund_outbox := [\<lparr>ro_ID = 1, ro_RefundRequestID = 1, ro_Status = ''completed'', ro_Attempts = 1, ro_AvailableAt = 130,
       ro_LockedAt = None, ro_LastError = [], ro_CreatedAt = 130, ro_UpdatedAt = 150\<rparr>]\<rparr>, outcomes = []\<rparr>"

definition shop_later :: "order_db session" where
  "shop_later = after (CreateOrder shop_rpc 160 (Some (shop_request ''A3'' 7))) shop_done"

lemma shop_later_run: "(order_step shop_rpc)\<^sup>*\<^sup>* shop_done shop_later"
  unfolding shop_later_def by (rule r_into_rtranclp [of "order_step shop_rpc", OF after_step(1)])

lemma shop_done_facts:
  "map (\<lambda>e. (pe_Provider e, pe_EventID e, pe_Status e)) (payment_events (tables shop_done)) = [(''alipay'', ''E1'', ''completed'')]"
  "map (\<lambda>o'. (ro_ID o', ro_Status o')) (order_refund_outbox (tables shop_done)) = [(1, ''completed'')]"
  "wf_events (payment_events (tables shop_done))" "wf_outbox (order_refund_outbox (tables shop_done))"
  "db_typed (tables shop_done)" "length (order_status_logs (tables shop_done)) < length (order_status_logs (tables shop_later))"
  by code_simp+


theorem logs_only_grow_witness:
  "take (length (order_status_logs (tables shop_done))) (order_status_logs (tables shop_later)) = order_status_logs (tables shop_done) \<and>
   length (order_status_logs (tables shop_done)) < length (order_status_logs (tables shop_later))"
  using logs_only_grow [OF shop_later_run] shop_done_facts(6) by simp

theorem completed_payment_not_repeated_witness:
  "\<exists>row order. run_state (BeginPaymentEvent 170 (Some shop_event)) shop_later = (Inr (row, order, False), shop_later)"
proof -
  obtain e where e: "payment_events (tables shop_done) = [e]" "pe_Provider e = ''alipay''" "pe_EventID e = ''E1''" "pe_Status e = ''completed''"
    using shop_done_facts(1) by auto
  obtain r s'' where run: "run_state (BeginPaymentEvent 170 (Some shop_event)) shop_later = (r, s'')" by fastforce
  have "(case run_state (BeginPaymentEvent 170 (Some shop_event)) shop_later of (r, s'') \<Rightarrow> is_ok r \<and> outcomes s'' = outcomes shop_later)"
    by code_simp
  with run obtain row order accepted where r: "r = Inr (row, order, accepted)" and o: "outcomes s'' = outcomes shop_later"
    by (cases r) auto
  have "e \<in> set (payment_events (tables shop_later)) \<and> \<not> accepted \<and> row = e \<and> tables s'' = tables shop_later"
    by (rule completed_payment_not_repeated [OF shop_later_run shop_done_facts(3) _ e(4) _ _ run [unfolded r]])
      (simp_all add: e shop_event_def)
  with o have "\<not> accepted" "s'' = shop_later" by (simp_all add: session.equality)
  with run r show ?thesis by auto
qed

theorem completed_refund_not_repeated_witness:
  "\<exists>jobs s''. run_state (ClaimRefundJobs 1000000 0 0 0) shop_later = (Inr jobs, s'') \<and> 1 \<notin> rj_OutboxID ` set jobs"
proof -
  obtain job where j: "order_refund_outbox (tables shop_done) = [job]" "ro_ID job = 1" "ro_Status job = ''completed''"
    using shop_done_facts(2) by auto
  obtain r s'' where run: "run_state (ClaimRefundJobs 1000000 0 0 0) shop_later = (r, s'')" by fastforce
  have "is_ok (fst (run_state (ClaimRefundJobs 1000000 0 0 0) shop_later))" by code_simp
  with run obtain jobs where r: "r = Inr jobs" by (cases r) auto
  have "job \<in> set (order_refund_outbox (tables shop_later)) \<and> ro_ID job \<notin> rj_OutboxID ` set jobs"
    by (rule completed_refund_not_repeated [OF shop_later_run shop_done_facts(4) _ j(3) run [unfolded r]]) (simp add: j)
  with run r j show ?thesis by auto
qed

end
