(* ===== verification/Errors.thy ===== *)
theory Errors
  imports Failure
begin

text \<open>
  Package \<open>pkg/errors\<close>: public specifications and their registry (\<open>spec.go\<close>, \<open>code.go\<close>), the
  walk over an error graph (\<open>walk.go\<close>), aggregates (\<open>aggregate.go\<close>) and the constructors of
  \<open>errors.go\<close>. Errors are pointers into a
  heap, so that the graph may share nodes and may be cyclic; an aggregate is a slice and has no
  address of its own. Stack traces and the formatting for logs are left out, and the registry's lock is
  not modelled: each operation on it is one step.
\<close>

section \<open>Specifications\<close>

record Spec =
  sp_Code :: int
  sp_Kind :: string
  sp_Message :: string
  sp_Reference :: string

definition kind_valid :: "string \<Rightarrow> bool" where
  "kind_valid kind \<longleftrightarrow> kind \<in> {''invalid_argument'', ''unauthenticated'', ''permission_denied'', ''not_found'', ''conflict'',
     ''rate_limited'', ''unavailable'', ''timeout'', ''internal''}"

definition Spec_Validate :: "Spec \<Rightarrow> bool" where
  "Spec_Validate spec \<longleftrightarrow> 0 < sp_Code spec \<and> kind_valid (sp_Kind spec) \<and> sp_Message spec \<noteq> []"

definition unknownCoder :: Spec where
  "unknownCoder = \<lparr>sp_Code = 1, sp_Kind = ''internal'', sp_Message = ''An internal server error occurred'',
     sp_Reference = ''http://goshop/pkg/errors/README.md''\<rparr>"

type_synonym registry = "int \<rightharpoonup> Spec"

definition initial_codes :: registry where
  "initial_codes = [1 \<mapsto> unknownCoder]"

text \<open>\<open>None\<close> is a panic.\<close>

definition MustRegister :: "Spec \<Rightarrow> registry \<Rightarrow> registry option" where
  "MustRegister spec codes =
     (if \<not> Spec_Validate spec then None
      else case codes (sp_Code spec) of
        Some existing \<Rightarrow> if existing = spec then Some codes else None
      | None \<Rightarrow> Some (codes(sp_Code spec \<mapsto> spec)))"

fun validate_specs :: "int list \<Rightarrow> Spec list \<Rightarrow> bool" where
  "validate_specs seen_codes [] = True"
| "validate_specs seen_codes (spec # specs) =
     (Spec_Validate spec \<and> sp_Code spec \<notin> set seen_codes \<and> validate_specs (sp_Code spec # seen_codes) specs)"

definition Catalog_Validate :: "Spec list \<Rightarrow> bool" where
  "Catalog_Validate catalog = validate_specs [] catalog"

fun register_specs :: "Spec list \<Rightarrow> registry \<Rightarrow> registry option" where
  "register_specs [] codes = Some codes"
| "register_specs (spec # specs) codes =
     (case MustRegister spec codes of None \<Rightarrow> None | Some codes' \<Rightarrow> register_specs specs codes')"

definition RegisterAll :: "Spec list \<Rightarrow> registry \<Rightarrow> registry option" where
  "RegisterAll catalog codes = (if Catalog_Validate catalog then register_specs catalog codes else None)"

definition registeredSpecForCode :: "registry \<Rightarrow> int \<Rightarrow> Spec option" where
  "registeredSpecForCode codes code = codes code"

definition SpecForCode :: "registry \<Rightarrow> int \<Rightarrow> Spec" where
  "SpecForCode codes code = (case codes code of Some spec \<Rightarrow> spec | None \<Rightarrow> unknownCoder)"

definition safeSpec :: "registry \<Rightarrow> Spec \<Rightarrow> Spec" where
  "safeSpec codes spec = (if Spec_Validate spec then spec else SpecForCode codes (sp_Code unknownCoder))"

definition catalogSpec :: "registry \<Rightarrow> Spec \<Rightarrow> Spec" where
  "catalogSpec codes spec =
     (case registeredSpecForCode codes (sp_Code spec) of
        Some registered \<Rightarrow> registered
      | None \<Rightarrow> SpecForCode codes (sp_Code unknownCoder))"

section \<open>Error values\<close>

text \<open>\<open>None\<close> stands for a nil \<open>error\<close>.\<close>

datatype gerr = Ptr nat | Aggregate "gerr option list"

text \<open>
  What a pointer leads to: the types of the package, and an error of another package, which may
  unwrap to one error (\<open>fmt.Errorf\<close> with \<open>%w\<close>) or to several (\<open>errors.Join\<close>).
\<close>

datatype cell =
    WithSpec Spec string "gerr option"
  | WithStack gerr
  | WithMessage gerr string
  | Fundamental string
  | Foreign string "gerr option"
  | Joined "gerr option list"

record heap =
  next_addr :: nat
  cells :: "nat \<Rightarrow> cell"

definition alloc :: "cell \<Rightarrow> heap \<Rightarrow> gerr \<times> heap" where
  "alloc c h = (Ptr (next_addr h), h\<lparr>next_addr := Suc (next_addr h), cells := (cells h)(next_addr h := c)\<rparr>)"

definition NewSpec :: "registry \<Rightarrow> Spec \<Rightarrow> string \<Rightarrow> heap \<Rightarrow> gerr \<times> heap" where
  "NewSpec codes spec internal = alloc (WithSpec (catalogSpec codes spec) internal None)"

definition code_spec :: "registry \<Rightarrow> int \<Rightarrow> Spec" where
  "code_spec codes code =
     (case registeredSpecForCode codes code of Some spec \<Rightarrow> spec | None \<Rightarrow> SpecForCode codes (sp_Code unknownCoder))"

definition code_internal :: "registry \<Rightarrow> int \<Rightarrow> string \<Rightarrow> string" where
  "code_internal codes code internal =
     (case registeredSpecForCode codes code of
        Some _ \<Rightarrow> internal
      | None \<Rightarrow> ''unregistered error code '' @ show_int code @ '': '' @ internal)"

definition errors_NewCode :: "registry \<Rightarrow> int \<Rightarrow> string \<Rightarrow> heap \<Rightarrow> gerr \<times> heap" where
  "errors_NewCode codes code internal = NewSpec codes (code_spec codes code) (code_internal codes code internal)"

definition wrapSpec :: "registry \<Rightarrow> gerr option \<Rightarrow> Spec \<Rightarrow> string \<Rightarrow> heap \<Rightarrow> gerr option \<times> heap" where
  "wrapSpec codes err spec internal h =
     (case err of None \<Rightarrow> (None, h)
      | Some e \<Rightarrow> map_prod Some id (alloc (WithSpec (catalogSpec codes spec) internal (Some e)) h))"

definition errors_WrapCode :: "registry \<Rightarrow> gerr option \<Rightarrow> int \<Rightarrow> string \<Rightarrow> heap \<Rightarrow> gerr option \<times> heap" where
  "errors_WrapCode codes err code internal = wrapSpec codes err (code_spec codes code) (code_internal codes code internal)"

definition invalid_contract :: "int \<Rightarrow> string \<Rightarrow> string" where
  "invalid_contract code internal = ''invalid public error contract for code '' @ show_int code @ '': '' @ internal"

definition NewPublicSpec :: "registry \<Rightarrow> Spec \<Rightarrow> string \<Rightarrow> heap \<Rightarrow> gerr \<times> heap" where
  "NewPublicSpec codes spec internal h =
     (case registeredSpecForCode codes (sp_Code spec) of
        None \<Rightarrow> errors_NewCode codes (sp_Code unknownCoder) (invalid_contract (sp_Code spec) internal) h
      | Some registered \<Rightarrow>
          if sp_Kind spec \<noteq> sp_Kind registered \<or> sp_Message spec = []
          then errors_NewCode codes (sp_Code unknownCoder) (invalid_contract (sp_Code spec) internal) h
          else alloc (WithSpec (safeSpec codes (spec\<lparr>sp_Reference := sp_Reference registered\<rparr>)) internal None) h)"

definition errors_Wrap :: "gerr option \<Rightarrow> string \<Rightarrow> heap \<Rightarrow> gerr option \<times> heap" where
  "errors_Wrap err message h =
     (case err of None \<Rightarrow> (None, h)
      | Some e \<Rightarrow> (case alloc (WithMessage e message) h of (m, h') \<Rightarrow> map_prod Some id (alloc (WithStack m) h')))"

definition errors_WithMessage :: "gerr option \<Rightarrow> string \<Rightarrow> heap \<Rightarrow> gerr option \<times> heap" where
  "errors_WithMessage err message h =
     (case err of None \<Rightarrow> (None, h) | Some e \<Rightarrow> map_prod Some id (alloc (WithMessage e message) h))"

section \<open>Walking an error graph\<close>

definition maxErrorTreeNodes :: nat where "maxErrorTreeNodes = 1000"

record walker =
  seen :: "nat list"
  remaining :: nat

text \<open>\<open>Unwrap() []error\<close>, or the one result of \<open>Unwrap() error\<close>.\<close>

fun unwraps :: "cell \<Rightarrow> gerr option list" where
  "unwraps (WithSpec _ _ cause) = [cause]"
| "unwraps (WithStack e) = [Some e]"
| "unwraps (WithMessage e _) = [Some e]"
| "unwraps (Fundamental _) = []"
| "unwraps (Foreign _ cause) = [cause]"
| "unwraps (Joined es) = es"

text \<open>
  \<open>visit\<close> gives what it wants to remember of the error at which the walk is to stop; the source
  stores it in a variable of the closure.
\<close>

function walkErrorTree :: "heap \<Rightarrow> (cell \<Rightarrow> 'a option) \<Rightarrow> gerr option \<Rightarrow> walker \<Rightarrow> 'a option \<times> walker"
  and walk_nested :: "heap \<Rightarrow> (cell \<Rightarrow> 'a option) \<Rightarrow> gerr option list \<Rightarrow> walker \<Rightarrow> 'a option \<times> walker" where
  "walkErrorTree h visit None w = (None, w)"
| "walkErrorTree h visit (Some (Aggregate es)) w =
     (if remaining w = 0 then (None, w)
      else walk_nested h visit es (w\<lparr>remaining := remaining w - 1\<rparr>))"
| "walkErrorTree h visit (Some (Ptr a)) w =
     (if remaining w = 0 then (None, w)
      else if a \<in> set (seen w) then (None, w\<lparr>remaining := remaining w - 1\<rparr>)
      else case visit (cells h a) of
        Some x \<Rightarrow> (Some x, w\<lparr>remaining := remaining w - 1, seen := a # seen w\<rparr>)
      | None \<Rightarrow> walk_nested h visit (unwraps (cells h a)) (w\<lparr>remaining := remaining w - 1, seen := a # seen w\<rparr>))"
| "walk_nested h visit [] w = (None, w)"
| "walk_nested h visit (e # es) w =
     (case walkErrorTree h visit e w of
        (Some x, w') \<Rightarrow> (Some x, w')
      | (None, w') \<Rightarrow> walk_nested h visit es w')"
  by pat_completeness auto

termination
proof (relation "measures [case_sum (\<lambda>(h, v, e, w). remaining w) (\<lambda>(h, v, es, w). remaining w),
    case_sum (\<lambda>_. 0) (\<lambda>(h, v, es, w). Suc (length es))]", goal_cases)
  case (5 h visit e es w x w')
  have "walkErrorTree_walk_nested_dom (Inl (h, visit, e, w)) \<Longrightarrow> remaining (snd (walkErrorTree h visit e w)) \<le> remaining w"
    "walkErrorTree_walk_nested_dom (Inr (h, visit, es', w)) \<Longrightarrow> remaining (snd (walk_nested h visit es' w)) \<le> remaining w"
    for h visit e es' w
    by (induction rule: walkErrorTree_walk_nested.pinduct)
      (auto simp: walkErrorTree.psimps walk_nested.psimps Let_def split: option.splits prod.splits)
  with 5 have "remaining w' \<le> remaining w" by (metis snd_conv)
  then show ?case by (auto simp: le_less)
qed auto

definition walkErrors :: "heap \<Rightarrow> gerr option \<Rightarrow> (cell \<Rightarrow> 'a option) \<Rightarrow> 'a option" where
  "walkErrors h err visit = fst (walkErrorTree h visit err \<lparr>seen = [], remaining = maxErrorTreeNodes\<rparr>)"

fun cell_spec :: "cell \<Rightarrow> Spec option" where
  "cell_spec (WithSpec spec _ _) = Some spec"
| "cell_spec _ = None"

definition SpecOf :: "heap \<Rightarrow> gerr option \<Rightarrow> Spec option" where
  "SpecOf h err = walkErrors h err cell_spec"

definition IsCode :: "heap \<Rightarrow> gerr option \<Rightarrow> int \<Rightarrow> bool" where
  "IsCode h err code \<longleftrightarrow> walkErrors h err (\<lambda>c. case cell_spec c of
     Some spec \<Rightarrow> if sp_Code spec = code then Some () else None | None \<Rightarrow> None) \<noteq> None"

definition ParseCoder :: "registry \<Rightarrow> heap \<Rightarrow> gerr option \<Rightarrow> Spec option" where
  "ParseCoder codes h err =
     (case err of None \<Rightarrow> None
      | Some _ \<Rightarrow> Some (case SpecOf h err of
          Some spec \<Rightarrow> (case codes (sp_Code spec) of Some coder \<Rightarrow> coder | None \<Rightarrow> unknownCoder)
        | None \<Rightarrow> unknownCoder))"

section \<open>Aggregates\<close>

definition NewAggregate :: "gerr option list \<Rightarrow> gerr option" where
  "NewAggregate errlist = (let errs = filter (\<lambda>e. e \<noteq> None) errlist in if errs = [] then None else Some (Aggregate errs))"

definition matchesError :: "gerr \<Rightarrow> (gerr \<Rightarrow> bool) list \<Rightarrow> bool" where
  "matchesError err fns = list_ex (\<lambda>fn. fn err) fns"

fun FilterOut :: "gerr option \<Rightarrow> (gerr \<Rightarrow> bool) list \<Rightarrow> gerr option"
  and filterErrors :: "gerr option list \<Rightarrow> (gerr \<Rightarrow> bool) list \<Rightarrow> gerr option list" where
  "FilterOut None fns = None"
| "FilterOut (Some (Aggregate es)) fns = NewAggregate (filterErrors es fns)"
| "FilterOut (Some (Ptr a)) fns = (if matchesError (Ptr a) fns then None else Some (Ptr a))"
| "filterErrors [] fns = []"
| "filterErrors (e # es) fns =
     (case FilterOut e fns of None \<Rightarrow> filterErrors es fns | Some r \<Rightarrow> Some r # filterErrors es fns)"

text \<open>\<open>Flatten\<close> of an aggregate's errors; \<open>Errors()\<close> of the aggregate that comes out.\<close>

definition Errors_of :: "gerr option \<Rightarrow> gerr option list" where
  "Errors_of agg = (case agg of Some (Aggregate es) \<Rightarrow> es | _ \<Rightarrow> [])"

fun Flatten :: "gerr option list \<Rightarrow> gerr option"
  and flatten_one :: "gerr option \<Rightarrow> gerr option list" where
  "Flatten es = NewAggregate (concat (map flatten_one es))"
| "flatten_one (Some (Aggregate es)) = Errors_of (Flatten es)"
| "flatten_one (Some (Ptr a)) = [Some (Ptr a)]"
| "flatten_one None = []"

definition Reduce_err :: "gerr option \<Rightarrow> gerr option" where
  "Reduce_err err =
     (case err of Some (Aggregate es) \<Rightarrow> (case es of [] \<Rightarrow> None | [e] \<Rightarrow> e | _ \<Rightarrow> err) | _ \<Rightarrow> err)"

section \<open>The walk is bounded\<close>

lemma walk_bounds:
  "distinct (seen w) \<Longrightarrow> distinct (seen (snd (walkErrorTree h visit e w))) \<and>
     length (seen (snd (walkErrorTree h visit e w))) + remaining (snd (walkErrorTree h visit e w)) \<le> length (seen w) + remaining w"
  "distinct (seen w) \<Longrightarrow> distinct (seen (snd (walk_nested h visit es w))) \<and>
     length (seen (snd (walk_nested h visit es w))) + remaining (snd (walk_nested h visit es w)) \<le> length (seen w) + remaining w"
proof (induction h visit e w and h visit es w rule: walkErrorTree_walk_nested.induct)
  case (5 h visit e es w)
  obtain r w' where r: "walkErrorTree h visit e w = (r, w')" by fastforce
  with 5 show ?case by (cases r) fastforce+
qed (auto split: option.splits)


section \<open>Codes of the services' errors\<close>

text \<open>The registry after start-up: specifications under their own codes, the unknown one included.\<close>

definition registry_ok :: "registry \<Rightarrow> bool" where
  "registry_ok codes \<longleftrightarrow> codes 1 = Some unknownCoder \<and> (\<forall>c spec. codes c = Some spec \<longrightarrow> sp_Code spec = c)"

lemma registry_ok_initial: "registry_ok initial_codes"
  by (simp add: registry_ok_def initial_codes_def unknownCoder_def)

lemma registry_ok_register:
  assumes ok: "registry_ok codes" and reg: "MustRegister spec codes = Some codes'"
  shows "registry_ok codes'"
proof (cases "codes (sp_Code spec)")
  case None
  with reg have c: "codes' = codes(sp_Code spec \<mapsto> spec)" by (simp add: MustRegister_def split: if_splits)
  have "sp_Code spec \<noteq> 1" using None ok by (auto simp: registry_ok_def)
  then show ?thesis using ok unfolding registry_ok_def c by simp
next
  case (Some existing)
  with reg have "codes' = codes" by (simp add: MustRegister_def split: if_splits)
  with ok show ?thesis by simp
qed

lemma registry_ok_all: "registry_ok codes \<Longrightarrow> register_specs specs codes = Some codes' \<Longrightarrow> registry_ok codes'"
  by (induction specs arbitrary: codes) (auto split: option.splits intro: registry_ok_register)

lemma code_spec_code:
  assumes "registry_ok codes"
  shows "sp_Code (catalogSpec codes (code_spec codes c)) = (if c \<in> dom codes then c else 1)"
proof (cases "codes c")
  case None
  have "codes 1 = Some unknownCoder" "sp_Code unknownCoder = 1" using assms by (simp_all add: registry_ok_def unknownCoder_def)
  with None show ?thesis by (simp add: catalogSpec_def code_spec_def registeredSpecForCode_def SpecForCode_def domIff)
next
  case (Some spec)
  then have "sp_Code spec = c" using assms by (simp add: registry_ok_def)
  with Some show ?thesis by (simp add: catalogSpec_def code_spec_def registeredSpecForCode_def domIff)
qed

text \<open>A valid catalog registers, and every code of it is known afterwards.\<close>

lemma register_new:
  assumes "validate_specs sc specs" "\<forall>spec \<in> set specs. sp_Code spec \<notin> dom codes"
  shows "\<exists>codes'. register_specs specs codes = Some codes' \<and> dom codes' = dom codes \<union> sp_Code ` set specs"
  using assms
proof (induction specs arbitrary: sc codes)
  case (Cons spec specs)
  have fresh: "\<forall>spec' \<in> set specs. sp_Code spec' \<noteq> sp_Code spec"
  proof -
    have "validate_specs sc' ss \<Longrightarrow> \<forall>c \<in> set sc'. \<forall>spec' \<in> set ss. sp_Code spec' \<noteq> c" for sc' ss
      by (induction ss arbitrary: sc') (simp, fastforce)
    with Cons.prems(1) show ?thesis by fastforce
  qed
  have "MustRegister spec codes = Some (codes(sp_Code spec \<mapsto> spec))"
    using Cons.prems by (auto simp: MustRegister_def dom_def)
  moreover obtain codes' where "register_specs specs (codes(sp_Code spec \<mapsto> spec)) = Some codes'"
      "dom codes' = dom (codes(sp_Code spec \<mapsto> spec)) \<union> sp_Code ` set specs"
    using Cons.IH [of "sp_Code spec # sc" "codes(sp_Code spec \<mapsto> spec)"] Cons.prems fresh by (auto simp del: fun_upd_apply)
  ultimately show ?case by (auto simp del: fun_upd_apply)
qed simp

text \<open>How the chains of theory \<open>Failure\<close> are built in memory.\<close>

fun reify :: "registry \<Rightarrow> err \<Rightarrow> heap \<Rightarrow> gerr \<times> heap" where
  "reify codes (NewCode c) h = errors_NewCode codes c [] h"
| "reify codes (WrapCode c e) h =
     (case reify codes e h of (p, h1) \<Rightarrow> map_prod the id (errors_WrapCode codes (Some p) c [] h1))"
| "reify codes (Wrapf e) h = (case reify codes e h of (p, h1) \<Rightarrow> alloc (Foreign [] (Some p)) h1)"
| "reify codes (Driver d) h = alloc (Foreign ''driver'' None) h"
| "reify codes (GrpcStatus s) h = alloc (Foreign s None) h"
| "reify codes (Plain s) h = alloc (Foreign s None) h"

fun chain_length :: "err \<Rightarrow> nat" where
  "chain_length (WrapCode c e) = Suc (chain_length e)"
| "chain_length (Wrapf e) = Suc (chain_length e)"
| "chain_length _ = 1"

fun codes_of :: "err \<Rightarrow> int list" where
  "codes_of (NewCode c) = [c]"
| "codes_of (WrapCode c e) = c # codes_of e"
| "codes_of (Wrapf e) = codes_of e"
| "codes_of _ = []"

lemma reify_shape:
  "reify codes e h = (p, h') \<Longrightarrow>
   0 < chain_length e \<and> next_addr h' = next_addr h + chain_length e \<and> p = Ptr (next_addr h' - 1) \<and> (\<forall>a < next_addr h. cells h' a = cells h a)"
proof (induction e arbitrary: p h')
  case (WrapCode c e)
  obtain q h1 where q: "reify codes e h = (q, h1)" by fastforce
  from WrapCode.IH [OF q] WrapCode.prems q show ?case by (auto simp: errors_WrapCode_def wrapSpec_def alloc_def)
next
  case (Wrapf e)
  obtain q h1 where q: "reify codes e h = (q, h1)" by fastforce
  from Wrapf.IH [OF q] Wrapf.prems q show ?case by (auto simp: alloc_def)
qed (auto simp: errors_NewCode_def NewSpec_def alloc_def)

text \<open>A step of the walk along a chain.\<close>

lemma walk_step:
  assumes "cells g a = c" "a \<notin> set (seen w)" "0 < remaining w" "unwraps c = [cause]"
  shows "fst (walkErrorTree g visit (Some (Ptr a)) w) = (case visit c of Some x \<Rightarrow> Some x
    | None \<Rightarrow> fst (walkErrorTree g visit cause (w\<lparr>remaining := remaining w - 1, seen := a # seen w\<rparr>)))"
  using assms by (auto split: option.splits prod.splits)

lemma walk_end:
  assumes "cells g a = c" "a \<notin> set (seen w)" "0 < remaining w" "unwraps c = [None]"
  shows "fst (walkErrorTree g visit (Some (Ptr a)) w) = visit c"
  unfolding walk_step [OF assms] by (simp split: option.split)

lemma walk_chain:
  assumes "reify codes e h = (p, h')" "\<forall>a. next_addr h \<le> a \<and> a < next_addr h' \<longrightarrow> cells g a = cells h' a"
    and "\<forall>a \<in> set (seen w). a < next_addr h \<or> next_addr h' \<le> a" "chain_length e \<le> remaining w"
    and "registry_ok codes" "set (codes_of e) \<subseteq> dom codes"
  shows "fst (walkErrorTree g (\<lambda>c. case cell_spec c of
     Some spec \<Rightarrow> if sp_Code spec = code then Some () else None | None \<Rightarrow> None) (Some p) w) \<noteq> None \<longleftrightarrow> is_code e code"
  using assms
proof (induction e arbitrary: p h' w)
  case (WrapCode c e)
  obtain q h1 where q: "reify codes e h = (q, h1)" by fastforce
  note s = reify_shape [OF q]
  let ?c = "WithSpec (catalogSpec codes (code_spec codes c)) (code_internal codes c []) (Some q)"
  have p: "p = Ptr (next_addr h1)" "h' = h1\<lparr>next_addr := Suc (next_addr h1), cells := (cells h1)(next_addr h1 := ?c)\<rparr>"
    using WrapCode.prems(1) q by (auto simp: errors_WrapCode_def wrapSpec_def alloc_def)
  have "cells g (next_addr h1) = ?c" using WrapCode.prems(2) p s by auto
  moreover have "next_addr h1 \<notin> set (seen w)" using WrapCode.prems(3) p s by auto
  moreover have "fst (walkErrorTree g (\<lambda>c. case cell_spec c of
     Some spec \<Rightarrow> if sp_Code spec = code then Some () else None | None \<Rightarrow> None) (Some q)
       (w\<lparr>remaining := remaining w - 1, seen := next_addr h1 # seen w\<rparr>)) \<noteq> None \<longleftrightarrow> is_code e code"
    using WrapCode.prems p s by (intro WrapCode.IH [OF q]) auto
  ultimately show ?case
    using WrapCode.prems(4,6) code_spec_code [OF WrapCode.prems(5), of c] unfolding p(1)
    by (subst walk_step) (auto simp del: One_nat_def split: if_splits)
next
  case (Wrapf e)
  obtain q h1 where q: "reify codes e h = (q, h1)" by fastforce
  note s = reify_shape [OF q]
  let ?c = "Foreign [] (Some q)"
  have p: "p = Ptr (next_addr h1)" "h' = h1\<lparr>next_addr := Suc (next_addr h1), cells := (cells h1)(next_addr h1 := ?c)\<rparr>"
    using Wrapf.prems(1) q by (auto simp: alloc_def)
  have "cells g (next_addr h1) = ?c" using Wrapf.prems(2) p s by auto
  moreover have "next_addr h1 \<notin> set (seen w)" using Wrapf.prems(3) p s by auto
  moreover have "fst (walkErrorTree g (\<lambda>c. case cell_spec c of
     Some spec \<Rightarrow> if sp_Code spec = code then Some () else None | None \<Rightarrow> None) (Some q)
       (w\<lparr>remaining := remaining w - 1, seen := next_addr h1 # seen w\<rparr>)) \<noteq> None \<longleftrightarrow> is_code e code"
    using Wrapf.prems p s by (intro Wrapf.IH [OF q]) auto
  ultimately show ?case
    using Wrapf.prems(4) unfolding p(1) by (subst walk_step) auto
next
  case (NewCode c)
  let ?c = "WithSpec (catalogSpec codes (code_spec codes c)) (code_internal codes c []) None"
  have p: "p = Ptr (next_addr h)" and "cells g (next_addr h) = ?c" "next_addr h \<notin> set (seen w)"
    using NewCode.prems by (auto simp: errors_NewCode_def NewSpec_def alloc_def)
  then show ?case
    using NewCode.prems(4,6) code_spec_code [OF NewCode.prems(5), of c] unfolding p by (subst walk_end [where c = ?c]) auto
qed (auto simp: alloc_def walk_end [where c = "Foreign s None" for s] simp del: walkErrorTree.simps)

text \<open>C25. On the chains the services build, \<open>IsCode\<close> of the package says what \<open>is_code\<close> of this
  development says, as long as the codes are registered and the chain has at most a thousand errors.\<close>

theorem is_code_agrees:
  assumes "registry_ok codes" "set (codes_of e) \<subseteq> dom codes" "chain_length e \<le> 1000" "reify codes e h = (p, h')"
  shows "IsCode h' (Some p) code \<longleftrightarrow> is_code e code"
  unfolding IsCode_def walkErrors_def
  by (rule walk_chain [OF assms(4)]) (use assms in \<open>simp_all add: maxErrorTreeNodes_def\<close>)

definition demo_codes :: registry where
  "demo_codes = initial_codes(ErrDatabase \<mapsto> \<lparr>sp_Code = ErrDatabase, sp_Kind = ''unavailable'', sp_Message = ''Database error'',
     sp_Reference = []\<rparr>)"

theorem is_code_agrees_witness:
  "IsCode (snd (reify demo_codes (Wrapf (WrapDatabase (Driver Fault))) \<lparr>next_addr = 0, cells = \<lambda>_. Fundamental []\<rparr>))
     (Some (fst (reify demo_codes (Wrapf (WrapDatabase (Driver Fault))) \<lparr>next_addr = 0, cells = \<lambda>_. Fundamental []\<rparr>))) ErrDatabase"
proof -
  have r: "registry_ok demo_codes"
    by (simp add: registry_ok_def demo_codes_def initial_codes_def unknownCoder_def)
  show ?thesis
    by (subst is_code_agrees [OF r, of "Wrapf (WrapDatabase (Driver Fault))"])
      (simp_all add: WrapDatabase_def demo_codes_def)
qed

section \<open>Aggregates keep their errors\<close>

text \<open>The errors of an aggregate, nested ones included, in order.\<close>

fun leaves :: "gerr option \<Rightarrow> nat list" where
  "leaves None = []"
| "leaves (Some (Ptr a)) = [a]"
| "leaves (Some (Aggregate es)) = concat (map leaves es)"

lemma leaves_filter: "concat (map leaves (filter (\<lambda>e. e \<noteq> None) es)) = concat (map leaves es)"
  by (induction es) auto

lemma leaves_NewAggregate: "leaves (NewAggregate es) = concat (map leaves es)"
  using leaves_filter [of es] by (auto simp: NewAggregate_def Let_def)

lemma flatten_leaves:
  "Errors_of (Flatten es) = map (\<lambda>a. Some (Ptr a)) (concat (map leaves es))"
  "flatten_one e = map (\<lambda>a. Some (Ptr a)) (leaves e)"
proof (induction es and e rule: Flatten_flatten_one.induct)
  case (1 es)
  then have "concat (map flatten_one es) = map (\<lambda>a. Some (Ptr a)) (concat (map leaves es))"
    by (induction es) auto
  then show ?case by (auto simp: NewAggregate_def Errors_of_def Let_def filter_map comp_def)
qed auto

text \<open>\<open>Flatten\<close> gives the errors of the aggregate in order with no nesting left, and nothing exactly
  when there was no error; \<open>FilterOut\<close> removes just the errors a matcher accepts.\<close>

theorem aggregates_keep_errors:
  "Errors_of (Flatten es) = map (\<lambda>a. Some (Ptr a)) (concat (map leaves es)) \<and>
   (Flatten es = None \<longleftrightarrow> concat (map leaves es) = []) \<and>
   leaves (FilterOut e fns) = filter (\<lambda>a. \<not> matchesError (Ptr a) fns) (leaves e)"
proof -
  have "leaves (FilterOut e fns) = filter (\<lambda>a. \<not> matchesError (Ptr a) fns) (leaves e)"
    "concat (map leaves (filterErrors es' fns)) = filter (\<lambda>a. \<not> matchesError (Ptr a) fns) (concat (map leaves es'))" for es'
    by (induction e fns and es' fns rule: FilterOut_filterErrors.induct) (auto simp: leaves_NewAggregate split: option.splits)
  moreover have "Flatten es = None \<longleftrightarrow> Errors_of (Flatten es) = []"
    by (auto simp: NewAggregate_def Errors_of_def Let_def)
  ultimately show ?thesis using flatten_leaves(1) [of es] by auto
qed

end
