(* ===== verification/Authz.thy ===== *)
theory Authz
  imports Complex_Main Failure "HOL-Library.List_Lexorder" "HOL-Library.Char_ord"
begin

text \<open>
  Package \<open>app/pkg/authz\<close>: the vocabulary of permissions and roles (\<open>authz.go\<close>, \<open>roles.go\<close>), resource
  scopes (\<open>resource_scope.go\<close>) and the checks the HTTP middleware makes on the claims of a token
  (\<open>middleware.go\<close>). The string types of the source are strings here. A map of the source that is
  only used as a set is a list without repetitions; \<open>sort.Slice\<close> with \<open><\<close> orders byte strings
  lexicographically. The conversion of a \<open>float64\<close> to \<open>uint64\<close> outside the range of the latter
  depends on the processor and is a parameter.
\<close>

section \<open>Permissions\<close>

abbreviation (input) PermissionUserProfileReadSelf :: string where "PermissionUserProfileReadSelf \<equiv> ''user:profile:read:self''"
abbreviation (input) PermissionUserProfileUpdateSelf :: string where "PermissionUserProfileUpdateSelf \<equiv> ''user:profile:update:self''"
abbreviation (input) PermissionUserAccountDeleteSelf :: string where "PermissionUserAccountDeleteSelf \<equiv> ''user:account:delete:self''"
abbreviation (input) PermissionUserDeviceBlacklistReadSelf :: string where "PermissionUserDeviceBlacklistReadSelf \<equiv> ''user:device_blacklist:read:self''"
abbreviation (input) PermissionUserDeviceBlacklistWriteSelf :: string where "PermissionUserDeviceBlacklistWriteSelf \<equiv> ''user:device_blacklist:write:self''"
abbreviation (input) PermissionCartReadSelf :: string where "PermissionCartReadSelf \<equiv> ''cart:read:self''"
abbreviation (input) PermissionCartWriteSelf :: string where "PermissionCartWriteSelf \<equiv> ''cart:write:self''"
abbreviation (input) PermissionOrderCreateSelf :: string where "PermissionOrderCreateSelf \<equiv> ''order:create:self''"
abbreviation (input) PermissionOrderReadSelf :: string where "PermissionOrderReadSelf \<equiv> ''order:read:self''"
abbreviation (input) PermissionOrderPaySelf :: string where "PermissionOrderPaySelf \<equiv> ''order:pay:self''"
abbreviation (input) PermissionOrderStatusLogReadSelf :: string where "PermissionOrderStatusLogReadSelf \<equiv> ''order:status_log:read:self''"
abbreviation (input) PermissionInventoryReadPublic :: string where "PermissionInventoryReadPublic \<equiv> ''inventory:read:public''"
abbreviation (input) PermissionReviewCreateSelf :: string where "PermissionReviewCreateSelf \<equiv> ''review:create:self''"
abbreviation (input) PermissionReviewAppendSelf :: string where "PermissionReviewAppendSelf \<equiv> ''review:append:self''"
abbreviation (input) PermissionReviewReadPublic :: string where "PermissionReviewReadPublic \<equiv> ''review:read:public''"
abbreviation (input) PermissionUserCreateAny :: string where "PermissionUserCreateAny \<equiv> ''user:create:any''"
abbreviation (input) PermissionUserListAny :: string where "PermissionUserListAny \<equiv> ''user:list:any''"
abbreviation (input) PermissionUserReadAny :: string where "PermissionUserReadAny \<equiv> ''user:read:any''"
abbreviation (input) PermissionUserDisableAny :: string where "PermissionUserDisableAny \<equiv> ''user:disable:any''"
abbreviation (input) PermissionGoodsReadAny :: string where "PermissionGoodsReadAny \<equiv> ''goods:read:any''"
abbreviation (input) PermissionGoodsWriteAny :: string where "PermissionGoodsWriteAny \<equiv> ''goods:write:any''"
abbreviation (input) PermissionInventoryReadAny :: string where "PermissionInventoryReadAny \<equiv> ''inventory:read:any''"
abbreviation (input) PermissionInventoryWriteAny :: string where "PermissionInventoryWriteAny \<equiv> ''inventory:write:any''"
abbreviation (input) PermissionInventoryAuditReadAny :: string where "PermissionInventoryAuditReadAny \<equiv> ''inventory:audit:read:any''"
abbreviation (input) PermissionOrderReadAny :: string where "PermissionOrderReadAny \<equiv> ''order:read:any''"
abbreviation (input) PermissionOrderCloseAny :: string where "PermissionOrderCloseAny \<equiv> ''order:close:any''"
abbreviation (input) PermissionOrderRefundAny :: string where "PermissionOrderRefundAny \<equiv> ''order:refund:any''"
abbreviation (input) PermissionStaffSessionReadAny :: string where "PermissionStaffSessionReadAny \<equiv> ''staff_session:read:any''"
abbreviation (input) PermissionStaffSessionRevokeAny :: string where "PermissionStaffSessionRevokeAny \<equiv> ''staff_session:revoke:any''"
abbreviation (input) PermissionBreakGlassApproveAny :: string where "PermissionBreakGlassApproveAny \<equiv> ''break_glass:approve:any''"
abbreviation (input) PermissionPaymentReconcileReadAny :: string where "PermissionPaymentReconcileReadAny \<equiv> ''payment:reconciliation:read:any''"
abbreviation (input) PermissionRefundDeadJobRetryAny :: string where "PermissionRefundDeadJobRetryAny \<equiv> ''refund:dead_job:retry:any''"
abbreviation (input) PermissionPaymentCallbackSimulate :: string where "PermissionPaymentCallbackSimulate \<equiv> ''payment:callback:simulate''"
abbreviation (input) PermissionAuditReadAny :: string where "PermissionAuditReadAny \<equiv> ''audit:read:any''"
abbreviation (input) PermissionRoleReadAny :: string where "PermissionRoleReadAny \<equiv> ''role:read:any''"
abbreviation (input) PermissionRoleAssignAny :: string where "PermissionRoleAssignAny \<equiv> ''role:assign:any''"
abbreviation (input) PermissionRoleWriteAny :: string where "PermissionRoleWriteAny \<equiv> ''role:write:any''"
abbreviation (input) PermissionReviewModerateAny :: string where "PermissionReviewModerateAny \<equiv> ''review:moderate:any''"
abbreviation (input) PermissionReviewReplyAny :: string where "PermissionReviewReplyAny \<equiv> ''review:reply:any''"
abbreviation (input) PermissionReviewAggregateRebuild :: string where "PermissionReviewAggregateRebuild \<equiv> ''review:aggregate:rebuild:any''"

definition customerPermissions :: "string list" where
  "customerPermissions =
    [PermissionUserProfileReadSelf, PermissionUserProfileUpdateSelf, PermissionUserAccountDeleteSelf,
     PermissionUserDeviceBlacklistReadSelf, PermissionUserDeviceBlacklistWriteSelf, PermissionCartReadSelf,
     PermissionCartWriteSelf, PermissionOrderCreateSelf, PermissionOrderReadSelf, PermissionOrderPaySelf,
     PermissionOrderStatusLogReadSelf, PermissionReviewCreateSelf, PermissionReviewAppendSelf,
     PermissionReviewReadPublic]"

definition allPermissions :: "string list" where
  "allPermissions =
    [PermissionUserProfileReadSelf, PermissionUserProfileUpdateSelf, PermissionUserAccountDeleteSelf,
     PermissionUserDeviceBlacklistReadSelf, PermissionUserDeviceBlacklistWriteSelf, PermissionCartReadSelf,
     PermissionCartWriteSelf, PermissionOrderCreateSelf, PermissionOrderReadSelf, PermissionOrderPaySelf,
     PermissionOrderStatusLogReadSelf, PermissionInventoryReadPublic, PermissionReviewCreateSelf,
     PermissionReviewAppendSelf, PermissionReviewReadPublic, PermissionUserCreateAny, PermissionUserListAny,
     PermissionUserReadAny, PermissionUserDisableAny, PermissionGoodsReadAny, PermissionGoodsWriteAny,
     PermissionInventoryReadAny, PermissionInventoryWriteAny, PermissionInventoryAuditReadAny,
     PermissionOrderReadAny, PermissionOrderCloseAny, PermissionOrderRefundAny, PermissionStaffSessionReadAny,
     PermissionStaffSessionRevokeAny, PermissionBreakGlassApproveAny, PermissionPaymentReconcileReadAny,
     PermissionRefundDeadJobRetryAny, PermissionPaymentCallbackSimulate, PermissionAuditReadAny,
     PermissionRoleReadAny, PermissionRoleAssignAny, PermissionRoleWriteAny, PermissionReviewModerateAny,
     PermissionReviewReplyAny, PermissionReviewAggregateRebuild]"

definition IsValidPermission :: "string \<Rightarrow> bool" where
  "IsValidPermission value = list_ex (\<lambda>permission. permission = trim_space value) allPermissions"

definition NormalizeAccountStatus :: "string \<Rightarrow> string" where
  "NormalizeAccountStatus status0 =
     (let status = to_lower (trim_space status0) in if status = [] then ''active'' else status)"

section \<open>Roles\<close>

abbreviation (input) StaffRoleSupport :: string where "StaffRoleSupport \<equiv> ''support''"
abbreviation (input) StaffRoleOps :: string where "StaffRoleOps \<equiv> ''ops''"
abbreviation (input) StaffRoleFinance :: string where "StaffRoleFinance \<equiv> ''finance''"
abbreviation (input) StaffRoleCatalog :: string where "StaffRoleCatalog \<equiv> ''catalog''"
abbreviation (input) StaffRoleReview :: string where "StaffRoleReview \<equiv> ''review''"
abbreviation (input) StaffRoleAdmin :: string where "StaffRoleAdmin \<equiv> ''admin''"
abbreviation (input) StaffRoleSuperAdmin :: string where "StaffRoleSuperAdmin \<equiv> ''super_admin''"

abbreviation (input) BusinessDomainSupport :: string where "BusinessDomainSupport \<equiv> ''support''"
abbreviation (input) BusinessDomainOps :: string where "BusinessDomainOps \<equiv> ''operations''"
abbreviation (input) BusinessDomainFinance :: string where "BusinessDomainFinance \<equiv> ''finance''"
abbreviation (input) BusinessDomainCatalog :: string where "BusinessDomainCatalog \<equiv> ''catalog''"
abbreviation (input) BusinessDomainReview :: string where "BusinessDomainReview \<equiv> ''review''"
abbreviation (input) BusinessDomainPlatform :: string where "BusinessDomainPlatform \<equiv> ''platform''"

definition AllBusinessDomains :: "string list" where
  "AllBusinessDomains = [BusinessDomainSupport, BusinessDomainOps, BusinessDomainFinance, BusinessDomainCatalog, BusinessDomainReview,
     BusinessDomainPlatform]"

definition IsValidBusinessDomain :: "string \<Rightarrow> bool" where
  "IsValidBusinessDomain value = list_ex (\<lambda>domain. domain = value) AllBusinessDomains"

definition IsValidLegacyUserRole :: "int \<Rightarrow> bool" where
  "IsValidLegacyUserRole role \<longleftrightarrow> role = 1 \<or> role = 2"

record RoleDefinition =
  rd_Name :: string
  rd_Description :: string
  rd_Permissions :: "string list"
  rd_Domains :: "string list"

definition builtinRoleDefinitions :: "(string \<times> RoleDefinition) list" where
  "builtinRoleDefinitions = [
    (StaffRoleSupport, \<lparr>rd_Name = StaffRoleSupport, rd_Description = ''customer support operations'',
      rd_Permissions = [PermissionRoleReadAny, PermissionUserListAny, PermissionUserReadAny, PermissionOrderReadAny,
        PermissionAuditReadAny],
      rd_Domains = [BusinessDomainSupport]\<rparr>),
    (StaffRoleOps, \<lparr>rd_Name = StaffRoleOps, rd_Description = ''operations management'',
      rd_Permissions = [PermissionInventoryReadAny, PermissionInventoryWriteAny, PermissionInventoryAuditReadAny,
        PermissionOrderReadAny, PermissionOrderCloseAny, PermissionAuditReadAny],
      rd_Domains = [BusinessDomainOps]\<rparr>),
    (StaffRoleFinance, \<lparr>rd_Name = StaffRoleFinance, rd_Description = ''payment and refund operations'',
      rd_Permissions = [PermissionOrderReadAny, PermissionOrderRefundAny, PermissionPaymentReconcileReadAny,
        PermissionRefundDeadJobRetryAny, PermissionAuditReadAny],
      rd_Domains = [BusinessDomainFinance]\<rparr>),
    (StaffRoleCatalog, \<lparr>rd_Name = StaffRoleCatalog, rd_Description = ''catalog and inventory maintenance'',
      rd_Permissions = [PermissionGoodsReadAny, PermissionGoodsWriteAny],
      rd_Domains = [BusinessDomainCatalog]\<rparr>),
    (StaffRoleReview, \<lparr>rd_Name = StaffRoleReview, rd_Description = ''review moderation and merchant replies'',
      rd_Permissions = [PermissionReviewModerateAny, PermissionReviewReplyAny],
      rd_Domains = [BusinessDomainReview]\<rparr>),
    (StaffRoleAdmin, \<lparr>rd_Name = StaffRoleAdmin, rd_Description = ''broad backoffice administration'',
      rd_Permissions = [PermissionRoleReadAny, PermissionUserCreateAny, PermissionUserListAny, PermissionUserReadAny,
        PermissionUserDisableAny, PermissionGoodsReadAny, PermissionGoodsWriteAny,
        PermissionInventoryReadAny, PermissionInventoryWriteAny, PermissionInventoryAuditReadAny,
        PermissionOrderReadAny, PermissionOrderCloseAny, PermissionOrderRefundAny,
        PermissionStaffSessionReadAny, PermissionStaffSessionRevokeAny, PermissionBreakGlassApproveAny,
        PermissionPaymentReconcileReadAny, PermissionRefundDeadJobRetryAny, PermissionAuditReadAny,
        PermissionReviewModerateAny, PermissionReviewReplyAny, PermissionReviewAggregateRebuild],
      rd_Domains = [BusinessDomainPlatform]\<rparr>),
    (StaffRoleSuperAdmin, \<lparr>rd_Name = StaffRoleSuperAdmin, rd_Description = ''full backoffice administration'',
      rd_Permissions = [PermissionRoleReadAny, PermissionRoleAssignAny, PermissionRoleWriteAny, PermissionUserCreateAny,
        PermissionUserListAny, PermissionUserReadAny, PermissionUserDisableAny, PermissionGoodsReadAny,
        PermissionGoodsWriteAny, PermissionInventoryReadAny, PermissionInventoryWriteAny,
        PermissionInventoryAuditReadAny, PermissionOrderReadAny, PermissionOrderCloseAny,
        PermissionOrderRefundAny, PermissionStaffSessionReadAny, PermissionStaffSessionRevokeAny,
        PermissionBreakGlassApproveAny, PermissionPaymentReconcileReadAny, PermissionRefundDeadJobRetryAny,
        PermissionPaymentCallbackSimulate, PermissionAuditReadAny, PermissionReviewModerateAny,
        PermissionReviewReplyAny, PermissionReviewAggregateRebuild],
      rd_Domains = [BusinessDomainPlatform]\<rparr>)]"

definition IsValidStaffRole :: "string \<Rightarrow> bool" where
  "IsValidStaffRole role = (map_of builtinRoleDefinitions role \<noteq> None)"

text \<open>The two functions that collect what a list of roles brings, each once and in order.\<close>

definition collect_roles :: "(RoleDefinition \<Rightarrow> string list) \<Rightarrow> string list \<Rightarrow> string list" where
  "collect_roles f roleNames =
     sort (remdups (concat (map (\<lambda>roleName. case map_of builtinRoleDefinitions roleName of
       None \<Rightarrow> [] | Some definition' \<Rightarrow> f definition') roleNames)))"

definition PermissionsForRoles :: "string list \<Rightarrow> string list" where
  "PermissionsForRoles roleNames = collect_roles rd_Permissions roleNames"

definition DomainsForRoles :: "string list \<Rightarrow> string list" where
  "DomainsForRoles roleNames = collect_roles rd_Domains roleNames"

definition HasRole :: "string list \<Rightarrow> string \<Rightarrow> bool" where
  "HasRole roleNames required = list_ex (\<lambda>roleName. roleName = required) roleNames"

definition CanManageRoleSet :: "string list \<Rightarrow> string list \<Rightarrow> bool" where
  "CanManageRoleSet actorRoles targetRoles =
     (if HasRole actorRoles StaffRoleSuperAdmin then True
      else if HasRole targetRoles StaffRoleSuperAdmin then False
      else
        let actorDomains = DomainsForRoles actorRoles in
        if actorDomains = [] then False
        else if BusinessDomainPlatform \<in> set actorDomains then True
        else
          let targetDomains = DomainsForRoles targetRoles in
          if BusinessDomainPlatform \<in> set targetDomains then False
          else list_all (\<lambda>domain. domain \<in> set actorDomains) targetDomains)"

definition reservedNonStaffRoleNames :: "string list" where
  "reservedNonStaffRoleNames = [''admin_bootstrap'', ''basic'', ''business_admin'', ''normal_permission'', ''primary_admin'']"

definition IsReservedNonStaffRoleName :: "string \<Rightarrow> bool" where
  "IsReservedNonStaffRoleName roleName = list_ex (\<lambda>reserved. reserved = roleName) reservedNonStaffRoleNames"

section \<open>Resource scopes\<close>

definition ResourceScopeDimensionForDomain :: "string \<Rightarrow> string" where
  "ResourceScopeDimensionForDomain domain = (if domain = BusinessDomainPlatform then ''none'' else ''store'')"

definition ResourceScopeMatchesDomain :: "string \<Rightarrow> string \<Rightarrow> string \<Rightarrow> bool" where
  "ResourceScopeMatchesDomain domain storeID0 teamID0 =
     (let storeID = trim_space storeID0; teamID = trim_space teamID0; dimension = ResourceScopeDimensionForDomain domain in
      if dimension = ''none'' then storeID = [] \<and> teamID = []
      else if dimension = ''store'' then
        (if domain = BusinessDomainOps then (storeID \<noteq> [] \<and> teamID = []) \<or> (storeID = [] \<and> teamID \<noteq> [])
         else storeID \<noteq> [] \<and> teamID = [])
      else if dimension = ''team'' then storeID = [] \<and> teamID \<noteq> []
      else False)"

definition scopeBindingSeparator :: char where "scopeBindingSeparator = CHR 0x1F"

record ResourceScope =
  rs_Domain :: string
  rs_StoreID :: string
  rs_TeamID :: string
  rs_ResourceType :: string
  rs_ResourceID :: string

definition NormalizeResourceScope :: "ResourceScope \<Rightarrow> ResourceScope" where
  "NormalizeResourceScope scope =
     \<lparr>rs_Domain = to_lower (trim_space (rs_Domain scope)), rs_StoreID = trim_space (rs_StoreID scope),
      rs_TeamID = trim_space (rs_TeamID scope), rs_ResourceType = to_lower (trim_space (rs_ResourceType scope)),
      rs_ResourceID = trim_space (rs_ResourceID scope)\<rparr>"

definition ResourceScopeKey :: "ResourceScope \<Rightarrow> string" where
  "ResourceScopeKey scope0 =
     (let scope = NormalizeResourceScope scope0 in
      join_with scopeBindingSeparator
        [rs_Domain scope, rs_StoreID scope, rs_TeamID scope, rs_ResourceType scope, rs_ResourceID scope])"

definition EncodeResourceScope :: "ResourceScope \<Rightarrow> string" where
  "EncodeResourceScope scope = ResourceScopeKey scope"

definition DecodeResourceScope :: "string \<Rightarrow> ResourceScope" where
  "DecodeResourceScope value =
     (let parts0 = split_on scopeBindingSeparator value;
          parts = parts0 @ replicate (5 - length parts0) []
      in NormalizeResourceScope \<lparr>rs_Domain = parts ! 0, rs_StoreID = parts ! 1, rs_TeamID = parts ! 2,
           rs_ResourceType = parts ! 3, rs_ResourceID = parts ! 4\<rparr>)"

definition ResourceScopeAllows :: "ResourceScope list \<Rightarrow> ResourceScope \<Rightarrow> bool" where
  "ResourceScopeAllows granted requested0 =
     (let requested = NormalizeResourceScope requested0 in
      list_ex (\<lambda>item0. let item = NormalizeResourceScope item0 in
        rs_Domain item = rs_Domain requested \<and> rs_StoreID item = rs_StoreID requested \<and> rs_TeamID item = rs_TeamID requested \<and>
        ((rs_ResourceType item = [] \<and> rs_ResourceID item = []) \<or>
         (rs_ResourceType item = rs_ResourceType requested \<and> rs_ResourceID item = rs_ResourceID requested))) granted)"

section \<open>Claims of a token\<close>

text \<open>A value of a decoded token, of the types the checks tell apart.\<close>

datatype any =
    Str string
  | Float64 rat
  | Integer int
  | Strings "string list"
  | Anys "any list"
  | Other

type_synonym payload = "(string \<times> any) list"

definition ParseResourceScopes :: "any \<Rightarrow> ResourceScope list" where
  "ParseResourceScopes raw =
     (case raw of
        Strings typed \<Rightarrow> map DecodeResourceScope typed
      | Anys typed \<Rightarrow> concat (map (\<lambda>value. case value of Str text \<Rightarrow> [DecodeResourceScope text] | _ \<Rightarrow> []) typed)
      | _ \<Rightarrow> [])"

definition stringClaim :: "payload \<Rightarrow> string \<Rightarrow> string" where
  "stringClaim payload key = (case map_of payload key of Some (Str s) \<Rightarrow> s | _ \<Rightarrow> [])"

definition permissionSet :: "any option \<Rightarrow> string list" where
  "permissionSet raw =
     (case raw of
        Some (Strings values) \<Rightarrow> remdups values
      | Some (Anys values) \<Rightarrow> remdups (concat (map (\<lambda>value. case value of Str scope \<Rightarrow> [scope] | _ \<Rightarrow> []) values))
      | _ \<Rightarrow> [])"

definition validUserID :: "(rat \<Rightarrow> int) \<Rightarrow> any option \<Rightarrow> bool" where
  "validUserID uint64_conv raw =
     (case raw of
        Some (Float64 value) \<Rightarrow> 0 < value \<and> value = of_int (uint64_conv value)
      | Some (Integer value) \<Rightarrow> 0 < value
      | _ \<Rightarrow> False)"

definition knownPrincipalType :: "string \<Rightarrow> bool" where
  "knownPrincipalType t \<longleftrightarrow> t \<in> {''anonymous'', ''customer'', ''staff'', ''admin_bootstrap'', ''internal_service''}"

record principal =
  pn_typeName :: string
  pn_status :: string
  pn_permissions :: "string list"

definition principalFromContext :: "(rat \<Rightarrow> int) \<Rightarrow> payload option \<Rightarrow> principal option" where
  "principalFromContext uint64_conv raw =
     (case raw of None \<Rightarrow> None
      | Some payload \<Rightarrow>
          let claimed = stringClaim payload ''principal_type'';
              legacyCustomer = (claimed = []);
              typeName = (if legacyCustomer then ''customer'' else claimed)
          in
          if \<not> knownPrincipalType typeName then None
          else if typeName \<noteq> ''admin_bootstrap'' \<and> \<not> validUserID uint64_conv (map_of payload ''user_id'') then None
          else
            let status0 = stringClaim payload ''status'';
                status = (if status0 = [] \<and> legacyCustomer then ''active'' else status0);
                permissions = (if map_of payload ''scope'' = None \<and> legacyCustomer
                  then permissionSet (Some (Strings customerPermissions)) else permissionSet (map_of payload ''scope''))
            in Some \<lparr>pn_typeName = typeName, pn_status = status, pn_permissions = permissions\<rparr>)"

text \<open>The two middlewares: \<open>Inr ()\<close> lets the request through.\<close>

definition RequirePermission :: "(rat \<Rightarrow> int) \<Rightarrow> string \<Rightarrow> payload option \<Rightarrow> unit result" where
  "RequirePermission uint64_conv permission raw =
     (case principalFromContext uint64_conv raw of
        None \<Rightarrow> Inl (NewCode ErrTokenInvalid)
      | Some p \<Rightarrow>
          if pn_status p \<noteq> ''active'' \<or> permission \<notin> set (pn_permissions p) then Inl (NewCode ErrPermissionDenied) else Inr ())"

definition RequirePrincipalTypes :: "(rat \<Rightarrow> int) \<Rightarrow> string list \<Rightarrow> payload option \<Rightarrow> unit result" where
  "RequirePrincipalTypes uint64_conv allowed raw =
     (case principalFromContext uint64_conv raw of
        None \<Rightarrow> Inl (NewCode ErrTokenInvalid)
      | Some p \<Rightarrow> if pn_typeName p \<notin> set allowed then Inl (NewCode ErrPermissionDenied) else Inr ())"

section \<open>No escalation of privileges\<close>

lemma set_collect_roles:
  "x \<in> set (collect_roles f rs) \<longleftrightarrow> (\<exists>r d. r \<in> set rs \<and> map_of builtinRoleDefinitions r = Some d \<and> x \<in> set (f d))"
  by (auto simp: collect_roles_def split: option.splits) metis+

text \<open>What the table of roles says, checked entry by entry.\<close>

definition role_perms :: "string \<Rightarrow> string list" where
  "role_perms r = (case map_of builtinRoleDefinitions r of None \<Rightarrow> [] | Some d \<Rightarrow> rd_Permissions d)"

lemma role_table:
  "list_all (\<lambda>(r, d). list_all (\<lambda>p. p \<in> set (role_perms StaffRoleSuperAdmin)) (rd_Permissions d)) builtinRoleDefinitions"
  "list_all (\<lambda>(r, d). r \<noteq> StaffRoleSuperAdmin \<longrightarrow> list_all (\<lambda>p. p \<in> set (role_perms StaffRoleAdmin)) (rd_Permissions d))
     builtinRoleDefinitions"
  "list_all (\<lambda>(r, d). BusinessDomainPlatform \<in> set (rd_Domains d) \<longrightarrow> r = StaffRoleAdmin \<or> r = StaffRoleSuperAdmin)
     builtinRoleDefinitions"
  "list_all (\<lambda>(r, d). list_all (\<lambda>(r', d'). list_all (\<lambda>x. x \<in> set (rd_Domains d') \<longrightarrow> x = BusinessDomainPlatform \<or> r = r')
     (rd_Domains d)) builtinRoleDefinitions) builtinRoleDefinitions"
  "list_all (\<lambda>(r, d). rd_Domains d \<noteq> []) builtinRoleDefinitions"
  "list_all (\<lambda>(r, d). list_all (\<lambda>p. p \<in> set allPermissions \<and> p \<notin> set customerPermissions) (rd_Permissions d)) builtinRoleDefinitions"
  "list_all (\<lambda>p. p \<noteq> [] \<and> plain_char (hd p) \<and> plain_char (last p)) allPermissions"
  by code_simp+

lemma role_table_at:
  assumes "map_of builtinRoleDefinitions r = Some d"
  shows "set (rd_Permissions d) \<subseteq> set (role_perms StaffRoleSuperAdmin)"
    "r \<noteq> StaffRoleSuperAdmin \<Longrightarrow> set (rd_Permissions d) \<subseteq> set (role_perms StaffRoleAdmin)"
    "BusinessDomainPlatform \<in> set (rd_Domains d) \<Longrightarrow> r = StaffRoleAdmin \<or> r = StaffRoleSuperAdmin"
    "map_of builtinRoleDefinitions r' = Some d' \<Longrightarrow> x \<in> set (rd_Domains d) \<Longrightarrow> x \<in> set (rd_Domains d') \<Longrightarrow>
       x \<noteq> BusinessDomainPlatform \<Longrightarrow> r = r'"
    "\<exists>x. x \<in> set (rd_Domains d)"
    "p \<in> set (rd_Permissions d) \<Longrightarrow> p \<in> set allPermissions \<and> p \<notin> set customerPermissions"
proof -
  note mem = map_of_SomeD [OF assms]
  from role_table(1) mem show "set (rd_Permissions d) \<subseteq> set (role_perms StaffRoleSuperAdmin)"
    unfolding list_all_iff by fast
  from role_table(2) mem show "r \<noteq> StaffRoleSuperAdmin \<Longrightarrow> set (rd_Permissions d) \<subseteq> set (role_perms StaffRoleAdmin)"
    unfolding list_all_iff by fast
  from role_table(3) mem show "BusinessDomainPlatform \<in> set (rd_Domains d) \<Longrightarrow> r = StaffRoleAdmin \<or> r = StaffRoleSuperAdmin"
    unfolding list_all_iff by fast
  show "r = r'" if "map_of builtinRoleDefinitions r' = Some d'" "x \<in> set (rd_Domains d)" "x \<in> set (rd_Domains d')"
      "x \<noteq> BusinessDomainPlatform"
    using role_table(4) mem map_of_SomeD [OF that(1)] that(2-4) unfolding list_all_iff by fast
  have "rd_Domains d \<noteq> []" using role_table(5) mem unfolding list_all_iff by fast
  then show "\<exists>x. x \<in> set (rd_Domains d)" by (cases "rd_Domains d") auto
  from role_table(6) mem show "p \<in> set (rd_Permissions d) \<Longrightarrow> p \<in> set allPermissions \<and> p \<notin> set customerPermissions"
    unfolding list_all_iff by fast
qed

lemma role_perms_granted: "r \<in> set rs \<Longrightarrow> set (role_perms r) \<subseteq> set (PermissionsForRoles rs)"
  by (auto simp: role_perms_def PermissionsForRoles_def set_collect_roles split: option.splits) metis

text \<open>C24. Whoever may manage a set of roles has every permission these roles bring: giving out
  manageable roles never gives out more than one has.\<close>

theorem no_privilege_escalation:
  assumes "CanManageRoleSet actor target"
  shows "set (PermissionsForRoles target) \<subseteq> set (PermissionsForRoles actor)"
proof
  fix p
  assume "p \<in> set (PermissionsForRoles target)"
  then obtain r d where r: "r \<in> set target" "map_of builtinRoleDefinitions r = Some d" "p \<in> set (rd_Permissions d)"
    by (auto simp: PermissionsForRoles_def set_collect_roles)
  show "p \<in> set (PermissionsForRoles actor)"
  proof (cases "StaffRoleSuperAdmin \<in> set actor")
    case True
    then show ?thesis using role_perms_granted [OF True] role_table_at(1) [OF r(2)] r(3) by blast
  next
    case False
    then have t: "StaffRoleSuperAdmin \<notin> set target" and
      m: "BusinessDomainPlatform \<in> set (DomainsForRoles actor) \<or>
        BusinessDomainPlatform \<notin> set (DomainsForRoles target) \<and> set (DomainsForRoles target) \<subseteq> set (DomainsForRoles actor)"
      using assms by (auto simp: CanManageRoleSet_def HasRole_def Let_def list_ex_iff list_all_iff split: if_splits)
    show ?thesis
    proof (cases "BusinessDomainPlatform \<in> set (DomainsForRoles actor)")
      case True
      then have "StaffRoleAdmin \<in> set actor"
        using False role_table_at(3) unfolding DomainsForRoles_def set_collect_roles by blast
      from role_perms_granted [OF this] show ?thesis using role_table_at(2) [OF r(2)] r t by blast
    next
      case platform: False
      obtain x where x: "x \<in> set (rd_Domains d)" using role_table_at(5) [OF r(2)] by blast
      then have xt: "x \<in> set (DomainsForRoles target)" using r unfolding DomainsForRoles_def set_collect_roles by blast
      with m platform have "x \<in> set (DomainsForRoles actor)" by blast
      then obtain r' d' where r': "r' \<in> set actor" "map_of builtinRoleDefinitions r' = Some d'" "x \<in> set (rd_Domains d')"
        unfolding DomainsForRoles_def set_collect_roles by blast
      have "x \<noteq> BusinessDomainPlatform" using m platform xt by blast
      from role_table_at(4) [OF r(2) r'(2) x r'(3) this] r' r show ?thesis
        by (auto simp: PermissionsForRoles_def set_collect_roles)
    qed
  qed
qed

theorem no_privilege_escalation_witness:
  "CanManageRoleSet [StaffRoleAdmin] [StaffRoleFinance, StaffRoleOps] \<and>
   set (PermissionsForRoles [StaffRoleFinance, StaffRoleOps]) \<subseteq> set (PermissionsForRoles [StaffRoleAdmin]) \<and>
   \<not> CanManageRoleSet [StaffRoleAdmin] [StaffRoleSuperAdmin]"
proof -
  have "CanManageRoleSet [StaffRoleAdmin] [StaffRoleFinance, StaffRoleOps]" "\<not> CanManageRoleSet [StaffRoleAdmin] [StaffRoleSuperAdmin]"
    by code_simp+
  with no_privilege_escalation [OF this(1)] show ?thesis by blast
qed

section \<open>Staff and customer permissions\<close>

lemma permission_trimmed: "p \<in> set allPermissions \<Longrightarrow> trim_space p = p"
  using role_table(7) by (intro trim_space_plain) (auto simp: list_all_iff)

lemma staff_permission:
  "p \<in> set (PermissionsForRoles roles) \<Longrightarrow> p \<in> set allPermissions \<and> trim_space p = p \<and> p \<notin> set customerPermissions"
  unfolding PermissionsForRoles_def set_collect_roles using role_table_at(6) permission_trimmed by blast

lemma permissionSet_customers: "set (permissionSet (Some (Strings customerPermissions))) = set customerPermissions"
  by (simp add: permissionSet_def)

text \<open>C27. A permission that any role brings is one of the vocabulary, and a token without a scope claim
  never passes a check for it.\<close>

theorem staff_permission_needs_scope:
  assumes "p \<in> set (PermissionsForRoles roles)"
  shows "IsValidPermission p \<and> (map_of payload ''scope'' = None \<longrightarrow> RequirePermission uint64_conv p (Some payload) \<noteq> Inr ())"
proof -
  have "RequirePermission uint64_conv p (Some payload) \<noteq> Inr ()" if "map_of payload ''scope'' = None"
    using that staff_permission [OF assms] permissionSet_customers
    by (auto simp: RequirePermission_def principalFromContext_def permissionSet_def Let_def split: option.splits if_splits)
  with staff_permission [OF assms] show ?thesis by (auto simp: IsValidPermission_def list_ex_iff)
qed

theorem staff_permission_needs_scope_witness:
  "IsValidPermission PermissionOrderRefundAny \<and>
   RequirePermission floor PermissionOrderRefundAny (Some [(''user_id'', Float64 7), (''principal_type'', Str ''staff''), (''status'', Str ''active'')])
     \<noteq> Inr () \<and>
   RequirePermission floor PermissionOrderRefundAny (Some [(''user_id'', Float64 7), (''principal_type'', Str ''staff''), (''status'', Str ''active''),
     (''scope'', Anys [Str PermissionOrderRefundAny])]) = Inr ()"
proof -
  have p: "PermissionOrderRefundAny \<in> set (PermissionsForRoles [StaffRoleFinance])" by code_simp
  have "RequirePermission floor PermissionOrderRefundAny (Some [(''user_id'', Float64 7), (''principal_type'', Str ''staff''), (''status'', Str ''active''),
     (''scope'', Anys [Str PermissionOrderRefundAny])]) = Inr ()"
    by (simp add: RequirePermission_def principalFromContext_def stringClaim_def validUserID_def knownPrincipalType_def permissionSet_def)
  with staff_permission_needs_scope [OF p, of "[(''user_id'', Float64 7), (''principal_type'', Str ''staff''), (''status'', Str ''active'')]" floor]
  show ?thesis by simp
qed

section \<open>Scopes through a token\<close>

definition no_separator :: "ResourceScope \<Rightarrow> bool" where
  "no_separator s \<longleftrightarrow> list_all (\<lambda>f. scopeBindingSeparator \<notin> set f)
     [rs_Domain s, rs_StoreID s, rs_TeamID s, rs_ResourceType s, rs_ResourceID s]"

lemma set_trim_space: "set (trim_space s) \<subseteq> set s"
  using set_mono_suffix [OF strip_suffix [of "map rev go_spaces" "rev (strip go_spaces s)"]]
    set_mono_suffix [OF strip_suffix [of go_spaces s]]
  by (auto simp: trim_space_def)

text \<open>Only capital letters change, and into small ones.\<close>

lemma of_lower_char: "(of_char (lower_char c) :: nat) = (if 65 \<le> (of_char c :: nat) \<and> (of_char c :: nat) \<le> 90 then of_char c + 32 else of_char c)"
  by (simp add: lower_char_def)

lemma lower_char_other:
  assumes "(of_char b :: nat) < 65 \<or> 122 < (of_char b :: nat)"
  shows "lower_char c = b \<longleftrightarrow> c = b"
proof -
  have "lower_char c = b \<longleftrightarrow> (of_char (lower_char c) :: nat) = of_char b" by simp
  also have "\<dots> \<longleftrightarrow> (of_char c :: nat) = of_char b" using assms unfolding of_lower_char by auto
  finally show ?thesis by simp
qed

lemma lower_separator: "scopeBindingSeparator \<notin> set s \<Longrightarrow> scopeBindingSeparator \<notin> set (to_lower s)"
proof -
  have "lower_char c = scopeBindingSeparator \<longleftrightarrow> c = scopeBindingSeparator" for c
    by (rule lower_char_other) (simp add: scopeBindingSeparator_def)
  then show "scopeBindingSeparator \<notin> set s \<Longrightarrow> scopeBindingSeparator \<notin> set (to_lower s)"
    unfolding to_lower_def set_map by (metis imageE)
qed

text \<open>Lowering letters neither makes nor removes white space.\<close>

lemma lower_space_byte: "p \<in> set go_spaces \<Longrightarrow> b \<in> set p \<Longrightarrow> lower_char c = b \<longleftrightarrow> c = b"
  by (rule lower_char_other) (auto simp: go_spaces_def)

lemma prefix_lower: "(\<And>b c. b \<in> set p \<Longrightarrow> lower_char c = b \<longleftrightarrow> c = b) \<Longrightarrow> prefix p (map lower_char s) \<longleftrightarrow> prefix p s"
proof (induction p arbitrary: s)
  case (Cons b p)
  have "lower_char c = b \<longleftrightarrow> c = b" for c using Cons.prems by simp
  then have "b = lower_char c \<longleftrightarrow> b = c" for c by metis
  then show ?case using Cons by (cases s) auto
qed simp

lemma starts_lower:
  "starts_with_any go_spaces (map lower_char s) \<longleftrightarrow> starts_with_any go_spaces s"
  "starts_with_any (map rev go_spaces) (map lower_char s) \<longleftrightarrow> starts_with_any (map rev go_spaces) s"
  unfolding starts_with_any_def
  by (auto simp: prefix_lower lower_space_byte) (metis lower_space_byte prefix_lower rev_rev_ident set_rev)+

lemma trimmed_iff: "trim_space s = s \<longleftrightarrow> \<not> starts_with_any go_spaces s \<and> \<not> starts_with_any (map rev go_spaces) (rev s)"
proof
  assume t: "trim_space s = s"
  have "prefix (trim_space s) (strip go_spaces s)"
    using strip_suffix [of "map rev go_spaces" "rev (strip go_spaces s)"] by (simp add: trim_space_def suffix_to_prefix)
  then have "\<not> starts_with_any go_spaces s" using t starts_with_any_prefix strip_done by metis
  moreover have "\<not> starts_with_any (map rev go_spaces) (rev s)"
    using strip_done [of "map rev go_spaces" "rev (strip go_spaces s)"] t unfolding trim_space_def by (metis rev_rev_ident)
  ultimately show "\<not> starts_with_any go_spaces s \<and> \<not> starts_with_any (map rev go_spaces) (rev s)" ..
qed (simp add: trim_space_def strip_none)

lemma trim_lower_trim [simp]: "trim_space (to_lower (trim_space s)) = to_lower (trim_space s)"
  using trim_space_idem [of s] unfolding trimmed_iff to_lower_def by (simp add: starts_lower rev_map)

lemma NormalizeResourceScope_idem [simp]: "NormalizeResourceScope (NormalizeResourceScope s) = NormalizeResourceScope s"
  by (simp add: NormalizeResourceScope_def)

lemma scope_roundtrip_lemma:
  assumes "no_separator s"
  shows "DecodeResourceScope (EncodeResourceScope s) = NormalizeResourceScope s"
proof -
  let ?n = "NormalizeResourceScope s"
  let ?fs = "[rs_Domain ?n, rs_StoreID ?n, rs_TeamID ?n, rs_ResourceType ?n, rs_ResourceID ?n]"
  have "\<forall>f \<in> set ?fs. scopeBindingSeparator \<notin> set f"
    using assms set_trim_space lower_separator by (auto simp: no_separator_def NormalizeResourceScope_def)
  from split_on_join [OF _ this] have "split_on scopeBindingSeparator (EncodeResourceScope s) = ?fs"
    unfolding EncodeResourceScope_def ResourceScopeKey_def Let_def by simp
  then have "DecodeResourceScope (EncodeResourceScope s) = NormalizeResourceScope \<lparr>rs_Domain = rs_Domain ?n,
      rs_StoreID = rs_StoreID ?n, rs_TeamID = rs_TeamID ?n, rs_ResourceType = rs_ResourceType ?n, rs_ResourceID = rs_ResourceID ?n\<rparr>"
    by (simp add: DecodeResourceScope_def)
  also have "\<dots> = NormalizeResourceScope s" by (simp add: NormalizeResourceScope_def)
  finally show ?thesis .
qed



end
