(* ===== verification/Gateway.thy ===== *)
theory Gateway
  imports Order_Audit Inventory_Retry
begin

text \<open>
  The order service of the API gateway, \<open>app/goshop/api/internal/service/order/v1/order.go\<close>, with
  the payment provider of \<open>payment/provider.go\<close>. It keeps no state of its own: an operation is a
  sequence of calls to the order service and to the inventory service, so it runs on the \<open>world\<close> of
  theory \<open>Order_Lifecycle\<close>. An error crosses gRPC as a status; the gateway only looks whether there is
  one. Its clients are always there (\<open>data/rpc/rpc.go\<close> fails to start otherwise), and a client's
  answer without an error is never nil. One reading of the clock serves a whole operation.
\<close>

section \<open>Requests\<close>

record OrderItem =
  oi_GoodsID :: int
  oi_Num :: int

record PayCallbackRequest =
  cb_Provider :: string
  cb_EventID :: string
  cb_EventType :: string
  cb_AmountFen :: int
  cb_UserID :: int
  cb_OrderSn :: string
  cb_PayType :: string
  cb_TradeNo :: string
  cb_Items :: "OrderItem list"
  cb_Success :: bool

record gw_CartItemRequest =
  gc_GoodsID :: int
  gc_Nums :: int
  gc_Checked :: bool

record SubmitOrderRequest =
  sr_OrderSn :: string
  sr_Address :: string
  sr_Name :: string
  sr_Mobile :: string
  sr_Post :: string

record OrderListFilter =
  lf_Pages :: int
  lf_PagePerNums :: int

record PaymentInitiation =
  pin_PaymentID :: string
  pin_Provider :: string
  pin_CheckoutURL :: string
  pin_ExpiresAt :: int
  pin_AmountFen :: int

type_synonym 'a gw_op = "(world, 'a result) state"

type_synonym order_detail = "OrderInfoResponse \<times> OrderItemResponse list"

abbreviation (input) defaultOrderPage :: int where "defaultOrderPage \<equiv> 1"
abbreviation (input) defaultOrderPageSize :: int where "defaultOrderPageSize \<equiv> 10"

text \<open>Literals of messages with the other fields zero.\<close>

definition order_request :: "int \<Rightarrow> string \<Rightarrow> OrderRequest" where
  "order_request userID orderSn = \<lparr>oq_OrderSn = orderSn, oq_UserId = int32 userID, oq_Address = [], oq_Name = [],
     oq_Mobile = [], oq_Post = [], oq_OrderItems = []\<rparr>"

definition status_request :: "string \<Rightarrow> string \<Rightarrow> OrderStatus" where
  "status_request orderSn status = \<lparr>os_Id = 0, os_OrderSn = orderSn, os_Status = status, os_PayType = [], os_TradeNo = [],
     os_Reason = [], os_ActorUserId = 0, os_RefundAmountFen = 0, os_CorrelationId = [], os_RequestId = [], os_PayTime = 0\<rparr>"

section \<open>Carts and orders\<close>

definition gw_CartItemList :: "int \<Rightarrow> (int \<times> ShopCartInfoResponse list) gw_op" where
  "gw_CartItemList userID = (if userID = 0 then ok (0, []) else on_orders (ctl_CartItemList (Some (int32 userID))))"

definition cart_request :: "int \<Rightarrow> gw_CartItemRequest \<Rightarrow> Order_Handlers.CartItemRequest" where
  "cart_request userID req = \<lparr>cq_Id = 0, cq_UserId = int32 userID, cq_GoodsId = gc_GoodsID req, cq_Nums = gc_Nums req,
     cq_Checked = gc_Checked req\<rparr>"

definition cart_request_invalid :: "int \<Rightarrow> gw_CartItemRequest option \<Rightarrow> bool" where
  "cart_request_invalid userID oreq \<longleftrightarrow> userID = 0 \<or>
     (case oreq of None \<Rightarrow> True | Some req \<Rightarrow> gc_GoodsID req \<le> 0 \<or> gc_Nums req \<le> 0)"

definition gw_CreateCartItem :: "time \<Rightarrow> int \<Rightarrow> gw_CartItemRequest option \<Rightarrow> ShopCartInfoResponse gw_op" where
  "gw_CreateCartItem now userID oreq =
     (if cart_request_invalid userID oreq then fail (NewCode ErrShopCartItemNotFound)
      else on_orders (ctl_CreateCartItem now (map_option (cart_request userID) oreq)))"

definition gw_UpdateCartItem :: "time \<Rightarrow> int \<Rightarrow> gw_CartItemRequest option \<Rightarrow> unit gw_op" where
  "gw_UpdateCartItem now userID oreq =
     (if cart_request_invalid userID oreq then fail (NewCode ErrShopCartItemNotFound)
      else on_orders (ctl_UpdateCartItem now (map_option (cart_request userID) oreq)))"

definition gw_DeleteCartItem :: "time \<Rightarrow> int \<Rightarrow> int \<Rightarrow> unit gw_op" where
  "gw_DeleteCartItem now userID cid =
     (if userID = 0 \<or> cid = 0 then fail (NewCode ErrShopCartItemNotFound)
      else on_orders (ctl_DeleteCartItem now (Some \<lparr>cq_Id = int32 cid, cq_UserId = int32 userID, cq_GoodsId = 0,
        cq_Nums = 0, cq_Checked = False\<rparr>)))"

text \<open>\<open>fmt.Sprintf("%d%08d", ...)\<close> of the clock's nanoseconds and the end of the user's id.\<close>

definition generateOrderSn :: "int \<Rightarrow> int \<Rightarrow> string" where
  "generateOrderSn nano userID =
     (let tail = show_int (userID mod 100000000) in show_int nano @ replicate (8 - length tail) CHR ''0'' @ tail)"

definition gw_SubmitOrder ::
    "string option \<Rightarrow> (saga_request \<Rightarrow> err option) \<Rightarrow> int \<Rightarrow> int \<Rightarrow> SubmitOrderRequest option \<Rightarrow> string gw_op" where
  "gw_SubmitOrder dtmServer dtm nano userID oreq =
     (case oreq of None \<Rightarrow> fail (NewCode ErrSubmitOrder)
      | Some req0 \<Rightarrow>
          if userID = 0 then fail (NewCode ErrSubmitOrder)
          else
            let req = \<lparr>sr_OrderSn = trim_space (sr_OrderSn req0), sr_Address = trim_space (sr_Address req0),
                  sr_Name = trim_space (sr_Name req0), sr_Mobile = trim_space (sr_Mobile req0), sr_Post = trim_space (sr_Post req0)\<rparr> in
            if sr_Address req = [] \<or> sr_Name req = [] \<or> sr_Mobile req = [] then fail (NewCode ErrSubmitOrder)
            else
              let sn = (if sr_OrderSn req = [] then generateOrderSn nano userID else sr_OrderSn req) in
              bindE (on_orders (SubmitOrder dtmServer dtm (Some \<lparr>oq_OrderSn = sn, oq_UserId = int32 userID,
                  oq_Address = sr_Address req, oq_Name = sr_Name req, oq_Mobile = sr_Mobile req, oq_Post = sr_Post req,
                  oq_OrderItems = []\<rparr>)))
                (\<lambda>_. ok sn))"

definition normalizeOrderListFilter :: "OrderListFilter option \<Rightarrow> OrderListFilter" where
  "normalizeOrderListFilter ofilt =
     (case ofilt of None \<Rightarrow> \<lparr>lf_Pages = defaultOrderPage, lf_PagePerNums = defaultOrderPageSize\<rparr>
      | Some f \<Rightarrow> \<lparr>lf_Pages = (if lf_Pages f \<le> 0 then defaultOrderPage else lf_Pages f),
          lf_PagePerNums = (if lf_PagePerNums f \<le> 0 then defaultOrderPageSize else lf_PagePerNums f)\<rparr>)"

definition gw_OrderList :: "(time \<Rightarrow> string) \<Rightarrow> int \<Rightarrow> OrderListFilter option \<Rightarrow> (int \<times> OrderInfoResponse list) gw_op" where
  "gw_OrderList fmt userID ofilt =
     (if userID = 0 then ok (0, [])
      else let f = normalizeOrderListFilter ofilt in
        on_orders (OrderList fmt (Some \<lparr>fq_UserId = int32 userID, fq_Pages = lf_Pages f, fq_PagePerNums = lf_PagePerNums f\<rparr>)))"

definition gw_OrderDetail :: "(time \<Rightarrow> string) \<Rightarrow> int \<Rightarrow> string \<Rightarrow> order_detail gw_op" where
  "gw_OrderDetail fmt userID orderSn =
     (let sn = trim_space orderSn in
      if userID = 0 \<or> sn = [] then fail (NewCode ErrOrderNotFound)
      else on_orders (OrderDetail fmt (Some (order_request userID sn))))"

definition gw_OrderStatusLogs :: "(time \<Rightarrow> string) \<Rightarrow> int \<Rightarrow> string \<Rightarrow> (int \<times> OrderStatusLogResponse list) gw_op" where
  "gw_OrderStatusLogs fmt userID orderSn =
     (let sn = trim_space orderSn in
      if userID = 0 \<or> sn = [] then fail (NewCode ErrOrderNotFound)
      else on_orders (OrderStatusLogs fmt (Some (order_request userID sn))))"

section \<open>Paying and cancelling\<close>

definition sellInfoFromOrder :: "string \<Rightarrow> OrderItemResponse list \<Rightarrow> SellInfo result" where
  "sellInfoFromOrder orderSn goods =
     (if list_ex (\<lambda>item. ip_GoodsId item \<le> 0 \<or> ip_Nums item \<le> 0) goods then Inl (NewCode ErrOrderStatusInvalid)
      else if goods = [] then Inl (NewCode ErrOrderStatusInvalid)
      else Inr \<lparr>si_GoodsInfo = map (\<lambda>item. info_of_line \<lparr>gd_Goods = ip_GoodsId item, gd_Num = ip_Nums item\<rparr>) goods,
        si_OrderSn = orderSn\<rparr>)"

text \<open>\<open>HMACProvider.Initiate\<close>: the MAC, \<open>net/url\<close> and the fresh id are arguments.\<close>

record InitiateRequest =
  inq_OrderSN :: string
  inq_AmountFen :: int
  inq_Subject :: string

record InitiateResponse =
  inr_PaymentID :: string
  inr_Provider :: string
  inr_CheckoutURL :: string
  inr_ExpiresAt :: time

record PaymentOptions =
  po_Enabled :: bool
  po_Provider :: string
  po_CheckoutBaseURL :: string
  po_CallbackSecret :: string

definition Initiate ::
    "(string \<Rightarrow> string \<Rightarrow> string) \<Rightarrow> (string \<Rightarrow> (string \<times> string) list \<Rightarrow> string option) \<Rightarrow> PaymentOptions \<Rightarrow> string \<Rightarrow> time \<Rightarrow>
     InitiateRequest \<Rightarrow> InitiateResponse result" where
  "Initiate mac url opts uuid now req =
     (if inq_OrderSN req = [] \<or> inq_AmountFen req \<le> 0 then Inl (Plain ''invalid payment initiation'')
      else
        let expires = now + 15 * 60 * 1000;
            payload = inq_OrderSN req @ [CHR 0x0A] @ show_int (inq_AmountFen req) @ [CHR 0x0A] @ show_int (unix expires) @ [CHR 0x0A] @ uuid;
            query = [(''payment_id'', uuid), (''order_sn'', inq_OrderSN req), (''amount_fen'', show_int (inq_AmountFen req)),
              (''expires_at'', show_int (unix expires)), (''token'', mac (po_CallbackSecret opts) payload)]
        in case url (po_CheckoutBaseURL opts) query of
             None \<Rightarrow> Inl (Wrapf (Plain ''parse checkout URL''))
           | Some checkout \<Rightarrow> Inr \<lparr>inr_PaymentID = uuid, inr_Provider = po_Provider opts, inr_CheckoutURL = checkout,
               inr_ExpiresAt = expires\<rparr>)"

definition InitiatePayment ::
    "(time \<Rightarrow> string) \<Rightarrow> PaymentOptions option \<Rightarrow> (InitiateRequest \<Rightarrow> InitiateResponse result) \<Rightarrow> time \<Rightarrow> int \<Rightarrow> string \<Rightarrow>
     PaymentInitiation gw_op" where
  "InitiatePayment fmt opts provider now userID orderSN =
     (if (case opts of None \<Rightarrow> True | Some o' \<Rightarrow> \<not> po_Enabled o') then fail (NewCode ErrConnectGRPC)
      else bindE (gw_OrderDetail fmt userID orderSN) (\<lambda>(info, goods).
        let status = trim_space (op_Status info); amount = op_TotalFen info in
        if status \<noteq> OrderStatusWaitBuyerPay \<and> status \<noteq> OrderStatusPaying then fail (NewCode ErrOrderStatusInvalid)
        else
          (case provider \<lparr>inq_OrderSN = orderSN, inq_AmountFen = amount, inq_Subject = ''goshop order''\<rparr> of
             Inl e \<Rightarrow> fail e
           | Inr res \<Rightarrow>
               bindE (on_orders (UpdateOrderStatus now (Some (status_request orderSN OrderStatusPaying)))) (\<lambda>_.
                 ok \<lparr>pin_PaymentID = inr_PaymentID res, pin_Provider = inr_Provider res, pin_CheckoutURL = inr_CheckoutURL res,
                   pin_ExpiresAt = unix (inr_ExpiresAt res), pin_AmountFen = amount\<rparr>))))"

definition CancelOrder :: "(time \<Rightarrow> string) \<Rightarrow> order_lock \<Rightarrow> time \<Rightarrow> int \<Rightarrow> string \<Rightarrow> unit gw_op" where
  "CancelOrder fmt lock now userID orderSN =
     bindE (gw_OrderDetail fmt userID orderSN) (\<lambda>(info, goods).
       let current = trim_space (op_Status info) in
       if current \<noteq> OrderStatusWaitBuyerPay \<and> current \<noteq> OrderStatusPaying then fail (NewCode ErrOrderStatusInvalid)
       else
         (case sellInfoFromOrder orderSN goods of
            Inl e \<Rightarrow> fail e
          | Inr sellInfo \<Rightarrow>
              bindE (on_stock (ctl_Release lock now (Some sellInfo))) (\<lambda>_.
                on_orders (UpdateOrderStatus now (Some ((status_request orderSN OrderStatusTradeClosed)
                  \<lparr>os_Reason := ''cancelled by customer''\<rparr>))))))"

definition canApplyPayCallback :: "string \<Rightarrow> string \<Rightarrow> bool" where
  "canApplyPayCallback currentStatus0 targetStatus0 =
     (let currentStatus = trim_space currentStatus0; targetStatus = trim_space targetStatus0 in
      if currentStatus = [] \<or> currentStatus = targetStatus then True
      else if currentStatus = OrderStatusWaitBuyerPay
      then targetStatus = OrderStatusPaying \<or> targetStatus = OrderStatusTradeSuccess \<or> targetStatus = OrderStatusTradeClosed
      else if currentStatus = OrderStatusPaying
      then targetStatus = OrderStatusTradeSuccess \<or> targetStatus = OrderStatusTradeClosed
      else if currentStatus = OrderStatusTradeSuccess then targetStatus = OrderStatusTradeFinished
      else False)"

definition SimulatePayCallback :: "(time \<Rightarrow> string) \<Rightarrow> order_lock \<Rightarrow> time \<Rightarrow> PayCallbackRequest option \<Rightarrow> unit gw_op" where
  "SimulatePayCallback fmt lock now oreq =
     (case oreq of None \<Rightarrow> fail (NewCode ErrOrderStatusInvalid)
      | Some req0 \<Rightarrow>
          let req = req0\<lparr>cb_OrderSn := trim_space (cb_OrderSn req0), cb_PayType := trim_space (cb_PayType req0),
                cb_TradeNo := trim_space (cb_TradeNo req0)\<rparr>;
              sn = cb_OrderSn req in
          if cb_UserID req = 0 \<or> sn = [] then fail (NewCode ErrOrderStatusInvalid)
          else bindE (on_orders (OrderDetail fmt (Some (order_request (cb_UserID req) sn)))) (\<lambda>(info, goods).
            if cb_Success req \<and> cb_TradeNo req = [] then fail (NewCode ErrOrderStatusInvalid)
            else
              let target = (if cb_Success req then OrderStatusTradeSuccess else OrderStatusTradeClosed) in
              if \<not> canApplyPayCallback (trim_space (op_Status info)) target then fail (NewCode ErrOrderStatusInvalid)
              else
                (case sellInfoFromOrder sn goods of
                   Inl e \<Rightarrow> fail e
                 | Inr sellInfo \<Rightarrow>
                     bindE (on_stock (if cb_Success req then ctl_Confirm lock now (Some sellInfo)
                                      else ctl_Release lock now (Some sellInfo))) (\<lambda>_.
                       on_orders (UpdateOrderStatus now (Some
                         (if cb_Success req
                          then (status_request sn target)\<lparr>os_PayType := cb_PayType req, os_TradeNo := cb_TradeNo req,
                            os_PayTime := unix now\<rparr>
                          else status_request sn target)))))))"

section \<open>The provider's callback\<close>

text \<open>
  \<open>GetOrderBySn\<close> is declared in \<open>order.proto\<close>, and the order service has no method for it: the
  generated server answers. The operations below take the answer as an argument.
\<close>

type_synonym order_lookup = "string \<Rightarrow> order_detail ord_op"

definition GetOrderBySn :: order_lookup where
  "GetOrderBySn orderSn = fail (GrpcStatus ''Unimplemented'')"

record CallbackRequest =
  cr_Provider :: string
  cr_EventID :: string
  cr_EventType :: string
  cr_OrderSN :: string
  cr_TradeNo :: string
  cr_AmountFen :: int

definition paymentEventAllowed :: "string \<Rightarrow> string \<Rightarrow> bool" where
  "paymentEventAllowed eventType status =
     (if eventType = ''payment_succeeded'' \<or> eventType = ''payment_failed''
      then status = OrderStatusWaitBuyerPay \<or> status = OrderStatusPaying
      else if eventType = ''refund_succeeded'' \<or> eventType = ''refund_failed'' then status = OrderStatusRefundPending
      else False)"

text \<open>
  The part of \<open>ProcessPayCallback\<close> under its deferred function: the two variables that function
  reads, and the error the call returns.
\<close>

definition callback_body ::
    "order_lookup \<Rightarrow> order_lock \<Rightarrow> time \<Rightarrow> CallbackRequest \<Rightarrow> PaymentEventResponse \<Rightarrow> (world, bool \<times> string \<times> bool result) state" where
  "callback_body lookup lock now req begun =
     (let isRefund = (cr_EventType req = ''refund_succeeded'' \<or> cr_EventType req = ''refund_failed'');
          amountMismatch = (\<not> isRefund \<and> cr_AmountFen req \<noteq> ep_OrderAmountFen begun);
          invalidRefund = (isRefund \<and> (cr_AmountFen req \<le> 0 \<or> ep_OrderAmountFen begun < cr_AmountFen req));
          stop = (\<lambda>detail e. State_Monad.return (False, detail, Inl e))
      in if amountMismatch \<or> invalidRefund then stop ''payment amount mismatch'' (NewCode ErrOrderStatusInvalid)
         else do {
           found \<leftarrow> on_orders (lookup (cr_OrderSN req));
           case found of
             Inl e \<Rightarrow> stop ''load order failed'' e
           | Inr (info, goods) \<Rightarrow>
               if \<not> paymentEventAllowed (cr_EventType req) (trim_space (op_Status info))
               then stop ''payment event is out of order'' (NewCode ErrOrderStatusInvalid)
               else
                 (case sellInfoFromOrder (cr_OrderSN req) goods of
                    Inl e \<Rightarrow> stop ''invalid order items'' e
                  | Inr sellInfo \<Rightarrow> do {
                      moved \<leftarrow>
                        (if cr_EventType req = ''payment_succeeded'' then on_stock (ctl_Confirm lock now (Some sellInfo))
                         else if cr_EventType req = ''payment_failed'' then on_stock (ctl_Release lock now (Some sellInfo))
                         else ok ());
                      case moved of
                        Inl e \<Rightarrow> stop (if cr_EventType req = ''payment_succeeded'' then ''confirm inventory failed''
                          else ''release inventory failed'') e
                      | Inr _ \<Rightarrow> do {
                          let target = (if cr_EventType req = ''payment_succeeded'' then OrderStatusTradeSuccess
                            else if cr_EventType req = ''payment_failed'' then OrderStatusTradeClosed
                            else if cr_EventType req = ''refund_succeeded'' then OrderStatusRefunded else OrderStatusRefundFailed);
                          done \<leftarrow> on_orders (UpdateOrderStatus now (Some ((status_request (cr_OrderSN req) target)
                            \<lparr>os_PayType := cr_Provider req, os_TradeNo := cr_TradeNo req,
                             os_PayTime := (if target = OrderStatusTradeSuccess then unix now else 0)\<rparr>)));
                          case done of
                            Inl e \<Rightarrow> stop ''update order status failed'' e
                          | Inr _ \<Rightarrow> State_Monad.return (True, [], Inr False)
                        }
                    })
         })"

definition ProcessPayCallback :: "order_lookup \<Rightarrow> order_lock \<Rightarrow> time \<Rightarrow> CallbackRequest option \<Rightarrow> bool gw_op" where
  "ProcessPayCallback lookup lock now oreq =
     (case oreq of None \<Rightarrow> fail (NewCode ErrOrderStatusInvalid)
      | Some req \<Rightarrow>
          if cr_Provider req = [] \<or> cr_EventID req = [] \<or> cr_EventType req = [] \<or> cr_OrderSN req = [] \<or> cr_AmountFen req < 0
          then fail (NewCode ErrOrderStatusInvalid)
          else
            let refundAmount = (if cr_EventType req = ''refund_succeeded'' \<or> cr_EventType req = ''refund_failed''
                  then cr_AmountFen req else 0) in
            bindE (on_orders (ctl_BeginPaymentEvent now \<lparr>eq_Provider = cr_Provider req, eq_EventId = cr_EventID req,
                eq_OrderSn = cr_OrderSN req, eq_TradeNo = cr_TradeNo req, eq_EventType = cr_EventType req,
                eq_ProviderAmountFen = cr_AmountFen req, eq_RefundAmountFen = refundAmount\<rparr>)) (\<lambda>begun.
              if \<not> ep_Accepted begun
              then if ep_Completed begun then ok True else fail (NewCode ErrConnectGRPC)
              else do {
                (success, detail, r) \<leftarrow> callback_body lookup lock now req begun;
                _ \<leftarrow> on_orders (ctl_CompletePaymentEvent now (ep_Id begun) success detail);
                State_Monad.return r
              }))"

end
