(* ===== verification/Shop_Agreement.thy ===== *)
theory Shop_Agreement
  imports Gateway
begin

text \<open>
  What the order service and the inventory service have to say about the same order: the status of
  the one and the sell detail of the other. As long as both databases answer, the operations of the
  gateway and the sweeps of the worker keep the two in step; an operation that is interrupted between
  its two calls does not.
\<close>

section \<open>In step\<close>

definition agrees :: "string \<Rightarrow> int \<Rightarrow> bool" where
  "agrees status st =
     (if status = OrderStatusWaitBuyerPay \<or> status = OrderStatusPaying then st = stockSellStatusReserved
      else if status = OrderStatusTradeClosed then st = stockSellStatusReleased
      else st = stockSellStatusConfirmed)"

definition in_step :: "order_db \<Rightarrow> inventory_db \<Rightarrow> bool" where
  "in_step t u \<longleftrightarrow> list_all (\<lambda>r. live r \<longrightarrow>
     (case detail_of u (od_OrderSn r) of None \<Rightarrow> False | Some d \<Rightarrow> agrees (od_Status r) (sd_Status d))) (orderinfo t)"

text \<open>Every live order has a line with something to sell.\<close>

definition lines_present :: "order_db \<Rightarrow> bool" where
  "lines_present t \<longleftrightarrow> list_all (\<lambda>r. live r \<longrightarrow>
     list_ex (\<lambda>g. live g \<and> og_Order g = ID r \<and> 0 < og_Goods g \<and> 0 < og_Nums g) (ordergoods t)) (orderinfo t)"

definition shop_ok :: "world \<Rightarrow> bool" where
  "shop_ok w \<longleftrightarrow> outcomes (order_side w) = [] \<and> outcomes (stock_side w) = [] \<and>
     ledger (tables (stock_side w)) \<and> wf_orders (orderinfo (tables (order_side w))) \<and> db_typed (tables (order_side w)) \<and>
     lines_present (tables (order_side w)) \<and> in_step (tables (order_side w)) (tables (stock_side w))"

lemma agrees_phase:
  "agrees (phase_name p) st = (case p of Waiting \<Rightarrow> st = 1 | Paying \<Rightarrow> st = 1 | Closed \<Rightarrow> st = 2 | _ \<Rightarrow> st = 3)"
  by (cases p) (simp_all add: agrees_def phase_name.simps)

section \<open>The inventory's side\<close>

lemma guarded_fails:
  assumes "run_state (guarded lock sn ds body) s = (Inl e, s')" "calm body" "outcomes s = []"
  shows "s' = s"
  using assms(1) run_transaction_ok [of s body, OF assms(3) calmD [OF assms(2) _ assms(3)]]
  by (auto simp: guarded_def run_bindE lockOrder_def withTxnExecutor_def split: sum.splits option.splits prod.splits)

lemma calm_session: "outcomes s = [] \<Longrightarrow> \<lparr>tables = tables s, outcomes = []\<rparr> = s"
  by (cases s) simp

lemma calm_guarded: "calm body \<Longrightarrow> calm (guarded lock sn ds body)"
  unfolding guarded_def lockOrder_def withTxnExecutor_def by (auto intro!: calm_intros split: sum.split option.split)

lemma detail_of_settle:
  assumes "detail_of t sn = Some d"
  shows "detail_of (u\<lparr>stockselldetail := update_rows (\<lambda>d. sd_OrderSn d = sn) (\<lambda>d. d\<lparr>sd_Status := st\<rparr>) (stockselldetail t)\<rparr>)
     = (detail_of t)(sn \<mapsto> d\<lparr>sd_Status := st\<rparr>)"
proof
  fix x
  show "detail_of (u\<lparr>stockselldetail := update_rows (\<lambda>d. sd_OrderSn d = sn) (\<lambda>d. d\<lparr>sd_Status := st\<rparr>) (stockselldetail t)\<rparr>) x
     = ((detail_of t)(sn \<mapsto> d\<lparr>sd_Status := st\<rparr>)) x"
  proof (cases "x = sn")
    case True
    then show ?thesis using detail_of_update [OF assms] by simp
  next
    case False
    have "first_row (\<lambda>d. sd_OrderSn d = x) (update_rows (\<lambda>d. sd_OrderSn d = sn) (\<lambda>d. d\<lparr>sd_Status := st\<rparr>) l)
        = first_row (\<lambda>d. sd_OrderSn d = x) l" for l
      using False by (induction l) (simp_all add: tbl_simps)
    then show ?thesis using False by (simp add: detail_of_def)
  qed
qed

text \<open>A detail that is settled already stays as it is.\<close>

definition settle :: "int \<Rightarrow> StockSellDetailDO \<Rightarrow> StockSellDetailDO" where
  "settle st d = (if sd_Status d \<in> {2, 3} then d else d\<lparr>sd_Status := st\<rparr>)"

lemma release_effect:
  assumes run: "run_state (ctl_Release lock now (Some si)) s = (r, s')"
    and s: "outcomes s = []" "ledger (tables s)" "list_all line_typed (details_of_info si)"
    and sn: "trim_space (si_OrderSn si) = sn" "detail_of (tables s) sn = Some d"
  shows "outcomes s' = [] \<and> ledger (tables s') \<and>
    (case r of Inl e \<Rightarrow> tables s' = tables s | Inr _ \<Rightarrow> detail_of (tables s') = (detail_of (tables s))(sn \<mapsto> settle 2 d))"
proof -
  note run' = run [unfolded ctl_Release_def option.case Release_def]
  have g: "Reback lock now (si_OrderSn si) (details_of_info si) =
      guarded lock (si_OrderSn si) (details_of_info si) (reback_body now (si_OrderSn si) (details_of_info si))"
    by (rule operations_guarded)
  have o: "outcomes s' = []"
    using calmD [OF calm_guarded [OF calm_bodies(2)] run' [unfolded g] s(1)] .
  have l: "ledger (tables s')"
    using ledger_step [OF stock_step.reback [OF s(3), of lock now "si_OrderSn si" "tables s" "[]" r s']] run' s by (simp add: calm_session)
  show ?thesis
  proof (cases r)
    case (Inl e)
    then show ?thesis using guarded_fails [OF run' [unfolded g Inl] calm_bodies(2) s(1)] o l by simp
  next
    case (Inr x)
    from guarded_yields [OF run' [unfolded g Inr, simplified]]
    have v: "validateStockOperation (si_OrderSn si) (details_of_info si) = Inr ()"
      and y: "yields (reback_body now (si_OrderSn si) (details_of_info si)) (tables s) () (tables s')" by simp_all
    from y ledger_one_row [OF s(2)] validate_ok(1) [OF v s(3)] ledger_lines [OF s(2)]
    have "detail_of (tables s') = (detail_of (tables s))(sn \<mapsto> settle 2 d)"
    proof (cases rule: reback_body_yields)
      case same
      then have "sd_Status d \<in> {2, 3}" using sn by simp
      then have "settle 2 d = d" by (auto simp: settle_def)
      then show ?thesis using same sn by auto
    qed (use sn in \<open>auto simp: detail_of_settle settle_def\<close>)
    then show ?thesis using o l Inr by simp
  qed
qed

lemma confirm_effect:
  assumes run: "run_state (ctl_Confirm lock now (Some si)) s = (r, s')"
    and s: "outcomes s = []" "ledger (tables s)" "list_all line_typed (details_of_info si)"
    and sn: "trim_space (si_OrderSn si) = sn" "detail_of (tables s) sn = Some d"
  shows "outcomes s' = [] \<and> ledger (tables s') \<and>
    (case r of Inl e \<Rightarrow> tables s' = tables s | Inr _ \<Rightarrow> detail_of (tables s') = (detail_of (tables s))(sn \<mapsto> settle 3 d))"
proof -
  note run' = run [unfolded ctl_Confirm_def option.case]
  have g: "Confirm lock now (si_OrderSn si) (details_of_info si) =
      guarded lock (si_OrderSn si) (details_of_info si) (confirm_body now (si_OrderSn si))"
    by (rule operations_guarded)
  have o: "outcomes s' = []"
    using calmD [OF calm_guarded [OF calm_bodies(3)] run' [unfolded g] s(1)] .
  have l: "ledger (tables s')"
    using ledger_step [OF stock_step.confirm [OF s(3), of lock now "si_OrderSn si" "tables s" "[]" r s']] run' s by (simp add: calm_session)
  show ?thesis
  proof (cases r)
    case (Inl e)
    then show ?thesis using guarded_fails [OF run' [unfolded g Inl] calm_bodies(3) s(1)] o l by simp
  next
    case (Inr x)
    from guarded_yields [OF run' [unfolded g Inr, simplified]]
    have v: "validateStockOperation (si_OrderSn si) (details_of_info si) = Inr ()"
      and y: "yields (confirm_body now (si_OrderSn si)) (tables s) () (tables s')" by simp_all
    from y ledger_one_row [OF s(2)] validate_ok(1) [OF v s(3)] ledger_lines [OF s(2)]
    have "detail_of (tables s') = (detail_of (tables s))(sn \<mapsto> settle 3 d)"
    proof (cases rule: confirm_body_yields)
      case (same e)
      then have "sd_Status d \<in> {2, 3}" using sn by simp
      then have "settle 3 d = d" by (auto simp: settle_def)
      then show ?thesis using same sn by auto
    qed (use sn in \<open>auto simp: detail_of_settle settle_def\<close>)
    then show ?thesis using o l Inr by simp
  qed
qed

section \<open>The order service's side\<close>

interpretation same_orders: table_preorder "\<lambda>t t'. orderinfo t' = orderinfo t \<and> ordergoods t' = ordergoods t"
  by unfold_locales auto

named_theorems same_rules \<open>operations that leave orders and their lines alone\<close>

declare same_orders.evolves_rules [same_rules]

lemma same_writes [same_rules]:
  "same_orders.evolves (write_stmt order_status_logs order_status_logs_update f3)"
  "same_orders.evolves (write_stmt order_refund_requests order_refund_requests_update f4)"
  "same_orders.evolves (write_stmt order_refund_outbox order_refund_outbox_update f5)"
  "same_orders.evolves (write_stmt payment_events payment_events_update f6)"
  by (rule same_orders.evolves_write, simp)+

lemma same_store [same_rules]:
  "same_orders.evolves (logs_Create now e)" "same_orders.evolves (CreateRefundRequest now q)"
  "same_orders.evolves (order_by_sn sn)" "same_orders.evolves (update_events p f)"
  unfolding logs_Create_def CreateRefundRequest_def order_by_sn_def update_events_def
  by (auto intro!: same_rules split: option.split)

lemma same_events [same_rules]:
  "same_orders.evolves (ctl_BeginPaymentEvent now req)" "same_orders.evolves (ctl_CompletePaymentEvent now i b d)"
  unfolding ctl_BeginPaymentEvent_def svc_BeginPaymentEvent_def BeginPaymentEvent_def begin_event_body_def
    ctl_CompletePaymentEvent_def CompletePaymentEvent_def complete_event_body_def
  by (auto intro!: same_rules split: option.split sum.split)

lemma calm_updates [calm_intros]:
  "calm (preload rs)" "calm (orders_Get sn)" "calm (orders_Update now o')" "calm (logs_Create now e)" "calm (CreateRefundRequest now q)"
  unfolding preload_def orders_Get_def orders_Update_def logs_Create_def CreateRefundRequest_def Let_def
  by (auto intro!: calm_intros split: option.split)

lemma calm_order_Update [calm_intros]: "calm (update_body now existing o')" "calm (order_Update now oo)"
  unfolding order_Update_def update_found_def update_body_def Let_def
  by (auto intro!: calm_intros split: option.split sum.split)

lemma yields_orders_Update:
  assumes "yields (orders_Update now (Some order)) t () t'" "ID order \<le> 0"
  shows "orderinfo t' = update_rows (numbered (trim_space (od_OrderSn order)))
      (order_updates now (order\<lparr>od_OrderSn := trim_space (od_OrderSn order), od_Status := trim_space (od_Status order)\<rparr>)) (orderinfo t) \<and>
    ordergoods t' = ordergoods t"
  using assms
  by (auto simp: orders_Update_def Let_def update_where_def elim!: yields_elims dest!: yields_write split: if_splits)

text \<open>Either nothing happens to the orders, or the order with the number gets the new status.\<close>

definition moved :: "OrderInfoDO \<Rightarrow> order_phase \<Rightarrow> order_db \<Rightarrow> order_db \<Rightarrow> bool" where
  "moved r0 q t t' \<longleftrightarrow> ordergoods t' = ordergoods t \<and>
     (\<exists>r1. ID r1 = ID r0 \<and> numbered (od_OrderSn r0) r1 \<and> od_Status r1 = phase_name q \<and>
        orderinfo t' = update_rows (\<lambda>r. r = r0) (\<lambda>_. r1) (orderinfo t))"

lemma update_moves:
  assumes y: "yields (update_body now existing o2) t () t'"
    and wf: "wf_orders (orderinfo t)" and r0: "first_row (numbered sn) (orderinfo t) = Some r0"
    and o2: "ID o2 \<le> 0" "trim_space (od_OrderSn o2) = sn" "od_Status o2 = phase_name q"
  shows "moved r0 q t t'"
proof -
  note r = first_row_Some [OF r0]
  from y obtain u where u: "yields (orders_Update now (Some (info_of o2))) t () u"
    and rest: "yields (bindE (if trim_space (od_Status existing) \<noteq> trim_space (od_Status o2)
              then map_err Wrapf (logs_Create now (Some (buildStatusLog existing o2))) else ok ()) (\<lambda>_.
         if od_Status o2 = OrderStatusRefundPending
         then CreateRefundRequest now (Some (refund_request_of now o2)) else ok ())) u () t'"
    unfolding update_body_def by (auto elim: yields_bindE)
  define o3 where "o3 = (info_of o2)\<lparr>od_OrderSn := sn, od_Status := phase_name q\<rparr>"
  have "orderinfo u = update_rows (numbered sn) (order_updates now o3) (orderinfo t) \<and> ordergoods u = ordergoods t"
    using yields_orders_Update [OF u] o2 by (simp add: OrderInfoDO.defs o3_def)
  moreover have "orderinfo t' = orderinfo u \<and> ordergoods t' = ordergoods u"
  proof -
    have "same_orders.evolves (bindE (if trim_space (od_Status existing) \<noteq> trim_space (od_Status o2)
              then map_err Wrapf (logs_Create now (Some (buildStatusLog existing o2))) else ok ()) (\<lambda>_.
         if od_Status o2 = OrderStatusRefundPending
         then CreateRefundRequest now (Some (refund_request_of now o2)) else ok ()))"
      by (auto intro!: same_rules)
    from same_orders.evolvesD [OF this] rest show ?thesis unfolding yields_def by fastforce
  qed
  moreover have "update_rows (numbered sn) (order_updates now o3) (orderinfo t) = update_rows (\<lambda>r. r = r0) (\<lambda>_. order_updates now o3 r0) (orderinfo t)"
    by (rule update_rows_one [OF numbered_one [OF wf]]) (use r in simp_all)
  ultimately show ?thesis
    unfolding moved_def using r by (intro conjI exI [of _ "order_updates now o3 r0"]) (simp_all add: order_updates_def o3_def)
qed

lemma update_effect:
  assumes run: "run_state (order_Update now (Some order)) s = (res, s')"
    and wf: "wf_orders (orderinfo (tables s))" and r0: "first_row (numbered sn) (orderinfo (tables s)) = Some r0" "od_Status r0 = phase_name p"
    and o': "ID order \<le> 0" "trim_space (od_OrderSn order) = sn" "trim_space (od_Status order) = phase_name q"
  shows "tables s' = tables s \<and> res \<noteq> Inr () \<or> (p = q \<or> phase_step p q) \<and> moved r0 q (tables s) (tables s')"
proof -
  define o1 where "o1 = order\<lparr>od_OrderSn := sn, od_Status := phase_name q\<rparr>"
  have sn: "trim_space sn = sn" using o'(2) trim_space_idem by metis
  have still_get: "run_state (orders_Get sn) s = (x, s1) \<Longrightarrow> tables s1 = tables s" for x s1
    using still.evolvesD [OF orders_Get_reads] by auto
  have found: "existing = with_goods (tables s) r0" if "run_state (orders_Get sn) s = (Inr existing, s1)" for existing s1
    using orders_Get_found [OF yieldsI [OF that]] r0 unfolding sn by auto
  show ?thesis
  proof (cases "sn = [] \<or> \<not> isValidOrderStatus (phase_name q)")
    case True
    then show ?thesis using run o' by (auto simp: order_Update_def Let_def split: if_splits)
  next
    case False
    then have b: "run_state (bindE (orders_Get sn) (\<lambda>existing. update_found now existing o1)) s = (res, s')"
      using run o' by (simp add: order_Update_def Let_def o1_def)
    obtain x s1 where g: "run_state (orders_Get sn) s = (x, s1)" by fastforce
    show ?thesis
    proof (cases x)
      case (Inl e)
      then show ?thesis using b g still_get [OF g] by (auto simp: run_bindE)
    next
      case (Inr existing)
      note t1 = still_get [OF g]
      have st: "od_Status existing = phase_name p" using found g Inr r0(2) by (simp add: with_goods_def)
      have uf: "run_state (update_found now existing o1) s1 = (res, s')" using b g Inr by (simp add: run_bindE)
      show ?thesis
      proof (cases "update_checks now existing o1")
        case (Inl e)
        then show ?thesis using uf t1 by (auto simp: update_found_def)
      next
        case (Inr o2)
        note c = update_checks_ok [OF Inr st, of q]
        have tr: "run_state (transaction (Wrapf (Driver Fault)) (Wrapf (Driver Fault)) (update_body now existing o2)) s1 = (res, s')"
          using uf Inr by (simp add: update_found_def)
        have "tables s' = tables s1 \<and> res \<noteq> Inr () \<or> yields (update_body now existing o2) (tables s1) () (tables s')"
          using transaction_cases [OF tr] yields_transaction [OF yieldsI, of _ _ "update_body now existing o2" s1 "()" s'] tr
          by (cases "res = Inr ()") auto
        moreover have "p = q \<or> phase_step p q" "ID o2 \<le> 0" "trim_space (od_OrderSn o2) = sn" "od_Status o2 = phase_name q"
          using c o'(1) sn by (simp_all add: o1_def del: phase_step_simps)
        ultimately show ?thesis
          using update_moves [OF _ wf r0(1), of now existing o2 "tables s'" q] unfolding t1 by blast
      qed
    qed
  qed
qed

lemma phase_name_length [simp]: "length (phase_name p) \<le> 20"
  by (cases p) (simp_all add: phase_name.simps)

lemma run_orders_Update:
  assumes s: "outcomes s = []" "wf_orders (orderinfo (tables s))" "db_typed (tables s)"
    and r0: "first_row (numbered sn) (orderinfo (tables s)) = Some r0" "od_Status r0 = phase_name p" "p \<noteq> q"
    and o': "ID order \<le> 0" "od_OrderSn order = sn" "trim_space sn = sn" "od_Status order = phase_name q"
    and fits: "length (od_TradeNo order) \<le> 100" "length (od_PayType order) \<le> 20"
  shows "\<exists>oi. run_state (orders_Update now (Some order)) s = (Inr (), s\<lparr>tables := (tables s)\<lparr>orderinfo := oi\<rparr>\<rparr>)"
proof -
  note r = first_row_Some [OF r0(1)]
  define o3 where "o3 = order\<lparr>od_OrderSn := sn, od_Status := phase_name q\<rparr>"
  have one: "\<forall>x \<in> set (orderinfo (tables s)). numbered sn x \<longleftrightarrow> x = r0" by (rule numbered_one [OF s(2)]) (use r in simp_all)
  have "order_check r0 = None" using s(3) r by (simp add: db_typed_def list_all_iff)
  then have "order_check (order_updates now o3 r0) = None"
    using fits by (auto simp: order_check_def order_updates_def o3_def not_less split: if_splits)
  moreover have "order_updates now o3 r0 \<noteq> r0"
  proof -
    have "od_Status (order_updates now o3 r0) \<noteq> od_Status r0" using r0 by (simp add: order_updates_def o3_def)
    then show ?thesis by auto
  qed
  moreover have "sn \<noteq> []" using wf_ordersD(3) [OF s(2)] r by (auto simp: Order_Machine.row_ok_def)
  ultimately have "fst (update_where (numbered sn) (order_updates now o3) (fits_check order_check) (orderinfo (tables s))) \<noteq> Inr 0"
      "\<exists>n. fst (update_where (numbered sn) (order_updates now o3) (fits_check order_check) (orderinfo (tables s))) = Inr n"
    using one r by (auto simp: update_where_def list_all_iff count_rows_0)
  moreover have "order\<lparr>od_OrderSn := trim_space (od_OrderSn order), od_Status := trim_space (od_Status order)\<rparr> = o3"
    using o' by (simp add: o3_def)
  moreover have "\<not> 0 < ID o3" "od_OrderSn o3 = sn" "od_Status o3 = phase_name q" using o' by (simp_all add: o3_def)
  ultimately show ?thesis
    using s(1) \<open>sn \<noteq> []\<close> unfolding orders_Update_def option.case Let_def by (auto simp: run_simps)
qed

lemma run_logs_Create:
  assumes "outcomes s = []" "log_check e = None" "ID e = 0" "trim_space (sl_OrderSn e) \<noteq> []" "trim_space (sl_ToStatus e) \<noteq> []"
  shows "\<exists>ls. run_state (logs_Create now (Some e)) s = (Inr (), s\<lparr>tables := (tables s)\<lparr>order_status_logs := ls\<rparr>\<rparr>)"
proof -
  have "log_check (stamped now (order_status_logs (tables s)) e) = log_check e"
    by (simp add: log_check_def stamped_def)
  then have "log_check (stamped now (order_status_logs (tables s)) e) = None" using assms(2) by simp
  moreover have "\<not> list_ex (\<lambda>x. ID (stamped now (order_status_logs (tables s)) e) = ID x) (order_status_logs (tables s))"
    using assms(3) next_id_new [of ID "order_status_logs (tables s)"] by (auto simp: stamped_def list_ex_iff)
  ultimately show ?thesis
    using assms by (auto simp: logs_Create_def run_simps insert_row_def)
qed

lemma length_show_nat: "n < 10 ^ k \<Longrightarrow> 0 < k \<Longrightarrow> length (show_nat n) \<le> k"
proof (induction n arbitrary: k rule: show_nat.induct)
  case (1 n)
  show ?case
  proof (cases "n < 10")
    case True
    then show ?thesis using 1(3) by (subst show_nat.simps) simp
  next
    case False
    then obtain k' where k: "k = Suc k'" "0 < k'" using 1(2) by (cases k; cases "k - 1") auto
    then have "length (show_nat (n div 10)) \<le> k'" using 1 False by simp
    with False k show ?thesis by (subst show_nat.simps) simp
  qed
qed

lemma operator_fits: "in_int32 u \<Longrightarrow> length (defaultStatusLogOperator [] u) \<le> 64"
proof -
  assume "in_int32 u"
  then have "length (show_nat (nat u)) \<le> 10" by (intro length_show_nat) (auto simp: in_int_def)
  then show ?thesis by (auto simp: defaultStatusLogOperator_def user_operator_def show_int_def)
qed

text \<open>When the database answers and the texts fit, an allowed change of the status takes place.\<close>

definition log_fits :: "OrderDTO \<Rightarrow> bool" where
  "log_fits order \<longleftrightarrow> length (trim_space (dt_StatusReason order)) \<le> 128 \<and> length (trim_space (dt_StatusSource order)) \<le> 64 \<and>
     length (trim_space (dt_StatusOperator order)) \<le> 64 \<and> length (od_TradeNo order) \<le> 100 \<and> length (od_PayType order) \<le> 20"

lemma status_log_fits:
  assumes "order_check r0 = None" "in_int32 (ID r0)" "od_Status r0 = phase_name p" "od_Status o2 = phase_name q" "log_fits o2"
  shows "log_check (buildStatusLog (with_goods t r0) o2) = None"
proof -
  have "length (defaultStatusLogReason (dt_StatusReason o2) a b) \<le> 128" "length (defaultStatusLogSource (dt_StatusSource o2) a b) \<le> 64" for a b
    using assms(5) by (auto simp: defaultStatusLogReason_def defaultStatusLogSource_def log_fits_def)
  moreover have "in_int32 (od_User r0)" "length (od_OrderSn r0) \<le> 30" using assms(1) by (auto simp: order_check_def split: if_splits)
  moreover have "length (defaultStatusLogOperator (dt_StatusOperator o2) (od_User r0)) \<le> 64"
    using operator_fits [OF \<open>in_int32 (od_User r0)\<close>] assms(5) by (auto simp: defaultStatusLogOperator_def log_fits_def split: if_splits)
  ultimately show ?thesis
    using assms(2-4) by (auto simp: log_check_def buildStatusLog_def zero_log_def with_goods_def not_less)
qed

lemma update_succeeds:
  assumes s: "outcomes s = []" "wf_orders (orderinfo (tables s))" "db_typed (tables s)"
    and r0: "first_row (numbered sn) (orderinfo (tables s)) = Some r0" "od_Status r0 = phase_name p" "in_int32 (ID r0)"
    and pq: "phase_step p q" "q \<noteq> Refunding" "q = Paid \<Longrightarrow> trim_space (od_TradeNo order) \<noteq> []"
    and o': "ID order \<le> 0" "trim_space (od_OrderSn order) = sn" "trim_space (od_Status order) = phase_name q" "log_fits order"
  shows "\<exists>s'. run_state (order_Update now (Some order)) s = (Inr (), s')"
proof -
  note r = first_row_Some [OF r0(1)]
  have sn: "trim_space sn = sn" using o'(2) trim_space_idem by metis
  have chk: "order_check r0 = None" using s(3) r by (simp add: db_typed_def list_all_iff)
  have "sn \<noteq> []" using wf_ordersD(3) [OF s(2)] r by (auto simp: Order_Machine.row_ok_def)
  define o1 where "o1 = order\<lparr>od_OrderSn := sn, od_Status := phase_name q\<rparr>"
  let ?e = "with_goods (tables s) r0"
  have st: "od_Status ?e = phase_name p" by (simp add: with_goods_def r0(2))
  have "p \<noteq> q" using pq(1) by (cases p) auto
  define o2 where "o2 = (if q = Paid \<and> od_PayTime o1 = None then o1\<lparr>od_PayTime := Some now\<rparr> else o1)"
  have q: "phase_name q = OrderStatusTradeSuccess \<longleftrightarrow> q = Paid" "phase_name q \<noteq> OrderStatusRefundPending"
    using pq(2) phase_name_inj [of q Paid] phase_name_inj [of q Refunding] by (simp_all add: phase_name.simps(3,6))
  have c: "update_checks now ?e o1 = Inr o2"
    using transitions [of p q] pq q by (auto simp: update_checks_def st o1_def o2_def Let_def)
  have o2: "ID o2 = ID order" "od_OrderSn o2 = sn" "od_Status o2 = phase_name q" "od_TradeNo o2 = od_TradeNo order"
      "od_PayType o2 = od_PayType order" "log_fits o2"
    using o'(4) by (simp_all add: o2_def o1_def log_fits_def)
  obtain oi where u: "run_state (orders_Update now (Some (info_of o2))) s = (Inr (), s\<lparr>tables := (tables s)\<lparr>orderinfo := oi\<rparr>\<rparr>)"
    using run_orders_Update [OF s r0(1,2) \<open>p \<noteq> q\<close>, of "info_of o2" now] o2 o' sn by (auto simp: OrderInfoDO.defs log_fits_def)
  have "log_check (buildStatusLog ?e o2) = None" by (rule status_log_fits [OF chk r0(3,2) o2(3,6)])
  then obtain ls where l: "run_state (logs_Create now (Some (buildStatusLog ?e o2))) (s\<lparr>tables := (tables s)\<lparr>orderinfo := oi\<rparr>\<rparr>)
      = (Inr (), s\<lparr>tables := (tables s)\<lparr>orderinfo := oi, order_status_logs := ls\<rparr>\<rparr>)"
    using run_logs_Create [of "s\<lparr>tables := (tables s)\<lparr>orderinfo := oi\<rparr>\<rparr>" "buildStatusLog ?e o2" now] s(1) o2(3) r sn \<open>sn \<noteq> []\<close>
    by (auto simp: buildStatusLog_def zero_log_def with_goods_def)
  have "\<exists>s'. run_state (update_body now ?e o2) s = (Inr (), s')"
    using u l q(2) o2(3) st \<open>p \<noteq> q\<close> by (simp add: update_body_def run_simps)
  then have "\<exists>s'. run_state (update_found now ?e o1) s = (Inr (), s')"
    using run_transaction_ok [OF s(1), of "update_body now ?e o2"] calmD [OF calm_order_Update(1) _ s(1)] c
    by (fastforce simp: update_found_def)
  moreover have "isValidOrderStatus (phase_name q)" using valid_status_phase by blast
  ultimately show ?thesis
    using run_orders_Get [OF s(1), of sn r0] r0(1) sn \<open>sn \<noteq> []\<close> o' by (simp add: order_Update_def Let_def o1_def run_bindE)
qed

end
