(* ===== verification/Shop_Runs.thy ===== *)
theory Shop_Runs
  imports Shop_Agreement
begin

text \<open>
  The runs of the shop: what the gateway, the worker and the provider's callbacks do to the order
  service and to the inventory service together.
\<close>

declare phase_step_simps [simp del]

section \<open>Moves that keep the services in step\<close>

lemma on_ordersE:
  assumes "run_state (on_orders m) w = (r, w')"
  obtains s' where "run_state m (order_side w) = (r, s')" "w' = w\<lparr>order_side := s'\<rparr>"
  using assms by (cases "run_state m (order_side w)") (auto simp: run_on_orders)

lemma on_stockE:
  assumes "run_state (on_stock m) w = (r, w')"
  obtains s' where "run_state m (stock_side w) = (r, s')" "w' = w\<lparr>stock_side := s'\<rparr>"
  using assms by (cases "run_state m (stock_side w)") (auto simp: run_on_stock)

lemma shop_okD:
  assumes "shop_ok w"
  shows "outcomes (order_side w) = []" "outcomes (stock_side w) = []" "ledger (tables (stock_side w))"
    "wf_orders (orderinfo (tables (order_side w)))" "db_typed (tables (order_side w))"
    "lines_present (tables (order_side w))" "in_step (tables (order_side w)) (tables (stock_side w))"
  using assms by (auto simp: shop_ok_def)

lemma shop_row:
  assumes w: "shop_ok w" and r0: "first_row (numbered sn) (orderinfo (tables (order_side w))) = Some r0"
  obtains p d where "od_Status r0 = phase_name p" "detail_of (tables (stock_side w)) sn = Some d"
    "agrees (phase_name p) (sd_Status d)" "in_int32 (ID r0)" "sd_Status d \<in> {1, 2, 3}"
proof -
  note r = first_row_Some [OF r0]
  obtain p where p: "od_Status r0 = phase_name p"
    using wf_ordersD(3) [OF shop_okD(4) [OF w]] r by (auto simp: Order_Machine.row_ok_def)
  obtain d where d: "detail_of (tables (stock_side w)) sn = Some d" "agrees (phase_name p) (sd_Status d)"
    using shop_okD(7) [OF w] r p by (auto simp: in_step_def list_all_iff split: option.splits)
  have "in_int32 (ID r0)"
    using shop_okD(5,6) [OF w] r by (fastforce simp: lines_present_def db_typed_def list_all_iff list_ex_iff goods_check_def split: if_splits)
  moreover have "sd_Status d \<in> {1, 2, 3}"
    using ledger_detail [OF shop_okD(3) [OF w]] d(1) by (auto simp: detail_ok_def detail_of_def dest!: first_row_Some)
  ultimately show thesis using that p d by blast
qed

text \<open>Nothing happens to the orders, and the inventory's tables stay.\<close>

lemma shop_ok_same:
  assumes w: "shop_ok w" and s1: "outcomes (order_side w') = []" "outcomes (stock_side w') = []" "tables (stock_side w') = tables (stock_side w)"
    and t: "orderinfo (tables (order_side w')) = orderinfo (tables (order_side w))"
      "ordergoods (tables (order_side w')) = ordergoods (tables (order_side w))" "db_typed (tables (order_side w'))"
  shows "shop_ok w'"
  using w s1 t by (simp add: shop_ok_def lines_present_def in_step_def)

text \<open>One order moves, together with its sell detail.\<close>

lemma shop_ok_move:
  assumes w: "shop_ok w" and s1: "outcomes (order_side w') = []" "outcomes (stock_side w') = []" "ledger (tables (stock_side w'))"
    and t: "wf_orders (orderinfo (tables (order_side w')))" "db_typed (tables (order_side w'))"
    and r0: "first_row (numbered sn) (orderinfo (tables (order_side w))) = Some r0"
    and m: "moved r0 q (tables (order_side w)) (tables (order_side w'))"
    and d: "detail_of (tables (stock_side w')) = (detail_of (tables (stock_side w)))(sn \<mapsto> d')" "agrees (phase_name q) (sd_Status d')"
  shows "shop_ok w'"
proof -
  note r = first_row_Some [OF r0]
  from m obtain r1 where r1: "ID r1 = ID r0" "numbered sn r1" "od_Status r1 = phase_name q"
      "orderinfo (tables (order_side w')) = update_rows (\<lambda>r. r = r0) (\<lambda>_. r1) (orderinfo (tables (order_side w)))"
    and g: "ordergoods (tables (order_side w')) = ordergoods (tables (order_side w))"
    using r by (auto simp: moved_def)
  have rows: "set (orderinfo (tables (order_side w'))) = insert r1 (set (orderinfo (tables (order_side w))) - {r0})"
    using r by (simp add: r1(4) set_replace)
  have other: "od_OrderSn x \<noteq> sn" if "x \<in> set (orderinfo (tables (order_side w)))" "live x" "x \<noteq> r0" for x
    using wf_ordersD(4) [OF shop_okD(4) [OF w], of x r0] that r by auto
  have "lines_present (tables (order_side w'))"
    using shop_okD(6) [OF w] r r1 g unfolding lines_present_def list_all_iff rows by auto
  moreover have "in_step (tables (order_side w')) (tables (stock_side w'))"
    using shop_okD(7) [OF w] r1 other d unfolding in_step_def list_all_iff rows by auto
  ultimately show ?thesis using s1 t by (simp add: shop_ok_def)
qed

lemma order_Update_keeps:
  assumes "run_state (order_Update now (Some order)) s = (res, s')" "ID order \<le> 0" "outcomes s = []"
    "wf_orders (orderinfo (tables s))" "db_typed (tables s)"
  shows "outcomes s' = []" "wf_orders (orderinfo (tables s'))" "db_typed (tables s')"
  using calmD [OF calm_order_Update(2) assms(1,3)] books.evolvesD [OF book_order_Update [OF assms(2)] assms(1)]
    audits.evolvesD [OF audit_service(4) assms(1)] assms(4,5)
  by (simp_all add: keeps_book_def audit_def)

lemma update_missing:
  assumes "run_state (order_Update now (Some order)) s = (res, s')" "first_row (numbered (trim_space (od_OrderSn order))) (orderinfo (tables s)) = None"
  shows "tables s' = tables s"
proof -
  have "tables s1 = tables s \<and> (\<exists>e. x = Inl e)" if "run_state (orders_Get (trim_space (od_OrderSn order))) s = (x, s1)" for x s1
    using that still.evolvesD [OF orders_Get_reads that] orders_Get_found [OF yieldsI, of "trim_space (od_OrderSn order)" s _ s1] assms(2)
    by (cases x) (auto simp: trim_space_idem)
  then show ?thesis using assms(1) by (fastforce simp: order_Update_def Let_def run_bindE split: if_splits sum.splits prod.splits)
qed

text \<open>A change of the status among those that ask the same of the sell detail.\<close>

lemma agrees_step: "p = q \<or> phase_step p q \<Longrightarrow> q \<noteq> Paid \<Longrightarrow> q \<noteq> Closed \<Longrightarrow> agrees (phase_name p) st \<Longrightarrow> agrees (phase_name q) st"
  by (cases p; cases q) (simp_all add: agrees_phase phase_step_simps)

lemma update_step:
  assumes w: "shop_ok w" and run: "run_state (on_orders (order_Update now (Some order))) w = (res, w')"
    and o': "ID order \<le> 0" "trim_space (od_Status order) = phase_name q" "q \<noteq> Paid" "q \<noteq> Closed"
  shows "shop_ok w'"
proof -
  let ?sn = "trim_space (od_OrderSn order)"
  obtain s' where s': "run_state (order_Update now (Some order)) (order_side w) = (res, s')" and w': "w' = w\<lparr>order_side := s'\<rparr>"
    using on_ordersE [OF run] .
  note k = order_Update_keeps [OF s' o'(1) shop_okD(1,4,5) [OF w]]
  show ?thesis
  proof (cases "first_row (numbered ?sn) (orderinfo (tables (order_side w)))")
    case None
    then show ?thesis using update_missing [OF s'] shop_ok_same [OF w, of w'] k shop_okD [OF w] by (simp add: w')
  next
    case (Some r0)
    obtain p d where r: "od_Status r0 = phase_name p" "detail_of (tables (stock_side w)) ?sn = Some d" "agrees (phase_name p) (sd_Status d)"
      using shop_row [OF w Some] by blast
    from update_effect [OF s' shop_okD(4) [OF w] Some r(1) o'(1) refl o'(2)] show ?thesis
    proof
      assume "tables s' = tables (order_side w) \<and> res \<noteq> Inr ()"
      then show ?thesis using shop_ok_same [OF w, of w'] k shop_okD [OF w] by (simp add: w')
    next
      assume m: "(p = q \<or> phase_step p q) \<and> moved r0 q (tables (order_side w)) (tables s')"
      have "agrees (phase_name q) (sd_Status d)" using agrees_step [of p q] m o'(3,4) r(3) by blast
      moreover have "detail_of (tables (stock_side w)) = (detail_of (tables (stock_side w)))(?sn \<mapsto> d)" using r(2) by auto
      ultimately show ?thesis
        using shop_ok_move [OF w, of w' ?sn r0 q d] Some m k shop_okD [OF w] by (simp add: w')
    qed
  qed
qed

text \<open>
  The pattern of cancelling, of paying and of the timeout: settle the sell detail, then write the
  status. \<open>op\<close> is one of the two calls of the inventory.
\<close>

definition settles_to :: "order_phase \<Rightarrow> int \<Rightarrow> bool" where
  "settles_to q st \<longleftrightarrow> q = Closed \<and> st = 2 \<or> q = Paid \<and> st = 3"

definition settling :: "unit inv_op \<Rightarrow> string \<Rightarrow> int \<Rightarrow> bool" where
  "settling m sn st \<longleftrightarrow> (\<forall>s r s' d. run_state m s = (r, s') \<longrightarrow> outcomes s = [] \<longrightarrow> ledger (tables s) \<longrightarrow>
     detail_of (tables s) sn = Some d \<longrightarrow> outcomes s' = [] \<and> ledger (tables s') \<and>
     (case r of Inl e \<Rightarrow> tables s' = tables s | Inr _ \<Rightarrow> detail_of (tables s') = (detail_of (tables s))(sn \<mapsto> settle st d)))"

lemma settling_ops:
  assumes "list_all line_typed (details_of_info si)" "trim_space (si_OrderSn si) = sn"
  shows "settling (ctl_Release lock now (Some si)) sn 2" "settling (ctl_Confirm lock now (Some si)) sn 3"
  unfolding settling_def using release_effect [OF _ _ _ assms] confirm_effect [OF _ _ _ assms] by blast+

lemma settle_agrees:
  assumes "agrees (phase_name p) (sd_Status d)" "sd_Status d \<in> {1, 2, 3}" "settles_to q st"
  shows "p = q \<or> phase_step p q \<Longrightarrow> agrees (phase_name q) (sd_Status (settle st d))"
    "\<not> phase_step p q \<Longrightarrow> settle st d = d"
  using assms by (cases p; auto simp: agrees_phase settles_to_def settle_def phase_step_simps)+

lemma settle_step:
  assumes w: "shop_ok w" and r0: "first_row (numbered sn) (orderinfo (tables (order_side w))) = Some r0"
    and run: "run_state (bindE (on_stock m) (\<lambda>_. on_orders (order_Update now (Some order)))) w = (res, w')"
    and m: "settling m sn st" "settles_to q st"
    and o': "ID order \<le> 0" "trim_space (od_OrderSn order) = sn" "trim_space (od_Status order) = phase_name q" "log_fits order"
      "q = Paid \<Longrightarrow> trim_space (od_TradeNo order) \<noteq> []"
  shows "shop_ok w'"
proof -
  note W = shop_okD [OF w]
  obtain p d where r: "od_Status r0 = phase_name p" "detail_of (tables (stock_side w)) sn = Some d" "agrees (phase_name p) (sd_Status d)"
      "in_int32 (ID r0)" "sd_Status d \<in> {1, 2, 3}"
    using shop_row [OF w r0] by blast
  obtain x w1 where x: "run_state (on_stock m) w = (x, w1)" by fastforce
  then obtain u where u: "run_state m (stock_side w) = (x, u)" "w1 = w\<lparr>stock_side := u\<rparr>" by (rule on_stockE)
  from m(1) u(1) W(2,3) r(2) have U: "outcomes u = []" "ledger (tables u)"
      "case x of Inl e \<Rightarrow> tables u = tables (stock_side w) | Inr _ \<Rightarrow> detail_of (tables u) = (detail_of (tables (stock_side w)))(sn \<mapsto> settle st d)"
    unfolding settling_def by blast+
  show ?thesis
  proof (cases x)
    case (Inl e)
    then have "w' = w1" using run x by (simp add: run_bindE)
    then show ?thesis using Inl U shop_ok_same [OF w, of w'] W u(2) by simp
  next
    case (Inr y)
    then obtain s' where s': "run_state (order_Update now (Some order)) (order_side w) = (res, s')" and w': "w' = w\<lparr>stock_side := u, order_side := s'\<rparr>"
      using run x u(2) on_ordersE [of "order_Update now (Some order)" w1 res w'] by (auto simp: run_bindE)
    note k = order_Update_keeps [OF s' o'(1) W(1,4,5)]
    note eff = update_effect [OF s' W(4) r0 r(1) o'(1-3)]
    note sa = settle_agrees [OF r(3,5) m(2)]
    show ?thesis
    proof (cases "phase_step p q \<or> moved r0 q (tables (order_side w)) (tables s') \<and> p = q")
      case True
      moreover have "q \<noteq> Refunding" using m(2) by (auto simp: settles_to_def)
      then have "res = Inr ()" if "phase_step p q"
        using update_succeeds [OF W(1,4,5) r0 r(1,4) that _ o'(5) o'(1-4), of now] s' by auto
      ultimately have "moved r0 q (tables (order_side w)) (tables s')" "p = q \<or> phase_step p q" using eff by blast+
      then show ?thesis
        using shop_ok_move [OF w, of w' sn r0 q "settle st d"] r0 sa(1) k U Inr by (simp add: w')
    next
      case False
      then have "tables s' = tables (order_side w)" using eff by blast
      moreover have "in_step (tables (order_side w)) (tables u)"
      proof -
        have "settle st d = d" using False eff sa(2) by blast
        then have "detail_of (tables u) = detail_of (tables (stock_side w))" using U(3) Inr r(2) by (simp add: fun_upd_idem)
        with W(7) show ?thesis by (simp add: in_step_def)
      qed
      ultimately show ?thesis using U k W by (simp add: shop_ok_def w')
    qed
  qed
qed

section \<open>Reading an order\<close>

lemma calm_read_same:
  assumes "still.evolves m" "calm m" "outcomes (order_side w) = []" "run_state (on_orders m) w = (x, w1)"
  shows "w1 = w"
proof -
  obtain s where s: "run_state m (order_side w) = (x, s)" "w1 = w\<lparr>order_side := s\<rparr>" using on_ordersE [OF assms(4)] .
  have "tables s = tables (order_side w)" using still.evolvesD [OF assms(1) s(1)] by simp
  moreover have "outcomes s = []" using calmD [OF assms(2) s(1)] assms(3) by simp
  ultimately have "s = order_side w" using assms(3) by (cases s; cases "order_side w") simp
  then show ?thesis using s(2) by simp
qed

text \<open>
  What the gateway relies on when it asks the order service for an order: the answer is the live
  order with the number and its lines, and asking changes nothing.
\<close>

locale lookup_service =
  fixes lookup :: order_lookup
  assumes reads: "still.evolves (lookup sn)"
    and answers: "calm (lookup sn)"
    and found: "yields (lookup sn) t (info, goods) t' \<Longrightarrow>
      \<exists>r. first_row (numbered (trim_space sn)) (orderinfo t) = Some r \<and> op_Status info = od_Status r \<and>
        goods = orderGoodsToResponse (od_OrderGoods (with_goods t r))"
begin

lemma lookup_same:
  assumes "shop_ok w" "run_state (on_orders (lookup sn)) w = (x, w1)"
  shows "w1 = w"
  by (rule calm_read_same [OF reads answers shop_okD(1) [OF assms(1)] assms(2)])

lemma lookup_row:
  assumes w: "shop_ok w" and run: "run_state (on_orders (lookup sn)) w = (Inr (info, goods), w1)"
  shows "\<exists>r0. first_row (numbered (trim_space sn)) (orderinfo (tables (order_side w))) = Some r0"
    "sellInfoFromOrder sn' goods = Inr si \<Longrightarrow> list_all line_typed (details_of_info si) \<and> si_OrderSn si = sn'"
proof -
  obtain s where s: "run_state (lookup sn) (order_side w) = (Inr (info, goods), s)" using on_ordersE [OF run] .
  from found [OF yieldsI [OF s]] obtain r where r: "first_row (numbered (trim_space sn)) (orderinfo (tables (order_side w))) = Some r"
    "goods = orderGoodsToResponse (od_OrderGoods (with_goods (tables (order_side w)) r))" by blast
  from r(1) show "\<exists>r0. first_row (numbered (trim_space sn)) (orderinfo (tables (order_side w))) = Some r0" ..
  assume si: "sellInfoFromOrder sn' goods = Inr si"
  then have "si = \<lparr>si_GoodsInfo = map (\<lambda>item. info_of_line \<lparr>gd_Goods = ip_GoodsId item, gd_Num = ip_Nums item\<rparr>) goods, si_OrderSn = sn'\<rparr>"
    by (auto simp: sellInfoFromOrder_def split: if_splits)
  moreover have "in_int32 (ip_GoodsId i) \<and> in_int32 (ip_Nums i)" if "i \<in> set goods" for i
    using that shop_okD(5) [OF w]
    by (auto simp: r(2) orderGoodsToResponse_def with_goods_def db_typed_def list_all_iff goods_check_def split: if_splits)
  ultimately show "list_all line_typed (details_of_info si) \<and> si_OrderSn si = sn'"
    by (auto simp: details_of_info_def info_of_line_def list_all_iff line_typed_def)
qed

end

lemma calm_OrderDetail [calm_intros]: "calm (OrderDetail fmt q)"
  unfolding OrderDetail_def order_Get_def by (auto intro!: calm_intros split: option.split)

lemma reads_OrderDetail: "still.evolves (OrderDetail fmt q)"
  unfolding OrderDetail_def order_Get_def by (auto intro!: still_rules split: option.split)

interpretation own: lookup_service "\<lambda>sn. OrderDetail fmt (Some (order_request u sn))" for fmt u
proof
  fix sn t info goods t'
  assume "yields (OrderDetail fmt (Some (order_request u sn))) t (info, goods) t'"
  then obtain o' v where "yields (orders_Get sn) t o' v" "info = orderToResponse fmt o'" "goods = orderGoodsToResponse (od_OrderGoods o')"
    unfolding OrderDetail_def order_Get_def by (auto simp: order_request_def elim!: yields_elims split: if_splits)
  moreover from this(1) obtain r where "first_row (numbered (trim_space sn)) (orderinfo t) = Some r" "o' = with_goods t r"
    by (rule orders_Get_found)
  ultimately show "\<exists>r. first_row (numbered (trim_space sn)) (orderinfo t) = Some r \<and> op_Status info = od_Status r \<and>
        goods = orderGoodsToResponse (od_OrderGoods (with_goods t r))"
    by (auto simp: orderToResponse_def with_goods_def)
qed (simp_all add: calm_intros reads_OrderDetail)

interpretation unimplemented: lookup_service GetOrderBySn
  by unfold_locales (auto simp: GetOrderBySn_def calm_intros still_rules elim: yields_elims)

section \<open>The gateway's operations\<close>

abbreviation status_dto :: "OrderStatus \<Rightarrow> OrderDTO" where
  "status_dto st \<equiv> zero_order\<lparr>od_OrderSn := os_OrderSn st, od_Status := os_Status st,
          od_PayType := os_PayType st, od_TradeNo := os_TradeNo st, dt_StatusReason := os_Reason st,
          dt_ActorUserID := os_ActorUserId st, dt_RefundAmountFen := os_RefundAmountFen st,
          dt_CorrelationID := os_CorrelationId st, dt_RequestID := os_RequestId st,
          ID := (if 0 < os_Id st then os_Id st else 0),
          od_PayTime := (if 0 < os_PayTime st then Some (os_PayTime st * 1000) else None)\<rparr>"

lemma UpdateOrderStatus_dto: "UpdateOrderStatus now (Some st) = order_Update now (Some (status_dto st))"
  by (simp add: UpdateOrderStatus_def)

lemma status_step:
  assumes "shop_ok w" "run_state (on_orders (UpdateOrderStatus now (Some st))) w = (res, w')" "os_Id st \<le> 0"
    "trim_space (os_Status st) = phase_name q" "q \<noteq> Paid" "q \<noteq> Closed"
  shows "shop_ok w'"
  by (rule update_step [OF assms(1) assms(2) [unfolded UpdateOrderStatus_dto] _ _ assms(5,6)]) (use assms(3,4) in \<open>simp_all add: zero_order_def\<close>)

lemma settle_status_step:
  assumes w: "shop_ok w" and r0: "first_row (numbered (trim_space (os_OrderSn st))) (orderinfo (tables (order_side w))) = Some r0"
    and run: "run_state (bindE (on_stock m) (\<lambda>_. on_orders (UpdateOrderStatus now (Some st)))) w = (res, w')"
    and m: "settling m (trim_space (os_OrderSn st)) k" "settles_to q k"
    and st: "os_Id st \<le> 0" "os_Status st = phase_name q" "length (trim_space (os_Reason st)) \<le> 128"
      "length (os_TradeNo st) \<le> 100" "length (os_PayType st) \<le> 20" "q = Paid \<Longrightarrow> trim_space (os_TradeNo st) \<noteq> []"
  shows "shop_ok w'"
  by (rule settle_step [OF w r0 run [unfolded UpdateOrderStatus_dto] m]) (use st in \<open>simp_all add: zero_order_def log_fits_def\<close>)

lemma cancel_reason: "length (trim_space ''cancelled by customer'') \<le> 128"
  by code_simp

lemma cancel_step:
  assumes w: "shop_ok w" and run: "run_state (CancelOrder fmt lock now u sn) w = (res, w')"
  shows "shop_ok w'"
proof (cases "u = 0 \<or> trim_space sn = []")
  case True
  then show ?thesis using w run by (auto simp: CancelOrder_def gw_OrderDetail_def run_bindE)
next
  case False
  obtain x w1 where x: "run_state (on_orders (OrderDetail fmt (Some (order_request u (trim_space sn))))) w = (x, w1)" by fastforce
  note w1 = own.lookup_same [OF w x]
  show ?thesis
  proof (cases x)
    case (Inl e)
    then show ?thesis using w w1 run x False by (auto simp: CancelOrder_def gw_OrderDetail_def run_bindE)
  next
    case (Inr d)
    obtain info goods where d: "d = (info, goods)" by (cases d)
    note L = own.lookup_row [OF w x [unfolded Inr d]]
    obtain r0 where r0: "first_row (numbered (trim_space sn)) (orderinfo (tables (order_side w))) = Some r0" using L(1) by auto
    let ?st = "(status_request sn OrderStatusTradeClosed)\<lparr>os_Reason := ''cancelled by customer''\<rparr>"
    show ?thesis
    proof (cases "run_state (CancelOrder fmt lock now u sn) w = (res, w)")
      case True
      then show ?thesis using w run by simp
    next
      case change: False
      then obtain si where si: "sellInfoFromOrder sn goods = Inr si"
          and b: "run_state (bindE (on_stock (ctl_Release lock now (Some si))) (\<lambda>_. on_orders (UpdateOrderStatus now (Some ?st)))) w = (res, w')"
        using run x w1 Inr d False
        by (auto simp: CancelOrder_def gw_OrderDetail_def run_bindE Let_def split: if_splits sum.splits)
      show ?thesis
        by (rule settle_status_step [OF w _ b, where q = Closed])
          (use L(2) [OF si] r0 settling_ops(1) [of si "trim_space sn" lock now] cancel_reason in \<open>simp_all add: status_request_def settles_to_def phase_name.simps\<close>)
    qed
  qed
qed

lemma pay_step:
  assumes w: "shop_ok w" and run: "run_state (SimulatePayCallback fmt lock now (Some req)) w = (res, w')"
    and fits: "length (trim_space (cb_TradeNo req)) \<le> 100" "length (trim_space (cb_PayType req)) \<le> 20"
  shows "shop_ok w'"
proof -
  let ?sn = "trim_space (cb_OrderSn req)"
  obtain x w1 where x: "run_state (on_orders (OrderDetail fmt (Some (order_request (cb_UserID req) ?sn)))) w = (x, w1)" by fastforce
  note w1 = own.lookup_same [OF w x]
  show ?thesis
  proof (cases "w' = w")
    case change: False
    then obtain info goods where d: "x = Inr (info, goods)"
      using run x w1 by (cases x) (auto simp: SimulatePayCallback_def Let_def run_bindE split: if_splits)
    note L = own.lookup_row [OF w x [unfolded d]]
    let ?q = "if cb_Success req then Paid else Closed"
    let ?st = "if cb_Success req then (status_request ?sn OrderStatusTradeSuccess)\<lparr>os_PayType := trim_space (cb_PayType req),
        os_TradeNo := trim_space (cb_TradeNo req), os_PayTime := unix now\<rparr> else status_request ?sn OrderStatusTradeClosed"
    from change obtain si where si: "sellInfoFromOrder ?sn goods = Inr si" and t: "cb_Success req \<Longrightarrow> trim_space (cb_TradeNo req) \<noteq> []"
      and b: "run_state (bindE (on_stock (if cb_Success req then ctl_Confirm lock now (Some si) else ctl_Release lock now (Some si)))
          (\<lambda>_. on_orders (UpdateOrderStatus now (Some ?st)))) w = (res, w')"
      using run x w1 d by (auto simp: SimulatePayCallback_def Let_def run_bindE split: if_splits sum.splits)
    obtain r0 where r0: "first_row (numbered ?sn) (orderinfo (tables (order_side w))) = Some r0" using L(1) by auto
    show ?thesis
      by (rule settle_status_step [OF w _ b, where q = ?q and k = "if cb_Success req then 3 else 2"])
        (use L(2) [OF si] r0 settling_ops [of si ?sn lock now] fits t in
          \<open>auto simp: status_request_def settles_to_def phase_name.simps split: if_splits\<close>)
  qed (simp add: w)
qed

lemma initiate_step:
  assumes w: "shop_ok w" and run: "run_state (InitiatePayment fmt opts provider now u sn) w = (res, w')"
  shows "shop_ok w'"
proof (cases "w' = w")
  case False
  obtain x w1 where x: "run_state (on_orders (OrderDetail fmt (Some (order_request u (trim_space sn))))) w = (x, w1)" by fastforce
  note w1 = own.lookup_same [OF w x]
  obtain y w2 where u: "run_state (on_orders (UpdateOrderStatus now (Some (status_request sn OrderStatusPaying)))) w = (y, w2)" by fastforce
  then have "w' = w2"
    using False run x w1 by (cases y) (auto simp: InitiatePayment_def gw_OrderDetail_def Let_def run_bindE split: if_splits sum.splits option.splits prod.splits)
  moreover have "shop_ok w2"
    by (rule status_step [OF w u, where q = Paying])
      (use trim_phase_name [of Paying] in \<open>simp_all add: status_request_def phase_name.simps\<close>)
  ultimately show ?thesis by simp
qed (simp add: w)

section \<open>The provider's callback\<close>

text \<open>The texts of a callback that the columns of an order can take.\<close>

definition callback_fits :: "CallbackRequest \<Rightarrow> bool" where
  "callback_fits req \<longleftrightarrow> length (cr_TradeNo req) \<le> 100 \<and> length (cr_Provider req) \<le> 20 \<and>
     (cr_EventType req = ''payment_succeeded'' \<longrightarrow> trim_space (cr_TradeNo req) \<noteq> [])"

lemma event_step:
  assumes w: "shop_ok w" and run: "run_state (on_orders m) w = (res, w')"
    and m: "same_orders.evolves m" "audits.evolves m" "calm m"
  shows "shop_ok w'"
proof -
  obtain s where s: "run_state m (order_side w) = (res, s)" "w' = w\<lparr>order_side := s\<rparr>" using on_ordersE [OF run] .
  show ?thesis
    using shop_ok_same [OF w, of w'] same_orders.evolvesD [OF m(1) s(1)] audits.evolvesD [OF m(2) s(1)] calmD [OF m(3) s(1)] shop_okD [OF w]
    by (simp add: s(2) audit_def)
qed

lemma calm_events [calm_intros]: "calm (ctl_BeginPaymentEvent now req)" "calm (ctl_CompletePaymentEvent now i b d)"
  unfolding ctl_BeginPaymentEvent_def svc_BeginPaymentEvent_def BeginPaymentEvent_def begin_event_body_def
    ctl_CompletePaymentEvent_def CompletePaymentEvent_def complete_event_body_def order_by_sn_def update_events_def
  by (auto intro!: calm_intros split: option.split sum.split)

context lookup_service
begin

lemma callback_body_step:
  assumes w: "shop_ok w" and run: "run_state (callback_body lookup lock now req begun) w = (res, w')" and fits: "callback_fits req"
  shows "shop_ok w'"
proof (cases "w' = w")
  case False
  let ?sn = "cr_OrderSN req"
  obtain x w1 where x: "run_state (on_orders (lookup ?sn)) w = (x, w1)" by fastforce
  note w1 = lookup_same [OF w x]
  from False obtain info goods where d: "x = Inr (info, goods)"
    using run x w1 by (cases x) (auto simp: callback_body_def Let_def split: if_splits)
  note L = lookup_row [OF w x [unfolded d]]
  define q where "q = (if cr_EventType req = ''payment_succeeded'' then Paid else if cr_EventType req = ''payment_failed'' then Closed
    else if cr_EventType req = ''refund_succeeded'' then Refunded else Refund_Failed)"
  define st where "st = (status_request ?sn (phase_name q))\<lparr>os_PayType := cr_Provider req, os_TradeNo := cr_TradeNo req,
    os_PayTime := (if q = Paid then unix now else 0)\<rparr>"
  from False obtain si where si: "sellInfoFromOrder ?sn goods = Inr si"
    and b: "\<exists>y. run_state (bindE
       (if cr_EventType req = ''payment_succeeded'' then on_stock (ctl_Confirm lock now (Some si))
        else if cr_EventType req = ''payment_failed'' then on_stock (ctl_Release lock now (Some si)) else ok ())
       (\<lambda>_. on_orders (UpdateOrderStatus now (Some st)))) w = (y, w')"
    using run x w1 d
    by (auto simp: callback_body_def Let_def run_bindE q_def st_def phase_name.simps split: if_splits sum.splits prod.splits)
  obtain r0 where r0: "first_row (numbered (trim_space ?sn)) (orderinfo (tables (order_side w))) = Some r0" using L(1) by auto
  show ?thesis
  proof (cases "cr_EventType req = ''payment_succeeded'' \<or> cr_EventType req = ''payment_failed''")
    case True
    let ?k = "if cr_EventType req = ''payment_succeeded'' then 3 else 2 :: int"
    let ?m = "if cr_EventType req = ''payment_succeeded'' then ctl_Confirm lock now (Some si) else ctl_Release lock now (Some si)"
    obtain y where y: "run_state (bindE (on_stock ?m) (\<lambda>_. on_orders (UpdateOrderStatus now (Some st)))) w = (y, w')"
      using b True by (auto split: if_splits)
    show ?thesis
      by (rule settle_status_step [OF w _ y, where q = q and k = ?k])
        (use True L(2) [OF si] r0 settling_ops [of si "trim_space ?sn" lock now] fits in
          \<open>auto simp: st_def q_def status_request_def settles_to_def callback_fits_def split: if_splits\<close>)
  next
    case refund: False
    then obtain y where y: "run_state (on_orders (UpdateOrderStatus now (Some st))) w = (y, w')"
      using b by (auto simp: run_bindE)
    show ?thesis
      by (rule status_step [OF w y, where q = q]) (use refund in \<open>auto simp: st_def q_def status_request_def\<close>)
  qed
qed (simp add: w)

lemma callback_step:
  assumes w: "shop_ok w" and run: "run_state (ProcessPayCallback lookup lock now (Some req)) w = (res, w')" and fits: "callback_fits req"
  shows "shop_ok w'"
proof (cases "w' = w")
  case False
  define q where "q = \<lparr>eq_Provider = cr_Provider req, eq_EventId = cr_EventID req,
                eq_OrderSn = cr_OrderSN req, eq_TradeNo = cr_TradeNo req, eq_EventType = cr_EventType req,
                eq_ProviderAmountFen = cr_AmountFen req, eq_RefundAmountFen =
                  (if cr_EventType req = ''refund_succeeded'' \<or> cr_EventType req = ''refund_failed'' then cr_AmountFen req else 0)\<rparr>"
  obtain x w1 where x: "run_state (on_orders (ctl_BeginPaymentEvent now q)) w = (x, w1)" by fastforce
  have w1: "shop_ok w1" by (rule event_step [OF w x]) (simp_all add: same_rules audit_handlers calm_intros)
  show ?thesis
  proof (cases "w' = w1")
    case change: False
    then obtain begun where begun: "x = Inr begun"
      using run x False by (cases x) (auto simp: ProcessPayCallback_def Let_def run_bindE q_def split: if_splits)
    obtain su de r w2 where b: "run_state (callback_body lookup lock now req begun) w1 = ((su, de, r), w2)" by (metis prod.exhaust)
    have w2: "shop_ok w2" by (rule callback_body_step [OF w1 b fits])
    obtain y w3 where c: "run_state (on_orders (ctl_CompletePaymentEvent now (ep_Id begun) su de)) w2 = (y, w3)" by fastforce
    have "shop_ok w3" by (rule event_step [OF w2 c]) (simp_all add: same_rules audit_handlers calm_intros)
    moreover have "w' = w3"
      using run x False change begun b c by (auto simp: ProcessPayCallback_def Let_def run_bindE q_def split: if_splits)
    ultimately show ?thesis by simp
  qed (simp add: w1)
qed (simp add: w)

end

section \<open>The worker's sweeps\<close>

definition numbers :: "order_db \<Rightarrow> (string \<times> time option) list" where
  "numbers t = map (\<lambda>r. (od_OrderSn r, DeletedAt r)) (orderinfo t)"

interpretation numbers: table_preorder "\<lambda>t t'. numbers t' = numbers t"
  by unfold_locales auto

lemma numbers_orders_Update: "numbers.evolves (orders_Update now oo)"
proof -
  have "numbers.evolves (write_stmt orderinfo orderinfo_update (update_where p (order_updates now o') fits))" for p o' fits
    by (rule numbers.evolves_write) (simp add: numbers_def update_where_def update_rows_def order_updates_def)
  then show ?thesis unfolding orders_Update_def by (auto intro!: numbers.evolves_rules simp: Let_def split: option.split)
qed

lemma numbers_order_Update: "numbers.evolves (order_Update now oo)"
proof -
  have "numbers.evolves (write_stmt order_status_logs order_status_logs_update f)"
    "numbers.evolves (write_stmt order_refund_requests order_refund_requests_update g)"
    "numbers.evolves (write_stmt order_refund_outbox order_refund_outbox_update h)" for f g h
    by (rule numbers.evolves_write, simp add: numbers_def)+
  then have "numbers.evolves (update_body now existing o')" for existing o'
    unfolding update_body_def logs_Create_def CreateRefundRequest_def
    by (auto intro!: numbers.evolves_rules numbers_orders_Update split: option.split)
  moreover have "numbers.evolves (orders_Get sn)" for sn
    unfolding orders_Get_def preload_def by (auto intro!: numbers.evolves_rules simp: Let_def)
  ultimately show ?thesis
    unfolding order_Update_def update_found_def Let_def by (auto intro!: numbers.evolves_rules split: option.split sum.split)
qed

text \<open>An order the worker has picked: its number is that of a live order, and it has something to release.\<close>

definition candidate :: "(string \<times> time option) list \<Rightarrow> OrderInfoDO \<Rightarrow> bool" where
  "candidate ns c \<longleftrightarrow> (trim_space (od_OrderSn c), None) \<in> set ns \<and>
     list_ex (\<lambda>i. 0 < og_Goods i \<and> 0 < og_Nums i) (od_OrderGoods c) \<and> list_all typed_line (od_OrderGoods c)"

lemma candidate_row:
  assumes "candidate (numbers t) c"
  shows "\<exists>r0. first_row (numbered (trim_space (od_OrderSn c))) (orderinfo t) = Some r0"
proof (rule ccontr)
  assume "\<not> ?thesis"
  then have "first_row (numbered (trim_space (od_OrderSn c))) (orderinfo t) = None" by auto
  then show False using assms by (auto simp: candidate_def numbers_def first_row_None)
qed

definition sweep_ok :: "(string \<times> time option) list \<Rightarrow> world \<Rightarrow> bool" where
  "sweep_ok ns w \<longleftrightarrow> shop_ok w \<and> numbers (tables (order_side w)) = ns"

lemma worker_texts: "log_fits (worker_order sn OrderStatusTradeClosed ''order timeout auto close'' ''order.timeout_worker'')"
proof -
  have "length (trim_space ''order timeout auto close'') \<le> 128" "length (trim_space ''order.timeout_worker'') \<le> 64" "length (trim_space ''system'') \<le> 64"
    by code_simp+
  then show ?thesis by (simp add: log_fits_def worker_order_def zero_order_def)
qed

lemma close_step:
  assumes w: "sweep_ok ns w" and c: "candidate ns c" and run: "run_state (close_one lock now c) w = (res, w')"
  shows "sweep_ok ns w'"
proof -
  let ?items = "map (\<lambda>i. (og_Goods i, og_Nums i)) (filter (\<lambda>i. 0 < og_Goods i \<and> 0 < og_Nums i) (od_OrderGoods c))"
  let ?o = "worker_order (od_OrderSn c) OrderStatusTradeClosed ''order timeout auto close'' ''order.timeout_worker''"
  let ?m = "gateway_Release lock now (trim_space (od_OrderSn c)) ?items"
  have ok: "shop_ok w" and n: "numbers (tables (order_side w)) = ns" using w by (auto simp: sweep_ok_def)
  obtain r0 where r0: "first_row (numbered (trim_space (od_OrderSn c))) (orderinfo (tables (order_side w))) = Some r0"
    using candidate_row [of "tables (order_side w)" c] c n by auto
  have "?items \<noteq> []" using c by (auto simp: candidate_def list_ex_iff filter_empty_conv)
  then have b: "run_state (bindE (on_stock ?m) (\<lambda>_. on_orders (order_Update now (Some ?o)))) w = (res, w')"
    using run by (simp add: close_one_def releaseOrderInventory_def)
  have "settling ?m (trim_space (od_OrderSn c)) 2"
    unfolding gateway_Release_def
    by (rule settling_ops(1)) (use c in \<open>auto simp: candidate_def details_of_info_def info_of_line_def list_all_iff typed_line_def line_typed_def\<close>)
  then have "shop_ok w'"
    by (rule settle_step [OF ok r0 b, where q = Closed])
      (use trim_phase_name [of Closed] worker_texts [of "od_OrderSn c"] in
        \<open>simp_all add: worker_order_def zero_order_def settles_to_def phase_name.simps\<close>)
  moreover have "numbers (tables (order_side w')) = ns"
    using b n numbers.evolvesD [OF numbers_order_Update]
    by (auto simp: run_bindE elim!: on_ordersE on_stockE split: sum.splits prod.splits)
  ultimately show ?thesis by (simp add: sweep_ok_def)
qed

lemma finish_step:
  assumes "shop_ok w" "run_state (finish_one now c) w = (res, w')"
  shows "shop_ok w'"
  by (rule update_step [OF assms(1) assms(2) [unfolded finish_one_def], where q = Finished])
    (use trim_phase_name [of Finished] in \<open>simp_all add: worker_order_def zero_order_def phase_name.simps\<close>)

lemma process_all_keeps:
  assumes "\<And>c w r w'. c \<in> set cs \<Longrightarrow> P w \<Longrightarrow> run_state (f c) w = (r, w') \<Longrightarrow> P w'"
  shows "P w \<Longrightarrow> run_state (process_all f cs) w = (r, w') \<Longrightarrow> P w'"
  using assms
proof (induction cs arbitrary: w r w')
  case (Cons c cs)
  obtain x w1 where x: "run_state (f c) w = (x, w1)" by fastforce
  obtain y w2 where y: "run_state (process_all f cs) w1 = (y, w2)" by fastforce
  have "w' = w2" using Cons.prems(2) x y by (auto simp: split_beta)
  moreover have "P w2" by (rule Cons.IH [OF _ y]) (use Cons.prems(1,3) x in auto)
  ultimately show ?case by simp
qed simp

lemma calm_lists [calm_intros]: "calm (ListCloseCandidates ss b l)" "calm (ListFinishCandidates st b l)"
  unfolding ListCloseCandidates_def ListFinishCandidates_def Let_def by (auto intro!: calm_intros)

lemma reads_lists: "still.evolves (ListCloseCandidates ss b l)" "still.evolves (ListFinishCandidates st b l)"
  unfolding ListCloseCandidates_def ListFinishCandidates_def preload_def Let_def by (auto intro!: still_rules)

lemma close_candidates:
  assumes w: "shop_ok w" and run: "run_state (on_orders (ListCloseCandidates ss b l)) w = (Inr cs, w1)"
  shows "\<forall>c \<in> set cs. candidate (numbers (tables (order_side w))) c"
proof
  fix c
  assume c: "c \<in> set cs"
  obtain s where s: "run_state (ListCloseCandidates ss b l) (order_side w) = (Inr cs, s)" using on_ordersE [OF run] .
  then obtain r where r: "c = with_goods (tables (order_side w)) r" "r \<in> set (orderinfo (tables (order_side w)))" "live r"
    using c shop_okD(1) [OF w]
    by (auto simp: ListCloseCandidates_def Let_def run_simps preload_def dest!: in_set_page_rows split: if_splits)
  then have "trim_space (od_OrderSn r) = od_OrderSn r"
    using wf_ordersD(3) [OF shop_okD(4) [OF w]] by (auto simp: Order_Machine.row_ok_def)
  then have "(trim_space (od_OrderSn c), None) \<in> set (numbers (tables (order_side w)))"
    using r by (force simp: numbers_def with_goods_def)
  moreover have "list_ex (\<lambda>i. 0 < og_Goods i \<and> 0 < og_Nums i) (od_OrderGoods c)"
    using shop_okD(6) [OF w] r by (auto simp: lines_present_def list_all_iff list_ex_iff with_goods_def)
  moreover have "list_all typed_line (od_OrderGoods c)"
    using shop_okD(5) [OF w] r by (auto simp: db_typed_def list_all_iff with_goods_def typed_line_def goods_check_def split: if_splits)
  ultimately show "candidate (numbers (tables (order_side w))) c" by (simp add: candidate_def)
qed

lemma expired_step:
  assumes w: "shop_ok w" and run: "run_state (processExpiredOrdersOnce lock cfg now) w = (res, w')"
  shows "shop_ok w'"
proof -
  let ?m = "ListCloseCandidates [OrderStatusWaitBuyerPay, OrderStatusPaying] (now - lc_TimeoutCloseAfter cfg) (lc_BatchSize cfg)"
  obtain x w1 where x: "run_state (on_orders ?m) w = (x, w1)" by fastforce
  have w1: "w1 = w" by (rule calm_read_same [OF reads_lists(1) calm_lists(1) shop_okD(1) [OF w] x])
  show ?thesis
  proof (cases x)
    case (Inl e)
    then show ?thesis using run x w w1 by (auto simp: processExpiredOrdersOnce_def run_bind_err)
  next
    case (Inr cs)
    obtain n w2 where p: "run_state (process_all (close_one lock now) cs) w = (n, w2)" by fastforce
    have "sweep_ok (numbers (tables (order_side w))) w2"
      by (rule process_all_keeps [OF close_step _ p]) (use close_candidates [OF w x [unfolded Inr]] w in \<open>auto simp: sweep_ok_def\<close>)
    moreover have "w' = w2" using run x Inr w1 p by (auto simp: processExpiredOrdersOnce_def run_bind_err)
    ultimately show ?thesis by (simp add: sweep_ok_def)
  qed
qed

lemma finished_step:
  assumes w: "shop_ok w" and run: "run_state (processFinishedOrdersOnce cfg now) w = (res, w')"
  shows "shop_ok w'"
proof -
  let ?m = "ListFinishCandidates OrderStatusTradeSuccess (now - lc_FinishAfterPayment cfg) (lc_BatchSize cfg)"
  obtain x w1 where x: "run_state (on_orders ?m) w = (x, w1)" by fastforce
  have w1: "w1 = w" by (rule calm_read_same [OF reads_lists(2) calm_lists(2) shop_okD(1) [OF w] x])
  show ?thesis
  proof (cases x)
    case (Inl e)
    then show ?thesis using run x w w1 by (auto simp: processFinishedOrdersOnce_def run_bind_err)
  next
    case (Inr cs)
    obtain n w2 where p: "run_state (process_all (finish_one now) cs) w = (n, w2)" by fastforce
    have "shop_ok w2" by (rule process_all_keeps [where P = shop_ok, OF _ w p]) (rule finish_step)
    moreover have "w' = w2" using run x Inr w1 p by (auto simp: processFinishedOrdersOnce_def run_bind_err)
    ultimately show ?thesis by simp
  qed
qed

lemma sweep_step:
  assumes "shop_ok w" "run_state (runLifecycleSweep lock cfg now) w = (res, w')"
  shows "shop_ok w'"
proof -
  obtain x w1 where x: "run_state (processExpiredOrdersOnce lock cfg now) w = (x, w1)" by fastforce
  obtain y w2 where y: "run_state (processFinishedOrdersOnce cfg now) w1 = (y, w2)" by fastforce
  have "w' = w2" using assms(2) x y by (simp add: runLifecycleSweep_def)
  then show ?thesis using finished_step [OF expired_step [OF assms(1) x] y] by simp
qed

section \<open>Runs\<close>

inductive shop_step :: "(time \<Rightarrow> string) \<Rightarrow> order_lookup \<Rightarrow> world \<Rightarrow> world \<Rightarrow> bool" for fmt lookup where
  cancel: "run_state (CancelOrder fmt lock now u sn) w = (r1, w') \<Longrightarrow> shop_step fmt lookup w w'"
| pay: "run_state (SimulatePayCallback fmt lock now (Some req)) w = (r1, w') \<Longrightarrow>
    length (trim_space (cb_TradeNo req)) \<le> 100 \<Longrightarrow> length (trim_space (cb_PayType req)) \<le> 20 \<Longrightarrow> shop_step fmt lookup w w'"
| initiate: "run_state (InitiatePayment fmt opts provider now u sn) w = (r2, w') \<Longrightarrow> shop_step fmt lookup w w'"
| callback: "run_state (ProcessPayCallback lookup lock now (Some req')) w = (r3, w') \<Longrightarrow> callback_fits req' \<Longrightarrow> shop_step fmt lookup w w'"
| sweep: "run_state (runLifecycleSweep lock cfg now) w = (r4, w') \<Longrightarrow> shop_step fmt lookup w w'"
| refund: "run_state (on_orders (UpdateOrderStatus now (Some st))) w = (r1, w') \<Longrightarrow> os_Id st \<le> 0 \<Longrightarrow>
    os_Status st = OrderStatusRefundPending \<Longrightarrow> shop_step fmt lookup w w'"

lemma shop_step_ok:
  assumes "lookup_service lookup" "shop_step fmt lookup w w'" "shop_ok w"
  shows "shop_ok w'"
  using assms(2)
proof (cases rule: shop_step.cases)
  case (refund now st r1)
  show ?thesis
    by (rule status_step [OF assms(3) refund(1,2), where q = Refunding])
      (use refund(3) trim_phase_name [of Refunding] in \<open>simp_all add: phase_name.simps\<close>)
qed (auto intro: cancel_step [OF assms(3)] pay_step [OF assms(3)] initiate_step [OF assms(3)] sweep_step [OF assms(3)]
    lookup_service.callback_step [OF assms(1,3)])

lemma shop_run_ok: "(shop_step fmt lookup)\<^sup>*\<^sup>* w w' \<Longrightarrow> lookup_service lookup \<Longrightarrow> shop_ok w \<Longrightarrow> shop_ok w'"
  by (induction rule: rtranclp_induct) (auto intro: shop_step_ok)


section \<open>The provider's callback is never applied\<close>

lemma same_side:
  assumes "run_state (on_orders m) w = (r, w')" "same_orders.evolves m"
  shows "stock_side w' = stock_side w \<and> orderinfo (tables (order_side w')) = orderinfo (tables (order_side w))"
  using assms(1) same_orders.evolvesD [OF assms(2)] by (auto elim!: on_ordersE)

lemma callback_unimplemented: "\<exists>d e. run_state (callback_body GetOrderBySn lock now rq b) w = ((False, d, Inl e), w)"
  unfolding callback_body_def Let_def by (simp add: GetOrderBySn_def run_on_orders)

text \<open>C32. The order service does not implement \<open>GetOrderBySn\<close>, so no callback of the payment
  provider is ever applied: it is answered with an error, or as a duplicate, and neither an order nor
  the inventory changes.\<close>

theorem pay_callback_never_applies:
  "fst (run_state (ProcessPayCallback GetOrderBySn lock now req) w) \<noteq> Inr False \<and>
   stock_side (snd (run_state (ProcessPayCallback GetOrderBySn lock now req) w)) = stock_side w \<and>
   orderinfo (tables (order_side (snd (run_state (ProcessPayCallback GetOrderBySn lock now req) w)))) = orderinfo (tables (order_side w))"
proof (cases req)
  case (Some rq)
  obtain r w' where run: "run_state (ProcessPayCallback GetOrderBySn lock now (Some rq)) w = (r, w')" by fastforce
  let ?q = "\<lparr>eq_Provider = cr_Provider rq, eq_EventId = cr_EventID rq,
                eq_OrderSn = cr_OrderSN rq, eq_TradeNo = cr_TradeNo rq, eq_EventType = cr_EventType rq,
                eq_ProviderAmountFen = cr_AmountFen rq, eq_RefundAmountFen =
                  (if cr_EventType rq = ''refund_succeeded'' \<or> cr_EventType rq = ''refund_failed'' then cr_AmountFen rq else 0)\<rparr>"
  obtain x w1 where x: "run_state (on_orders (ctl_BeginPaymentEvent now ?q)) w = (x, w1)" by fastforce
  note s1 = same_side [OF x same_events(1)]
  have "w' = w \<and> r \<noteq> Inr False \<or> w' = w1 \<and> r \<noteq> Inr False \<or>
    (\<exists>b d e y. run_state (on_orders (ctl_CompletePaymentEvent now b False d)) w1 = (y, w') \<and> r = Inl e)"
  proof (cases x)
    case (Inr begun)
    obtain d e where "run_state (callback_body GetOrderBySn lock now rq begun) w1 = ((False, d, Inl e), w1)"
      using callback_unimplemented by blast
    with run x Inr show ?thesis
      by (cases "run_state (on_orders (ctl_CompletePaymentEvent now (ep_Id begun) False d)) w1")
        (auto simp: ProcessPayCallback_def Let_def run_bindE split: if_splits)
  qed (use run x in \<open>auto simp: ProcessPayCallback_def Let_def run_bindE split: if_splits\<close>)
  then have "r \<noteq> Inr False \<and> stock_side w' = stock_side w \<and> orderinfo (tables (order_side w')) = orderinfo (tables (order_side w))"
    using s1 same_side [OF _ same_events(2)] by fastforce
  then show ?thesis using Some run by simp
qed (simp add: ProcessPayCallback_def)

end
