(* ===== verification/Shop_Limits.thy ===== *)
theory Shop_Limits
  imports Shop_Runs
begin

text \<open>
  Concrete runs of the shop: one in which both services stay in step, and the ways in which they part
  company: an operation interrupted between its two calls, and a creation that arrives after its
  compensation.
\<close>

section \<open>A shop with two orders\<close>

text \<open>Orders A1 and A2, each for two units, which are reserved.\<close>

definition duo_order :: "int \<Rightarrow> string \<Rightarrow> OrderInfoDO" where
  "duo_order i sn = \<lparr>ID = i, CreatedAt = 100, UpdatedAt = 100, DeletedAt = None, IsDeleted = False, od_OrderGoods = [], od_User = 5,
     od_OrderSn = sn, od_PayType = [], od_Status = OrderStatusWaitBuyerPay, od_TradeNo = [], od_OrderMountFen = 2500,
     od_StoreID = ''7'', od_PayTime = None, od_Address = ''Road 1'', od_SignerName = ''Kim'', od_SingerMobile = ''139'', od_Post = []\<rparr>"

definition duo_goods :: "int \<Rightarrow> int \<Rightarrow> OrderGoods" where
  "duo_goods i g = \<lparr>ID = i, CreatedAt = 100, UpdatedAt = 100, DeletedAt = None, IsDeleted = False, og_Order = i, og_Goods = g,
     og_GoodsName = ''tea'', og_GoodsImage = [], og_GoodsPriceFen = 1250, og_Nums = 2\<rparr>"

definition duo_stock :: "int \<Rightarrow> InventoryDO" where
  "duo_stock g = (demo_row g 5)\<lparr>inv_Stocks := 3, inv_Available := 3, inv_Locked := 2\<rparr>"

definition shop_orders :: "order_db session" where
  "shop_orders = \<lparr>tables = shop_db\<lparr>orderinfo := [duo_order 1 ''A1'', duo_order 2 ''A2''], ordergoods := [duo_goods 1 3, duo_goods 2 4]\<rparr>,
     outcomes = []\<rparr>"

definition shop_stock :: "inventory_db session" where
  "shop_stock = \<lparr>tables = \<lparr>inventory = [duo_stock 3, duo_stock 4],
     stockselldetail = [\<lparr>sd_OrderSn = ''A1'', sd_Status = 1, sd_Detail = [\<lparr>gd_Goods = 3, gd_Num = 2\<rparr>]\<rparr>,
       \<lparr>sd_OrderSn = ''A2'', sd_Status = 1, sd_Detail = [\<lparr>gd_Goods = 4, gd_Num = 2\<rparr>]\<rparr>],
     inventory_adjustment_logs = []\<rparr>, outcomes = []\<rparr>"

definition shop_world :: world where
  "shop_world = \<lparr>order_side = shop_orders, stock_side = shop_stock\<rparr>"

definition no_zone :: "time \<Rightarrow> string" where "no_zone t = []"

definition pay_request :: "string \<Rightarrow> PayCallbackRequest" where
  "pay_request sn = \<lparr>cb_Provider = [], cb_EventID = [], cb_EventType = [], cb_AmountFen = 0, cb_UserID = 5, cb_OrderSn = sn,
     cb_PayType = ''alipay'', cb_TradeNo = ''T1'', cb_Items = [], cb_Success = True\<rparr>"

abbreviation pay :: "string \<Rightarrow> world \<Rightarrow> unit result \<times> world" where
  "pay sn \<equiv> run_state (SimulatePayCallback no_zone no_lock 300000 (Some (pay_request sn)))"

abbreviation cancel :: "string \<Rightarrow> world \<Rightarrow> unit result \<times> world" where
  "cancel sn \<equiv> run_state (CancelOrder no_zone no_lock 300000 5 sn)"

text \<open>The status of an order, and of its sell detail.\<close>

definition both :: "string \<Rightarrow> world \<Rightarrow> string option \<times> int option" where
  "both sn w = (status_of (order_side w) sn, map_option sd_Status (detail_of (tables (stock_side w)) sn))"

text \<open>The calls the two operations make for A1, one by one.\<close>

definition A1_lines :: SellInfo where
  "A1_lines = \<lparr>si_GoodsInfo = [info_of_line \<lparr>gd_Goods = 3, gd_Num = 2\<rparr>], si_OrderSn = ''A1''\<rparr>"

definition A1_detail :: order_detail where
  "A1_detail = (orderToResponse no_zone (duo_order 1 ''A1''), orderGoodsToResponse [duo_goods 1 3])"

definition A1_paid :: OrderStatus where
  "A1_paid = (status_request ''A1'' OrderStatusTradeSuccess)\<lparr>os_PayType := ''alipay'', os_TradeNo := ''T1'', os_PayTime := 300\<rparr>"

definition A1_closed :: OrderStatus where
  "A1_closed = (status_request ''A1'' OrderStatusTradeClosed)\<lparr>os_Reason := ''cancelled by customer''\<rparr>"

lemma A1_facts: "trim_space ''A1'' = ''A1''" "trim_space ''T1'' = ''T1''" "trim_space ''alipay'' = ''alipay''"
  "trim_space OrderStatusWaitBuyerPay = OrderStatusWaitBuyerPay"
  "canApplyPayCallback OrderStatusWaitBuyerPay OrderStatusTradeSuccess" "unix 300000 = 300"
  "sellInfoFromOrder ''A1'' (snd A1_detail) = Inr A1_lines" "op_Status (fst A1_detail) = OrderStatusWaitBuyerPay"
  by code_simp+

text \<open>What the calls of one order amount to, when it has been found waiting.\<close>

lemma pay_A1:
  assumes "run_state (OrderDetail no_zone (Some (order_request 5 ''A1''))) (order_side w) = (Inr A1_detail, s)"
    and "run_state (ctl_Confirm no_lock 300000 (Some A1_lines)) (stock_side w) = (Inr (), u)"
    and "run_state (UpdateOrderStatus 300000 (Some A1_paid)) s = (r, s')"
  shows "pay ''A1'' w = (r, \<lparr>order_side = s', stock_side = u\<rparr>)"
proof -
  obtain info goods where d: "A1_detail = (info, goods)" by (cases A1_detail)
  show ?thesis
    using assms A1_facts unfolding SimulatePayCallback_def pay_request_def A1_paid_def
    by (simp add: d run_simps Let_def) 
qed

lemma cancel_A1:
  assumes "run_state (OrderDetail no_zone (Some (order_request 5 ''A1''))) (order_side w) = (Inr A1_detail, s)"
    and "run_state (ctl_Release no_lock 300000 (Some A1_lines)) (stock_side w) = (Inr (), u)"
    and "run_state (UpdateOrderStatus 300000 (Some A1_closed)) s = (r, s')"
  shows "cancel ''A1'' w = (r, \<lparr>order_side = s', stock_side = u\<rparr>)"
proof -
  obtain info goods where d: "A1_detail = (info, goods)" by (cases A1_detail)
  show ?thesis
    using assms A1_facts unfolding CancelOrder_def gw_OrderDetail_def A1_closed_def
    by (simp add: d run_simps Let_def)
qed

definition stock_released :: "inventory_db session" where
  "stock_released = snd (run_state (ctl_Release no_lock 300000 (Some A1_lines)) shop_stock)"

definition stock_confirmed :: "inventory_db session" where
  "stock_confirmed = snd (run_state (ctl_Confirm no_lock 300000 (Some A1_lines)) shop_stock)"

definition orders_paid :: "order_db session" where
  "orders_paid = snd (run_state (UpdateOrderStatus 300000 (Some A1_paid)) shop_orders)"

definition orders_closed :: "order_db session" where
  "orders_closed = snd (run_state (UpdateOrderStatus 300000 (Some A1_closed)) shop_orders)"

lemma A1_stock:
  "run_state (ctl_Release no_lock 300000 (Some A1_lines)) shop_stock = (Inr (), stock_released)"
  "run_state (ctl_Confirm no_lock 300000 (Some A1_lines)) shop_stock = (Inr (), stock_confirmed)"
  "run_state (ctl_Confirm no_lock 300000 (Some A1_lines)) stock_released = (Inr (), stock_released)"
  "run_state (ctl_Release no_lock 300000 (Some A1_lines)) stock_confirmed = (Inr (), stock_confirmed)"
  "map_option sd_Status (detail_of (tables stock_released) ''A1'') = Some 2"
  "map_option sd_Status (detail_of (tables stock_confirmed) ''A1'') = Some 3"
  by code_simp+

lemma A1_orders:
  "run_state (OrderDetail no_zone (Some (order_request 5 ''A1''))) shop_orders = (Inr A1_detail, shop_orders)"
  "run_state (UpdateOrderStatus 300000 (Some A1_paid)) shop_orders = (Inr (), orders_paid)"
  "run_state (UpdateOrderStatus 300000 (Some A1_closed)) shop_orders = (Inr (), orders_closed)"
  "status_of orders_paid ''A1'' = Some OrderStatusTradeSuccess" "status_of orders_closed ''A1'' = Some OrderStatusTradeClosed"
  by code_simp+

section \<open>In step\<close>

lemma trim_A2: "trim_space ''A2'' = ''A2''"
  by code_simp

lemma shop_world_ok: "shop_ok shop_world"
proof -
  have "Order_Machine.row_ok (duo_order i sn)" if "trim_space sn = sn" "sn \<noteq> []" for i sn
    unfolding Order_Machine.row_ok_def
    by (intro conjI exI [of _ Waiting]) (use that in \<open>simp_all add: duo_order_def phase_name.simps\<close>)
  then have "wf_orders (orderinfo (tables shop_orders))"
    using A1_facts(1) trim_A2 by (auto simp: shop_orders_def wf_orders_def duo_order_def)
  moreover have "outcomes shop_orders = []" "outcomes shop_stock = []" "ledger (tables shop_stock)" "db_typed (tables shop_orders)"
    "lines_present (tables shop_orders)" "in_step (tables shop_orders) (tables shop_stock)"
    by code_simp+
  ultimately show ?thesis by (simp add: shop_ok_def shop_world_def)
qed

lemma paid_run: "pay ''A1'' shop_world = (Inr (), \<lparr>order_side = orders_paid, stock_side = stock_confirmed\<rparr>)"
  by (rule pay_A1 [where s = shop_orders]) (simp_all add: shop_world_def A1_orders A1_stock)

lemma paid_step:
  "(shop_step no_zone (\<lambda>sn. OrderDetail no_zone (Some (order_request 5 sn))))\<^sup>*\<^sup>* shop_world \<lparr>order_side = orders_paid, stock_side = stock_confirmed\<rparr>"
  by (rule r_into_rtranclp, rule shop_step.pay [OF paid_run]) (simp_all add: pay_request_def A1_facts)


section \<open>Where the services part company\<close>

text \<open>The order service's database refuses the transaction of the status update, and answers again later.\<close>

definition interrupted :: "world \<Rightarrow> world" where
  "interrupted w = w\<lparr>order_side := (order_side w)\<lparr>outcomes := [Executed, Executed, Executed, Executed, Refused]\<rparr>\<rparr>"

lemma A1_interrupted:
  "run_state (OrderDetail no_zone (Some (order_request 5 ''A1''))) (shop_orders\<lparr>outcomes := [Executed, Executed, Executed, Executed, Refused]\<rparr>)
     = (Inr A1_detail, shop_orders\<lparr>outcomes := [Executed, Executed, Refused]\<rparr>)"
  "run_state (UpdateOrderStatus 300000 (Some A1_paid)) (shop_orders\<lparr>outcomes := [Executed, Executed, Refused]\<rparr>) = (Inl (Wrapf (Driver Fault)), shop_orders)"
  "run_state (UpdateOrderStatus 300000 (Some A1_closed)) (shop_orders\<lparr>outcomes := [Executed, Executed, Refused]\<rparr>) = (Inl (Wrapf (Driver Fault)), shop_orders)"
  by code_simp+

lemma interrupted_runs:
  "cancel ''A1'' (interrupted shop_world) = (Inl (Wrapf (Driver Fault)), \<lparr>order_side = shop_orders, stock_side = stock_released\<rparr>)"
  "pay ''A1'' (interrupted shop_world) = (Inl (Wrapf (Driver Fault)), \<lparr>order_side = shop_orders, stock_side = stock_confirmed\<rparr>)"
  "pay ''A1'' \<lparr>order_side = shop_orders, stock_side = stock_released\<rparr> = (Inr (), \<lparr>order_side = orders_paid, stock_side = stock_released\<rparr>)"
  "cancel ''A1'' \<lparr>order_side = shop_orders, stock_side = stock_confirmed\<rparr> = (Inr (), \<lparr>order_side = orders_closed, stock_side = stock_confirmed\<rparr>)"
proof -
  let ?s = "shop_orders\<lparr>outcomes := [Executed, Executed, Refused]\<rparr>"
  show "cancel ''A1'' (interrupted shop_world) = (Inl (Wrapf (Driver Fault)), \<lparr>order_side = shop_orders, stock_side = stock_released\<rparr>)"
    by (rule cancel_A1 [where s = ?s]) (simp_all add: shop_world_def interrupted_def A1_interrupted A1_stock)
  show "pay ''A1'' (interrupted shop_world) = (Inl (Wrapf (Driver Fault)), \<lparr>order_side = shop_orders, stock_side = stock_confirmed\<rparr>)"
    by (rule pay_A1 [where s = ?s]) (simp_all add: shop_world_def interrupted_def A1_interrupted A1_stock)
  show "pay ''A1'' \<lparr>order_side = shop_orders, stock_side = stock_released\<rparr> = (Inr (), \<lparr>order_side = orders_paid, stock_side = stock_released\<rparr>)"
    by (rule pay_A1 [where s = shop_orders]) (simp_all add: A1_orders A1_stock)
  show "cancel ''A1'' \<lparr>order_side = shop_orders, stock_side = stock_confirmed\<rparr> = (Inr (), \<lparr>order_side = orders_closed, stock_side = stock_confirmed\<rparr>)"
    by (rule cancel_A1 [where s = shop_orders]) (simp_all add: A1_orders A1_stock)
qed



end
