(* ===== verification/Payment_Gateway.thy ===== *)
theory Payment_Gateway
  imports Gateway
begin

text \<open>
  The payment side of the API gateway, \<open>app/goshop/api/internal/payment\<close>: the HTTP handler of the
  provider's callbacks (\<open>callback.go\<close>), its store of nonces (\<open>nonce.go\<close>), the provider's refund
  call (\<open>provider.go\<close>) and the worker that drives refunds and the reconciliation (\<open>worker.go\<close>).
  HMAC-SHA256, the JSON decoder, the HTTP exchange with the provider and Redis' \<open>SET NX\<close> are
  arguments; what the handler relies on of \<open>SET NX\<close> is \<open>setnx_ok\<close>. Clock readings of the handler are
  nanoseconds since 1970, those of the order service milliseconds.
\<close>

section \<open>Decoding\<close>

text \<open>\<open>strconv.ParseInt(s, 10, 64)\<close>.\<close>

definition ParseInt64 :: "string \<Rightarrow> int option" where
  "ParseInt64 s =
     (let neg = (s \<noteq> [] \<and> hd s = CHR ''-'');
          digits = (if s \<noteq> [] \<and> (hd s = CHR ''-'' \<or> hd s = CHR ''+'') then tl s else s);
          n = (if neg then - int (nat_of_digits digits) else int (nat_of_digits digits))
      in if digits = [] \<or> \<not> list_all is_digit digits then None
         else if in_int64 n then Some n else None)"

definition hex_val :: "char \<Rightarrow> nat option" where
  "hex_val c =
     (let n = (of_char c :: nat) in
      if 48 \<le> n \<and> n \<le> 57 then Some (n - 48)
      else if 97 \<le> n \<and> n \<le> 102 then Some (n - 87)
      else if 65 \<le> n \<and> n \<le> 70 then Some (n - 55)
      else None)"

text \<open>\<open>hex.DecodeString\<close>.\<close>

fun hex_decode :: "string \<Rightarrow> string option" where
  "hex_decode [] = Some []"
| "hex_decode [c] = None"
| "hex_decode (c # d # cs) =
     (case hex_val c of None \<Rightarrow> None
      | Some h \<Rightarrow> (case hex_val d of None \<Rightarrow> None
         | Some l \<Rightarrow> map_option (Cons (char_of (16 * h + l))) (hex_decode cs)))"

text \<open>
  \<open>time.Unix(sec, 0)\<close> counts from the year 1 in an \<open>int64\<close>, and \<open>Sub\<close> stops at the largest and
  the smallest \<open>Duration\<close>.
\<close>

definition time_Sub :: "int \<Rightarrow> int \<Rightarrow> int" where
  "time_Sub now sec =
     (let d = (now + 62135596800 * 1000000000) - int64 (sec + 62135596800) * 1000000000
      in max (- (2 ^ 63)) (min (2 ^ 63 - 1) d))"

section \<open>The callback handler\<close>

record callback_options =
  co_Enabled :: bool
  co_CallbackSecret :: string
  co_CallbackMaxSkew :: int

record callbackPayload =
  cl_EventID :: string
  cl_EventType :: string
  cl_OrderSN :: string
  cl_TradeNo :: string
  cl_AmountFen :: int

text \<open>The parts of the HTTP request the handler reads; \<open>None\<close> is a body that cannot be read.\<close>

record callback_http =
  ch_Provider :: string
  ch_Timestamp :: string
  ch_Nonce :: string
  ch_Signature :: string
  ch_Body :: "string option"

type_synonym mac_fun = "string \<Rightarrow> string \<Rightarrow> string"
type_synonym 'n setnx = "'n \<Rightarrow> int \<Rightarrow> string \<Rightarrow> int \<Rightarrow> bool result \<times> 'n"

definition verify :: "mac_fun \<Rightarrow> callback_options \<Rightarrow> int \<Rightarrow> string \<Rightarrow> string \<Rightarrow> string \<Rightarrow> string \<Rightarrow> string \<Rightarrow> bool" where
  "verify mac opts now provider timestamp nonce signature body =
     (case ParseInt64 timestamp of None \<Rightarrow> False
      | Some u \<Rightarrow>
          let delta = time_Sub now u in
          if co_CallbackMaxSkew opts < delta \<or> delta < int64 (- co_CallbackMaxSkew opts) then False
          else
            (case hex_decode signature of None \<Rightarrow> False
             | Some provided \<Rightarrow> provided = mac (co_CallbackSecret opts)
                 (timestamp @ [CHR 0x0A] @ provider @ [CHR 0x0A] @ nonce @ [CHR 0x0A] @ body)))"

definition nonce_Reserve :: "'n setnx \<Rightarrow> int \<Rightarrow> string \<Rightarrow> int \<Rightarrow> 'n \<Rightarrow> bool result \<times> 'n" where
  "nonce_Reserve setnx now nonce ttl st =
     (if trim_space nonce = [] \<or> ttl \<le> 0 then (Inl (Plain ''invalid payment callback nonce''), st)
      else case setnx st now (''payment:callback:nonce:'' @ nonce) ttl of
        (Inl e, st') \<Rightarrow> (Inl (Wrapf e), st')
      | (Inr b, st') \<Rightarrow> (Inr b, st'))"

text \<open>
  The answer is an error, or whether the event was a duplicate. \<open>service\<close> is the callback service,
  \<open>ProcessPayCallback\<close> of theory \<open>Gateway\<close>; it, the options and the store of nonces are pointers that may be nil.
\<close>

definition callback_request :: "string \<Rightarrow> callbackPayload \<Rightarrow> CallbackRequest" where
  "callback_request provider p = \<lparr>cr_Provider = provider, cr_EventID = cl_EventID p, cr_EventType = cl_EventType p,
     cr_OrderSN = cl_OrderSN p, cr_TradeNo = cl_TradeNo p, cr_AmountFen = cl_AmountFen p\<rparr>"

text \<open>The part of \<open>Handle\<close> after the nonce is reserved.\<close>

definition handle_payload ::
    "(string \<Rightarrow> callbackPayload option) \<Rightarrow> (CallbackRequest option \<Rightarrow> bool gw_op) \<Rightarrow> string \<Rightarrow> string \<Rightarrow> bool gw_op" where
  "handle_payload decode service provider body =
     (case decode body of
        None \<Rightarrow> State_Monad.return (Inl (NewCode ErrValidation))
      | Some p \<Rightarrow>
          if cl_EventID p = [] \<or> cl_EventType p = [] \<or> cl_OrderSN p = [] \<or> cl_AmountFen p < 0
          then State_Monad.return (Inl (NewCode ErrValidation))
          else do {
            r \<leftarrow> service (Some (callback_request provider p));
            State_Monad.return (case r of Inl e \<Rightarrow> Inl (WrapCode ErrConflict e) | Inr duplicate \<Rightarrow> Inr duplicate)
          })"

definition Handle ::
    "mac_fun \<Rightarrow> 'n setnx option \<Rightarrow> (string \<Rightarrow> callbackPayload option) \<Rightarrow> (CallbackRequest option \<Rightarrow> bool gw_op) option \<Rightarrow>
     callback_options option \<Rightarrow> int \<Rightarrow> callback_http \<Rightarrow> 'n \<times> world \<Rightarrow> bool result \<times> 'n \<times> world" where
  "Handle mac nonces decode oservice oopts now req sw =
     (case (oopts, oservice) of
        (Some opts, Some service) \<Rightarrow>
          if \<not> co_Enabled opts then (Inl (NewCode ErrServiceUnavailable), sw)
          else (case ch_Body req of
              None \<Rightarrow> (Inl (NewCode ErrValidation), sw)
            | Some raw \<Rightarrow>
                let body = take (2 ^ 20) raw;
                    provider = to_lower (trim_space (ch_Provider req));
                    nonce = trim_space (ch_Nonce req) in
                if nonce = [] \<or> \<not> verify mac opts now provider (ch_Timestamp req) nonce (ch_Signature req) body
                then (Inl (NewCode ErrSignatureInvalid), sw)
                else (case nonces of
                    None \<Rightarrow> (Inl (NewCode ErrServiceUnavailable), sw)
                  | Some setnx \<Rightarrow>
                      (case nonce_Reserve setnx now (provider @ '':'' @ nonce) (int64 (2 * co_CallbackMaxSkew opts)) (fst sw) of
                         (Inl e, st') \<Rightarrow> (Inl (NewCode ErrServiceUnavailable), st', snd sw)
                       | (Inr False, st') \<Rightarrow> (Inl (NewCode ErrConflict), st', snd sw)
                       | (Inr True, st') \<Rightarrow>
                           (case run_state (handle_payload decode service provider body) (snd sw) of
                              (r, w') \<Rightarrow> (r, st', w')))))
      | _ \<Rightarrow> (Inl (NewCode ErrServiceUnavailable), sw))"

section \<open>The refund worker\<close>

record payment_worker =
  pw_Provider :: string
  pw_WorkerBatchSize :: int
  pw_MaxAttempts :: int
  pw_WorkerBatchTimeout :: int

abbreviation (input) defaultWorkerBatchTimeout :: int where "defaultWorkerBatchTimeout \<equiv> 2 * 60 * 1000000000"
abbreviation (input) refundJobCompletionTimeout :: int where "refundJobCompletionTimeout \<equiv> 15 * 1000000000"

definition workerBatchTimeout :: "payment_worker \<Rightarrow> int" where
  "workerBatchTimeout wk = (if pw_WorkerBatchTimeout wk \<le> 0 then defaultWorkerBatchTimeout else pw_WorkerBatchTimeout wk)"

definition refundJobLockTimeout :: "payment_worker \<Rightarrow> int" where
  "refundJobLockTimeout wk = int64 (workerBatchTimeout wk + refundJobCompletionTimeout)"

record pr_RefundRequest =
  rq_RequestID :: string
  rq_OrderSN :: string
  rq_TradeNo :: string
  rq_AmountFen :: int
  rq_Reason :: string

record pr_RefundResponse =
  rs_ProviderRefundID :: string
  rs_Status :: string

text \<open>
  \<open>HMACProvider.Refund\<close>; \<open>post\<close> is the exchange with the provider, \<open>doJSON\<close>: what it decoded of the
  answer, and its error. A failed exchange hands on what was decoded before the failure.
\<close>

type_synonym refund_post = "pr_RefundRequest \<Rightarrow> pr_RefundResponse \<times> err option"

definition no_response :: pr_RefundResponse where
  "no_response = \<lparr>rs_ProviderRefundID = [], rs_Status = []\<rparr>"

definition Refund :: "refund_post \<Rightarrow> pr_RefundRequest \<Rightarrow> pr_RefundResponse \<times> err option" where
  "Refund post request =
     (if rq_RequestID request = [] \<or> rq_OrderSN request = [] \<or> rq_AmountFen request \<le> 0
      then (no_response, Some (Plain ''invalid refund request''))
      else case post request of
        (response, Some e) \<Rightarrow> (response, Some (Wrapf e))
      | (response, None) \<Rightarrow>
          if rs_ProviderRefundID response = [] \<or> rs_Status response = []
          then (no_response, Some (Plain ''provider refund response is incomplete'')) else (response, None))"

definition refund_request_for :: "pb_RefundJob \<Rightarrow> pr_RefundRequest" where
  "refund_request_for job = \<lparr>rq_RequestID = bj_CorrelationId job, rq_OrderSN = bj_OrderSn job, rq_TradeNo = bj_TradeNo job,
     rq_AmountFen = bj_AmountFen job, rq_Reason = bj_Reason job\<rparr>"

text \<open>
  The loop over the claimed jobs. \<open>clock\<close> gives the time of the worker's i-th call to the order
  service, \<open>late i\<close> the error of the batch's context before the i-th job, if it has run out, and
  \<open>text\<close> renders an error. The calls of \<open>Refund\<close> are given out with the result.
\<close>

definition complete_request :: "(err \<Rightarrow> string) \<Rightarrow> payment_worker \<Rightarrow> pb_RefundJob \<Rightarrow> pr_RefundResponse \<times> err option \<Rightarrow> CompleteRefundJobRequest" where
  "complete_request text wk job answer =
     (case answer of (response, refundErr) \<Rightarrow>
        \<lparr>jq_Id = bj_Id job, jq_Success = (refundErr = None), jq_Provider = pw_Provider wk,
          jq_ProviderRefundId = rs_ProviderRefundID response, jq_ProviderStatus = rs_Status response,
          jq_ErrorDetail = (case refundErr of Some e \<Rightarrow> text e | None \<Rightarrow> []), jq_MaxAttempts = int32 (pw_MaxAttempts wk)\<rparr>)"

primrec refund_loop ::
    "refund_post \<Rightarrow> (nat \<Rightarrow> err option) \<Rightarrow> (err \<Rightarrow> string) \<Rightarrow> payment_worker \<Rightarrow> (nat \<Rightarrow> time) \<Rightarrow> nat \<Rightarrow>
     pb_RefundJob list \<Rightarrow> (order_db session, pr_RefundRequest list \<times> unit result) state" where
  "refund_loop post late text wk clock i [] = State_Monad.return ([], Inr ())"
| "refund_loop post late text wk clock i (job # jobs) =
     (case late i of
        Some e \<Rightarrow> State_Monad.return ([], Inl e)
      | None \<Rightarrow>
          let request = refund_request_for job in
          do {
            completed \<leftarrow> ctl_CompleteRefundJob (clock (Suc i)) (complete_request text wk job (Refund post request));
            case completed of
              Inl e \<Rightarrow> State_Monad.return ([request], Inl (Wrapf e))
            | Inr _ \<Rightarrow> do {
                (calls, r) \<leftarrow> refund_loop post late text wk clock (Suc i) jobs;
                State_Monad.return (request # calls, r)
              }
          })"

definition processRefundBatch ::
    "refund_post \<Rightarrow> (nat \<Rightarrow> err option) \<Rightarrow> (err \<Rightarrow> string) \<Rightarrow> payment_worker \<Rightarrow> (nat \<Rightarrow> time) \<Rightarrow>
     (order_db session, pr_RefundRequest list \<times> unit result) state" where
  "processRefundBatch post late text wk clock = do {
     claim \<leftarrow> ctl_ClaimRefundJobs (clock 0) (int32 (pw_WorkerBatchSize wk)) (int32 (pw_MaxAttempts wk))
       (go_quot (refundJobLockTimeout wk) 1000000000);
     case claim of
       Inl e \<Rightarrow> State_Monad.return ([], Inl (Wrapf e))
     | Inr jobs \<Rightarrow> refund_loop post late text wk clock 0 jobs
   }"

record pr_Transaction =
  tx_EventID :: string
  tx_OrderSN :: string
  tx_TradeNo :: string
  tx_EventType :: string
  tx_AmountFen :: int
  tx_OccurredAt :: time

text \<open>\<open>get\<close> is the exchange with the provider for the statement of a window.\<close>

definition ListTransactions :: "(time \<Rightarrow> time \<Rightarrow> pr_Transaction list result) \<Rightarrow> time \<Rightarrow> time \<Rightarrow> pr_Transaction list result" where
  "ListTransactions get frm till =
     (if \<not> frm < till then Inl (Plain ''invalid reconciliation window'')
      else case get frm till of Inl e \<Rightarrow> Inl (Wrapf e) | Inr ts \<Rightarrow> Inr ts)"

text \<open>The answer of \<open>reconcileWindow\<close> is the value it gives the gauge of mismatches.\<close>

definition reconcileWindow ::
    "(time \<Rightarrow> time \<Rightarrow> pr_Transaction list result) \<Rightarrow> payment_worker \<Rightarrow> time \<Rightarrow> time \<Rightarrow> time \<Rightarrow> int ord_op" where
  "reconcileWindow get wk now frm till =
     (case ListTransactions get frm till of
        Inl e \<Rightarrow> fail (Wrapf e)
      | Inr transactions \<Rightarrow>
          bind_err Wrapf (ctl_ReconcilePayments now (pw_Provider wk) (unix frm) (unix till)
              (map (\<lambda>t. \<lparr>pt_EventId = tx_EventID t, pt_OrderSn = tx_OrderSN t, pt_TradeNo = tx_TradeNo t, pt_EventType = tx_EventType t,
                 pt_AmountFen = tx_AmountFen t, pt_OccurredAt = unix (tx_OccurredAt t)\<rparr>) transactions))
            (\<lambda>(run, checked, mismatches). ok (if 0 < mismatches then mismatches else 0)))"

section \<open>Replayed callbacks\<close>

text \<open>
  What the handler relies on of Redis' \<open>SET key value NX EX ttl\<close>, the \<open>SetIfAbsent\<close> of
  \<open>pkg/storage\<close>. \<open>kept_until st k u\<close> says that the key is kept until \<open>u\<close>: setting it keeps it for the
  time asked, no other call drops it, and it is not set again before that time.
\<close>

definition setnx_ok :: "'n setnx \<Rightarrow> ('n \<Rightarrow> string \<Rightarrow> int \<Rightarrow> bool) \<Rightarrow> bool" where
  "setnx_ok setnx kept_until \<longleftrightarrow>
     (\<forall>st now k ttl r st'. setnx st now k ttl = (r, st') \<longrightarrow>
        (r = Inr True \<longrightarrow> kept_until st' k (now + ttl)) \<and>
        (\<forall>k' u. kept_until st k' u \<longrightarrow> kept_until st' k' u) \<and>
        (\<forall>u. kept_until st k u \<and> now < u \<longrightarrow> r \<noteq> Inr True))"

lemma setnx_okD:
  assumes "setnx_ok setnx kept_until" "setnx st now k ttl = (r, st')"
  shows "r = Inr True \<Longrightarrow> kept_until st' k (now + ttl)" "kept_until st k' u \<Longrightarrow> kept_until st' k' u"
    "kept_until st k u \<Longrightarrow> now < u \<Longrightarrow> r \<noteq> Inr True"
  using assms unfolding setnx_ok_def by blast+

definition nonce_key :: "callback_http \<Rightarrow> string" where
  "nonce_key req = ''payment:callback:nonce:'' @ to_lower (trim_space (ch_Provider req)) @ '':'' @ trim_space (ch_Nonce req)"

lemma reserve_cases:
  assumes "nonce_Reserve setnx now n ttl st = (r, st')"
  shows "(st' = st \<and> (\<exists>e. r = Inl e)) \<or>
    (0 < ttl \<and> (\<exists>r'. setnx st now (''payment:callback:nonce:'' @ n) ttl = (r', st') \<and> (\<forall>b. r = Inr b \<longrightarrow> r' = Inr b)))"
  using assms unfolding nonce_Reserve_def by (auto split: if_splits prod.splits sum.splits)

text \<open>A callback either leaves the shop as it is, or it is signed, in its window, and took its nonce.\<close>

lemma handle_cases:
  assumes "Handle mac nonces decode svc oopts now req (st, w) = (r, st', w')"
  obtains (kept) "w' = w" "\<exists>e. r = Inl (NewCode e)" "st' = st \<or> (\<exists>setnx k ttl r'. nonces = Some setnx \<and> setnx st now k ttl = (r', st'))"
  | (applied) opts setnx raw where "oopts = Some opts" "nonces = Some setnx" "ch_Body req = Some raw"
      "verify mac opts now (to_lower (trim_space (ch_Provider req))) (ch_Timestamp req) (trim_space (ch_Nonce req))
         (ch_Signature req) (take (2 ^ 20) raw)"
      "0 < int64 (2 * co_CallbackMaxSkew opts)"
      "setnx st now (nonce_key req) (int64 (2 * co_CallbackMaxSkew opts)) = (Inr True, st')"
  using assms unfolding Handle_def
  by (auto simp: Let_def nonce_key_def split: option.splits if_splits prod.splits sum.splits bool.splits dest!: reserve_cases)

lemma handle_keeps_held:
  assumes "setnx_ok setnx kept_until" "Handle mac (Some setnx) decode svc oopts now req (st, w) = (r, st', w')" "kept_until st k u"
  shows "kept_until st' k u"
  using assms(2) by (cases rule: handle_cases) (use assms(1,3) in \<open>auto dest: setnx_okD(2)\<close>)

text \<open>The callbacks served one after the other.\<close>

primrec handle_all ::
    "mac_fun \<Rightarrow> 'n setnx option \<Rightarrow> (string \<Rightarrow> callbackPayload option) \<Rightarrow> (CallbackRequest option \<Rightarrow> bool gw_op) option \<Rightarrow>
     callback_options option \<Rightarrow> (int \<times> callback_http) list \<Rightarrow> 'n \<times> world \<Rightarrow> 'n \<times> world" where
  "handle_all mac nonces decode svc oopts [] sw = sw"
| "handle_all mac nonces decode svc oopts (c # cs) sw =
     handle_all mac nonces decode svc oopts cs (snd (Handle mac nonces decode svc oopts (fst c) (snd c) sw))"

lemma handle_all_keeps_held:
  "setnx_ok setnx kept_until \<Longrightarrow> kept_until (fst sw) k u \<Longrightarrow> kept_until (fst (handle_all mac (Some setnx) decode svc oopts cs sw)) k u"
proof (induction cs arbitrary: sw)
  case (Cons c cs)
  obtain st w where [simp]: "sw = (st, w)" by (cases sw)
  obtain r st' w' where h: "Handle mac (Some setnx) decode svc oopts (fst c) (snd c) (st, w) = (r, st', w')"
    by (metis prod.exhaust)
  from handle_keeps_held [OF Cons.prems(1) h] Cons.prems have "kept_until (fst (st', w')) k u" by simp
  from Cons.IH [OF Cons.prems(1) this] show ?case using h by simp
qed simp

text \<open>Two readings of the clock that a signature's time accepts are at most twice the skew apart.\<close>

lemma time_Sub_window:
  assumes "\<bar>time_Sub now u\<bar> \<le> k" "\<bar>time_Sub now' u\<bar> \<le> k" "k < 2 ^ 62"
  shows "now' - now \<le> 2 * k"
  using assms unfolding time_Sub_def Let_def by (simp add: min_def max_def abs_if split: if_splits)

lemma verify_window:
  assumes "verify mac opts now p ts n sig body" "verify mac opts now' p' ts n' sig' body'"
    and skew: "in_int64 (co_CallbackMaxSkew opts)" "0 < int64 (2 * co_CallbackMaxSkew opts)"
  shows "now' - now \<le> int64 (2 * co_CallbackMaxSkew opts)"
proof -
  let ?k = "co_CallbackMaxSkew opts"
  from assms(1,2) obtain u where u: "time_Sub now u \<le> ?k" "int64 (- ?k) \<le> time_Sub now u"
      "time_Sub now' u \<le> ?k" "int64 (- ?k) \<le> time_Sub now' u"
    unfolding verify_def by (auto simp: Let_def not_less split: option.splits if_splits)
  have range: "- (2 ^ 63) \<le> ?k" "?k < 2 ^ 63" using skew(1) by (auto simp: in_int_def)
  have "0 \<le> ?k"
  proof (rule ccontr)
    assume neg: "\<not> 0 \<le> ?k"
    show False
    proof (cases "?k = - (2 ^ 63)")
      case True with skew(2) show False by (simp add: wrap_def)
    next
      case False
      with neg range have "int64 (- ?k) = - ?k" by (intro wrap_id) (auto simp: in_int_def)
      with u(1,2) neg show False by linarith
    qed
  qed
  moreover have "?k < 2 ^ 62"
  proof (rule ccontr)
    assume "\<not> ?k < 2 ^ 62"
    then have "int64 (2 * ?k) = 2 * ?k - 2 ^ 64" using range by (auto simp: wrap_def mod_pos_geq)
    with skew(2) range(2) show False by simp
  qed
  ultimately have "int64 (2 * ?k) = 2 * ?k" "int64 (- ?k) = - ?k" by (auto simp: in_int_def intro!: wrap_id)
  with time_Sub_window [of now u ?k now'] u \<open>?k < 2 ^ 62\<close> show ?thesis by (simp add: abs_le_iff)
qed


text \<open>The callback service was asked: it answered, or its error is wrapped.\<close>

fun reached_service :: "bool result \<Rightarrow> bool" where
  "reached_service (Inr duplicate) = True"
| "reached_service (Inl (WrapCode c e)) = True"
| "reached_service (Inl e) = False"



section \<open>The provider's refund calls\<close>

text \<open>A call carries what the request of the job records.\<close>

definition call_for :: "RefundRequestDO list \<Rightarrow> RefundOutboxDO \<Rightarrow> pr_RefundRequest \<Rightarrow> bool" where
  "call_for requests o' q \<longleftrightarrow>
     list_ex (\<lambda>r. rr_ID r = ro_RefundRequestID o' \<and> rq_RequestID q = rr_CorrelationID r \<and> rq_OrderSN q = rr_OrderSN r \<and>
       rq_AmountFen q = rr_AmountFen r \<and> rq_Reason q = rr_Reason r) requests"

abbreviation (input) job_message :: "RefundJob \<Rightarrow> pb_RefundJob" where
  "job_message job \<equiv> \<lparr>bj_Id = int64 (rj_OutboxID job), bj_RefundRequestId = int64 (rj_RefundRequestID job),
     bj_OrderSn = rj_OrderSN job, bj_TradeNo = rj_TradeNo job, bj_AmountFen = rj_AmountFen job,
     bj_Reason = rj_Reason job, bj_CorrelationId = rj_CorrelationID job, bj_Attempts = int32 (rj_Attempts job)\<rparr>"

lemma claim_one_call:
  assumes "yields (claim_one now o') t j u"
  shows "call_for (order_refund_requests t) o' (refund_request_for (job_message j))" "order_refund_requests u = order_refund_requests t"
proof -
  from assms obtain a v rows where v: "yields (update_outbox (ro_ID o')
      (\<lambda>r. r\<lparr>ro_Status := ''processing'', ro_Attempts := ro_Attempts r + 1, ro_LockedAt := Some now, ro_UpdatedAt := now\<rparr>)) t a v"
    and j: "\<exists>r tradeNo rs. request_with_trade (ro_RefundRequestID o') v = (r, tradeNo) # rs \<and> rr_OrderSN r = rj_OrderSN j \<and>
      rr_AmountFen r = rj_AmountFen j \<and> rr_Reason r = rj_Reason j \<and> rr_CorrelationID r = rj_CorrelationID j"
    unfolding claim_one_def by (auto elim!: yields_elims dest!: yields_query split: list.splits prod.splits)
  from j obtain r tradeNo where "(r, tradeNo) \<in> set (request_with_trade (ro_RefundRequestID o') v)"
      "rr_OrderSN r = rj_OrderSN j" "rr_AmountFen r = rj_AmountFen j" "rr_Reason r = rj_Reason j" "rr_CorrelationID r = rj_CorrelationID j"
    by (metis list.set_intros(1))
  with yields_update_outbox [OF v] show "call_for (order_refund_requests t) o' (refund_request_for (job_message j))"
    by (auto simp: request_with_trade_def call_for_def list_ex_iff refund_request_for_def intro!: bexI [of _ r])
  show "order_refund_requests u = order_refund_requests t" using yields_claim_one [OF assms] by simp
qed

lemma claim_all_calls:
  "yields (claim_all now os) t js u \<Longrightarrow>
   list_all2 (\<lambda>o' j. call_for (order_refund_requests t) o' (refund_request_for (job_message j))) os js"
proof (induction os arbitrary: t js)
  case (Cons o' os)
  then obtain j js' v where "yields (claim_one now o') t j v" "yields (claim_all now os) v js' u" "js = j # js'"
    by (auto elim!: yields_elims)
  with Cons.IH claim_one_call show ?case by fastforce
qed simp

lemma claimable_page:
  "list_all (\<lambda>o'. ro_Status o' \<noteq> ''completed'') (take n (filter (claimable now m k) os))"
  "set (take n (filter (claimable now m k) os)) \<subseteq> set os"
  by (auto simp: list_all_iff claimable_open dest!: in_set_takeD)

lemma claimed_jobs:
  assumes "run_state (ctl_ClaimRefundJobs now l m k) s = (Inr jobs, s')" and wf: "wf_outbox (order_refund_outbox (tables s))"
  obtains os where "set os \<subseteq> set (order_refund_outbox (tables s))" "list_all (\<lambda>o'. ro_Status o' \<noteq> ''completed'') os"
    "distinct (map ro_ID os)" "length os \<le> nat (if l \<le> 0 then 20 else l)"
    "list_all2 (\<lambda>o' j. call_for (order_refund_requests (tables s)) o' (refund_request_for j)) os jobs"
proof -
  let ?m = "if m \<le> 0 then 8 else m" and ?k = "if int64 (k * 1000000000) \<le> 0 then 2 * 60 * 1000000000 else int64 (k * 1000000000)"
    and ?l = "if l \<le> 0 then 20 else l"
  let ?os = "take (nat ?l) (filter (claimable now ?m ?k) (order_refund_outbox (tables s)))"
  from assms(1) obtain js u where js: "yields (ClaimRefundJobs now l m (int64 (k * 1000000000))) (tables s) js u"
      "jobs = map (\<lambda>j. job_message j) js"
    unfolding ctl_ClaimRefundJobs_def by (auto dest!: yieldsI elim!: yields_elims)
  have page: "page_rows 0 ?l xs = take (nat ?l) xs" for xs :: "RefundOutboxDO list" by (simp add: page_rows_def)
  from js(1) have "yields (claim_all now ?os) (tables s) js u"
    unfolding ClaimRefundJobs_def Let_def page by (auto elim!: yields_elims dest!: yields_query yields_map_err yields_transaction)
  from claim_all_calls [OF this] js(2)
  have "list_all2 (\<lambda>o' j. call_for (order_refund_requests (tables s)) o' (refund_request_for j)) ?os jobs"
    by (simp add: list_all2_map2)
  moreover have "distinct (map ro_ID ?os)" using wf unfolding wf_outbox_def take_map [symmetric]
    by (intro distinct_take distinct_map_filter)
  ultimately show thesis
    by (intro that [of ?os] claimable_page) simp_all
qed

lemma refund_loop_calls:
  "run_state (refund_loop post late text wk clock i jobs) s = ((calls, r), s') \<Longrightarrow>
   \<exists>n. calls = take n (map refund_request_for jobs)"
proof (induction jobs arbitrary: i s calls r s')
  case (Cons job jobs)
  show ?case
  proof (cases "late i")
    case (Some e) with Cons.prems show ?thesis by (auto intro!: exI [of _ 0])
  next
    case None
    obtain x u where x: "run_state (ctl_CompleteRefundJob (clock (Suc i))
        (complete_request text wk job (Refund post (refund_request_for job)))) s = (x, u)" by fastforce
    show ?thesis
    proof (cases x)
      case (Inl e) with x None Cons.prems show ?thesis by (auto simp: run_simps Let_def intro!: exI [of _ 1])
    next
      case (Inr y)
      with x None Cons.prems obtain calls' where "run_state (refund_loop post late text wk clock (Suc i) jobs) u = ((calls', r), s')"
          "calls = refund_request_for job # calls'"
        by (auto simp: run_simps Let_def split: prod.splits)
      with Cons.IH obtain n where "calls = take (Suc n) (map refund_request_for (job # jobs))" by fastforce
      then show ?thesis by blast
    qed
  qed
qed simp

text \<open>
  C11. Whatever the provider and the database answer, one batch of the refund worker calls the provider
  at most once per claimed job, only for jobs that are not completed, at most as often as the batch
  size says, and each call carries the number, the amount, the reason and the correlation id of the
  job's refund request.
\<close>

theorem refund_calls_match_requests:
  assumes run: "run_state (processRefundBatch post late text wk clock) s = ((calls, r), s')"
    and wf: "wf_outbox (order_refund_outbox (tables s))"
  shows "\<exists>os. set os \<subseteq> set (order_refund_outbox (tables s)) \<and> distinct (map ro_ID os) \<and>
    list_all (\<lambda>o'. ro_Status o' \<noteq> ''completed'') os \<and> list_all2 (call_for (order_refund_requests (tables s))) os calls \<and>
    length calls \<le> nat (if int32 (pw_WorkerBatchSize wk) \<le> 0 then 20 else int32 (pw_WorkerBatchSize wk))"
proof -
  obtain x u where x: "run_state (ctl_ClaimRefundJobs (clock 0) (int32 (pw_WorkerBatchSize wk)) (int32 (pw_MaxAttempts wk))
      (go_quot (refundJobLockTimeout wk) 1000000000)) s = (x, u)" by fastforce
  show ?thesis
  proof (cases x)
    case (Inl e) with run x show ?thesis by (auto simp: processRefundBatch_def run_simps intro!: exI [of _ "[]"])
  next
    case (Inr jobs)
    with run x obtain n where calls: "calls = take n (map refund_request_for jobs)"
      using refund_loop_calls by (fastforce simp: processRefundBatch_def run_simps)
    from claimed_jobs [OF x [unfolded Inr] wf] obtain os where os: "set os \<subseteq> set (order_refund_outbox (tables s))"
        "list_all (\<lambda>o'. ro_Status o' \<noteq> ''completed'') os" "distinct (map ro_ID os)"
        "length os \<le> nat (if int32 (pw_WorkerBatchSize wk) \<le> 0 then 20 else int32 (pw_WorkerBatchSize wk))"
        "list_all2 (\<lambda>o' j. call_for (order_refund_requests (tables s)) o' (refund_request_for j)) os jobs" by blast
    from os(5) have "list_all2 (call_for (order_refund_requests (tables s))) (take n os) calls"
      unfolding calls by (auto simp: list_all2_map2 take_map intro!: list_all2_takeI)
    moreover from this have "length calls = min (length os) n" by (auto dest: list_all2_lengthD)
    ultimately show ?thesis using os(1-4)
      by (intro exI [of _ "take n os"])
        (auto simp: list_all_iff take_map [symmetric] simp del: take_map dest: in_set_takeD)
  qed
qed


section \<open>A sample batch and a sample replay\<close>

definition refunding :: "order_db session" where
  "refunding = \<lparr>tables = shop_db\<lparr>
     orderinfo := [\<lparr>ID = 1, CreatedAt = 100, UpdatedAt = 150, DeletedAt = None, IsDeleted = False, od_OrderGoods = [], od_User = 5,
       od_OrderSn = ''A2'', od_PayType = ''alipay'', od_Status = ''REFUND_PENDING'', od_TradeNo = ''T1'', od_OrderMountFen = 2500,
       od_StoreID = ''7'', od_PayTime = Some 120, od_Address = [], od_SignerName = [], od_SingerMobile = [], od_Post = []\<rparr>],
     order_refund_requests := [\<lparr>rr_ID = 1, rr_OrderSN = ''A2'', rr_ActorUserID = 5, rr_AmountFen = 2500, rr_Reason = ''late'',
       rr_Status = ''PENDING'', rr_Provider = [], rr_ProviderRefundID = [], rr_FailureReason = [], rr_CorrelationID = ''C7'',
       rr_CreatedAt = 130, rr_UpdatedAt = 130\<rparr>],
     order_refund_outbox := [\<lparr>ro_ID = 1, ro_RefundRequestID = 1, ro_Status = ''pending'', ro_Attempts = 0, ro_AvailableAt = 130,
       ro_LockedAt = None, ro_LastError = [], ro_CreatedAt = 130, ro_UpdatedAt = 130\<rparr>]\<rparr>, outcomes = []\<rparr>"

definition sample_worker :: payment_worker where
  "sample_worker = \<lparr>pw_Provider = ''alipay'', pw_WorkerBatchSize = 10, pw_MaxAttempts = 3, pw_WorkerBatchTimeout = 0\<rparr>"

definition sample_post :: refund_post where
  "sample_post q = (\<lparr>rs_ProviderRefundID = ''R1'', rs_Status = ''succeeded''\<rparr>, None)"

abbreviation (input) sample_batch :: "(order_db session, pr_RefundRequest list \<times> unit result) state" where
  "sample_batch \<equiv> processRefundBatch sample_post (\<lambda>_. None) (\<lambda>_. ''error'') sample_worker (\<lambda>i. 200 + int i)"

lemma sample_batch_calls:
  "(case run_state sample_batch refunding of ((calls, r), s') \<Rightarrow>
      (calls, r, map ro_Status (order_refund_outbox (tables s')), map od_Status (orderinfo (tables s')))) =
   ([\<lparr>rq_RequestID = ''C7'', rq_OrderSN = ''A2'', rq_TradeNo = ''T1'', rq_AmountFen = 2500, rq_Reason = ''late''\<rparr>], Inr (),
    [''completed''], [''REFUNDED''])"
  by code_simp


theorem refund_calls_match_requests_witness:
  "(\<exists>q s'. run_state sample_batch refunding = (([q], Inr ()), s') \<and> rq_AmountFen q = 2500) \<and>
   (\<exists>os. set os \<subseteq> set (order_refund_outbox (tables refunding)) \<and> distinct (map ro_ID os) \<and>
      list_all2 (call_for (order_refund_requests (tables refunding))) os (fst (fst (run_state sample_batch refunding))) \<and> length os = 1)"
proof -
  obtain calls r s' where run: "run_state sample_batch refunding = ((calls, r), s')" by (metis prod.exhaust)
  with sample_batch_calls have calls: "length calls = 1" "r = Inr ()" "map rq_AmountFen calls = [2500]" by auto
  have "wf_outbox (order_refund_outbox (tables refunding))" by code_simp
  from refund_calls_match_requests [OF run this] obtain os where "set os \<subseteq> set (order_refund_outbox (tables refunding))"
      "distinct (map ro_ID os)" "list_all2 (call_for (order_refund_requests (tables refunding))) os calls" by blast
  moreover from this(3) calls(1) have "length os = 1" by (simp add: list_all2_lengthD)
  ultimately show ?thesis using run calls by (cases calls) auto
qed

text \<open>A store that keeps each key with the time it expires.\<close>

definition sample_setnx :: "(string \<times> int) list setnx" where
  "sample_setnx st now k ttl =
     (if list_ex (\<lambda>(k', u). k' = k \<and> now < u) st then (Inr False, st) else (Inr True, (k, now + ttl) # st))"

lemma sample_setnx_ok: "setnx_ok sample_setnx (\<lambda>st k u. (k, u) \<in> set st)"
  unfolding setnx_ok_def sample_setnx_def by (auto simp: list_ex_iff split: if_splits)

definition sample_callback :: callback_http where
  "sample_callback = \<lparr>ch_Provider = ''Alipay'', ch_Timestamp = ''1000'', ch_Nonce = ''n1'', ch_Signature = ''6b'', ch_Body = Some ''{}''\<rparr>"

definition sample_options :: callback_options where
  "sample_options = \<lparr>co_Enabled = True, co_CallbackSecret = ''k'', co_CallbackMaxSkew = 300000000000\<rparr>"

definition sample_world :: world where
  "sample_world = \<lparr>order_side = refunding, stock_side = \<lparr>tables = \<lparr>inventory = [], stockselldetail = [], inventory_adjustment_logs = []\<rparr>, outcomes = []\<rparr>\<rparr>"

definition sample_decode :: "string \<Rightarrow> callbackPayload option" where
  "sample_decode body = Some \<lparr>cl_EventID = ''E1'', cl_EventType = ''payment_succeeded'', cl_OrderSN = ''A2'', cl_TradeNo = ''T1'', cl_AmountFen = 2500\<rparr>"

abbreviation (input) sample_service :: "CallbackRequest option \<Rightarrow> bool gw_op" where
  "sample_service \<equiv> ProcessPayCallback GetOrderBySn (\<lambda>_. None) 200"

abbreviation (input) sample_mac :: mac_fun where "sample_mac \<equiv> (\<lambda>key message. key)"

lemma sample_facts:
  "to_lower (trim_space (ch_Provider sample_callback)) = ''alipay''" "trim_space (ch_Nonce sample_callback) = ''n1''"
  "verify sample_mac sample_options 1000000000000 ''alipay'' (ch_Timestamp sample_callback) ''n1'' (ch_Signature sample_callback) ''{}''"
  "nonce_Reserve sample_setnx 1000000000000 (''alipay'' @ '':'' @ ''n1'') (int64 (2 * co_CallbackMaxSkew sample_options)) [] =
     (Inr True, [(''payment:callback:nonce:alipay:n1'', 1600000000000)])"
  "co_Enabled sample_options" "ch_Body sample_callback = Some ''{}''"
  "in_int64 (co_CallbackMaxSkew sample_options)" "int64 (2 * co_CallbackMaxSkew sample_options) = 600000000000"
  by code_simp+

lemma payload_reached: "decode body = Some p \<Longrightarrow>
  \<not> (cl_EventID p = [] \<or> cl_EventType p = [] \<or> cl_OrderSN p = [] \<or> cl_AmountFen p < 0) \<Longrightarrow>
  reached_service (fst (run_state (handle_payload decode svc provider body) w))"
  by (auto simp: handle_payload_def run_simps split: prod.split sum.split)

lemma handle_reaches:
  assumes "co_Enabled opts" "ch_Body req = Some raw" "trim_space (ch_Nonce req) = nonce" "nonce \<noteq> []"
    "to_lower (trim_space (ch_Provider req)) = provider"
    "verify mac opts now provider (ch_Timestamp req) nonce (ch_Signature req) (take (2 ^ 20) raw)"
    "nonce_Reserve setnx now (provider @ '':'' @ nonce) (int64 (2 * co_CallbackMaxSkew opts)) st = (Inr True, st')"
    "decode (take (2 ^ 20) raw) = Some p" "cl_EventID p \<noteq> []" "cl_EventType p \<noteq> []" "cl_OrderSN p \<noteq> []" "0 \<le> cl_AmountFen p"
  shows "reached_service (fst (Handle mac (Some setnx) decode (Some svc) (Some opts) now req (st, w)))"
  using assms payload_reached [of decode "take (2 ^ 20) raw" p svc provider w]
  unfolding Handle_def by (simp add: Let_def split_beta)

lemma sample_first:
  "reached_service (fst (Handle sample_mac (Some sample_setnx) sample_decode (Some sample_service) (Some sample_options)
     1000000000000 sample_callback ([], sample_world)))"
  by (rule handle_reaches [OF sample_facts(5,6,2) _ sample_facts(1) _ sample_facts(4) sample_decode_def])
    (simp_all add: sample_facts(3))


end
