(* ===== verification/Review.thy ===== *)
theory Review
  imports Gateway
begin

text \<open>
  The review service, \<open>app/review/srv/internal\<close>: the models of \<open>domain/models.go\<close> with the
  columns and unique keys of the migration \<open>202607230005_review_domain\<close>, the store
  (\<open>data/store.go\<close>), the service with its check of the purchase (\<open>service/service.go\<close>) and the
  gRPC handlers (\<open>service/grpc.go\<close>). The sentinel errors are the texts they are made of. The gauge
  of the outbox's backlog is left out, the two queries that feed it are not.
\<close>

section \<open>Models\<close>

abbreviation (input) StatusPending :: string where "StatusPending \<equiv> ''PENDING''"
abbreviation (input) StatusApproved :: string where "StatusApproved \<equiv> ''APPROVED''"
abbreviation (input) StatusRejected :: string where "StatusRejected \<equiv> ''REJECTED''"

record Review =
  rv_ID :: int
  rv_UserID :: int
  rv_OrderSN :: string
  rv_GoodsID :: int
  rv_Rating :: int
  rv_Content :: string
  rv_Status :: string
  rv_CreatedAt :: time
  rv_UpdatedAt :: time

record ReviewAppend =
  ra_ID :: int
  ra_ReviewID :: int
  ra_Content :: string
  ra_CreatedAt :: time

record ReviewReply =
  ry_ID :: int
  ry_ReviewID :: int
  ry_ActorUserID :: int
  ry_Content :: string
  ry_CreatedAt :: time

record Audit =
  au_ID :: int
  au_ReviewID :: int
  au_ActorUserID :: int
  au_Action :: string
  au_FromStatus :: string
  au_ToStatus :: string
  au_RequestID :: string
  au_Reason :: string
  au_CreatedAt :: time

record OutboxEvent =
  oe_ID :: int
  oe_EventKey :: string
  oe_GoodsID :: int
  oe_EventType :: string
  oe_Status :: string
  oe_RetryCount :: int
  oe_NextAttemptAt :: int
  oe_LastError :: string
  oe_CreatedAt :: time
  oe_CompletedAt :: "time option"

record Rating =
  rg_GoodsID :: int
  rg_ApprovedCount :: int
  rg_RatingSum :: int
  rg_AverageMilli :: int
  rg_RebuiltAt :: time

record review_db =
  reviews :: "Review list"
  review_appends :: "ReviewAppend list"
  review_replies :: "ReviewReply list"
  review_audit_logs :: "Audit list"
  review_outbox_events :: "OutboxEvent list"
  review_product_ratings :: "Rating list"

type_synonym 'a rev_op = "(review_db, 'a) op"

text \<open>A review with what \<open>Preload\<close> loads beside it.\<close>

type_synonym loaded_review = "Review \<times> ReviewAppend option \<times> ReviewReply option"

section \<open>Columns and unique keys\<close>

definition review_check :: "Review \<Rightarrow> db_error option" where
  "review_check r =
     (if 64 < length (rv_OrderSN r) \<or> 2000 < length (rv_Content r) \<or> 16 < length (rv_Status r) then Some DataTooLong
      else if in_int32 (rv_UserID r) \<and> in_int32 (rv_GoodsID r) \<and> in_int 8 (rv_Rating r) then None else Some OutOfRange)"

definition review_clash :: "Review \<Rightarrow> Review \<Rightarrow> bool" where
  "review_clash r r' \<longleftrightarrow> rv_ID r = rv_ID r' \<or>
     (rv_UserID r = rv_UserID r' \<and> rv_OrderSN r = rv_OrderSN r' \<and> rv_GoodsID r = rv_GoodsID r')"

definition append_check :: "ReviewAppend \<Rightarrow> db_error option" where
  "append_check a = (if 2000 < length (ra_Content a) then Some DataTooLong else None)"

definition reply_check :: "ReviewReply \<Rightarrow> db_error option" where
  "reply_check a =
     (if 2000 < length (ry_Content a) then Some DataTooLong else if in_int32 (ry_ActorUserID a) then None else Some OutOfRange)"

definition audit_check :: "Audit \<Rightarrow> db_error option" where
  "audit_check a =
     (if 32 < length (au_Action a) \<or> 16 < length (au_FromStatus a) \<or> 16 < length (au_ToStatus a) \<or>
         128 < length (au_RequestID a) \<or> 255 < length (au_Reason a) then Some DataTooLong
      else if in_int32 (au_ActorUserID a) then None else Some OutOfRange)"

definition review_event_check :: "OutboxEvent \<Rightarrow> db_error option" where
  "review_event_check e =
     (if 128 < length (oe_EventKey e) \<or> 32 < length (oe_EventType e) \<or> 16 < length (oe_Status e) \<or> 500 < length (oe_LastError e)
      then Some DataTooLong
      else if in_int32 (oe_GoodsID e) then None else Some OutOfRange)"

definition rating_check :: "Rating \<Rightarrow> db_error option" where
  "rating_check r =
     (if in_int32 (rg_GoodsID r) \<and> in_int64 (rg_ApprovedCount r) \<and> in_int64 (rg_RatingSum r) \<and> in_int32 (rg_AverageMilli r)
      then None else Some OutOfRange)"

section \<open>The store\<close>

abbreviation (input) review_ErrConflict :: err where "review_ErrConflict \<equiv> Plain ''review conflict''"
abbreviation (input) review_ErrNotFound :: err where "review_ErrNotFound \<equiv> Plain ''review not found''"
abbreviation (input) review_ErrInvalidState :: err where "review_ErrInvalidState \<equiv> Plain ''invalid review state''"

definition translate :: "db_error \<Rightarrow> err" where
  "translate e = (case e of RecordNotFound \<Rightarrow> review_ErrNotFound | DuplicatedKey \<Rightarrow> review_ErrConflict | _ \<Rightarrow> Driver e)"

abbreviation review_transaction :: "'a rev_op \<Rightarrow> 'a rev_op" where
  "review_transaction \<equiv> transaction (Driver Fault) (Driver Fault)"

definition rstore_Create :: "time \<Rightarrow> Review \<Rightarrow> Review rev_op" where
  "rstore_Create now review =
     map_err translate (write_stmt reviews reviews_update (\<lambda>t.
       insert_row review_check review_clash
         (review\<lparr>rv_ID := next_id rv_ID t, rv_Status := StatusPending, rv_CreatedAt := now, rv_UpdatedAt := now\<rparr>) t))"

definition rstore_Get :: "int \<Rightarrow> loaded_review rev_op" where
  "rstore_Get rid =
     bind_err translate (first_stmt reviews (\<lambda>r. rv_ID r = rid)) (\<lambda>r.
       bind_err translate (query_stmt (\<lambda>t. first_row (\<lambda>a. ra_ReviewID a = rv_ID r) (review_appends t))) (\<lambda>app.
         bind_err translate (query_stmt (\<lambda>t. first_row (\<lambda>a. ry_ReviewID a = rv_ID r) (review_replies t))) (\<lambda>reply.
           ok (r, app, reply))))"

definition append_body :: "time \<Rightarrow> int \<Rightarrow> int \<Rightarrow> string \<Rightarrow> unit rev_op" where
  "append_body now userID reviewID content =
     bind_err translate (first_stmt reviews (\<lambda>r. rv_ID r = reviewID)) (\<lambda>review.
       if rv_UserID review \<noteq> userID then fail review_ErrNotFound
       else bind_err translate (write_stmt review_appends review_appends_update (\<lambda>t.
           insert_row append_check (\<lambda>a a'. ra_ID a = ra_ID a' \<or> ra_ReviewID a = ra_ReviewID a')
             \<lparr>ra_ID = next_id ra_ID t, ra_ReviewID = reviewID, ra_Content = content, ra_CreatedAt = now\<rparr> t))
         (\<lambda>_. ok ()))"

definition rstore_Append :: "time \<Rightarrow> int \<Rightarrow> int \<Rightarrow> string \<Rightarrow> unit rev_op" where
  "rstore_Append now userID reviewID content = review_transaction (append_body now userID reviewID content)"

definition insert_audit :: "time \<Rightarrow> Audit \<Rightarrow> (review_db session, db_error + Audit) state" where
  "insert_audit now a = write_stmt review_audit_logs review_audit_logs_update (\<lambda>t.
     insert_row audit_check (\<lambda>r r'. au_ID r = au_ID r') (a\<lparr>au_ID := next_id au_ID t, au_CreatedAt := now\<rparr>) t)"

definition moderation_key :: "int \<Rightarrow> string \<Rightarrow> string" where
  "moderation_key reviewID decision = ''review:'' @ show_int reviewID @ '':moderate:'' @ decision"

definition insert_outbox :: "time \<Rightarrow> OutboxEvent \<Rightarrow> (review_db session, db_error + OutboxEvent) state" where
  "insert_outbox now e = write_stmt review_outbox_events review_outbox_events_update (\<lambda>t.
     insert_row review_event_check (\<lambda>r r'. oe_ID r = oe_ID r' \<or> oe_EventKey r = oe_EventKey r')
       (e\<lparr>oe_ID := next_id oe_ID t, oe_CreatedAt := now\<rparr>) t)"

text \<open>
  The body of \<open>Moderate\<close>. \<open>tx.Model(&review).Update\<close> writes the new status into \<open>review\<close> as well
  as into its row, so that the audit row, made after it, names the decision as the old status too.
\<close>

definition moderate_body :: "time \<Rightarrow> int \<Rightarrow> string \<Rightarrow> int \<Rightarrow> string \<Rightarrow> string \<Rightarrow> unit rev_op" where
  "moderate_body now reviewID decision actor requestID reason =
     bind_err translate (first_stmt reviews (\<lambda>r. rv_ID r = reviewID)) (\<lambda>review.
       if rv_Status review \<noteq> StatusPending then fail review_ErrInvalidState
       else bind_err Driver (write_stmt reviews reviews_update
           (update_where (\<lambda>r. rv_ID r = rv_ID review) (\<lambda>r. r\<lparr>rv_Status := decision, rv_UpdatedAt := now\<rparr>)
             (\<lambda>r. review_check r = None)))
         (\<lambda>_. let review = review\<lparr>rv_Status := decision, rv_UpdatedAt := now\<rparr> in
           bind_err Driver (insert_audit now \<lparr>au_ID = 0, au_ReviewID = reviewID, au_ActorUserID = actor, au_Action = ''MODERATE'',
               au_FromStatus = rv_Status review, au_ToStatus = decision, au_RequestID = requestID, au_Reason = reason, au_CreatedAt = 0\<rparr>)
             (\<lambda>_. bind_err Driver (insert_outbox now \<lparr>oe_ID = 0, oe_EventKey = moderation_key reviewID decision,
                 oe_GoodsID = rv_GoodsID review, oe_EventType = ''RATING_REBUILD'', oe_Status = ''PENDING'', oe_RetryCount = 0,
                 oe_NextAttemptAt = 0, oe_LastError = [], oe_CreatedAt = 0, oe_CompletedAt = None\<rparr>)
               (\<lambda>_. ok ()))))"

definition rstore_Moderate :: "time \<Rightarrow> int \<Rightarrow> string \<Rightarrow> int \<Rightarrow> string \<Rightarrow> string \<Rightarrow> unit rev_op" where
  "rstore_Moderate now reviewID decision actor requestID reason =
     review_transaction (moderate_body now reviewID decision actor requestID reason)"

definition reply_body :: "time \<Rightarrow> int \<Rightarrow> int \<Rightarrow> string \<Rightarrow> string \<Rightarrow> unit rev_op" where
  "reply_body now reviewID actor content requestID =
     bind_err translate (first_stmt reviews (\<lambda>r. rv_ID r = reviewID)) (\<lambda>review.
       if rv_Status review \<noteq> StatusApproved then fail review_ErrInvalidState
       else bind_err translate (write_stmt review_replies review_replies_update (\<lambda>t.
           insert_row reply_check (\<lambda>a a'. ry_ID a = ry_ID a' \<or> ry_ReviewID a = ry_ReviewID a')
             \<lparr>ry_ID = next_id ry_ID t, ry_ReviewID = reviewID, ry_ActorUserID = actor, ry_Content = content, ry_CreatedAt = now\<rparr> t))
         (\<lambda>_. bind_err Driver (insert_audit now \<lparr>au_ID = 0, au_ReviewID = reviewID, au_ActorUserID = actor, au_Action = ''REPLY'',
             au_FromStatus = rv_Status review, au_ToStatus = rv_Status review, au_RequestID = requestID, au_Reason = [], au_CreatedAt = 0\<rparr>)
           (\<lambda>_. ok ())))"

definition rstore_Reply :: "time \<Rightarrow> int \<Rightarrow> int \<Rightarrow> string \<Rightarrow> string \<Rightarrow> unit rev_op" where
  "rstore_Reply now reviewID actor content requestID = review_transaction (reply_body now reviewID actor content requestID)"

definition rstore_List :: "int \<Rightarrow> int \<Rightarrow> string \<Rightarrow> int \<Rightarrow> int \<Rightarrow> (loaded_review list \<times> int) rev_op" where
  "rstore_List goodsID userID status offset limit =
     (let p = (\<lambda>r. (0 < goodsID \<longrightarrow> rv_GoodsID r = goodsID) \<and> (0 < userID \<longrightarrow> rv_UserID r = userID) \<and>
            (status \<noteq> [] \<longrightarrow> rv_Status r = status))
      in bind_err Driver (query_stmt (\<lambda>t. int (count_rows p (reviews t)))) (\<lambda>total.
        bind_err Driver (query_stmt (\<lambda>t. page_rows offset limit (rev (filter p (reviews t))))) (\<lambda>rows.
          bind_err Driver (query_stmt review_appends) (\<lambda>apps.
            bind_err Driver (query_stmt review_replies) (\<lambda>replies.
              ok (map (\<lambda>r. (r, first_row (\<lambda>a. ra_ReviewID a = rv_ID r) apps, first_row (\<lambda>a. ry_ReviewID a = rv_ID r) replies)) rows,
                  total))))))"

section \<open>Ratings\<close>

text \<open>\<open>SELECT COUNT(*), COALESCE(SUM(rating),0)\<close> of the approved reviews of a goods.\<close>

definition approved_of :: "int \<Rightarrow> Review list \<Rightarrow> Review list" where
  "approved_of goodsID rs = filter (\<lambda>r. rv_GoodsID r = goodsID \<and> rv_Status r = StatusApproved) rs"

definition rating_totals :: "int \<Rightarrow> review_db \<Rightarrow> int \<times> int" where
  "rating_totals goodsID t = (int (length (approved_of goodsID (reviews t))), sum_list (map rv_Rating (approved_of goodsID (reviews t))))"

definition average_milli :: "int \<Rightarrow> int \<Rightarrow> int" where
  "average_milli cnt summed = (if 0 < cnt then int32 (go_quot (int64 (summed * 1000)) cnt) else 0)"

definition rating_of :: "time \<Rightarrow> int \<Rightarrow> int \<times> int \<Rightarrow> Rating" where
  "rating_of now goodsID totals =
     \<lparr>rg_GoodsID = goodsID, rg_ApprovedCount = fst totals, rg_RatingSum = snd totals,
      rg_AverageMilli = average_milli (fst totals) (snd totals), rg_RebuiltAt = now\<rparr>"

text \<open>\<open>INSERT ... ON DUPLICATE KEY UPDATE\<close> of the four columns beside the key.\<close>

definition upsert_rating :: "Rating \<Rightarrow> Rating list \<Rightarrow> (db_error + unit) \<times> Rating list" where
  "upsert_rating r t =
     (case rating_check r of
        Some d \<Rightarrow> (Inl d, t)
      | None \<Rightarrow> (Inr (), if list_ex (\<lambda>r'. rg_GoodsID r' = rg_GoodsID r) t
          then update_rows (\<lambda>r'. rg_GoodsID r' = rg_GoodsID r) (\<lambda>_. r) t else t @ [r]))"

definition write_rating :: "Rating \<Rightarrow> unit rev_op" where
  "write_rating r = map_err Driver (write_stmt review_product_ratings review_product_ratings_update (upsert_rating r))"

text \<open>\<open>RebuildRating\<close> in two parts: the query, and the writes, which are not in one transaction.\<close>

definition rebuild_read :: "int \<Rightarrow> (int \<times> int) rev_op" where
  "rebuild_read goodsID = map_err Driver (query_stmt (rating_totals goodsID))"

definition rebuild_write :: "time \<Rightarrow> int \<Rightarrow> int \<Rightarrow> string \<Rightarrow> int \<times> int \<Rightarrow> Rating rev_op" where
  "rebuild_write now goodsID actor requestID totals =
     bindE (write_rating (rating_of now goodsID totals)) (\<lambda>_.
       bind_err Driver (insert_audit now \<lparr>au_ID = 0, au_ReviewID = 0, au_ActorUserID = actor, au_Action = ''REBUILD_RATING'',
           au_FromStatus = [], au_ToStatus = [], au_RequestID = requestID, au_Reason = ''goods:'' @ show_int goodsID, au_CreatedAt = 0\<rparr>)
         (\<lambda>_. ok (rating_of now goodsID totals)))"

definition rstore_RebuildRating :: "time \<Rightarrow> int \<Rightarrow> int \<Rightarrow> string \<Rightarrow> Rating rev_op" where
  "rstore_RebuildRating now goodsID actor requestID = bindE (rebuild_read goodsID) (rebuild_write now goodsID actor requestID)"

definition rstore_GetRating :: "int \<Rightarrow> Rating rev_op" where
  "rstore_GetRating goodsID = map_err translate (first_stmt review_product_ratings (\<lambda>r. rg_GoodsID r = goodsID))"

definition observeReviewOutboxBacklog :: "unit rev_op" where
  "observeReviewOutboxBacklog = for_each (\<lambda>status.
     bind_err Driver (query_stmt (\<lambda>t. count_rows (\<lambda>e. oe_Status e = status) (review_outbox_events t))) (\<lambda>_. ok ()))
     [''PENDING'', ''DONE'']"

definition process_event :: "time \<Rightarrow> OutboxEvent \<Rightarrow> unit rev_op" where
  "process_event now event =
     bind_err Driver (query_stmt (rating_totals (oe_GoodsID event))) (\<lambda>totals.
       bindE (write_rating (rating_of now (oe_GoodsID event) totals)) (\<lambda>_.
         bind_err Driver (write_stmt review_outbox_events review_outbox_events_update
             (update_where (\<lambda>e. oe_ID e = oe_ID event)
               (\<lambda>e. e\<lparr>oe_Status := ''DONE'', oe_CompletedAt := Some now, oe_LastError := []\<rparr>) (\<lambda>e. review_event_check e = None)))
           (\<lambda>_. ok ())))"

definition due_events :: "time \<Rightarrow> int \<Rightarrow> review_db \<Rightarrow> OutboxEvent list" where
  "due_events now limit t =
     page_rows 0 limit (filter (\<lambda>e. oe_Status e = ''PENDING'' \<and> oe_NextAttemptAt e \<le> now div 1000) (review_outbox_events t))"

definition rstore_ProcessOutbox :: "time \<Rightarrow> int \<Rightarrow> unit rev_op" where
  "rstore_ProcessOutbox now limit0 =
     (let limit = (if limit0 \<le> 0 then 50 else limit0)
      in bindE observeReviewOutboxBacklog (\<lambda>_.
        bindE (review_transaction (bind_err Driver (query_stmt (due_events now limit)) (for_each (process_event now)))) (\<lambda>_.
          observeReviewOutboxBacklog)))"

section \<open>The service\<close>

abbreviation (input) review_ErrInvalid :: err where "review_ErrInvalid \<equiv> Plain ''invalid review request''"
abbreviation (input) ErrPurchaseRequired :: err where "ErrPurchaseRequired \<equiv> Plain ''completed purchase required''"

text \<open>\<open>OrderVerifier.VerifyCompleted\<close>: whether the order service confirms the purchase.\<close>

definition VerifyCompleted :: "order_lookup \<Rightarrow> int \<Rightarrow> string \<Rightarrow> int \<Rightarrow> unit ord_op" where
  "VerifyCompleted lookup user orderSN goods = do {
     found \<leftarrow> lookup orderSN;
     case found of
       Inl e \<Rightarrow> fail ErrPurchaseRequired
     | Inr (info, items) \<Rightarrow>
         if op_UserId info \<noteq> user \<or> op_Status info \<noteq> ''TRADE_FINISHED'' then fail ErrPurchaseRequired
         else if list_ex (\<lambda>i. ip_GoodsId i = goods) items then ok () else fail ErrPurchaseRequired
   }"

text \<open>\<open>verified\<close> is the verifier's answer for the request at hand.\<close>

definition rev_Create :: "(int \<Rightarrow> string \<Rightarrow> int \<Rightarrow> unit result) \<Rightarrow> time \<Rightarrow> int \<Rightarrow> string \<Rightarrow> int \<Rightarrow> int \<Rightarrow> string \<Rightarrow> loaded_review rev_op" where
  "rev_Create verified now user orderSN0 goods rating content0 =
     (let orderSN = trim_space orderSN0; content = trim_space content0 in
      if user \<le> 0 \<or> goods \<le> 0 \<or> rating < 1 \<or> 5 < rating \<or> orderSN = [] \<or> content = [] \<or> 2000 < length content
      then fail review_ErrInvalid
      else if \<not> is_ok (verified user orderSN goods) then fail ErrPurchaseRequired
      else bindE (rstore_Create now \<lparr>rv_ID = 0, rv_UserID = user, rv_OrderSN = orderSN, rv_GoodsID = goods, rv_Rating = rating,
          rv_Content = content, rv_Status = [], rv_CreatedAt = 0, rv_UpdatedAt = 0\<rparr>) (\<lambda>v. rstore_Get (rv_ID v)))"

definition rev_Append :: "time \<Rightarrow> int \<Rightarrow> int \<Rightarrow> string \<Rightarrow> loaded_review rev_op" where
  "rev_Append now user rid content0 =
     (let content = trim_space content0 in
      if user \<le> 0 \<or> rid = 0 \<or> content = [] \<or> 2000 < length content then fail review_ErrInvalid
      else bindE (rstore_Append now user rid content) (\<lambda>_. rstore_Get rid))"

definition rev_Moderate :: "time \<Rightarrow> int \<Rightarrow> string \<Rightarrow> int \<Rightarrow> string \<Rightarrow> string \<Rightarrow> loaded_review rev_op" where
  "rev_Moderate now rid decision0 actor requestID reason =
     (let decision = to_upper (trim_space decision0) in
      if rid = 0 \<or> actor \<le> 0 \<or> trim_space requestID = [] \<or> (decision \<noteq> StatusApproved \<and> decision \<noteq> StatusRejected)
      then fail review_ErrInvalid
      else bindE (rstore_Moderate now rid decision actor requestID reason) (\<lambda>_. rstore_Get rid))"

definition rev_Reply :: "time \<Rightarrow> int \<Rightarrow> int \<Rightarrow> string \<Rightarrow> string \<Rightarrow> loaded_review rev_op" where
  "rev_Reply now rid actor content0 requestID =
     (let content = trim_space content0 in
      if rid = 0 \<or> actor \<le> 0 \<or> content = [] \<or> 2000 < length content \<or> trim_space requestID = [] then fail review_ErrInvalid
      else bindE (rstore_Reply now rid actor content requestID) (\<lambda>_. rstore_Get rid))"

definition rev_List :: "int \<Rightarrow> int \<Rightarrow> string \<Rightarrow> int \<Rightarrow> int \<Rightarrow> (loaded_review list \<times> int) rev_op" where
  "rev_List goods user status page0 size0 =
     (let page = (if page0 < 1 then 1 else page0); size = (if size0 < 1 \<or> 100 < size0 then 20 else size0)
      in rstore_List goods user (to_upper (trim_space status)) ((page - 1) * size) size)"

definition rev_GetRating :: "int \<Rightarrow> Rating rev_op" where
  "rev_GetRating goods = (if goods \<le> 0 then fail review_ErrInvalid else rstore_GetRating goods)"

definition rev_RebuildRating :: "time \<Rightarrow> int \<Rightarrow> int \<Rightarrow> string \<Rightarrow> Rating rev_op" where
  "rev_RebuildRating now goods actor requestID =
     (if goods \<le> 0 \<or> actor \<le> 0 \<or> trim_space requestID = [] then fail review_ErrInvalid
      else rstore_RebuildRating now goods actor requestID)"

section \<open>The handlers\<close>

definition grpcError :: "err \<Rightarrow> err" where
  "grpcError e =
     (if e = review_ErrInvalid then GrpcStatus ''InvalidArgument''
      else if e = ErrPurchaseRequired then GrpcStatus ''FailedPrecondition''
      else if e = review_ErrConflict then GrpcStatus ''AlreadyExists''
      else if e = review_ErrNotFound then GrpcStatus ''NotFound''
      else if e = review_ErrInvalidState then GrpcStatus ''FailedPrecondition''
      else GrpcStatus ''Internal'')"

record ReviewResponse =
  rp_Id :: int
  rp_UserId :: int
  rp_OrderSn :: string
  rp_GoodsId :: int
  rp_Rating :: int
  rp_Content :: string
  rp_Status :: string
  rp_AppendContent :: string
  rp_MerchantReply :: string
  rp_CreatedAt :: int

definition reviewResponse :: "loaded_review \<Rightarrow> ReviewResponse" where
  "reviewResponse v =
     (case v of (r, app, reply) \<Rightarrow>
        \<lparr>rp_Id = int64 (rv_ID r), rp_UserId = rv_UserID r, rp_OrderSn = rv_OrderSN r, rp_GoodsId = rv_GoodsID r, rp_Rating = rv_Rating r,
         rp_Content = rv_Content r, rp_Status = rv_Status r, rp_AppendContent = (case app of None \<Rightarrow> [] | Some a \<Rightarrow> ra_Content a),
         rp_MerchantReply = (case reply of None \<Rightarrow> [] | Some a \<Rightarrow> ry_Content a), rp_CreatedAt = unix (rv_CreatedAt r)\<rparr>)"

definition ratingResponse :: "Rating \<Rightarrow> int \<times> int \<times> int \<times> int \<times> int" where
  "ratingResponse v = (rg_GoodsID v, rg_ApprovedCount v, rg_RatingSum v, rg_AverageMilli v, unix (rg_RebuiltAt v))"

definition answer :: "('a \<Rightarrow> 'b) \<Rightarrow> 'a rev_op \<Rightarrow> 'b rev_op" where
  "answer f m = bind_err grpcError m (\<lambda>v. ok (f v))"

definition CreateReview :: "(int \<Rightarrow> string \<Rightarrow> int \<Rightarrow> unit result) \<Rightarrow> time \<Rightarrow> int \<Rightarrow> string \<Rightarrow> int \<Rightarrow> int \<Rightarrow> string \<Rightarrow> ReviewResponse rev_op" where
  "CreateReview verified now user orderSn goods rating content =
     answer reviewResponse (rev_Create verified now user orderSn goods rating content)"

definition AppendReview :: "time \<Rightarrow> int \<Rightarrow> int \<Rightarrow> string \<Rightarrow> ReviewResponse rev_op" where
  "AppendReview now user rid content = answer reviewResponse (rev_Append now user (uint64_of rid) content)"

definition GetReview :: "int \<Rightarrow> ReviewResponse rev_op" where
  "GetReview rid = answer reviewResponse (rstore_Get (uint64_of rid))"

definition ModerateReview :: "time \<Rightarrow> int \<Rightarrow> string \<Rightarrow> int \<Rightarrow> string \<Rightarrow> string \<Rightarrow> ReviewResponse rev_op" where
  "ModerateReview now rid decision actor requestID reason =
     answer reviewResponse (rev_Moderate now (uint64_of rid) decision actor requestID reason)"

definition ReplyReview :: "time \<Rightarrow> int \<Rightarrow> int \<Rightarrow> string \<Rightarrow> string \<Rightarrow> ReviewResponse rev_op" where
  "ReplyReview now rid actor content requestID = answer reviewResponse (rev_Reply now (uint64_of rid) actor content requestID)"

definition ListReviews :: "int \<Rightarrow> int \<Rightarrow> string \<Rightarrow> int \<Rightarrow> int \<Rightarrow> (int \<times> ReviewResponse list) rev_op" where
  "ListReviews goods user status page pageSize =
     answer (\<lambda>(values, total). (int32 total, map reviewResponse values)) (rev_List goods user status page pageSize)"

definition GetRating :: "int \<Rightarrow> (int \<times> int \<times> int \<times> int \<times> int) rev_op" where
  "GetRating goods = answer ratingResponse (rev_GetRating goods)"

definition RebuildRating :: "time \<Rightarrow> int \<Rightarrow> int \<Rightarrow> string \<Rightarrow> (int \<times> int \<times> int \<times> int \<times> int) rev_op" where
  "RebuildRating now goods actor requestID = answer ratingResponse (rev_RebuildRating now goods actor requestID)"

end
