(* ===== verification/Review_Runs.thy ===== *)
theory Review_Runs
  imports Review
begin

text \<open>
  Runs of the review service: the invariant that ties the stored ratings to the approved reviews
  through the outbox, what no handler ever takes back, and what an overlapping rebuild does to a
  rating.
\<close>

section \<open>The invariant\<close>

definition pending_for :: "int \<Rightarrow> review_db \<Rightarrow> bool" where
  "pending_for g t \<longleftrightarrow> list_ex (\<lambda>e. oe_GoodsID e = g \<and> oe_Status e = ''PENDING'') (review_outbox_events t)"

text \<open>The stored rating of a goods is that of its approved reviews; none is stored where there is none.\<close>

definition rated :: "int \<Rightarrow> review_db \<Rightarrow> bool" where
  "rated g t \<longleftrightarrow>
     (case first_row (\<lambda>r. rg_GoodsID r = g) (review_product_ratings t) of
        None \<Rightarrow> approved_of g (reviews t) = []
      | Some r \<Rightarrow> (rg_ApprovedCount r, rg_RatingSum r) = rating_totals g t \<and>
          rg_AverageMilli r = average_milli (rg_ApprovedCount r) (rg_RatingSum r))"

abbreviation review_row_ok :: "Review \<Rightarrow> bool" where
  "review_row_ok r \<equiv> rv_Status r \<in> {StatusPending, StatusApproved, StatusRejected} \<and> 1 \<le> rv_Rating r \<and> rv_Rating r \<le> 5"

definition reviews_ok :: "Review list \<Rightarrow> bool" where
  "reviews_ok rs \<longleftrightarrow> distinct (map rv_ID rs) \<and> distinct (map (\<lambda>r. (rv_UserID r, rv_OrderSN r, rv_GoodsID r)) rs) \<and>
     list_all review_row_ok rs"

definition review_ok :: "review_db \<Rightarrow> bool" where
  "review_ok t \<longleftrightarrow> reviews_ok (reviews t) \<and> distinct (map oe_ID (review_outbox_events t)) \<and>
     distinct (map ra_ReviewID (review_appends t)) \<and> distinct (map ry_ReviewID (review_replies t)) \<and>
     (\<forall>g. pending_for g t \<or> rated g t)"

text \<open>A review keeps all but its status, and its status once it is decided; the rest is only added to.\<close>

definition same_review :: "Review \<Rightarrow> Review \<Rightarrow> bool" where
  "same_review r r' \<longleftrightarrow> rv_ID r' = rv_ID r \<and> rv_UserID r' = rv_UserID r \<and> rv_OrderSN r' = rv_OrderSN r \<and> rv_GoodsID r' = rv_GoodsID r \<and>
     rv_Rating r' = rv_Rating r \<and> rv_Content r' = rv_Content r \<and> (rv_Status r \<noteq> StatusPending \<longrightarrow> r' = r)"

definition reviews_kept :: "review_db \<Rightarrow> review_db \<Rightarrow> bool" where
  "reviews_kept t u \<longleftrightarrow> length (reviews t) \<le> length (reviews u) \<and> list_all2 same_review (reviews t) (take (length (reviews t)) (reviews u)) \<and>
     prefix (review_appends t) (review_appends u) \<and> prefix (review_replies t) (review_replies u) \<and>
     prefix (review_audit_logs t) (review_audit_logs u)"

lemma same_review_refl: "same_review r r" by (simp add: same_review_def)

lemma same_review_trans: "same_review r s \<Longrightarrow> same_review s u \<Longrightarrow> same_review r u"
  by (auto simp: same_review_def)

lemma reviews_kept_refl: "reviews_kept t t"
  by (simp add: reviews_kept_def list_all2_same same_review_refl)

lemma reviews_kept_trans:
  assumes "reviews_kept t u" "reviews_kept u v"
  shows "reviews_kept t v"
proof -
  let ?n = "length (reviews t)"
  from assms have "list_all2 same_review (take ?n (reviews u)) (take ?n (reviews v))"
    unfolding reviews_kept_def by (metis list_all2_takeI min.absorb1 take_take)
  with assms have "list_all2 same_review (reviews t) (take ?n (reviews v))"
    unfolding reviews_kept_def by (auto elim: list_all2_trans [rotated 1] intro: same_review_trans)
  with assms show ?thesis
    unfolding reviews_kept_def by (auto intro: prefix_order.trans)
qed

definition review_grows :: "review_db \<Rightarrow> review_db \<Rightarrow> bool" where
  "review_grows t u \<longleftrightarrow> (review_ok t \<longrightarrow> review_ok u \<and> reviews_kept t u)"

interpretation grows: table_preorder review_grows
  by unfold_locales (auto simp: review_grows_def intro: reviews_kept_refl reviews_kept_trans)

named_theorems grow_rules \<open>operations of the review service that keep its invariant\<close>

lemmas grow_basic = grows.evolves_rules
declare grow_basic [grow_rules]

section \<open>Statements\<close>

lemma insert_row_cases:
  "snd (insert_row check clash r t) = t \<or>
   snd (insert_row check clash r t) = t @ [r] \<and> check r = None \<and> (\<forall>x \<in> set t. \<not> clash r x)"
  unfolding insert_row_def by (auto simp: list_ex_iff split: option.splits)

lemma rated_cong:
  "review_product_ratings u = review_product_ratings t \<Longrightarrow> approved_of g (reviews u) = approved_of g (reviews t) \<Longrightarrow> rated g u = rated g t"
  unfolding rated_def rating_totals_def by (simp split: option.split)

lemma other_tables [simp]:
  "rated g (t\<lparr>review_audit_logs := la\<rparr>) = rated g t" "pending_for g (t\<lparr>review_audit_logs := la\<rparr>) = pending_for g t"
  "rated g (t\<lparr>review_appends := lb\<rparr>) = rated g t" "pending_for g (t\<lparr>review_appends := lb\<rparr>) = pending_for g t"
  "rated g (t\<lparr>review_replies := lc\<rparr>) = rated g t" "pending_for g (t\<lparr>review_replies := lc\<rparr>) = pending_for g t"
  "rated g (t\<lparr>review_outbox_events := ld\<rparr>) = rated g t" "pending_for g (t\<lparr>review_product_ratings := le\<rparr>) = pending_for g t"
  "pending_for g (t\<lparr>reviews := lf\<rparr>) = pending_for g t"
  by (simp_all add: pending_for_def rated_def rating_totals_def cong: option.case_cong)

lemmas grow_defs = review_grows_def review_ok_def reviews_kept_def list_all2_same same_review_refl

lemma insert_audit_grows [grow_rules]: "grows.evolves (insert_audit now a)"
  unfolding insert_audit_def
proof (rule grows.evolves_write)
  fix t :: review_db
  let ?l = "snd (insert_row audit_check (\<lambda>r r'. au_ID r = au_ID r') (a\<lparr>au_ID := next_id au_ID (review_audit_logs t), au_CreatedAt := now\<rparr>) (review_audit_logs t))"
  have "prefix (review_audit_logs t) ?l"
    using insert_row_cases [of audit_check "\<lambda>r r'. au_ID r = au_ID r'"] by (metis prefix_order.order_refl prefixI)
  then show "review_grows t (t\<lparr>review_audit_logs := ?l\<rparr>)" by (simp add: grow_defs)
qed

lemma insert_distinct:
  assumes "distinct (map f t)" "\<And>x y. f x = f y \<Longrightarrow> clash x y"
  shows "distinct (map f (snd (insert_row check clash r t)))" "prefix t (snd (insert_row check clash r t))"
proof -
  from insert_row_cases [of check clash r t] show "prefix t (snd (insert_row check clash r t))" by auto
  from insert_row_cases [of check clash r t] assms show "distinct (map f (snd (insert_row check clash r t)))"
    by (auto simp: image_iff) metis
qed

lemma append_grows [grow_rules]:
  "grows.evolves (write_stmt review_appends review_appends_update (\<lambda>t.
     insert_row append_check (\<lambda>a a'. ra_ID a = ra_ID a' \<or> ra_ReviewID a = ra_ReviewID a') (f t) t))"
  by (rule grows.evolves_write) (auto simp: grow_defs intro!: insert_distinct)

lemma reply_grows [grow_rules]:
  "grows.evolves (write_stmt review_replies review_replies_update (\<lambda>t.
     insert_row reply_check (\<lambda>a a'. ry_ID a = ry_ID a' \<or> ry_ReviewID a = ry_ReviewID a') (f t) t))"
  by (rule grows.evolves_write) (auto simp: grow_defs intro!: insert_distinct)

lemma create_grows:
  assumes "1 \<le> rv_Rating r" "rv_Rating r \<le> 5"
  shows "grows.evolves (rstore_Create now r)"
  unfolding rstore_Create_def
proof (intro grows.evolves_map_err grows.evolves_write)
  fix t :: review_db
  let ?r = "r\<lparr>rv_ID := next_id rv_ID (reviews t), rv_Status := StatusPending, rv_CreatedAt := now, rv_UpdatedAt := now\<rparr>"
  have app: "rated g (t\<lparr>reviews := reviews t @ [?r]\<rparr>) = rated g t" for g
    by (rule rated_cong) (simp_all add: approved_of_def)
  have "review_grows t (t\<lparr>reviews := reviews t @ [?r]\<rparr>)" if "\<forall>x \<in> set (reviews t). \<not> review_clash ?r x"
    using that assms by (auto simp: grow_defs reviews_ok_def app review_clash_def)
  then show "review_grows t (t\<lparr>reviews := snd (insert_row review_check review_clash ?r (reviews t))\<rparr>)"
    using insert_row_cases [of review_check review_clash ?r "reviews t"] grows.R_refl [of t] by auto
qed

section \<open>Ratings and the outbox\<close>

lemma upsert_first:
  assumes "rating_check r = None"
  shows "first_row (\<lambda>x. rg_GoodsID x = g) (snd (upsert_rating r t)) =
    (if rg_GoodsID r = g then Some r else first_row (\<lambda>x. rg_GoodsID x = g) t)"
proof (cases "list_ex (\<lambda>x. rg_GoodsID x = rg_GoodsID r) t")
  case True
  have upd: "first_row (\<lambda>x. rg_GoodsID x = g) (update_rows (\<lambda>x. rg_GoodsID x = rg_GoodsID r) (\<lambda>_. r) t) =
      map_option (\<lambda>x. if rg_GoodsID x = rg_GoodsID r then r else x) (first_row (\<lambda>x. rg_GoodsID x = g) t)"
    by (rule first_row_update_other) auto
  have s: "snd (upsert_rating r t) = update_rows (\<lambda>x. rg_GoodsID x = rg_GoodsID r) (\<lambda>_. r) t"
    using assms True by (simp add: upsert_rating_def)
  show ?thesis
  proof (cases "first_row (\<lambda>x. rg_GoodsID x = g) t")
    case None
    with True have "rg_GoodsID r \<noteq> g" by (auto simp: first_row_None list_ex_iff)
    with None show ?thesis unfolding s upd by simp
  next
    case (Some x)
    then have "rg_GoodsID x = g" by (auto dest: first_row_Some)
    with Some show ?thesis unfolding s upd by auto
  qed
next
  case False
  have s: "snd (upsert_rating r t) = t @ [r]" using assms False by (simp add: upsert_rating_def)
  have "rg_GoodsID r = g \<Longrightarrow> first_row (\<lambda>x. rg_GoodsID x = g) t = None"
    using False by (auto simp: first_row_None list_ex_iff)
  then show ?thesis unfolding s first_row_append by (auto simp: first_row_Cons first_row_Nil split: option.split)
qed

lemma upsert_refused: "rating_check r \<noteq> None \<Longrightarrow> snd (upsert_rating r t) = t"
  by (auto simp: upsert_rating_def)

abbreviation (input) with_rating :: "Rating \<Rightarrow> review_db \<Rightarrow> review_db" where
  "with_rating r t \<equiv> t\<lparr>review_product_ratings := snd (upsert_rating r (review_product_ratings t))\<rparr>"

lemma rated_upsert:
  assumes "rating_check (rating_of now g (rating_totals g t)) = None"
  shows "rated g' (with_rating (rating_of now g (rating_totals g t)) t) \<longleftrightarrow> g' = g \<or> rated g' t"
  using upsert_first [OF assms, of g' "review_product_ratings t"]
  by (auto simp: rated_def rating_of_def rating_totals_def split: option.splits)

lemma write_rating_from: "grows.evolves_from t (write_rating (rating_of now g (rating_totals g t)))"
  unfolding write_rating_def
  by (intro grows.evolves_from_map_err grows.evolves_from_write)
    (cases "rating_check (rating_of now g (rating_totals g t)) = None",
      auto simp: grow_defs rated_upsert upsert_refused)

lemma write_rating_yields:
  assumes "yields (write_rating (rating_of now g (rating_totals g t))) t x u"
  shows "u = with_rating (rating_of now g (rating_totals g t)) t" "rated g u"
proof -
  from assms have u: "u = with_rating (rating_of now g (rating_totals g t)) t"
      and "rating_check (rating_of now g (rating_totals g t)) = None"
    unfolding write_rating_def
    by (auto dest!: yields_map_err yields_write simp: upsert_rating_def split: option.splits)
  then show "u = with_rating (rating_of now g (rating_totals g t)) t" "rated g u"
    by (simp_all add: rated_upsert)
qed

abbreviation (input) done_row :: "time \<Rightarrow> OutboxEvent \<Rightarrow> OutboxEvent" where
  "done_row now e \<equiv> e\<lparr>oe_Status := ''DONE'', oe_CompletedAt := Some now, oe_LastError := []\<rparr>"

definition event_goods :: "review_db \<Rightarrow> (int \<times> int) list" where
  "event_goods t = map (\<lambda>e. (oe_ID e, oe_GoodsID e)) (review_outbox_events t)"

lemma mark_done:
  assumes "review_ok t" "rated g t" "(i, g) \<in> set (event_goods t)"
  shows "review_ok (t\<lparr>review_outbox_events := update_rows (\<lambda>e. oe_ID e = i) (done_row now) (review_outbox_events t)\<rparr>)"
proof -
  let ?es = "review_outbox_events t"
  have ids: "map oe_ID (update_rows (\<lambda>e. oe_ID e = i) (done_row now) ?es) = map oe_ID ?es"
    by (induction ?es) (auto simp: update_rows_def)
  have goods: "oe_GoodsID e = g" if "e \<in> set ?es" "oe_ID e = i" for e
    using assms that unfolding review_ok_def event_goods_def by (auto simp: distinct_map inj_on_def)
  have "pending_for g' (t\<lparr>review_outbox_events := update_rows (\<lambda>e. oe_ID e = i) (done_row now) ?es\<rparr>) \<or> rated g' t" for g'
  proof (cases "g' = g")
    case False
    with goods have "pending_for g' t \<Longrightarrow> pending_for g' (t\<lparr>review_outbox_events := update_rows (\<lambda>e. oe_ID e = i) (done_row now) ?es\<rparr>)"
      by (auto simp: pending_for_def list_ex_iff set_update_rows intro!: bexI)
    with assms(1) show ?thesis by (auto simp: review_ok_def)
  qed (use assms(2) in simp)
  with assms(1) ids show ?thesis by (auto simp: review_ok_def)
qed

lemma process_event_ok:
  assumes run: "yields (process_event now e) t x u" and t: "review_ok t" "(oe_ID e, oe_GoodsID e) \<in> set (event_goods t)"
  shows "review_ok u \<and> reviews_kept t u \<and> event_goods u = event_goods t"
proof -
  let ?r = "rating_of now (oe_GoodsID e) (rating_totals (oe_GoodsID e) t)"
  let ?v = "with_rating ?r t"
  from run obtain y v z where w: "yields (write_rating ?r) t y v"
      and m: "yields (write_stmt review_outbox_events review_outbox_events_update
        (update_where (\<lambda>r. oe_ID r = oe_ID e) (done_row now) (\<lambda>r. review_event_check r = None))) v z u"
    unfolding process_event_def by (auto elim!: yields_elims dest!: yields_query)
  from write_rating_yields(1) [OF w] have vv: "v = ?v" .
  note r = w [unfolded vv]
  from m [unfolded vv] have u: "u = ?v\<lparr>review_outbox_events := update_rows (\<lambda>r. oe_ID r = oe_ID e) (done_row now) (review_outbox_events t)\<rparr>"
    by (auto dest!: yields_write simp: update_where_def split: if_splits)
  from write_rating_yields(2) [OF r] have v: "rated (oe_GoodsID e) ?v" .
  from grows.evolves_fromD [of "\<lparr>tables = t, outcomes = []\<rparr>"] write_rating_from [of t now "oe_GoodsID e"]
  have g: "review_grows t ?v" using r unfolding yields_def grows.evolves_from_def by (metis session.select_convs(1) snd_conv)
  have "review_ok u" unfolding u using mark_done [of ?v "oe_GoodsID e" "oe_ID e" now] g v t by (simp add: review_grows_def event_goods_def)
  moreover have "event_goods u = event_goods t" unfolding u event_goods_def by (auto simp: update_rows_def)
  moreover have "reviews_kept t u" unfolding u by (simp add: grow_defs)
  ultimately show ?thesis by simp
qed

lemma process_events_ok:
  "yields (for_each (process_event now) es) t x u \<Longrightarrow> review_ok t \<Longrightarrow>
   (\<forall>e \<in> set es. (oe_ID e, oe_GoodsID e) \<in> set (event_goods t)) \<Longrightarrow> review_ok u \<and> reviews_kept t u"
proof (induction es arbitrary: t)
  case (Cons e es)
  from Cons.prems(1) obtain v y where v: "yields (process_event now e) t y v" "yields (for_each (process_event now) es) v x u"
    by (auto elim!: yields_elims)
  from process_event_ok [OF v(1) Cons.prems(2)] Cons.prems(3) have "review_ok v" "reviews_kept t v" "event_goods v = event_goods t" by auto
  with Cons.IH [OF v(2)] Cons.prems(3) show ?case by (auto intro: reviews_kept_trans)
qed (simp add: reviews_kept_refl)

text \<open>A transaction grows the tables when its successful body does.\<close>

lemma grows_transaction:
  assumes "\<And>t a u. yields m t a u \<Longrightarrow> review_grows t u"
  shows "grows.evolves (transaction b c m)"
  unfolding grows.evolves_def
proof
  fix s :: "review_db session"
  obtain r s' where "run_state (transaction b c m) s = (r, s')" by fastforce
  from transaction_cases [OF this] assms this show "review_grows (tables s) (tables (snd (run_state (transaction b c m) s)))"
    by (auto simp: grows.R_refl)
qed

lemma due_events_set: "e \<in> set (due_events now l t) \<Longrightarrow> e \<in> set (review_outbox_events t)"
  unfolding due_events_def by (auto dest!: in_set_page_rows)

lemma ProcessOutbox_grows [grow_rules]: "grows.evolves (rstore_ProcessOutbox now l)"
proof -
  have "review_grows t u" if y: "yields (bind_err Driver (query_stmt (due_events now l')) (for_each (process_event now))) t a u" for t a u l'
  proof -
    from y have "yields (for_each (process_event now) (due_events now l' t)) t a u"
      by (auto elim!: yields_elims dest!: yields_query)
    moreover have "\<forall>e \<in> set (due_events now l' t). (oe_ID e, oe_GoodsID e) \<in> set (event_goods t)"
      by (auto simp: event_goods_def dest: due_events_set)
    ultimately show ?thesis using process_events_ok unfolding review_grows_def by blast
  qed
  then show ?thesis
    unfolding rstore_ProcessOutbox_def observeReviewOutboxBacklog_def Let_def
    by (intro grow_rules grows_transaction) auto
qed

section \<open>Moderation\<close>

abbreviation (input) decided :: "time \<Rightarrow> string \<Rightarrow> Review \<Rightarrow> Review" where
  "decided now d r \<equiv> r\<lparr>rv_Status := d, rv_UpdatedAt := now\<rparr>"

lemma yields_insert:
  assumes "yields (write_stmt get upd (\<lambda>t. insert_row check clash (f t) t)) t y u"
  shows "u = upd (\<lambda>_. get t @ [f (get t)]) t" "\<forall>x \<in> set (get t). \<not> clash (f (get t)) x"
  using yields_write [OF assms] by (auto simp: insert_row_def list_ex_iff split: option.splits if_splits)

lemma decided_fields: "rv_Status (decided now d r) = d" "rv_GoodsID (decided now d r) = rv_GoodsID r"
  by simp_all

lemma moderate_yields:
  assumes "yields (moderate_body now i d actor rq reason) t x u"
  obtains r a e where "r \<in> set (reviews t)" "rv_ID r = i" "rv_Status r = StatusPending" "oe_GoodsID e = rv_GoodsID r" "oe_Status e = ''PENDING''"
    "\<forall>e' \<in> set (review_outbox_events t). oe_ID e' \<noteq> oe_ID e"
    "u = t\<lparr>reviews := update_rows (\<lambda>r. rv_ID r = i) (decided now d) (reviews t), review_audit_logs := review_audit_logs t @ [a],
       review_outbox_events := review_outbox_events t @ [e]\<rparr>"
proof -
  let ?a = "\<lparr>au_ID = 0, au_ReviewID = i, au_ActorUserID = actor, au_Action = ''MODERATE'', au_FromStatus = d, au_ToStatus = d,
    au_RequestID = rq, au_Reason = reason, au_CreatedAt = 0\<rparr>"
  let ?e = "\<lambda>g. \<lparr>oe_ID = 0, oe_EventKey = moderation_key i d, oe_GoodsID = g, oe_EventType = ''RATING_REBUILD'', oe_Status = ''PENDING'',
    oe_RetryCount = 0, oe_NextAttemptAt = 0, oe_LastError = [], oe_CreatedAt = 0, oe_CompletedAt = None\<rparr>"
  from assms obtain r v where f: "yields (first_stmt reviews (\<lambda>r. rv_ID r = i)) t r v"
      and g: "yields (if rv_Status r \<noteq> StatusPending then fail review_ErrInvalidState
        else bind_err Driver (write_stmt reviews reviews_update (update_where (\<lambda>r'. rv_ID r' = rv_ID r) (decided now d) (\<lambda>r. review_check r = None)))
          (\<lambda>_. bind_err Driver (insert_audit now ?a) (\<lambda>_. bind_err Driver (insert_outbox now (?e (rv_GoodsID r))) (\<lambda>_. ok ())))) v x u"
    unfolding moderate_body_def Let_def decided_fields by (elim yields_bind_err) simp
  from yields_first_set [OF f] have r: "r \<in> set (reviews t)" "rv_ID r = i" and v: "v = t" by auto
  from g have pend: "rv_Status r = StatusPending" by (auto split: if_splits)
  from g pend r(2) v obtain v1 v2 y1 y2 y3 where
      w1: "yields (write_stmt reviews reviews_update (update_where (\<lambda>r. rv_ID r = i) (decided now d) (\<lambda>r. review_check r = None))) t y1 v1"
      and w2: "yields (insert_audit now ?a) v1 y2 v2" and w3: "yields (insert_outbox now (?e (rv_GoodsID r))) v2 y3 u"
    by (simp only: simp_thms if_False) (elim yields_bind_err, simp)
  from w1 have v1: "v1 = t\<lparr>reviews := update_rows (\<lambda>r. rv_ID r = i) (decided now d) (reviews t)\<rparr>"
    by (auto dest!: yields_write simp: update_where_def split: if_splits)
  from yields_insert(1) [OF w2 [unfolded insert_audit_def]]
  obtain a where v2: "v2 = v1\<lparr>review_audit_logs := review_audit_logs v1 @ [a]\<rparr>" by blast
  from yields_insert [OF w3 [unfolded insert_outbox_def]]
  obtain e where "oe_GoodsID e = rv_GoodsID r" "oe_Status e = ''PENDING''"
      "\<forall>e' \<in> set (review_outbox_events v2). oe_ID e' \<noteq> oe_ID e" "u = v2\<lparr>review_outbox_events := review_outbox_events v2 @ [e]\<rparr>"
    by (intro that) auto
  with r v1 v2 show thesis by (intro that [of r e a]) (simp_all add: pend)
qed

lemma decide_review:
  fixes now :: time
  assumes t: "review_ok t" and r: "r \<in> set (reviews t)" "rv_Status r = StatusPending" and d: "d = StatusApproved \<or> d = StatusRejected"
  defines "rs \<equiv> update_rows (\<lambda>x. rv_ID x = rv_ID r) (decided now d) (reviews t)"
  shows "reviews_ok rs" "list_all2 same_review (reviews t) rs" "g \<noteq> rv_GoodsID r \<Longrightarrow> approved_of g rs = approved_of g (reviews t)"
proof -
  have one: "x = r" if "x \<in> set (reviews t)" "rv_ID x = rv_ID r" for x
    using t r that unfolding review_ok_def reviews_ok_def by (auto simp: distinct_map inj_on_def)
  have same: "same_review x (if rv_ID x = rv_ID r then decided now d x else x)" if "x \<in> set (reviews t)" for x
    using one [OF that] r(2) by (auto simp: same_review_def)
  show "list_all2 same_review (reviews t) rs"
    unfolding rs_def update_rows_def list_all2_map2 by (rule list.rel_refl_strong) (rule same)
  have ids: "map rv_ID rs = map rv_ID (reviews t)"
      "map (\<lambda>r. (rv_UserID r, rv_OrderSN r, rv_GoodsID r)) rs = map (\<lambda>r. (rv_UserID r, rv_OrderSN r, rv_GoodsID r)) (reviews t)"
    by (auto simp: rs_def update_rows_def)
  have "list_all review_row_ok rs"
    using t d unfolding review_ok_def reviews_ok_def rs_def by (auto simp: list_all_iff set_update_rows)
  with t ids show "reviews_ok rs" unfolding review_ok_def reviews_ok_def by simp
  assume "g \<noteq> rv_GoodsID r"
  then have "filter (\<lambda>x. rv_GoodsID x = g \<and> rv_Status x = StatusApproved) (map (\<lambda>x. if rv_ID x = rv_ID r then decided now d x else x) xs) =
      filter (\<lambda>x. rv_GoodsID x = g \<and> rv_Status x = StatusApproved) xs" if "set xs \<subseteq> set (reviews t)" for xs
    using that one by (induction xs) auto
  then show "approved_of g rs = approved_of g (reviews t)"
    unfolding approved_of_def rs_def update_rows_def by simp
qed

lemma Moderate_grows:
  assumes d: "d = StatusApproved \<or> d = StatusRejected"
  shows "grows.evolves (rstore_Moderate now i d actor rq reason)"
  unfolding rstore_Moderate_def
proof (rule grows_transaction)
  fix t x u assume "yields (moderate_body now i d actor rq reason) t x u"
  then show "review_grows t u"
  proof (rule moderate_yields)
    fix r a e
    assume r: "r \<in> set (reviews t)" "rv_ID r = i" "rv_Status r = StatusPending"
      and e: "oe_GoodsID e = rv_GoodsID r" "oe_Status e = ''PENDING''" "\<forall>e' \<in> set (review_outbox_events t). oe_ID e' \<noteq> oe_ID e"
      and u: "u = t\<lparr>reviews := update_rows (\<lambda>r. rv_ID r = i) (decided now d) (reviews t), review_audit_logs := review_audit_logs t @ [a],
       review_outbox_events := review_outbox_events t @ [e]\<rparr>"
    let ?rs = "update_rows (\<lambda>x. rv_ID x = rv_ID r) (decided now d) (reviews t)"
    {
      assume ok: "review_ok t"
      note new = decide_review [OF ok r(1,3) d, where now = now]
      have "pending_for g u \<or> rated g u" for g
      proof (cases "g = rv_GoodsID r")
        case True with e u show ?thesis by (simp add: pending_for_def)
      next
        case False
        with new(3) [OF False] u r(2) have "rated g u = rated g t" by (intro rated_cong) simp_all
        moreover have "pending_for g t \<Longrightarrow> pending_for g u" using u by (auto simp: pending_for_def)
        ultimately show ?thesis using ok by (auto simp: review_ok_def)
      qed
      with ok new(1) e(3) u r(2) have "review_ok u" by (auto simp: review_ok_def)
      moreover from new(2) u r(2) have "reviews_kept t u" by (simp add: reviews_kept_def)
      ultimately have "review_ok u \<and> reviews_kept t u" ..
    }
    then show "review_grows t u" by (simp add: review_grows_def)
  qed
qed

section \<open>Runs\<close>

lemma Append_grows [grow_rules]: "grows.evolves (rstore_Append now user i content)"
  unfolding rstore_Append_def append_body_def by (auto intro!: grow_rules)

lemma Reply_grows [grow_rules]: "grows.evolves (rstore_Reply now i actor content rq)"
  unfolding rstore_Reply_def reply_body_def by (auto intro!: grow_rules)

lemma RebuildRating_grows [grow_rules]: "grows.evolves (rstore_RebuildRating now g actor rq)"
proof (rule grows.evolves_from_all)
  fix t
  show "grows.evolves_from t (rstore_RebuildRating now g actor rq)"
    unfolding rstore_RebuildRating_def rebuild_read_def
  proof (rule grows.evolves_from_bindE)
    fix totals u assume "yields (map_err Driver (query_stmt (rating_totals g))) t totals u"
    then have [simp]: "u = t" "totals = rating_totals g t" by (auto dest!: yields_map_err yields_query)
    show "grows.evolves_from u (rebuild_write now g actor rq totals)"
      unfolding rebuild_write_def
      by (rule grows.evolves_from_bindE) (auto intro!: write_rating_from grows.evolves_from_evolves grow_rules)
  qed (intro grows.evolves_from_rules)
qed

lemma reads_grow [grow_rules]:
  "grows.evolves (rstore_Get i)" "grows.evolves (rstore_List g u st off lim)" "grows.evolves (rstore_GetRating g)"
  unfolding rstore_Get_def rstore_List_def rstore_GetRating_def Let_def by (auto intro!: grow_rules)

lemma service_grows [grow_rules]:
  "grows.evolves (rev_Create verified now user sn g rating content)" "grows.evolves (rev_Append now user i content)"
  "grows.evolves (rev_Moderate now i d actor rq reason)" "grows.evolves (rev_Reply now i actor content rq)"
  "grows.evolves (rev_List g user st page psize)" "grows.evolves (rev_GetRating g)" "grows.evolves (rev_RebuildRating now g actor rq)"
  unfolding rev_Create_def rev_Append_def rev_Moderate_def rev_Reply_def rev_List_def rev_GetRating_def rev_RebuildRating_def Let_def
  by (auto intro!: grow_rules create_grows Moderate_grows)

text \<open>The handlers of the gRPC server and the worker of the outbox.\<close>

inductive review_step :: "review_db session \<Rightarrow> review_db session \<Rightarrow> bool" where
  create: "run_state (CreateReview verified now user sn g rating content) s = (r1, s') \<Longrightarrow> review_step s s'"
| append: "run_state (AppendReview now user i content) s = (r2, s') \<Longrightarrow> review_step s s'"
| get: "run_state (GetReview i) s = (r3, s') \<Longrightarrow> review_step s s'"
| moderate: "run_state (ModerateReview now i d actor rq reason) s = (r4, s') \<Longrightarrow> review_step s s'"
| reply: "run_state (ReplyReview now i actor content rq) s = (r5, s') \<Longrightarrow> review_step s s'"
| list: "run_state (ListReviews g user st page psize) s = (r6, s') \<Longrightarrow> review_step s s'"
| get_rating: "run_state (GetRating g) s = (r7, s') \<Longrightarrow> review_step s s'"
| rebuild: "run_state (RebuildRating now g actor rq) s = (r8, s') \<Longrightarrow> review_step s s'"
| outbox: "run_state (rstore_ProcessOutbox now limit) s = (r9, s') \<Longrightarrow> review_step s s'"

lemma handlers_grow:
  "grows.evolves (CreateReview verified now user sn g rating content)" "grows.evolves (AppendReview now user i content)"
  "grows.evolves (GetReview i)" "grows.evolves (ModerateReview now i d actor rq reason)" "grows.evolves (ReplyReview now i actor content rq)"
  "grows.evolves (ListReviews g user st page psize)" "grows.evolves (GetRating g)" "grows.evolves (RebuildRating now g actor rq)"
  unfolding CreateReview_def AppendReview_def GetReview_def ModerateReview_def ReplyReview_def ListReviews_def GetRating_def
    RebuildRating_def answer_def
  by (intro grow_rules)+

lemma review_step_grows: "review_step s s' \<Longrightarrow> review_grows (tables s) (tables s')"
  by (induction rule: review_step.induct) (auto dest: grows.evolvesD [OF handlers_grow(1)] grows.evolvesD [OF handlers_grow(2)]
    grows.evolvesD [OF handlers_grow(3)] grows.evolvesD [OF handlers_grow(4)] grows.evolvesD [OF handlers_grow(5)]
    grows.evolvesD [OF handlers_grow(6)] grows.evolvesD [OF handlers_grow(7)] grows.evolvesD [OF handlers_grow(8)]
    grows.evolvesD [OF ProcessOutbox_grows])

lemma review_run_grows: "review_step\<^sup>*\<^sup>* s s' \<Longrightarrow> review_grows (tables s) (tables s')"
  by (induction rule: rtranclp_induct) (auto intro: grows.R_refl grows.R_trans dest: review_step_grows)

text \<open>With fewer than ten to the fifteen reviews, nothing overflows and the average is rounded down to a thousandth.\<close>

lemma totals_bounds:
  assumes "reviews_ok (reviews t)"
  shows "fst (rating_totals g t) \<le> snd (rating_totals g t)" "snd (rating_totals g t) \<le> 5 * fst (rating_totals g t)"
    "fst (rating_totals g t) \<le> int (length (reviews t))"
proof -
  have "int (length xs) \<le> sum_list (map rv_Rating xs) \<and> sum_list (map rv_Rating xs) \<le> 5 * int (length xs)"
    if "list_all review_row_ok xs" for xs using that by (induction xs) auto
  from this [of "approved_of g (reviews t)"] assms
  show "fst (rating_totals g t) \<le> snd (rating_totals g t)" "snd (rating_totals g t) \<le> 5 * fst (rating_totals g t)"
    by (auto simp: reviews_ok_def rating_totals_def approved_of_def list_all_iff)
  show "fst (rating_totals g t) \<le> int (length (reviews t))"
    by (simp add: rating_totals_def approved_of_def)
qed

lemma average_exact:
  assumes "0 < n" "n \<le> k" "k \<le> 5 * n" "n < 10 ^ 15"
  shows "average_milli n k = k * 1000 div n" "1000 \<le> average_milli n k" "average_milli n k \<le> 5000"
proof -
  have "int64 (k * 1000) = k * 1000" using assms by (intro wrap_id) (auto simp: in_int_def)
  moreover have b: "1000 \<le> k * 1000 div n" "k * 1000 div n \<le> 5000"
  proof -
    have "n * 1000 div n \<le> k * 1000 div n" using assms by (intro zdiv_mono1) auto
    with assms show "1000 \<le> k * 1000 div n" by simp
    have "k * 1000 div n \<le> (5000 * n) div n" using assms by (intro zdiv_mono1) auto
    with assms show "k * 1000 div n \<le> 5000" by simp
  qed
  moreover have "int32 (k * 1000 div n) = k * 1000 div n" using b by (intro wrap_id) (auto simp: in_int_def)
  ultimately show "average_milli n k = k * 1000 div n" "1000 \<le> average_milli n k" "average_milli n k \<le> 5000"
    using assms by (simp_all add: average_milli_def go_quot_def)
qed

text \<open>
  C8. Along any run of the review handlers and of the outbox worker, with any failures of the database:
  whenever no event of a goods is pending, its stored rating has the number and the sum of its approved
  reviews, and the average is their quotient, rounded down, between one and five stars.
\<close>

theorem ratings_follow_reviews:
  assumes run: "review_step\<^sup>*\<^sup>* s s'" and ok: "review_ok (tables s)"
    and idle: "\<not> pending_for g (tables s')" and size: "length (reviews (tables s')) < 10 ^ 15"
  shows "case first_row (\<lambda>r. rg_GoodsID r = g) (review_product_ratings (tables s')) of
      None \<Rightarrow> approved_of g (reviews (tables s')) = []
    | Some rating \<Rightarrow> rg_ApprovedCount rating = int (length (approved_of g (reviews (tables s')))) \<and>
        rg_RatingSum rating = sum_list (map rv_Rating (approved_of g (reviews (tables s')))) \<and>
        (0 < rg_ApprovedCount rating \<longrightarrow> rg_AverageMilli rating = rg_RatingSum rating * 1000 div rg_ApprovedCount rating \<and>
           1000 \<le> rg_AverageMilli rating \<and> rg_AverageMilli rating \<le> 5000)"
proof -
  have ok': "review_ok (tables s')" using review_run_grows [OF run] ok by (simp add: review_grows_def)
  with idle have rated: "rated g (tables s')" by (auto simp: review_ok_def)
  show ?thesis
  proof (cases "first_row (\<lambda>r. rg_GoodsID r = g) (review_product_ratings (tables s'))")
    case None with rated show ?thesis by (simp add: rated_def)
  next
    case (Some rating)
    with rated have tot: "(rg_ApprovedCount rating, rg_RatingSum rating) = rating_totals g (tables s')"
        and avg: "rg_AverageMilli rating = average_milli (rg_ApprovedCount rating) (rg_RatingSum rating)"
      by (auto simp: rated_def)
    have b: "rg_ApprovedCount rating \<le> rg_RatingSum rating" "rg_RatingSum rating \<le> 5 * rg_ApprovedCount rating"
        "rg_ApprovedCount rating < 10 ^ 15"
      using totals_bounds [of "tables s'" g] ok' size tot [symmetric] by (auto simp: review_ok_def)
    show ?thesis using Some tot avg average_exact [OF _ b] by (auto simp: rating_totals_def)
  qed
qed

text \<open>
  C18. Nothing the review service has accepted is taken back: along any run a decided review stays as it
  is, appended texts, replies and audit rows are kept, and there is never more than one review of a
  purchase, nor more than one appended text or reply of a review.
\<close>

theorem decided_reviews_stay:
  assumes run: "review_step\<^sup>*\<^sup>* s s'" and ok: "review_ok (tables s)"
    and r: "r \<in> set (reviews (tables s))" "rv_Status r \<noteq> StatusPending"
  shows "r \<in> set (reviews (tables s')) \<and> prefix (review_appends (tables s)) (review_appends (tables s')) \<and>
    prefix (review_replies (tables s)) (review_replies (tables s')) \<and> prefix (review_audit_logs (tables s)) (review_audit_logs (tables s')) \<and>
    distinct (map (\<lambda>r. (rv_UserID r, rv_OrderSN r, rv_GoodsID r)) (reviews (tables s'))) \<and>
    distinct (map ra_ReviewID (review_appends (tables s'))) \<and> distinct (map ry_ReviewID (review_replies (tables s')))"
proof -
  have ok': "review_ok (tables s')" and kept: "reviews_kept (tables s) (tables s')"
    using review_run_grows [OF run] ok by (simp_all add: review_grows_def)
  from r(1) obtain i where i: "i < length (reviews (tables s))" "reviews (tables s) ! i = r" by (auto simp: in_set_conv_nth)
  with kept have "same_review r (reviews (tables s') ! i)" "reviews (tables s') ! i \<in> set (reviews (tables s'))"
    unfolding reviews_kept_def by (auto simp: list_all2_conv_all_nth)
  with r(2) have "r \<in> set (reviews (tables s'))" by (auto simp: same_review_def)
  with ok' kept show ?thesis by (simp add: review_ok_def reviews_ok_def reviews_kept_def)
qed

section \<open>A sample run\<close>

definition sample_review :: "int \<Rightarrow> int \<Rightarrow> int \<Rightarrow> string \<Rightarrow> Review" where
  "sample_review i user stars st = \<lparr>rv_ID = i, rv_UserID = user, rv_OrderSN = ''A1'', rv_GoodsID = 7, rv_Rating = stars,
     rv_Content = ''good'', rv_Status = st, rv_CreatedAt = 50, rv_UpdatedAt = 50\<rparr>"

definition sample_reviews :: "review_db session" where
  "sample_reviews = \<lparr>tables = \<lparr>reviews = [sample_review 1 5 4 ''APPROVED'', sample_review 2 6 1 ''PENDING''], review_appends = [],
     review_replies = [], review_audit_logs = [], review_outbox_events = [],
     review_product_ratings = [\<lparr>rg_GoodsID = 7, rg_ApprovedCount = 1, rg_RatingSum = 4, rg_AverageMilli = 4000, rg_RebuiltAt = 60\<rparr>]\<rparr>,
     outcomes = []\<rparr>"

abbreviation (input) decide :: "ReviewResponse rev_op" where "decide \<equiv> ModerateReview 100 2 ''approved'' 9 ''rq1'' ''fine''"
abbreviation (input) sweep :: "unit rev_op" where "sweep \<equiv> rstore_ProcessOutbox 2000 0"

definition decided_reviews :: "review_db session" where "decided_reviews = snd (run_state decide sample_reviews)"
definition swept_reviews :: "review_db session" where "swept_reviews = snd (run_state sweep decided_reviews)"

abbreviation (input) shown_rating :: "review_db session \<Rightarrow> (int \<times> int \<times> int) list" where
  "shown_rating s \<equiv> map (\<lambda>r. (rg_ApprovedCount r, rg_RatingSum r, rg_AverageMilli r)) (review_product_ratings (tables s))"

lemma sample_evaluated:
  "map oe_Status (review_outbox_events (tables decided_reviews)) = [''PENDING'']"
  "map oe_Status (review_outbox_events (tables swept_reviews)) = [''DONE'']"
  "shown_rating swept_reviews = [(2, 5, 2500)]"
  by code_simp+

lemma sample_ok: "review_ok (tables sample_reviews)"
proof -
  have "reviews_ok (reviews (tables sample_reviews))" by code_simp
  moreover have "rated g (tables sample_reviews)" for g
    by (cases "g = 7") (simp_all add: rated_def rating_totals_def approved_of_def sample_reviews_def sample_review_def
      tbl_simps average_milli_def go_quot_def in_int_def)
  ultimately show ?thesis by (simp add: review_ok_def sample_reviews_def)
qed

lemma sample_run: "review_step\<^sup>*\<^sup>* sample_reviews swept_reviews"
proof -
  have "review_step sample_reviews decided_reviews"
    unfolding decided_reviews_def by (rule review_step.moderate) (rule prod.collapse [symmetric])
  moreover have "review_step decided_reviews swept_reviews"
    unfolding swept_reviews_def by (rule review_step.outbox) (rule prod.collapse [symmetric])
  ultimately show ?thesis by (meson r_into_rtranclp rtranclp_trans)
qed

theorem ratings_follow_reviews_witness:
  "\<exists>rating. first_row (\<lambda>r. rg_GoodsID r = 7) (review_product_ratings (tables swept_reviews)) = Some rating \<and>
     rg_ApprovedCount rating = 2 \<and> rg_AverageMilli rating = 2500 \<and>
     rg_ApprovedCount rating = int (length (approved_of 7 (reviews (tables swept_reviews))))"
proof -
  have "\<not> pending_for 7 (tables swept_reviews)" "length (reviews (tables swept_reviews)) = 2" by code_simp+
  with ratings_follow_reviews [OF sample_run sample_ok, of 7]
  have f: "case first_row (\<lambda>r. rg_GoodsID r = 7) (review_product_ratings (tables swept_reviews)) of
      None \<Rightarrow> True | Some rating \<Rightarrow> rg_ApprovedCount rating = int (length (approved_of 7 (reviews (tables swept_reviews))))"
    by (auto split: option.splits)
  have "map_option (\<lambda>r. (rg_ApprovedCount r, rg_AverageMilli r)) (first_row (\<lambda>r. rg_GoodsID r = 7) (review_product_ratings (tables swept_reviews))) =
      Some (2, 2500)" by code_simp
  with f show ?thesis by (auto split: option.splits)
qed

theorem decided_reviews_stay_witness:
  "sample_review 1 5 4 ''APPROVED'' \<in> set (reviews (tables swept_reviews)) \<and> length (review_audit_logs (tables swept_reviews)) = 1"
proof -
  have "sample_review 1 5 4 ''APPROVED'' \<in> set (reviews (tables sample_reviews))" "rv_Status (sample_review 1 5 4 ''APPROVED'') \<noteq> StatusPending"
    by code_simp+
  note f = decided_reviews_stay [OF sample_run sample_ok this]
  have "length (review_audit_logs (tables swept_reviews)) = 1" by code_simp
  with f show ?thesis by simp
qed


end
