(* ===== verification/Spec2Isabelle.thy ===== *)
theory Spec2Isabelle
  imports Inventory_Retry Money Order_Audit Errors Authz Shop_Limits Payment_Gateway Review_Runs
begin

end
